(* ===== verification/Prelude.thy ===== *)
theory Prelude
  imports Main "HOL-Library.AList" "HOL-Library.Word" "HOL-Library.Char_ord"
    "HOL-Library.List_Lexorder" "HOL-Library.Product_Lexorder" "HOL-Library.Multiset"
begin

text \<open>
  Shared vocabulary of the RouteShield development: Python's insertion-ordered dictionaries,
  the exceptions the service raises and the state-and-exception computations its handlers are,
  the string operations the sources use, identifiers and instants, and the stable sorts behind
  \<^verbatim>\<open>sorted(..., key=..., reverse=...)\<close>.

  Conventions.  A Python \<^verbatim>\<open>str\<close> is a \<^typ>\<open>string\<close> whose characters are the code points
  0..255; a \<^verbatim>\<open>UUID\<close> is a 128-bit word; an aware \<^verbatim>\<open>datetime\<close> is the number of microseconds
  since the epoch, a \<^verbatim>\<open>timedelta\<close> a number of microseconds.  A raised exception is the left
  side of a sum; the state reached when it is raised is kept, as the interpreter keeps it.
\<close>

named_theorems dict_simps \<open>rewriting of dictionary operations\<close>
named_theorems prog_simps \<open>rewriting of state-and-exception computations\<close>

unbundle bit_operations_syntax

section \<open>Identifiers and time\<close>

type_synonym uuid = "128 word"
type_synonym datetime = int
type_synonym timedelta = int

abbreviation microseconds_per_second :: int where
  "microseconds_per_second \<equiv> 1000000"

definition td_seconds :: "int \<Rightarrow> timedelta" where
  "td_seconds n = n * microseconds_per_second"

definition td_minutes :: "int \<Rightarrow> timedelta" where
  "td_minutes n = td_seconds (60 * n)"

definition td_hours :: "int \<Rightarrow> timedelta" where
  "td_hours n = td_minutes (60 * n)"

definition td_days :: "int \<Rightarrow> timedelta" where
  "td_days n = td_hours (24 * n)"

lemmas td_defs = td_seconds_def td_minutes_def td_hours_def td_days_def

section \<open>Insertion-ordered dictionaries\<close>

text \<open>
  A \<^verbatim>\<open>dict\<close> keeps its insertion order and replaces the value of an existing key in place;
  \<^verbatim>\<open>pop\<close> with a default removes the key.  The order is observable: the outbox claims iterate
  over a dictionary and stop at a limit.
\<close>

type_synonym ('k, 'v) dict = "('k \<times> 'v) list"

abbreviation dict_get :: "('k, 'v) dict \<Rightarrow> 'k \<Rightarrow> 'v option" where
  "dict_get d k \<equiv> map_of d k"

abbreviation dict_set :: "'k \<Rightarrow> 'v \<Rightarrow> ('k, 'v) dict \<Rightarrow> ('k, 'v) dict" where
  "dict_set \<equiv> AList.update"

definition dict_pop :: "'k \<Rightarrow> ('k, 'v) dict \<Rightarrow> ('k, 'v) dict" where
  "dict_pop k d = filter (\<lambda>(k', _). k' \<noteq> k) d"

definition dict_keys :: "('k, 'v) dict \<Rightarrow> 'k list" where
  "dict_keys d = map fst d"

definition dict_values :: "('k, 'v) dict \<Rightarrow> 'v list" where
  "dict_values d = map snd d"

definition dict_wf :: "('k, 'v) dict \<Rightarrow> bool" where
  "dict_wf d \<longleftrightarrow> distinct (map fst d)"

text \<open>The comprehension \<^verbatim>\<open>{k: v for k, v in d.items() if p(k, v)}\<close>.\<close>

definition dict_filter :: "('k \<Rightarrow> 'v \<Rightarrow> bool) \<Rightarrow> ('k, 'v) dict \<Rightarrow> ('k, 'v) dict" where
  "dict_filter p d = filter (\<lambda>(k, v). p k v) d"

text \<open>The idiom \<^verbatim>\<open>d.setdefault(k, []).append(v)\<close>.\<close>

definition dict_append :: "'k \<Rightarrow> 'v \<Rightarrow> ('k, 'v list) dict \<Rightarrow> ('k, 'v list) dict" where
  "dict_append k v d = dict_set k (case dict_get d k of None \<Rightarrow> [v] | Some vs \<Rightarrow> vs @ [v]) d"

text \<open>A loop popping every key of a collection.\<close>

definition dict_pop_all :: "'k set \<Rightarrow> ('k, 'v) dict \<Rightarrow> ('k, 'v) dict" where
  "dict_pop_all ks d = filter (\<lambda>(k, _). k \<notin> ks) d"

section \<open>Exceptions\<close>

datatype exn =
    HTTPException int string
  | KeyError string
  | ValueError string
  | ValidationError string
  | RuntimeError string
  | TypeError string
  | OverflowError
  | OtherException string

type_synonym 'a result = "exn + 'a"

definition raise_if :: "bool \<Rightarrow> exn \<Rightarrow> 'a result \<Rightarrow> 'a result" where
  "raise_if b e r = (if b then Inl e else r)"

definition result_bind :: "'a result \<Rightarrow> ('a \<Rightarrow> 'b result) \<Rightarrow> 'b result" where
  "result_bind r f = (case r of Inl e \<Rightarrow> Inl e | Inr x \<Rightarrow> f x)"

fun result_map :: "('a \<Rightarrow> 'b result) \<Rightarrow> 'a list \<Rightarrow> 'b list result" where
  "result_map f [] = Inr []"
| "result_map f (x # xs) =
     result_bind (f x) (\<lambda>y. result_bind (result_map f xs) (\<lambda>ys. Inr (y # ys)))"

section \<open>Computations with state and exceptions\<close>

type_synonym ('s, 'a) prog = "'s \<Rightarrow> 'a result \<times> 's"

definition ret :: "'a \<Rightarrow> ('s, 'a) prog" where
  "ret x = (\<lambda>s. (Inr x, s))"

definition throw :: "exn \<Rightarrow> ('s, 'a) prog" where
  "throw e = (\<lambda>s. (Inl e, s))"

definition bindP :: "('s, 'a) prog \<Rightarrow> ('a \<Rightarrow> ('s, 'b) prog) \<Rightarrow> ('s, 'b) prog" where
  "bindP m f = (\<lambda>s. case m s of (Inl e, s') \<Rightarrow> (Inl e, s') | (Inr x, s') \<Rightarrow> f x s')"

definition thenP :: "('s, 'a) prog \<Rightarrow> ('s, 'b) prog \<Rightarrow> ('s, 'b) prog" where
  "thenP m k = bindP m (\<lambda>_. k)"

definition gets :: "('s \<Rightarrow> 'a) \<Rightarrow> ('s, 'a) prog" where
  "gets f = (\<lambda>s. (Inr (f s), s))"

definition modify :: "('s \<Rightarrow> 's) \<Rightarrow> ('s, unit) prog" where
  "modify f = (\<lambda>s. (Inr (), f s))"

definition lift_result :: "'a result \<Rightarrow> ('s, 'a) prog" where
  "lift_result r = (\<lambda>s. (r, s))"

text \<open>\<^verbatim>\<open>if c: raise e\<close>\<close>

definition raise_when :: "bool \<Rightarrow> exn \<Rightarrow> ('s, unit) prog" where
  "raise_when c e = (if c then throw e else ret ())"

text \<open>\<^verbatim>\<open>for x in xs: body\<close>, collecting the values; an exception ends the loop.\<close>

fun for_each :: "'a list \<Rightarrow> ('a \<Rightarrow> ('s, 'b) prog) \<Rightarrow> ('s, 'b list) prog" where
  "for_each [] f = ret []"
| "for_each (x # xs) f = bindP (f x) (\<lambda>y. bindP (for_each xs f) (\<lambda>ys. ret (y # ys)))"

text \<open>\<^verbatim>\<open>try: m except Exception: h\<close>; effects made before the exception stay.\<close>

definition try_except :: "('s, 'a) prog \<Rightarrow> (exn \<Rightarrow> ('s, 'a) prog) \<Rightarrow> ('s, 'a) prog" where
  "try_except m h = (\<lambda>s. case m s of (Inl e, s') \<Rightarrow> h e s' | (Inr x, s') \<Rightarrow> (Inr x, s'))"

section \<open>Strings\<close>

text \<open>\<^verbatim>\<open>str.strip\<close> removes Unicode white space; below 256 these are the code points here.\<close>

definition py_isspace :: "char \<Rightarrow> bool" where
  "py_isspace c = (let n = of_char c :: nat
     in (9 \<le> n \<and> n \<le> 13) \<or> (28 \<le> n \<and> n \<le> 32) \<or> n = 133 \<or> n = 160)"

definition py_strip :: "string \<Rightarrow> string" where
  "py_strip s = rev (dropWhile py_isspace (rev (dropWhile py_isspace s)))"

text \<open>\<^verbatim>\<open>str.lower\<close> on Latin-1: the ASCII capitals and 192..222 without the multiplication sign.\<close>

definition py_lower_char :: "char \<Rightarrow> char" where
  "py_lower_char c = (let n = of_char c :: nat
     in if (65 \<le> n \<and> n \<le> 90) \<or> (192 \<le> n \<and> n \<le> 222 \<and> n \<noteq> 215) then char_of (n + 32) else c)"

definition py_lower :: "string \<Rightarrow> string" where
  "py_lower s = map py_lower_char s"

definition py_replace_char :: "char \<Rightarrow> char \<Rightarrow> string \<Rightarrow> string" where
  "py_replace_char a b s = map (\<lambda>c. if c = a then b else c) s"

text \<open>\<^verbatim>\<open>not s\<close> for a value of type \<^verbatim>\<open>str | None\<close>.\<close>

definition falsy :: "string option \<Rightarrow> bool" where
  "falsy s \<longleftrightarrow> (case s of None \<Rightarrow> True | Some t \<Rightarrow> t = [])"

abbreviation truthy :: "string option \<Rightarrow> bool" where
  "truthy s \<equiv> \<not> falsy s"

fun string_of_nat :: "nat \<Rightarrow> string" where
  "string_of_nat n =
     (if n < 10 then [char_of (48 + n)] else string_of_nat (n div 10) @ [char_of (48 + n mod 10)])"

declare string_of_nat.simps [simp del]

definition string_of_int :: "int \<Rightarrow> string" where
  "string_of_int i = (if i < 0 then ''-'' @ string_of_nat (nat (- i)) else string_of_nat (nat i))"

text \<open>\<^verbatim>\<open>str(uuid)\<close>: 32 lower-case hexadecimal digits in groups of 8, 4, 4, 4 and 12.\<close>

definition hex_digit :: "nat \<Rightarrow> char" where
  "hex_digit n = (if n < 10 then char_of (48 + n) else char_of (87 + n))"

definition uuid_hex :: "uuid \<Rightarrow> string" where
  "uuid_hex u = map (\<lambda>i. hex_digit (unat (drop_bit (4 * (31 - i)) u AND 15))) [0..<32]"

definition str_uuid :: "uuid \<Rightarrow> string" where
  "str_uuid u = (let h = uuid_hex u
     in take 8 h @ ''-'' @ take 4 (drop 8 h) @ ''-'' @ take 4 (drop 12 h) @ ''-'' @
        take 4 (drop 16 h) @ ''-'' @ drop 20 h)"

section \<open>Stable sorting\<close>

text \<open>
  \<^verbatim>\<open>sorted(xs, key=f)\<close> is stable, as \<^const>\<open>sort_key\<close> is; with \<^verbatim>\<open>reverse=True\<close> the order is
  descending and equal elements still keep their original order.
\<close>

definition py_sorted :: "('a \<Rightarrow> 'k::linorder) \<Rightarrow> 'a list \<Rightarrow> 'a list" where
  "py_sorted f xs = sort_key f xs"

definition py_sorted_desc :: "('a \<Rightarrow> 'k::linorder) \<Rightarrow> 'a list \<Rightarrow> 'a list" where
  "py_sorted_desc f xs = rev (sort_key f (rev xs))"

text \<open>\<^verbatim>\<open>max(xs, key=f)\<close> returns the first of the maximal elements.\<close>

fun py_max_by :: "('a \<Rightarrow> 'k::linorder) \<Rightarrow> 'a \<Rightarrow> 'a list \<Rightarrow> 'a" where
  "py_max_by f m [] = m"
| "py_max_by f m (x # xs) = py_max_by f (if f m < f x then x else m) xs"

text \<open>\<^verbatim>\<open>list(dict.fromkeys(xs))\<close>: duplicates dropped, first occurrences kept in order.\<close>

fun dedup_onto :: "'a list \<Rightarrow> 'a list \<Rightarrow> 'a list" where
  "dedup_onto seen [] = seen"
| "dedup_onto seen (x # xs) = dedup_onto (if x \<in> set seen then seen else seen @ [x]) xs"

definition py_dedup :: "'a list \<Rightarrow> 'a list" where
  "py_dedup xs = dedup_onto [] xs"

section \<open>Lemmas on dictionaries\<close>

lemma dict_wf_empty [simp]: "dict_wf []"
  by (simp add: dict_wf_def)

lemma dict_get_set [dict_simps]:
  "dict_get (dict_set k v d) k' = (if k' = k then Some v else dict_get d k')"
  by (simp add: update_conv')

lemma dict_get_filter_notin:
  "map_of (filter (\<lambda>(k, _). P k) d) k' = (if P k' then map_of d k' else None)"
  by (induction d) auto

lemma dict_get_pop [dict_simps]:
  "dict_get (dict_pop k d) k' = (if k' = k then None else dict_get d k')"
  by (simp add: dict_pop_def dict_get_filter_notin)

lemma dict_get_pop_all [dict_simps]:
  "dict_get (dict_pop_all ks d) k' = (if k' \<in> ks then None else dict_get d k')"
  by (simp add: dict_pop_all_def dict_get_filter_notin)

lemma dict_get_append [dict_simps]:
  "dict_get (dict_append k v d) k' =
     (if k' = k then Some (case dict_get d k of None \<Rightarrow> [v] | Some vs \<Rightarrow> vs @ [v])
      else dict_get d k')"
  by (simp add: dict_append_def dict_get_set)

lemma items_dict_set: "set (dict_set k v d) \<subseteq> insert (k, v) (set d)"
  by (induction d) auto

lemma dict_wf_set [simp]: "dict_wf d \<Longrightarrow> dict_wf (dict_set k v d)"
  by (simp add: dict_wf_def distinct_update)

lemma distinct_map_filter_fst: "distinct (map fst d) \<Longrightarrow> distinct (map fst (filter P d))"
  by (rule distinct_map_filter)

lemma dict_wf_pop [simp]: "dict_wf d \<Longrightarrow> dict_wf (dict_pop k d)"
  by (simp add: dict_wf_def dict_pop_def distinct_map_filter_fst)

lemma dict_wf_pop_all [simp]: "dict_wf d \<Longrightarrow> dict_wf (dict_pop_all ks d)"
  by (simp add: dict_wf_def dict_pop_all_def distinct_map_filter_fst)

lemma dict_wf_filter [simp]: "dict_wf d \<Longrightarrow> dict_wf (dict_filter p d)"
  by (simp add: dict_wf_def dict_filter_def distinct_map_filter_fst)

lemma dict_wf_append [simp]: "dict_wf d \<Longrightarrow> dict_wf (dict_append k v d)"
  by (simp add: dict_append_def)

lemma dict_get_filter [dict_simps]:
  assumes "dict_wf d"
  shows "dict_get (dict_filter p d) k =
    (case dict_get d k of None \<Rightarrow> None | Some v \<Rightarrow> if p k v then Some v else None)"
  using assms
proof (induction d)
  case Nil
  show ?case by (simp add: dict_filter_def)
next
  case (Cons kv d)
  obtain k0 v0 where kv: "kv = (k0, v0)" by fastforce
  from Cons.prems kv have notin: "k0 \<notin> fst ` set d" and wf: "dict_wf d"
    by (auto simp: dict_wf_def)
  from notin have "map_of (filter (\<lambda>(k, v). p k v) d) k0 = None"
    by (auto simp: map_of_eq_None_iff)
  with Cons.IH [OF wf] kv show ?case by (auto simp: dict_filter_def)
qed

lemma dict_get_in_values:
  "dict_get d k = Some v \<Longrightarrow> v \<in> set (dict_values d)"
  by (force simp: dict_values_def dest: map_of_SomeD)

lemma dict_values_get:
  "dict_wf d \<Longrightarrow> v \<in> set (dict_values d) \<Longrightarrow> \<exists>k. dict_get d k = Some v"
  by (force simp: dict_values_def dict_wf_def)

lemma dict_get_in_items: "dict_wf d \<Longrightarrow> ((k, v) \<in> set d) = (dict_get d k = Some v)"
  by (simp add: dict_wf_def)

lemma fold_dict_set_get:
  "dict_get (fold (\<lambda>oc d. dict_set (f oc) oc d) os d0) k =
     (case filter (\<lambda>oc. f oc = k) os of [] \<Rightarrow> dict_get d0 k | _ \<Rightarrow> Some (last (filter (\<lambda>oc. f oc = k) os)))"
  by (induction os arbitrary: d0) (auto simp: dict_get_set split: list.splits)

section \<open>Lemmas on computations\<close>

lemma ret_app [prog_simps]: "ret x s = (Inr x, s)" by (simp add: ret_def)
lemma throw_app [prog_simps]: "throw e s = (Inl e, s)" by (simp add: throw_def)
lemma gets_app [prog_simps]: "gets f s = (Inr (f s), s)" by (simp add: gets_def)
lemma modify_app [prog_simps]: "modify f s = (Inr (), f s)" by (simp add: modify_def)
lemma lift_result_app [prog_simps]: "lift_result r s = (r, s)" by (simp add: lift_result_def)

lemma bindP_app [prog_simps]:
  "bindP m f s = (case m s of (Inl e, s') \<Rightarrow> (Inl e, s') | (Inr x, s') \<Rightarrow> f x s')"
  by (simp add: bindP_def)

lemma thenP_app [prog_simps]:
  "thenP m k s = (case m s of (Inl e, s') \<Rightarrow> (Inl e, s') | (Inr x, s') \<Rightarrow> k s')"
  by (simp add: thenP_def bindP_def)

lemma raise_when_app [prog_simps]:
  "raise_when c e s = (if c then (Inl e, s) else (Inr (), s))"
  by (simp add: raise_when_def prog_simps)

lemma bindP_Inr:
  assumes "bindP m f s = (Inr y, s'')"
  obtains x s' where "m s = (Inr x, s')" and "f x s' = (Inr y, s'')"
  using assms by (auto simp: bindP_def split: prod.splits sum.splits)

lemma thenP_Inr:
  assumes "thenP m k s = (Inr y, s'')"
  obtains x s' where "m s = (Inr x, s')" and "k s' = (Inr y, s'')"
  using assms by (auto simp: thenP_def elim: bindP_Inr)

lemma result_bind_Inr: "result_bind r f = Inr y \<longleftrightarrow> (\<exists>x. r = Inr x \<and> f x = Inr y)"
  by (auto simp: result_bind_def split: sum.splits)

lemma result_map_Inr:
  "result_map f xs = Inr ys \<longleftrightarrow> length ys = length xs \<and> (\<forall>i < length xs. f (xs ! i) = Inr (ys ! i))"
proof (induction xs arbitrary: ys)
  case (Cons x xs)
  then show ?case by (cases ys) (auto simp: result_bind_Inr nth_Cons split: nat.splits)
qed auto

lemma result_map_ok:
  "(\<And>x. x \<in> set xs \<Longrightarrow> \<exists>y. f x = Inr y) \<Longrightarrow> \<exists>ys. result_map f xs = Inr ys"
  by (induction xs) (auto simp: result_bind_def, force)

lemma for_each_returns:
  assumes "\<And>x s. x \<in> set xs \<Longrightarrow> \<exists>y s'. f x s = (Inr y, s') \<and> Q x y"
  shows "\<exists>ys s'. for_each xs f s = (Inr ys, s') \<and> list_all2 Q xs ys"
  using assms
proof (induction xs arbitrary: s)
  case (Cons x xs)
  obtain y s1 where y: "f x s = (Inr y, s1)" "Q x y" using Cons.prems by force
  obtain ys s2 where "for_each xs f s1 = (Inr ys, s2)" "list_all2 Q xs ys"
    using Cons.IH [of s1] Cons.prems by force
  with y show ?case by (auto simp: prog_simps)
qed (simp add: prog_simps)

lemma for_each_invariant:
  assumes "for_each xs f s = (Inr ys, s')" "I s"
    and "\<And>x s y s'. x \<in> set xs \<Longrightarrow> I s \<Longrightarrow> f x s = (Inr y, s') \<Longrightarrow> I s' \<and> Q x y"
  shows "I s' \<and> list_all2 Q xs ys"
  using assms
proof (induction xs arbitrary: s ys)
  case (Cons x xs)
  from Cons.prems(1) obtain y s1 zs where y: "f x s = (Inr y, s1)"
    and zs: "for_each xs f s1 = (Inr zs, s')" and ys: "ys = y # zs"
    by (auto simp: prog_simps split: prod.splits sum.splits)
  have "I s1 \<and> Q x y" by (rule Cons.prems(3) [OF _ Cons.prems(2) y]) simp
  moreover have "I s' \<and> list_all2 Q xs zs"
  proof (rule Cons.IH [OF zs])
    show "I s1" using calculation by blast
  qed (rule Cons.prems(3); simp)
  ultimately show ?case by (simp add: ys)
qed (simp add: prog_simps)

text \<open>
  A computation moves the state along a relation whether it returns or raises.  Frame
  properties and invariants of handlers are instances; the rules below compose them.
\<close>

definition moves :: "('s \<Rightarrow> 's \<Rightarrow> bool) \<Rightarrow> ('s, 'a) prog \<Rightarrow> bool" where
  "moves R m \<longleftrightarrow> (\<forall>s. R s (snd (m s)))"

lemma movesD: "moves R m \<Longrightarrow> m s = (r, s') \<Longrightarrow> R s s'"
  by (metis moves_def snd_conv)

lemma moves_stay:
  assumes "reflp R"
  shows "moves R (ret x)" "moves R (throw e)" "moves R (gets f)" "moves R (lift_result r)"
    "moves R (raise_when c e)"
  using assms by (auto simp: moves_def prog_simps reflp_def)

lemma moves_bind:
  assumes "transp R" "moves R m" "\<And>x. moves R (f x)"
  shows "moves R (bindP m f)"
  unfolding moves_def
proof
  fix s
  obtain r s' where m: "m s = (r, s')" by fastforce
  show "R s (snd (bindP m f s))"
  proof (cases r)
    case (Inr x)
    have "R s' (snd (f x s'))" using assms(3) by (simp add: moves_def)
    with assms(1) movesD [OF assms(2) m] Inr m show ?thesis by (auto simp: bindP_app dest: transpD)
  qed (use movesD [OF assms(2) m] m in \<open>simp add: bindP_app\<close>)
qed

lemma moves_then: "transp R \<Longrightarrow> moves R m \<Longrightarrow> moves R k \<Longrightarrow> moves R (thenP m k)"
  unfolding thenP_def by (rule moves_bind)

lemma moves_modify: "(\<And>s. R s (f s)) \<Longrightarrow> moves R (modify f)"
  by (simp add: moves_def prog_simps)

lemma moves_for_each:
  assumes "reflp R" "transp R" "\<And>x. x \<in> set xs \<Longrightarrow> moves R (f x)"
  shows "moves R (for_each xs f)"
  using assms(3) by (induction xs) (auto intro!: moves_bind moves_stay assms(1,2))

lemma moves_try_except:
  assumes "transp R" "moves R m" "\<And>e. moves R (h e)"
  shows "moves R (try_except m h)"
  unfolding moves_def
proof
  fix s
  obtain r s' where m: "m s = (r, s')" by fastforce
  show "R s (snd (try_except m h s))"
  proof (cases r)
    case (Inl e)
    have "R s' (snd (h e s'))" using assms(3) by (simp add: moves_def)
    with assms(1) movesD [OF assms(2) m] Inl m show ?thesis by (auto simp: try_except_def dest: transpD)
  qed (use movesD [OF assms(2) m] m in \<open>simp add: try_except_def\<close>)
qed

section \<open>Lemmas on sorting and deduplication\<close>

lemma set_py_sorted [simp]: "set (py_sorted f xs) = set xs"
  by (simp add: py_sorted_def)

lemma mset_py_sorted [simp]: "mset (py_sorted f xs) = mset xs"
  by (simp add: py_sorted_def)

lemma sorted_py_sorted: "sorted (map f (py_sorted f xs))"
  by (simp add: py_sorted_def)

lemma set_py_sorted_desc [simp]: "set (py_sorted_desc f xs) = set xs"
  by (simp add: py_sorted_desc_def)

lemma mset_py_sorted_desc [simp]: "mset (py_sorted_desc f xs) = mset xs"
  by (simp add: py_sorted_desc_def)

lemma length_py_sorted_desc [simp]: "length (py_sorted_desc f xs) = length xs"
  by (simp add: py_sorted_desc_def)

lemma sorted_py_sorted_desc: "sorted_wrt (\<lambda>a b. f b \<le> f a) (py_sorted_desc f xs)"
proof -
  have "sorted_wrt (\<lambda>a b. f a \<le> f b) (sort_key f (rev xs))"
    using sorted_sort_key [of f "rev xs"] by (simp add: sorted_map)
  then show ?thesis by (simp add: py_sorted_desc_def sorted_wrt_rev)
qed

lemma py_max_by_in: "py_max_by f m xs \<in> insert m (set xs)"
  by (induction xs arbitrary: m) (auto split: if_splits)

lemma py_max_by_ge: "x \<in> insert m (set xs) \<Longrightarrow> f x \<le> f (py_max_by f m xs)"
proof (induction xs arbitrary: m x)
  case Nil
  then show ?case by simp
next
  case (Cons y xs)
  let ?m = "if f m < f y then y else m"
  have "f m \<le> f ?m" "f y \<le> f ?m" by auto
  moreover have "\<And>z. z \<in> insert ?m (set xs) \<Longrightarrow> f z \<le> f (py_max_by f ?m xs)"
    by (rule Cons.IH)
  ultimately show ?case using Cons.prems by fastforce
qed

lemma set_dedup_onto: "set (dedup_onto seen xs) = set seen \<union> set xs"
  by (induction xs arbitrary: seen) auto

lemma distinct_dedup_onto: "distinct seen \<Longrightarrow> distinct (dedup_onto seen xs)"
  by (induction xs arbitrary: seen) auto

lemma set_py_dedup [simp]: "set (py_dedup xs) = set xs"
  by (simp add: py_dedup_def set_dedup_onto)

lemma distinct_py_dedup [simp]: "distinct (py_dedup xs)"
  by (simp add: py_dedup_def distinct_dedup_onto)

lemma py_dedup_Nil [simp]: "py_dedup xs = [] \<longleftrightarrow> xs = []"
  by (metis set_empty set_py_dedup)

end
