(* ===== verification/PyFloat.thy ===== *)
theory PyFloat
  imports Prelude Complex_Main "HOL-Library.Log_Nat"
begin

text \<open>
  Python's \<^verbatim>\<open>float\<close> as the sources use it: finite IEEE-754 binary64 values, kept as the rational
  number they denote, with every operation rounded to nearest, ties to even.  On top of the
  rounding: the four operations, \<^verbatim>\<open>round(x, 2)\<close> (decimal rounding of the exact binary value,
  ties to even, then back to the nearest float) and \<^verbatim>\<open>sum\<close> of floats, which CPython 3.12 (the
  interpreter of \<^verbatim>\<open>infra/docker/Dockerfile\<close>) computes with Neumaier's compensation.  Infinities
  and NaN are not values of the model; converting an integer that is too large raises.

  The lemmas give what the scoring components need: monotonicity, exactness on representable
  numbers, the relative error of a rounding, and the error of a compensated sum.
\<close>

type_synonym pyfloat = rat

section \<open>Rounding\<close>

definition round_half_even :: "rat \<Rightarrow> int" where
  "round_half_even x = (let n = \<lfloor>x\<rfloor>; d = x - of_int n
     in if d < 1 / 2 then n else if 1 / 2 < d then n + 1 else if even n then n else n + 1)"

text \<open>The binary exponent of a positive rational.\<close>

definition ilog2 :: "rat \<Rightarrow> int" where
  "ilog2 x = (let (p, q) = quotient_of x; e = bitlen p - bitlen q
     in if 2 powi e \<le> x then e else e - 1)"

text \<open>The exponent of the unit in the last place: 53 significant bits, subnormals at \<open>2^-1074\<close>.\<close>

definition ulp_exp :: "rat \<Rightarrow> int" where
  "ulp_exp x = max (ilog2 \<bar>x\<bar> - 52) (- 1074)"

definition fl :: "rat \<Rightarrow> pyfloat" where
  "fl x = (if x = 0 then 0
     else of_int (round_half_even (x / 2 powi ulp_exp x)) * 2 powi ulp_exp x)"

definition fadd :: "pyfloat \<Rightarrow> pyfloat \<Rightarrow> pyfloat" where "fadd x y = fl (x + y)"
definition fsub :: "pyfloat \<Rightarrow> pyfloat \<Rightarrow> pyfloat" where "fsub x y = fl (x - y)"
definition fmul :: "pyfloat \<Rightarrow> pyfloat \<Rightarrow> pyfloat" where "fmul x y = fl (x * y)"

text \<open>\<^verbatim>\<open>float(n)\<close> for an integer: raises when the nearest float would be infinite.\<close>

definition float_of_int :: "int \<Rightarrow> pyfloat result" where
  "float_of_int n = (if 2 ^ 1024 - 2 ^ 970 \<le> \<bar>n\<bar> then Inl OverflowError else Inr (fl (of_int n)))"

definition py_round2 :: "pyfloat \<Rightarrow> pyfloat" where
  "py_round2 x = fl (of_int (round_half_even (x * 100)) / 100)"

fun fsum_loop :: "pyfloat \<Rightarrow> pyfloat \<Rightarrow> pyfloat list \<Rightarrow> pyfloat \<times> pyfloat" where
  "fsum_loop s c [] = (s, c)"
| "fsum_loop s c (x # xs) =
     (let t = fadd s x
      in fsum_loop t
           (if \<bar>x\<bar> \<le> \<bar>s\<bar> then fadd c (fadd (fsub s t) x) else fadd c (fadd (fsub x t) s)) xs)"

definition py_fsum :: "pyfloat list \<Rightarrow> pyfloat" where
  "py_fsum xs = (case xs of [] \<Rightarrow> 0
     | x # ys \<Rightarrow> (let (s, c) = fsum_loop x 0 ys in if c \<noteq> 0 then fadd s c else s))"

section \<open>Rounding to an integer\<close>

lemma round_half_even_cases:
  "round_half_even x = \<lfloor>x\<rfloor> \<and> x - of_int \<lfloor>x\<rfloor> \<le> 1 / 2 \<or>
   round_half_even x = \<lfloor>x\<rfloor> + 1 \<and> 1 / 2 \<le> x - of_int \<lfloor>x\<rfloor>"
  by (auto simp: round_half_even_def Let_def)

lemma round_half_even_error: "\<bar>of_int (round_half_even x) - x\<bar> \<le> 1 / 2"
proof -
  have "of_int \<lfloor>x\<rfloor> \<le> x" "x < of_int \<lfloor>x\<rfloor> + 1" by linarith+
  with round_half_even_cases [of x] show ?thesis by auto
qed

lemma round_half_even_of_int [simp]: "round_half_even (of_int n) = n"
  by (simp add: round_half_even_def)

lemma round_half_even_near:
  assumes "\<bar>x - of_int n\<bar> < 1 / 2"
  shows "round_half_even x = n"
proof -
  have "\<bar>(of_int (round_half_even x) :: rat) - of_int n\<bar> < 1"
    using round_half_even_error [of x] assms by linarith
  then have "\<bar>round_half_even x - n\<bar> < 1"
    by (metis of_int_abs of_int_diff of_int_less_1_iff)
  then show ?thesis by linarith
qed

lemma round_half_even_mono:
  assumes "x \<le> y"
  shows "round_half_even x \<le> round_half_even y"
proof (cases "\<lfloor>x\<rfloor> = \<lfloor>y\<rfloor>")
  case True
  with assms show ?thesis by (auto simp: round_half_even_def Let_def)
next
  case False
  with assms have lt: "\<lfloor>x\<rfloor> + 1 \<le> \<lfloor>y\<rfloor>" using floor_mono [OF assms] by linarith
  have "round_half_even x \<le> \<lfloor>x\<rfloor> + 1" "\<lfloor>y\<rfloor> \<le> round_half_even y"
    using round_half_even_cases by (smt (verit))+
  with lt show ?thesis by linarith
qed

lemma round_half_even_ge: "of_int n \<le> x \<Longrightarrow> n \<le> round_half_even x"
  using round_half_even_mono [of "of_int n" x] by simp

lemma round_half_even_le: "x \<le> of_int n \<Longrightarrow> round_half_even x \<le> n"
  using round_half_even_mono [of x "of_int n"] by simp

lemma round_half_even_minus [simp]: "round_half_even (- x) = - round_half_even x"
proof (cases "x = of_int \<lfloor>x\<rfloor>")
  case True
  then have "- x = of_int (- \<lfloor>x\<rfloor>)" by simp
  then show ?thesis using True by (metis round_half_even_of_int)
next
  case False
  then have fl: "\<lfloor>- x\<rfloor> = - \<lfloor>x\<rfloor> - 1"
    by (smt (verit, best) ceiling_altdef floor_minus)
  show ?thesis
    unfolding round_half_even_def Let_def fl by (auto simp: field_simps)
qed

section \<open>The binary exponent\<close>

lemma powi_nat_diff: "(2::rat) powi (int a - int b) = 2 ^ a / 2 ^ b"
  by (simp add: power_int_diff)

lemma ilog2_bounds:
  assumes "0 < x"
  shows "2 powi ilog2 x \<le> x \<and> x < 2 powi (ilog2 x + 1)"
proof -
  obtain p q where pq: "quotient_of x = (p, q)" by fastforce
  then have q: "0 < q" by (rule quotient_of_denom_pos)
  have x: "x = of_int p / of_int q" using pq by (rule quotient_of_div)
  with assms q have p: "0 < p" by (simp add: zero_less_divide_iff)
  define a b where "a = nat (bitlen p)" and "b = nat (bitlen q)"
  have ab: "bitlen p = int a" "bitlen q = int b" "0 < a" "0 < b"
    using p q bitlen_nonneg [of p] bitlen_nonneg [of q] bitlen_eq_zero_iff [of p]
      bitlen_eq_zero_iff [of q] by (auto simp: a_def b_def)
  have bnd: "2 ^ (a - 1) \<le> p" "p < 2 ^ a" "2 ^ (b - 1) \<le> q" "q < 2 ^ b"
    using bitlen_bounds [OF p] bitlen_bounds [OF q] ab by (auto simp: nat_diff_distrib)
  then have r: "(2::rat) ^ (a - 1) \<le> of_int p" "of_int p < (2::rat) ^ a"
      "(2::rat) ^ (b - 1) \<le> of_int q" "of_int q < (2::rat) ^ b"
    by (metis of_int_le_iff of_int_less_iff of_int_numeral of_int_power)+
  have up: "x < 2 powi (int a - int b + 1)"
  proof -
    have "x < 2 ^ a / 2 ^ (b - 1)"
      unfolding x using r p q by (intro frac_less) auto
    also have "\<dots> = 2 powi (int a - int (b - 1))" by (simp add: powi_nat_diff)
    also have "int a - int (b - 1) = int a - int b + 1" using ab by simp
    finally show ?thesis .
  qed
  have lo: "2 powi (int a - int b - 1) \<le> x"
  proof -
    have "2 powi (int a - int b - 1) = 2 powi (int (a - 1) - int b)"
      using ab(3) by (simp add: of_nat_diff algebra_simps)
    also have "\<dots> = (2::rat) ^ (a - 1) / 2 ^ b" by (rule powi_nat_diff)
    also have "\<dots> \<le> x" unfolding x using r p q by (intro frac_le) auto
    finally show ?thesis .
  qed
  show ?thesis
    using up lo by (simp add: ilog2_def pq ab Let_def)
qed

lemma powi_le_cancel: "(2::rat) powi a < 2 powi b \<Longrightarrow> a < b"
  using power_int_increasing [of b a "2::rat"] by (cases "a < b") auto

lemma ilog2_mono:
  assumes "0 < x" "x \<le> y"
  shows "ilog2 x \<le> ilog2 y"
proof -
  have "2 powi ilog2 x \<le> x" "y < 2 powi (ilog2 y + 1)"
    using ilog2_bounds assms by auto
  with assms have "(2::rat) powi ilog2 x < 2 powi (ilog2 y + 1)" by linarith
  then show ?thesis using powi_le_cancel by fastforce
qed

section \<open>Properties of the float rounding\<close>

lemma fl_0 [simp]: "fl 0 = 0" by (simp add: fl_def)

lemma ulp_exp_minus [simp]: "ulp_exp (- x) = ulp_exp x" by (simp add: ulp_exp_def)

lemma fl_minus [simp]: "fl (- x) = - fl x"
  by (simp add: fl_def)

lemma fl_nonneg: "0 \<le> x \<Longrightarrow> 0 \<le> fl x"
  using round_half_even_ge [of 0 "x / 2 powi ulp_exp x"] by (simp add: fl_def)

lemma fl_error_ulp: "\<bar>fl x - x\<bar> \<le> 2 powi ulp_exp x / 2"
proof (cases "x = 0")
  case False
  define u where "u = (2::rat) powi ulp_exp x"
  have u: "0 < u" by (simp add: u_def)
  have "fl x - x = (of_int (round_half_even (x / u)) - x / u) * u"
    using u False by (simp add: fl_def u_def field_simps)
  then have "\<bar>fl x - x\<bar> = \<bar>of_int (round_half_even (x / u)) - x / u\<bar> * u"
    using u by (simp add: abs_mult)
  also have "\<dots> \<le> (1 / 2) * u"
    using round_half_even_error u by (intro mult_right_mono) auto
  finally show ?thesis by (simp add: u_def)
qed simp

lemma fl_error_bound:
  assumes "\<bar>x\<bar> < 2 ^ n" "n \<le> 52"
  shows "\<bar>fl x - x\<bar> \<le> 2 ^ n / 2 ^ 54"
proof (cases "x = 0")
  case False
  have "2 powi ilog2 \<bar>x\<bar> \<le> \<bar>x\<bar>" using ilog2_bounds [of "\<bar>x\<bar>"] False by auto
  with assms have "(2::rat) powi ilog2 \<bar>x\<bar> < 2 powi int n" by simp
  then have "ilog2 \<bar>x\<bar> < int n" by (rule powi_le_cancel)
  then have "ulp_exp x \<le> int n - 53" unfolding ulp_exp_def using assms(2) by simp
  then have "(2::rat) powi ulp_exp x \<le> 2 powi (int n - int 53)"
    by (intro power_int_increasing) auto
  then have "(2::rat) powi ulp_exp x \<le> 2 ^ n / 2 ^ 53" by (simp only: powi_nat_diff)
  with fl_error_ulp [of x] show ?thesis by simp
qed simp

lemma fl_mono_pos:
  assumes "0 < x" "x \<le> y"
  shows "fl x \<le> fl y"
proof (cases "ulp_exp x = ulp_exp y")
  case True
  have "x / 2 powi ulp_exp x \<le> y / 2 powi ulp_exp x"
    using assms by (intro divide_right_mono) auto
  then have "round_half_even (x / 2 powi ulp_exp x) \<le> round_half_even (y / 2 powi ulp_exp x)"
    by (rule round_half_even_mono)
  then show ?thesis using assms True by (simp add: fl_def mult_right_mono)
next
  case False
  define e where "e = ilog2 y"
  have le: "ilog2 x \<le> e" using ilog2_mono assms by (simp add: e_def)
  with False assms have lt: "ulp_exp x < ulp_exp y" and k: "ulp_exp y = e - 52"
      and ex: "ilog2 x + 1 \<le> e"
    unfolding ulp_exp_def e_def by auto
  have "x < 2 powi (ilog2 x + 1)" using ilog2_bounds assms(1) by blast
  also have "\<dots> \<le> 2 powi e" using ex by (intro power_int_increasing) auto
  finally have xe: "x \<le> 2 powi e" by simp
  have ye: "2 powi e \<le> y" using ilog2_bounds [of y] assms by (simp add: e_def)
  have sx: "(2::rat) powi e = of_int (2 ^ nat (e - ulp_exp x)) * 2 powi ulp_exp x"
  proof -
    have "of_int (2 ^ nat (e - ulp_exp x)) = (2::rat) powi (e - ulp_exp x)"
      using lt k by (simp add: power_int_def)
    then show ?thesis by (simp add: power_int_add [symmetric])
  qed
  have sy: "(2::rat) powi e = of_int (2 ^ 52) * 2 powi ulp_exp y"
  proof -
    have "(2::rat) powi e = 2 powi (int 52 + (e - 52))" by simp
    also have "\<dots> = 2 powi int 52 * 2 powi (e - 52)" by (subst power_int_add) auto
    finally show ?thesis by (simp add: k)
  qed
  have "fl x \<le> 2 powi e"
  proof -
    have "x / 2 powi ulp_exp x \<le> of_int (2 ^ nat (e - ulp_exp x))"
      using xe unfolding sx by (simp add: field_simps)
    then have "round_half_even (x / 2 powi ulp_exp x) \<le> 2 ^ nat (e - ulp_exp x)"
      by (rule round_half_even_le)
    then have "of_int (round_half_even (x / 2 powi ulp_exp x)) \<le> (of_int (2 ^ nat (e - ulp_exp x)) :: rat)"
      by (simp only: of_int_le_iff)
    then have "of_int (round_half_even (x / 2 powi ulp_exp x)) * 2 powi ulp_exp x
        \<le> (of_int (2 ^ nat (e - ulp_exp x)) :: rat) * 2 powi ulp_exp x"
      by (rule mult_right_mono) simp
    then show ?thesis using assms unfolding sx by (simp add: fl_def)
  qed
  also have "2 powi e \<le> fl y"
  proof -
    have "of_int (2 ^ 52) \<le> y / 2 powi ulp_exp y"
      using ye unfolding sy by (simp add: field_simps)
    then have "2 ^ 52 \<le> round_half_even (y / 2 powi ulp_exp y)"
      by (rule round_half_even_ge)
    then have "(of_int (2 ^ 52) :: rat) \<le> of_int (round_half_even (y / 2 powi ulp_exp y))"
      by (simp only: of_int_le_iff)
    then have "(of_int (2 ^ 52) :: rat) * 2 powi ulp_exp y
        \<le> of_int (round_half_even (y / 2 powi ulp_exp y)) * 2 powi ulp_exp y"
      by (rule mult_right_mono) simp
    then show ?thesis using assms unfolding sy by (simp add: fl_def)
  qed
  finally show ?thesis .
qed

lemma fl_mono: "x \<le> y \<Longrightarrow> fl x \<le> fl y"
proof -
  assume le: "x \<le> y"
  consider "0 < x" | "x \<le> 0" "0 \<le> y" | "y < 0" by linarith
  then show "fl x \<le> fl y"
  proof cases
    case 1
    with le show ?thesis by (intro fl_mono_pos)
  next
    case 2
    have "fl x \<le> 0" using fl_nonneg [of "- x"] 2 by simp
    moreover have "0 \<le> fl y" using 2 by (intro fl_nonneg)
    ultimately show ?thesis by linarith
  next
    case 3
    with le have "fl (- y) \<le> fl (- x)" by (intro fl_mono_pos) auto
    then show ?thesis by simp
  qed
qed

lemma fl_of_int:
  assumes "\<bar>n\<bar> < 2 ^ 53"
  shows "fl (of_int n) = of_int n"
proof (cases "n = 0")
  case False
  have "2 powi ilog2 \<bar>of_int n\<bar> \<le> \<bar>of_int n :: rat\<bar>" using ilog2_bounds False by auto
  also have "\<bar>of_int n :: rat\<bar> < 2 ^ 53"
    by (metis assms of_int_abs of_int_less_iff of_int_numeral of_int_power)
  finally have "(2::rat) powi ilog2 \<bar>of_int n\<bar> < 2 powi int 53" by simp
  then have "ilog2 \<bar>of_int n :: rat\<bar> < 53" using powi_le_cancel by fastforce
  then have k: "ulp_exp (of_int n) \<le> 0" by (simp add: ulp_exp_def)
  then obtain j where j: "ulp_exp (of_int n) = - int j" by (metis nonpos_int_cases)
  have u: "(2::rat) powi - int j = inverse (2 ^ j)" by (simp add: power_int_minus)
  have "(of_int n :: rat) / 2 powi - int j = of_int (n * 2 ^ j)"
    unfolding u by (simp add: divide_inverse)
  then have "round_half_even (of_int n / 2 powi - int j) = n * 2 ^ j"
    by (metis round_half_even_of_int)
  with False show ?thesis by (simp add: fl_def j u)
qed simp

lemma fl_numeral [simp]: "fl 100 = 100" "fl 50 = 50" "fl 25 = 25" "fl 75 = 75" "fl 1 = 1"
  using fl_of_int [of 100] fl_of_int [of 50] fl_of_int [of 25] fl_of_int [of 75] fl_of_int [of 1]
  by simp_all

lemma fl_le: "x \<le> b \<Longrightarrow> fl b = b \<Longrightarrow> fl x \<le> b"
  using fl_mono [of x b] by simp

lemma fl_ge: "b \<le> x \<Longrightarrow> fl b = b \<Longrightarrow> b \<le> fl x"
  using fl_mono [of b x] by simp

section \<open>Decimal rounding and sums\<close>

lemma py_round2_near:
  assumes "\<bar>x * 100 - of_int n\<bar> < 1 / 2"
  shows "py_round2 x = fl (of_int n / 100)"
  using round_half_even_near [OF assms] by (simp add: py_round2_def)

lemma py_round2_mono: "x \<le> y \<Longrightarrow> py_round2 x \<le> py_round2 y"
proof -
  assume "x \<le> y"
  then have "round_half_even (x * 100) \<le> round_half_even (y * 100)"
    by (intro round_half_even_mono) simp
  then show ?thesis unfolding py_round2_def by (intro fl_mono) (simp add: divide_right_mono)
qed

lemma py_round2_int:
  assumes "\<bar>n\<bar> < 2 ^ 53"
  shows "py_round2 (of_int n) = of_int n"
proof -
  have "(of_int n * 100 :: rat) = of_int (n * 100)" by simp
  then have "round_half_even (of_int n * 100) = n * 100" by (metis round_half_even_of_int)
  then show ?thesis using fl_of_int [OF assms] by (simp add: py_round2_def)
qed

text \<open>
  The compensated sum of values whose magnitudes add up to less than 1024 - 1 is within
  \<open>5 n 2^-44\<close> of the exact sum, for at most eight values.
\<close>

abbreviation fdelta :: rat where "fdelta \<equiv> 1 / 2 ^ 43"

lemma fl_error_1024: "\<bar>x\<bar> < 1024 \<Longrightarrow> \<bar>fl x - x\<bar> \<le> 1 / 2 ^ 44"
  using fl_error_bound [of x 10] by simp

lemma fl_delta: "\<bar>x\<bar> < 1024 \<Longrightarrow> \<bar>fl x - x\<bar> \<le> fdelta"
  using fl_error_1024 [of x] by simp

lemma neumaier_step:
  assumes "\<bar>s\<bar> + \<bar>x\<bar> < 1000" "\<bar>c\<bar> \<le> 1"
    and c': "c' = (if \<bar>x\<bar> \<le> \<bar>s\<bar> then fadd c (fadd (fsub s (fadd s x)) x)
                   else fadd c (fadd (fsub x (fadd s x)) s))"
  shows "\<bar>fadd s x - (s + x)\<bar> \<le> fdelta \<and> \<bar>c' - c\<bar> \<le> 4 * fdelta"
proof -
  define t where "t = fadd s x"
  have d: "fdelta \<le> 1 / 1000" by simp
  have t: "\<bar>t - (s + x)\<bar> \<le> fdelta"
    unfolding t_def fadd_def using assms(1) by (intro fl_delta) linarith
  have core: "\<bar>fadd c (fadd (fsub a t) b) - c\<bar> \<le> 4 * fdelta"
    if ab: "a + b = s + x" and small: "\<bar>a\<bar> + \<bar>b\<bar> < 1000" for a b
  proof -
    have at: "\<bar>a - t\<bar> < 1024" using t ab small d by linarith
    then have 1: "\<bar>fsub a t - (a - t)\<bar> \<le> fdelta" unfolding fsub_def by (rule fl_delta)
    have r: "\<bar>fsub a t + b\<bar> \<le> 2 * fdelta" using 1 t ab by linarith
    then have "\<bar>fsub a t + b\<bar> < 1024" using d by linarith
    then have 2: "\<bar>fadd (fsub a t) b - (fsub a t + b)\<bar> \<le> fdelta"
      unfolding fadd_def by (rule fl_delta)
    have 3: "\<bar>fadd (fsub a t) b\<bar> \<le> 3 * fdelta" using r 2 by linarith
    have "\<bar>c + fadd (fsub a t) b\<bar> < 1024" using 3 d assms(2) by linarith
    then have "\<bar>fadd c (fadd (fsub a t) b) - (c + fadd (fsub a t) b)\<bar> \<le> fdelta"
      unfolding fadd_def by (rule fl_delta)
    with 3 show ?thesis by linarith
  qed
  have "\<bar>c' - c\<bar> \<le> 4 * fdelta"
    unfolding c' t_def [symmetric] using core [of s x] core [of x s] assms(1) by simp
  with t show ?thesis by (simp add: t_def)
qed

lemma fsum_loop_error:
  assumes "fsum_loop s c xs = (s', c')"
    and "\<bar>s\<bar> + sum_list (map abs xs) \<le> 991 - of_nat n" "length xs \<le> n" "n \<le> 8"
    and "\<bar>c\<bar> \<le> 4 * of_nat (8 - n) * fdelta"
  shows "\<bar>s' - (s + sum_list xs)\<bar> \<le> of_nat (length xs) * fdelta
       \<and> \<bar>c' - c\<bar> \<le> 4 * of_nat (length xs) * fdelta"
  using assms
proof (induction xs arbitrary: s c n)
  case Nil
  then show ?case by simp
next
  case (Cons x xs)
  define t where "t = fadd s x"
  define d where "d = (if \<bar>x\<bar> \<le> \<bar>s\<bar> then fadd c (fadd (fsub s t) x) else fadd c (fadd (fsub x t) s))"
  have run: "fsum_loop t d xs = (s', c')" using Cons.prems(1) by (simp only: fsum_loop.simps Let_def t_def d_def)
  obtain m where n: "n = Suc m" using Cons.prems(3) by (cases n) auto
  have pos: "0 \<le> sum_list (map abs xs)" by (rule sum_list_nonneg) auto
  have c1: "\<bar>c\<bar> \<le> 1"
  proof -
    have "(of_nat (8 - n) :: rat) \<le> 8" by simp
    then have "4 * of_nat (8 - n) * fdelta \<le> 4 * 8 * fdelta" by (intro mult_right_mono) auto
    with Cons.prems(5) show ?thesis by simp
  qed
  have "\<bar>s\<bar> + \<bar>x\<bar> < 1000" using Cons.prems(2) pos n by simp
  from neumaier_step [OF this c1 d_def [unfolded t_def]]
  have e: "\<bar>t - (s + x)\<bar> \<le> fdelta" "\<bar>d - c\<bar> \<le> 4 * fdelta" by (auto simp: t_def)
  have "\<bar>s' - (t + sum_list xs)\<bar> \<le> of_nat (length xs) * fdelta
       \<and> \<bar>c' - d\<bar> \<le> 4 * of_nat (length xs) * fdelta"
  proof (rule Cons.IH [OF run])
    have "fdelta \<le> 1" by simp
    with e(1) have tm: "\<bar>t\<bar> \<le> \<bar>s\<bar> + \<bar>x\<bar> + 1" by linarith
    show "length xs \<le> m" "m \<le> 8" using Cons.prems n by auto
    show "\<bar>t\<bar> + sum_list (map abs xs) \<le> 991 - of_nat m"
      using tm Cons.prems(2) n by simp
    have "8 - m = Suc (8 - n)" using n Cons.prems(4) by simp
    then have "4 * of_nat (8 - m) * fdelta = 4 * of_nat (8 - n) * fdelta + 4 * fdelta"
      by (simp add: algebra_simps)
    with e(2) Cons.prems(5) show "\<bar>d\<bar> \<le> 4 * of_nat (8 - m) * fdelta" by linarith
  qed
  moreover have "(of_nat (length (x # xs)) :: rat) = of_nat (length xs) + 1" by simp
  ultimately show ?case
    using e unfolding sum_list.Cons by (simp only: distrib_left distrib_right mult_1_left) linarith
qed

lemma py_fsum_error:
  assumes "sum_list (map abs xs) \<le> 980" "length xs \<le> 8"
  shows "\<bar>py_fsum xs - sum_list xs\<bar> \<le> 64 * fdelta"
proof (cases xs)
  case Nil
  then show ?thesis by (simp add: py_fsum_def)
next
  case (Cons x ys)
  obtain s c where run: "fsum_loop x 0 ys = (s, c)" by fastforce
  have len: "length ys \<le> 7" using assms(2) Cons by simp
  have "\<bar>s - (x + sum_list ys)\<bar> \<le> of_nat (length ys) * fdelta
      \<and> \<bar>c - 0\<bar> \<le> 4 * of_nat (length ys) * fdelta"
    by (rule fsum_loop_error [OF run, of 8]) (use assms Cons len in auto)
  moreover have "of_nat (length ys) * fdelta \<le> 7 * fdelta" using len by simp
  ultimately have s: "\<bar>s - sum_list xs\<bar> \<le> 7 * fdelta" and c: "\<bar>c\<bar> \<le> 28 * fdelta"
    using Cons by (simp_all only: diff_0_right sum_list.Cons mult.assoc) linarith+
  have "\<bar>sum_list xs\<bar> \<le> 980" using assms(1) sum_list_abs [of xs] by linarith
  then have "\<bar>s + c\<bar> \<le> 980 + 35 * fdelta" using s c by linarith
  then have "\<bar>s + c\<bar> < 1024" by (rule order.strict_trans1) simp
  then have "\<bar>fadd s c - (s + c)\<bar> \<le> fdelta" unfolding fadd_def by (rule fl_delta)
  with s c have "\<bar>fadd s c - sum_list xs\<bar> \<le> 64 * fdelta" "\<bar>s - sum_list xs\<bar> \<le> 64 * fdelta"
    by linarith+
  with Cons run show ?thesis by (simp add: py_fsum_def)
qed

end
