(* ===== verification/Json.thy ===== *)
theory Json
  imports PyFloat
begin

text \<open>
  The JSON-compatible values that travel through the sources as \<^verbatim>\<open>dict[str, object]\<close>: audit
  details, normalized provider payloads, graph state entries, stored responses.  An object keeps
  the insertion order of its keys.
\<close>

datatype json =
    JNull
  | JBool bool
  | JInt int
  | JFloat pyfloat
  | JStr string
  | JList "json list"
  | JObj "(string \<times> json) list"

type_synonym json_object = "(string, json) dict"

text \<open>\<^verbatim>\<open>d.get(key, default)\<close>\<close>

definition get_or :: "json_object \<Rightarrow> string \<Rightarrow> json \<Rightarrow> json" where
  "get_or d k v = (case dict_get d k of None \<Rightarrow> v | Some x \<Rightarrow> x)"

text \<open>\<^verbatim>\<open>isinstance(v, (int, float))\<close>: a \<^verbatim>\<open>bool\<close> is an \<^verbatim>\<open>int\<close> in Python.\<close>

fun is_number :: "json \<Rightarrow> bool" where
  "is_number (JBool b) = True"
| "is_number (JInt n) = True"
| "is_number (JFloat x) = True"
| "is_number _ = False"

text \<open>\<^verbatim>\<open>float(v)\<close> on such a value.\<close>

fun float_of_number :: "json \<Rightarrow> pyfloat result" where
  "float_of_number (JBool b) = Inr (if b then 1 else 0)"
| "float_of_number (JInt n) = float_of_int n"
| "float_of_number (JFloat x) = Inr x"
| "float_of_number _ = Inl (TypeError ''float() argument'')"

text \<open>\<^verbatim>\<open>bool(v)\<close>\<close>

fun json_truthy :: "json \<Rightarrow> bool" where
  "json_truthy JNull = False"
| "json_truthy (JBool b) = b"
| "json_truthy (JInt n) = (n \<noteq> 0)"
| "json_truthy (JFloat x) = (x \<noteq> 0)"
| "json_truthy (JStr s) = (s \<noteq> [])"
| "json_truthy (JList xs) = (xs \<noteq> [])"
| "json_truthy (JObj d) = (d \<noteq> [])"

definition json_opt_str :: "string option \<Rightarrow> json" where
  "json_opt_str s = (case s of None \<Rightarrow> JNull | Some t \<Rightarrow> JStr t)"

definition json_opt_int :: "int option \<Rightarrow> json" where
  "json_opt_int s = (case s of None \<Rightarrow> JNull | Some n \<Rightarrow> JInt n)"

lemma get_or_set [dict_simps]:
  "get_or (dict_set k v d) k' w = (if k' = k then v else get_or d k' w)"
  by (simp add: get_or_def dict_get_set)

end
