(* ===== verification/Models.thy ===== *)
theory Models
  imports Json
begin

text \<open>
  \<^verbatim>\<open>domain/models.py\<close>: the validated contracts shared by the API, the graph and the provider
  adapters.  Each enum is a datatype with the source's members, each model a record with the
  source's fields in order (prefixed with an abbreviation of the model, since Isabelle's field
  names are global); a model class deriving from another is a record extension.  The declared
  field constraints and \<^verbatim>\<open>model_validator\<close>s of a model are a predicate \<open>valid_<model>\<close>: the
  constructor raises exactly when it is false.
\<close>

section \<open>Enums\<close>

datatype severity = LOW | WATCH | HIGH | CRITICAL

fun severity_value :: "severity \<Rightarrow> string" where
  "severity_value LOW = ''low''"
| "severity_value WATCH = ''watch''"
| "severity_value HIGH = ''high''"
| "severity_value CRITICAL = ''critical''"

datatype freshness_status = FRESH | CACHED | STALE | UNAVAILABLE

fun freshness_value :: "freshness_status \<Rightarrow> string" where
  "freshness_value FRESH = ''fresh''"
| "freshness_value CACHED = ''cached''"
| "freshness_value STALE = ''stale''"
| "freshness_value UNAVAILABLE = ''unavailable''"

datatype trip_criticality = STANDARD | IMPORTANT | BUSINESS_CRITICAL

datatype trip_status = TRIP_ACTIVE | TRIP_CANCELLED

datatype assessment_disposition = MONITOR | MANAGER_QUEUE | INVESTIGATE | NEEDS_HUMAN_REVIEW

fun disposition_value :: "assessment_disposition \<Rightarrow> string" where
  "disposition_value MONITOR = ''monitor''"
| "disposition_value MANAGER_QUEUE = ''manager_queue''"
| "disposition_value INVESTIGATE = ''investigate''"
| "disposition_value NEEDS_HUMAN_REVIEW = ''needs_human_review''"

datatype incident_status = INC_OPEN | PENDING_APPROVAL | APPROVED | REJECTED | RESOLVED

datatype approval_decision = APPROVE | REJECT

fun decision_value :: "approval_decision \<Rightarrow> string" where
  "decision_value APPROVE = ''approve''"
| "decision_value REJECT = ''reject''"

datatype memory_proposal_status = PENDING_CONFIRMATION | PROPOSAL_CONFIRMED | PROPOSAL_REJECTED

datatype manager_feedback_type = MANAGER_OVERRIDE | RECOVERY_OUTCOME

datatype notification_status =
    NQUEUED | NDELIVERED | NRETRY_SCHEDULED | NFAILED | NACKNOWLEDGED | NCANCELLED

fun notification_status_value :: "notification_status \<Rightarrow> string" where
  "notification_status_value NQUEUED = ''queued''"
| "notification_status_value NDELIVERED = ''delivered''"
| "notification_status_value NRETRY_SCHEDULED = ''retry_scheduled''"
| "notification_status_value NFAILED = ''failed''"
| "notification_status_value NACKNOWLEDGED = ''acknowledged''"
| "notification_status_value NCANCELLED = ''cancelled''"

datatype action_dispatch_status =
    AQUEUED | ADISPATCHED | ARETRY_SCHEDULED | AFAILED | ASUPPRESSED

fun action_status_value :: "action_dispatch_status \<Rightarrow> string" where
  "action_status_value AQUEUED = ''queued''"
| "action_status_value ADISPATCHED = ''dispatched''"
| "action_status_value ARETRY_SCHEDULED = ''retry_scheduled''"
| "action_status_value AFAILED = ''failed''"
| "action_status_value ASUPPRESSED = ''suppressed''"

datatype change_record_type = CHANGE_MODEL | CHANGE_PROMPT | CHANGE_POLICY

datatype provider_onboarding_status =
    PO_DRAFT | PO_SECURITY_REVIEW | PO_APPROVED | PO_REJECTED | PO_DISABLED

datatype deletion_request_status = DEL_PENDING | BLOCKED_BY_LEGAL_HOLD | DEL_COMPLETED | DEL_FAILED

fun deletion_status_value :: "deletion_request_status \<Rightarrow> string" where
  "deletion_status_value DEL_PENDING = ''pending''"
| "deletion_status_value BLOCKED_BY_LEGAL_HOLD = ''blocked_by_legal_hold''"
| "deletion_status_value DEL_COMPLETED = ''completed''"
| "deletion_status_value DEL_FAILED = ''failed''"

datatype deletion_request_scope = PREFERENCE_MEMORY | TRAVELER_DATA

datatype legal_hold_scope = HOLD_TENANT | HOLD_TRAVELER | HOLD_TRIP

datatype idempotency_state = IN_PROGRESS | COMPLETED

datatype user_role = TRAVELER | TRAVEL_MANAGER | DUTY_OF_CARE | TENANT_ADMIN | PLATFORM_ADMIN

datatype runtime_control_name =
    LLM_ENABLED | REACT_TOOL_CALLS_ENABLED | NOTIFICATIONS_ENABLED | APPROVAL_ACTIONS_ENABLED
  | MEMORY_READS_ENABLED | MEMORY_WRITES_ENABLED | PROVIDER_AMADEUS_ENABLED
  | PROVIDER_FAA_ENABLED | PROVIDER_NWS_ENABLED | PROVIDER_AVIATION_WEATHER_ENABLED
  | PROVIDER_GOOGLE_ROUTES_ENABLED | PROVIDER_DESTINATION_ADVISORY_ENABLED
  | TENANT_AUTOMATION_ENABLED

fun control_name_value :: "runtime_control_name \<Rightarrow> string" where
  "control_name_value LLM_ENABLED = ''LLM_ENABLED''"
| "control_name_value REACT_TOOL_CALLS_ENABLED = ''REACT_TOOL_CALLS_ENABLED''"
| "control_name_value NOTIFICATIONS_ENABLED = ''NOTIFICATIONS_ENABLED''"
| "control_name_value APPROVAL_ACTIONS_ENABLED = ''APPROVAL_ACTIONS_ENABLED''"
| "control_name_value MEMORY_READS_ENABLED = ''MEMORY_READS_ENABLED''"
| "control_name_value MEMORY_WRITES_ENABLED = ''MEMORY_WRITES_ENABLED''"
| "control_name_value PROVIDER_AMADEUS_ENABLED = ''PROVIDER_AMADEUS_ENABLED''"
| "control_name_value PROVIDER_FAA_ENABLED = ''PROVIDER_FAA_ENABLED''"
| "control_name_value PROVIDER_NWS_ENABLED = ''PROVIDER_NWS_ENABLED''"
| "control_name_value PROVIDER_AVIATION_WEATHER_ENABLED = ''PROVIDER_AVIATION_WEATHER_ENABLED''"
| "control_name_value PROVIDER_GOOGLE_ROUTES_ENABLED = ''PROVIDER_GOOGLE_ROUTES_ENABLED''"
| "control_name_value PROVIDER_DESTINATION_ADVISORY_ENABLED =
     ''PROVIDER_DESTINATION_ADVISORY_ENABLED''"
| "control_name_value TENANT_AUTOMATION_ENABLED = ''TENANT_AUTOMATION_ENABLED''"

datatype original_upload_status = QUARANTINED | UPLOAD_VALIDATED | UPLOAD_REJECTED

section \<open>Field constraints\<close>

text \<open>\<^verbatim>\<open>Field(min_length=lo, max_length=hi)\<close> and anchored character-class patterns.\<close>

definition len_between :: "nat \<Rightarrow> nat \<Rightarrow> string \<Rightarrow> bool" where
  "len_between lo hi s \<longleftrightarrow> lo \<le> length s \<and> length s \<le> hi"

definition opt_len_le :: "nat \<Rightarrow> string option \<Rightarrow> bool" where
  "opt_len_le hi s \<longleftrightarrow> (case s of None \<Rightarrow> True | Some t \<Rightarrow> length t \<le> hi)"

definition char_between :: "char \<Rightarrow> char \<Rightarrow> char \<Rightarrow> bool" where
  "char_between a b c \<longleftrightarrow> a \<le> c \<and> c \<le> b"

definition pattern_class :: "(char \<Rightarrow> bool) \<Rightarrow> nat \<Rightarrow> nat \<Rightarrow> string \<Rightarrow> bool" where
  "pattern_class p lo hi s \<longleftrightarrow> len_between lo hi s \<and> list_all p s"

abbreviation upper_az :: "char \<Rightarrow> bool" where
  "upper_az \<equiv> char_between (CHR ''A'') (CHR ''Z'')"

abbreviation digit09 :: "char \<Rightarrow> bool" where
  "digit09 \<equiv> char_between (CHR ''0'') (CHR ''9'')"

text \<open>\<^verbatim>\<open>^[a-f0-9]{64}$\<close>\<close>

definition is_sha256_hex :: "string \<Rightarrow> bool" where
  "is_sha256_hex = pattern_class (\<lambda>c. digit09 c \<or> char_between (CHR ''a'') (CHR ''f'') c) 64 64"

text \<open>
  \<^verbatim>\<open>str_strip_whitespace=True\<close> trims the characters with the Unicode White_Space property.
\<close>

definition is_white_space :: "char \<Rightarrow> bool" where
  "is_white_space c = (let n = of_char c :: nat in (9 \<le> n \<and> n \<le> 13) \<or> n = 32 \<or> n = 133 \<or> n = 160)"

definition strip_whitespace :: "string \<Rightarrow> string" where
  "strip_whitespace s = rev (dropWhile is_white_space (rev (dropWhile is_white_space s)))"

section \<open>Trips\<close>

text \<open>A \<^verbatim>\<open>datetime\<close> as received: an instant (for a naive value its wall clock) and \<^verbatim>\<open>tzinfo\<close>.\<close>

record pydatetime =
  dt_instant :: datetime
  dt_utcoffset :: "timedelta option"

record flight_segment =
  seg_segment_id :: string
  seg_carrier_code :: string
  seg_flight_number :: string
  seg_departure_airport :: string
  seg_arrival_airport :: string
  seg_scheduled_departure_at :: pydatetime
  seg_scheduled_arrival_at :: pydatetime

definition validate_schedule :: "flight_segment \<Rightarrow> bool" where
  "validate_schedule s \<longleftrightarrow>
     dt_utcoffset (seg_scheduled_departure_at s) \<noteq> None \<and>
     dt_utcoffset (seg_scheduled_arrival_at s) \<noteq> None \<and>
     dt_instant (seg_scheduled_departure_at s) < dt_instant (seg_scheduled_arrival_at s)"

definition valid_flight_segment :: "flight_segment \<Rightarrow> bool" where
  "valid_flight_segment s \<longleftrightarrow>
     len_between 1 64 (seg_segment_id s) \<and>
     pattern_class (\<lambda>c. upper_az c \<or> digit09 c) 2 3 (seg_carrier_code s) \<and>
     pattern_class digit09 1 4 (seg_flight_number s) \<and>
     pattern_class upper_az 3 3 (seg_departure_airport s) \<and>
     pattern_class upper_az 3 3 (seg_arrival_airport s) \<and>
     validate_schedule s"

definition strip_flight_segment :: "flight_segment \<Rightarrow> flight_segment" where
  "strip_flight_segment s = s\<lparr>
     seg_segment_id := strip_whitespace (seg_segment_id s),
     seg_carrier_code := strip_whitespace (seg_carrier_code s),
     seg_flight_number := strip_whitespace (seg_flight_number s),
     seg_departure_airport := strip_whitespace (seg_departure_airport s),
     seg_arrival_airport := strip_whitespace (seg_arrival_airport s)\<rparr>"

record trip_create =
  trip_tenant_id :: string
  trip_traveler_id :: string
  trip_assigned_manager_id :: "string option"
  trip_trip_criticality :: trip_criticality
  trip_ground_origin :: string
  trip_destination_country :: string
  trip_segments :: "flight_segment list"

fun validate_segment_order :: "flight_segment list \<Rightarrow> bool" where
  "validate_segment_order (p # c # rest) =
     (seg_arrival_airport p = seg_departure_airport c \<and>
      \<not> dt_instant (seg_scheduled_departure_at c) < dt_instant (seg_scheduled_arrival_at p) \<and>
      validate_segment_order (c # rest))"
| "validate_segment_order _ = True"

definition valid_trip_create :: "('a trip_create_scheme) \<Rightarrow> bool" where
  "valid_trip_create t \<longleftrightarrow>
     len_between 1 128 (trip_tenant_id t) \<and>
     len_between 1 128 (trip_traveler_id t) \<and>
     opt_len_le 128 (trip_assigned_manager_id t) \<and>
     len_between 1 256 (trip_ground_origin t) \<and>
     pattern_class upper_az 2 2 (trip_destination_country t) \<and>
     1 \<le> length (trip_segments t) \<and> length (trip_segments t) \<le> 3 \<and>
     list_all valid_flight_segment (trip_segments t) \<and>
     validate_segment_order (trip_segments t)"

record trip = trip_create +
  trip_trip_id :: uuid
  trip_status :: trip_status
  trip_created_at :: datetime

record traveler_incident_view =
  tiv_incident_id :: uuid
  tiv_trip_id :: uuid
  tiv_severity :: severity
  tiv_status :: incident_status
  tiv_created_at :: datetime
  tiv_updated_at :: datetime
  tiv_approved_guidance :: "string option"

record original_upload_record =
  up_original_upload_id :: uuid
  up_tenant_id :: string
  up_source :: string
  up_object_key :: string
  up_content_sha256 :: string
  up_content_size_bytes :: int
  up_content_type :: string
  up_status :: original_upload_status
  up_validation_errors :: "string list"
  up_created_at :: datetime
  up_validated_at :: "datetime option"

definition valid_original_upload_record :: "original_upload_record \<Rightarrow> bool" where
  "valid_original_upload_record u \<longleftrightarrow>
     len_between 1 128 (up_tenant_id u) \<and>
     up_source u \<in> {''csv'', ''booking_webhook''} \<and>
     len_between 1 512 (up_object_key u) \<and>
     is_sha256_hex (up_content_sha256 u) \<and>
     1 \<le> up_content_size_bytes u \<and> up_content_size_bytes u \<le> 10000000 \<and>
     len_between 1 128 (up_content_type u) \<and>
     length (up_validation_errors u) \<le> 20"

section \<open>Evidence and assessments\<close>

record evidence_envelope =
  ev_evidence_id :: uuid
  ev_source_name :: string
  ev_source_type :: string
  ev_source_url_or_record_id :: string
  ev_retrieved_at :: datetime
  ev_observed_at :: "datetime option"
  ev_expires_at :: datetime
  ev_freshness_status :: freshness_status
  ev_normalized_payload :: json_object
  ev_raw_payload_reference :: "string option"
  ev_provider_latency_ms :: "int option"
  ev_provider_request_id :: "string option"
  ev_error_code :: "string option"

record risk_factors =
  flight_disruption :: pyfloat
  connection_fragility :: pyfloat
  airport_weather :: pyfloat
  ground_route_disruption :: pyfloat
  destination_advisory :: pyfloat
  traveler_trip_criticality :: pyfloat

definition percent :: "pyfloat \<Rightarrow> bool" where
  "percent x \<longleftrightarrow> 0 \<le> x \<and> x \<le> 100"

definition valid_risk_factors :: "risk_factors \<Rightarrow> bool" where
  "valid_risk_factors f \<longleftrightarrow>
     percent (flight_disruption f) \<and> percent (connection_fragility f) \<and>
     percent (airport_weather f) \<and> percent (ground_route_disruption f) \<and>
     percent (destination_advisory f) \<and> percent (traveler_trip_criticality f)"

record risk_assessment =
  ra_assessment_id :: uuid
  ra_trip_id :: uuid
  ra_policy_version :: string
  ra_risk_score :: pyfloat
  ra_severity :: severity
  ra_factor_contributions :: "(string, pyfloat) dict"
  ra_assessment_time :: datetime
  ra_evidence_ids :: "uuid list"
  ra_unknown_factors :: "string list"
  ra_uncertainty :: string

definition valid_risk_assessment :: "risk_assessment \<Rightarrow> bool" where
  "valid_risk_assessment a \<longleftrightarrow> percent (ra_risk_score a)"

record source_health =
  sh_core_sources_unavailable :: "string list"
  sh_limited_visibility :: bool

record assessment_result =
  ar_assessment :: risk_assessment
  ar_evidence :: "evidence_envelope list"
  ar_source_health :: source_health
  ar_disposition :: assessment_disposition
  ar_incident_id :: "uuid option"

section \<open>Incidents and approvals\<close>

record tool_audit_event =
  ta_tool_name :: string
  ta_arguments :: json_object
  ta_evidence_ids :: "uuid list"
  ta_occurred_at :: datetime
  ta_outcome :: string

record model_invocation_audit =
  ma_provider :: string
  ma_model :: string
  ma_prompt_version :: string
  ma_invocation_type :: string
  ma_outcome :: string
  ma_input_summary :: json_object
  ma_token_usage :: "(string, int) dict option"
  ma_estimated_cost_usd :: "pyfloat option"
  ma_occurred_at :: datetime

record recommendation =
  rec_recommendation_id :: uuid
  rec_incident_id :: uuid
  rec_severity_explanation :: string
  rec_evidence_ids :: "uuid list"
  rec_uncertainty :: string
  rec_recommended_action :: string
  rec_ranked_alternative_ids :: "string list"
  rec_traveler_message :: string
  rec_manager_message :: string
  rec_requires_human_approval :: bool
  rec_missing_information :: "string list"
  rec_generated_at :: datetime

definition valid_recommendation :: "recommendation \<Rightarrow> bool" where
  "valid_recommendation r \<longleftrightarrow>
     len_between 1 1000 (rec_severity_explanation r) \<and> rec_evidence_ids r \<noteq> [] \<and>
     len_between 1 1000 (rec_recommended_action r) \<and>
     len_between 1 1000 (rec_traveler_message r) \<and> len_between 1 2000 (rec_manager_message r)"

record incident =
  inc_incident_id :: uuid
  inc_tenant_id :: string
  inc_trip_id :: uuid
  inc_assessment_id :: uuid
  inc_severity :: severity
  inc_status :: incident_status
  inc_correlation_id :: uuid
  inc_created_at :: datetime
  inc_updated_at :: datetime
  inc_tool_audit :: "tool_audit_event list"
  inc_model_audit :: "model_invocation_audit list"
  inc_recommendation :: "recommendation option"
  inc_graph_thread_id :: "string option"
  inc_approval_payload :: "json_object option"

record approval_request =
  apr_decision :: approval_decision
  apr_actor_id :: string
  apr_reason :: string
  apr_final_action_payload :: json_object

definition valid_approval_request :: "'a approval_request_scheme \<Rightarrow> bool" where
  "valid_approval_request a \<longleftrightarrow> len_between 1 128 (apr_actor_id a) \<and> len_between 1 1000 (apr_reason a)"

record approval_record = approval_request +
  apr_approval_id :: uuid
  apr_incident_id :: uuid
  apr_decided_at :: datetime
  apr_action_dispatch_status :: string

definition valid_approval_record :: "approval_record \<Rightarrow> bool" where
  "valid_approval_record a \<longleftrightarrow> valid_approval_request a \<and>
     apr_action_dispatch_status a \<in>
       {''not_requested'', ''suppressed'', ''pending'', ''dispatched'', ''failed''}"

record event_record =
  evt_event_id :: uuid
  evt_event_type :: string
  evt_tenant_id :: string
  evt_trip_id :: "uuid option"
  evt_correlation_id :: uuid
  evt_idempotency_key :: string
  evt_emitted_at :: datetime
  evt_actor_id :: "string option"
  evt_details :: json_object

record idempotency_record =
  idem_tenant_id :: string
  idem_idempotency_key :: string
  idem_scope :: string
  idem_request_hash :: string
  idem_state :: idempotency_state
  idem_response_status_code :: "int option"
  idem_response_payload :: "json_object option"
  idem_created_at :: datetime
  idem_expires_at :: datetime
  idem_completed_at :: "datetime option"

definition valid_idempotency_record :: "idempotency_record \<Rightarrow> bool" where
  "valid_idempotency_record r \<longleftrightarrow>
     len_between 1 128 (idem_tenant_id r) \<and> len_between 1 256 (idem_idempotency_key r) \<and>
     len_between 1 256 (idem_scope r) \<and> is_sha256_hex (idem_request_hash r) \<and>
     (case idem_response_status_code r of None \<Rightarrow> True | Some n \<Rightarrow> 100 \<le> n \<and> n \<le> 599)"

section \<open>Traveler memory\<close>

record traveler_preference_profile =
  prof_tenant_id :: string
  prof_traveler_id :: string
  prof_preferred_airports :: "string list"
  prof_preferred_carriers :: "string list"
  prof_cabin_or_seat_preference :: "string option"
  prof_minimum_connection_minutes :: "int option"
  prof_avoid_overnight_connections :: "bool option"
  prof_approved_ground_transport_preferences :: "string list"
  prof_notification_channel :: "string option"
  prof_language :: string
  prof_approved_accessibility_accommodations :: "string list"
  prof_consent_version :: string
  prof_version :: int
  prof_updated_at :: datetime

definition valid_minimum_connection :: "int option \<Rightarrow> bool" where
  "valid_minimum_connection m \<longleftrightarrow> (case m of None \<Rightarrow> True | Some n \<Rightarrow> 0 \<le> n \<and> n \<le> 480)"

definition valid_traveler_preference_profile :: "traveler_preference_profile \<Rightarrow> bool" where
  "valid_traveler_preference_profile p \<longleftrightarrow>
     valid_minimum_connection (prof_minimum_connection_minutes p) \<and>
     len_between 1 64 (prof_consent_version p) \<and> 1 \<le> prof_version p"

record traveler_preference_update =
  upd_preferred_airports :: "string list option"
  upd_preferred_carriers :: "string list option"
  upd_cabin_or_seat_preference :: "string option"
  upd_minimum_connection_minutes :: "int option"
  upd_avoid_overnight_connections :: "bool option"
  upd_approved_ground_transport_preferences :: "string list option"
  upd_notification_channel :: "string option"
  upd_language :: "string option"
  upd_approved_accessibility_accommodations :: "string list option"
  upd_consent_version :: string

definition includes_a_preference_change :: "traveler_preference_update \<Rightarrow> bool" where
  "includes_a_preference_change u \<longleftrightarrow>
     upd_preferred_airports u \<noteq> None \<or> upd_preferred_carriers u \<noteq> None \<or>
     upd_cabin_or_seat_preference u \<noteq> None \<or> upd_minimum_connection_minutes u \<noteq> None \<or>
     upd_avoid_overnight_connections u \<noteq> None \<or>
     upd_approved_ground_transport_preferences u \<noteq> None \<or>
     upd_notification_channel u \<noteq> None \<or> upd_language u \<noteq> None \<or>
     upd_approved_accessibility_accommodations u \<noteq> None"

definition valid_traveler_preference_update :: "traveler_preference_update \<Rightarrow> bool" where
  "valid_traveler_preference_update u \<longleftrightarrow>
     valid_minimum_connection (upd_minimum_connection_minutes u) \<and>
     len_between 1 64 (upd_consent_version u) \<and> includes_a_preference_change u"

record memory_update_proposal =
  mp_proposal_id :: uuid
  mp_tenant_id :: string
  mp_traveler_id :: string
  mp_memory_type :: string
  mp_record_id :: string
  mp_before_value :: json_object
  mp_patch :: json_object
  mp_source_message_id :: string
  mp_confidence :: pyfloat
  mp_consent_required :: bool
  mp_status :: memory_proposal_status
  mp_actor_id :: string
  mp_created_at :: datetime
  mp_resolved_at :: "datetime option"

definition valid_memory_update_proposal :: "memory_update_proposal \<Rightarrow> bool" where
  "valid_memory_update_proposal m \<longleftrightarrow>
     mp_patch m \<noteq> [] \<and> len_between 1 128 (mp_source_message_id m) \<and>
     0 \<le> mp_confidence m \<and> mp_confidence m \<le> 1 \<and> len_between 1 128 (mp_actor_id m)"

section \<open>Outbox records\<close>

record notification_record =
  nt_notification_id :: uuid
  nt_tenant_id :: string
  nt_incident_id :: "uuid option"
  nt_traveler_id :: string
  nt_channel :: string
  nt_recipient_reference :: string
  nt_subject :: string
  nt_body :: string
  nt_status :: notification_status
  nt_attempt_count :: int
  nt_next_attempt_at :: datetime
  nt_delivered_at :: "datetime option"
  nt_acknowledged_at :: "datetime option"
  nt_acknowledgement_actor_id :: "string option"
  nt_last_error_code :: "string option"
  nt_dispatch_claim_id :: "uuid option"
  nt_dispatch_claimed_by :: "string option"
  nt_dispatch_claimed_at :: "datetime option"
  nt_dispatch_claim_expires_at :: "datetime option"
  nt_created_at :: datetime
  nt_updated_at :: datetime

record notification_create =
  nc_incident_id :: "uuid option"
  nc_traveler_id :: string
  nc_channel :: string
  nc_recipient_reference :: string
  nc_subject :: string
  nc_body :: string

definition valid_notification_create :: "notification_create \<Rightarrow> bool" where
  "valid_notification_create n \<longleftrightarrow>
     len_between 1 128 (nc_traveler_id n) \<and>
     nc_channel n \<in> {''email'', ''sms'', ''push'', ''in_app''} \<and>
     len_between 1 256 (nc_recipient_reference n) \<and>
     len_between 1 200 (nc_subject n) \<and> len_between 1 4000 (nc_body n)"

record notification_attempt =
  na_attempt_id :: uuid
  na_notification_id :: uuid
  na_attempt_number :: int
  na_attempted_at :: datetime
  na_outcome :: string
  na_provider_message_reference :: "string option"
  na_error_code :: "string option"

definition valid_notification_attempt :: "notification_attempt \<Rightarrow> bool" where
  "valid_notification_attempt a \<longleftrightarrow>
     1 \<le> na_attempt_number a \<and> na_attempt_number a \<le> 10 \<and>
     na_outcome a \<in> {''delivered'', ''retry_scheduled'', ''failed''} \<and>
     opt_len_le 256 (na_provider_message_reference a) \<and> opt_len_le 128 (na_error_code a)"

record action_dispatch_record =
  ad_action_dispatch_id :: uuid
  ad_tenant_id :: string
  ad_incident_id :: uuid
  ad_approval_id :: uuid
  ad_action_payload :: json_object
  ad_idempotency_key :: string
  ad_status :: action_dispatch_status
  ad_attempt_count :: int
  ad_next_attempt_at :: datetime
  ad_last_error_code :: "string option"
  ad_dispatch_claim_id :: "uuid option"
  ad_dispatch_claimed_by :: "string option"
  ad_dispatch_claimed_at :: "datetime option"
  ad_dispatch_claim_expires_at :: "datetime option"
  ad_dispatched_at :: "datetime option"
  ad_created_at :: datetime
  ad_updated_at :: datetime

record action_dispatch_attempt =
  aa_attempt_id :: uuid
  aa_action_dispatch_id :: uuid
  aa_attempt_number :: int
  aa_attempted_at :: datetime
  aa_outcome :: string
  aa_external_reference :: "string option"
  aa_error_code :: "string option"

definition valid_action_dispatch_attempt :: "action_dispatch_attempt \<Rightarrow> bool" where
  "valid_action_dispatch_attempt a \<longleftrightarrow>
     1 \<le> aa_attempt_number a \<and> aa_attempt_number a \<le> 10 \<and>
     aa_outcome a \<in> {''dispatched'', ''retry_scheduled'', ''failed'', ''suppressed''} \<and>
     opt_len_le 256 (aa_external_reference a) \<and> opt_len_le 128 (aa_error_code a)"

section \<open>Audit, feedback and governance records\<close>

record memory_audit_event =
  mau_audit_id :: uuid
  mau_tenant_id :: string
  mau_traveler_id :: string
  mau_action :: string
  mau_proposal_id :: "uuid option"
  mau_actor_id :: "string option"
  mau_details :: json_object
  mau_occurred_at :: datetime

record manager_feedback =
  mf_feedback_id :: uuid
  mf_tenant_id :: string
  mf_incident_id :: uuid
  mf_candidate_set_id :: uuid
  mf_candidate_id :: string
  mf_feedback_type :: manager_feedback_type
  mf_outcome_id :: "uuid option"
  mf_actor_id :: "string option"
  mf_reason :: "string option"
  mf_details :: json_object
  mf_created_at :: datetime

definition validate_feedback :: "manager_feedback \<Rightarrow> bool" where
  "validate_feedback f \<longleftrightarrow>
     \<not> (mf_feedback_type f = MANAGER_OVERRIDE \<and> falsy (mf_reason f)) \<and>
     \<not> (mf_feedback_type f = RECOVERY_OUTCOME \<and> mf_outcome_id f = None)"

record tenant_playbook_create =
  pb_name :: string
  pb_version :: string
  pb_guidance :: string

record tenant_playbook = tenant_playbook_create +
  pb_playbook_id :: uuid
  pb_tenant_id :: string
  pb_approved_by :: string
  pb_approved_at :: datetime

record change_record =
  cr_change_id :: uuid
  cr_tenant_id :: string
  cr_change_type :: change_record_type
  cr_name :: string
  cr_version :: string
  cr_summary :: string
  cr_risk_assessment :: string
  cr_rollback_plan :: string
  cr_evidence_reference :: "string option"
  cr_requested_by :: string
  cr_approved_by :: "string option"
  cr_approved_at :: "datetime option"
  cr_created_at :: datetime

record runtime_control_update =
  rc_enabled :: bool
  rc_reason :: string
  rc_review_at :: "datetime option"
  rc_expires_at :: "datetime option"

record runtime_control_change = runtime_control_update +
  rc_control_change_id :: uuid
  rc_tenant_id :: string
  rc_scope :: string
  rc_control_name :: runtime_control_name
  rc_previous_enabled :: bool
  rc_actor_id :: string
  rc_changed_at :: datetime

record platform_runtime_control_change = runtime_control_update +
  prc_control_change_id :: uuid
  prc_scope :: string
  prc_control_name :: runtime_control_name
  prc_previous_enabled :: bool
  prc_actor_id :: string
  prc_changed_at :: datetime

record provider_onboarding_record =
  po_provider_onboarding_id :: uuid
  po_tenant_id :: string
  po_provider_name :: string
  po_purpose :: string
  po_data_classification :: string
  po_contract_reference :: "string option"
  po_quota_reference :: "string option"
  po_owner_id :: string
  po_status :: provider_onboarding_status
  po_approved_by :: "string option"
  po_approved_at :: "datetime option"
  po_created_at :: datetime

section \<open>Privacy records\<close>

record legal_hold_record =
  lh_legal_hold_id :: uuid
  lh_tenant_id :: string
  lh_scope :: legal_hold_scope
  lh_reason :: string
  lh_created_by :: string
  lh_traveler_id :: "string option"
  lh_trip_id :: "uuid option"
  lh_expires_at :: "datetime option"
  lh_released_at :: "datetime option"
  lh_released_by :: "string option"
  lh_release_reason :: "string option"
  lh_created_at :: datetime

definition validate_scope :: "legal_hold_record \<Rightarrow> bool" where
  "validate_scope h \<longleftrightarrow>
     \<not> (lh_scope h = HOLD_TENANT \<and> (truthy (lh_traveler_id h) \<or> lh_trip_id h \<noteq> None)) \<and>
     \<not> (lh_scope h = HOLD_TRAVELER \<and> falsy (lh_traveler_id h)) \<and>
     \<not> (lh_scope h = HOLD_TRAVELER \<and> lh_trip_id h \<noteq> None) \<and>
     \<not> (lh_scope h = HOLD_TRIP \<and> lh_trip_id h = None) \<and>
     \<not> (lh_scope h = HOLD_TRIP \<and> truthy (lh_traveler_id h)) \<and>
     \<not> (lh_released_at h \<noteq> None \<and> falsy (lh_released_by h))"

definition is_active :: "legal_hold_record \<Rightarrow> datetime \<Rightarrow> bool" where
  "is_active h now \<longleftrightarrow> lh_released_at h = None \<and>
     (case lh_expires_at h of None \<Rightarrow> True | Some e \<Rightarrow> now < e)"

record deletion_request =
  dr_deletion_request_id :: uuid
  dr_tenant_id :: string
  dr_traveler_id :: string
  dr_scope :: deletion_request_scope
  dr_requested_by :: string
  dr_reason :: string
  dr_status :: deletion_request_status
  dr_submitted_at :: datetime
  dr_completed_at :: "datetime option"
  dr_blocked_by_hold_ids :: "uuid list"
  dr_failure_code :: "string option"

section \<open>Lemmas\<close>

lemma control_name_value_inj: "control_name_value a = control_name_value b \<Longrightarrow> a = b"
  by (cases a; cases b) auto

lemma validate_segment_order_chained:
  "validate_segment_order segs \<Longrightarrow> Suc i < length segs \<Longrightarrow>
     seg_arrival_airport (segs ! i) = seg_departure_airport (segs ! Suc i) \<and>
     dt_instant (seg_scheduled_arrival_at (segs ! i))
       \<le> dt_instant (seg_scheduled_departure_at (segs ! Suc i))"
proof (induction segs arbitrary: i rule: validate_segment_order.induct)
  case (1 p c rest)
  then show ?case by (cases i) auto
qed auto

text \<open>
  A valid itinerary is a forward path in time: every segment departs no earlier than the one
  before it arrived, so departures strictly increase along the itinerary.
\<close>

lemma valid_trip_departures_increase:
  assumes v: "valid_trip_create t"
  shows "i < j \<Longrightarrow> j < length (trip_segments t) \<Longrightarrow>
    dt_instant (seg_scheduled_departure_at (trip_segments t ! i))
      < dt_instant (seg_scheduled_departure_at (trip_segments t ! j))"
proof (induction j)
  case (Suc j)
  let ?s = "trip_segments t"
  have seg: "validate_schedule (?s ! j)"
    using v Suc.prems by (auto simp: valid_trip_create_def valid_flight_segment_def list_all_length)
  have "dt_instant (seg_scheduled_arrival_at (?s ! j))
      \<le> dt_instant (seg_scheduled_departure_at (?s ! Suc j))"
    using validate_segment_order_chained [of ?s j] v Suc.prems by (auto simp: valid_trip_create_def)
  with seg have step: "dt_instant (seg_scheduled_departure_at (?s ! j))
      < dt_instant (seg_scheduled_departure_at (?s ! Suc j))"
    by (auto simp: validate_schedule_def)
  show ?case
  proof (cases "i = j")
    case False
    then show ?thesis using Suc step by auto
  qed (use step in simp)
qed simp

end
