(* ===== verification/Host.thy ===== *)
theory Host
  imports Models
begin

text \<open>
  The two sources of values the program does not compute: \<^verbatim>\<open>uuid4()\<close> and \<^verbatim>\<open>datetime.now(UTC)\<close>.
  A host gives the value of the n-th draw and of the n-th clock reading; a run counts how many of
  each have been made, so every call in the code is a separate draw or reading in the model, in
  the code's order.  Nothing is assumed of them here; a theorem that needs distinct identifiers
  or a clock that does not go back says so.
\<close>

record host =
  host_uuid4 :: "nat \<Rightarrow> uuid"
  host_now :: "nat \<Rightarrow> datetime"

record run =
  run_draws :: nat
  run_reads :: nat

definition uuid4 :: "'h host_scheme \<Rightarrow> ('s run_scheme, uuid) prog" where
  "uuid4 h = (\<lambda>s. (Inr (host_uuid4 h (run_draws s)), s\<lparr>run_draws := Suc (run_draws s)\<rparr>))"

definition now_utc :: "'h host_scheme \<Rightarrow> ('s run_scheme, datetime) prog" where
  "now_utc h = (\<lambda>s. (Inr (host_now h (run_reads s)), s\<lparr>run_reads := Suc (run_reads s)\<rparr>))"

text \<open>\<^verbatim>\<open>now or datetime.now(UTC)\<close>: the clock is read only when no instant is given.\<close>

definition now_or :: "'h host_scheme \<Rightarrow> datetime option \<Rightarrow> ('s run_scheme, datetime) prog" where
  "now_or h t = (case t of None \<Rightarrow> now_utc h | Some n \<Rightarrow> ret n)"

definition monotone_clock :: "'h host_scheme \<Rightarrow> bool" where
  "monotone_clock h \<longleftrightarrow> (\<forall>m n. m \<le> n \<longrightarrow> host_now h m \<le> host_now h n)"

text \<open>The first n identifiers drawn are distinct.\<close>

definition distinct_uuids :: "'h host_scheme \<Rightarrow> nat \<Rightarrow> bool" where
  "distinct_uuids h n \<longleftrightarrow> (\<forall>i < n. \<forall>j < n. host_uuid4 h i = host_uuid4 h j \<longrightarrow> i = j)"

lemma distinct_uuids_earlier: "distinct_uuids h n \<Longrightarrow> m \<le> n \<Longrightarrow> distinct_uuids h m"
  unfolding distinct_uuids_def by (meson order_less_le_trans)

lemma uuid4_app [prog_simps]:
  "uuid4 h s = (Inr (host_uuid4 h (run_draws s)), s\<lparr>run_draws := Suc (run_draws s)\<rparr>)"
  by (simp add: uuid4_def)

lemma now_utc_app [prog_simps]:
  "now_utc h s = (Inr (host_now h (run_reads s)), s\<lparr>run_reads := Suc (run_reads s)\<rparr>)"
  by (simp add: now_utc_def)

lemma now_or_Some [prog_simps]: "now_or h (Some n) = ret n"
  by (simp add: now_or_def)

lemma now_or_None [prog_simps]: "now_or h None = now_utc h"
  by (simp add: now_or_def)

end
