(* ===== verification/Recovery.thy ===== *)
theory Recovery
  imports Host
begin

text \<open>
  \<^verbatim>\<open>domain/recovery.py\<close>: hard eligibility of recovery candidates, the deterministic score, the
  ranking, the projection of append-only outcomes onto an immutable candidate set, and the
  lifecycle the outcomes may follow.
\<close>

section \<open>Candidates\<close>

datatype recovery_candidate_state =
    CUNAVAILABLE | CPOLICY_INELIGIBLE | CINELIGIBLE | CELIGIBLE
  | COFFERED | CVIEWED | CSELECTED | CREJECTED | CCOMPLETED

datatype recovery_candidate_outcome_state = OFFERED | VIEWED | SELECTED | OREJECTED | OCOMPLETED

fun outcome_state_value :: "recovery_candidate_outcome_state \<Rightarrow> string" where
  "outcome_state_value OFFERED = ''offered''"
| "outcome_state_value VIEWED = ''viewed''"
| "outcome_state_value SELECTED = ''selected''"
| "outcome_state_value OREJECTED = ''rejected''"
| "outcome_state_value OCOMPLETED = ''completed''"

text \<open>\<^verbatim>\<open>RecoveryCandidateState(outcome.state.value)\<close>\<close>

fun candidate_state_of :: "recovery_candidate_outcome_state \<Rightarrow> recovery_candidate_state" where
  "candidate_state_of OFFERED = COFFERED"
| "candidate_state_of VIEWED = CVIEWED"
| "candidate_state_of SELECTED = CSELECTED"
| "candidate_state_of OREJECTED = CREJECTED"
| "candidate_state_of OCOMPLETED = CCOMPLETED"

record recovery_candidate =
  cd_candidate_id :: string
  cd_available :: bool
  cd_policy_compliant :: bool
  cd_accessibility_compliant :: bool
  cd_feasible :: bool
  cd_arrival_delay_minutes :: int
  cd_incremental_cost :: pyfloat
  cd_connection_minutes :: int

definition valid_recovery_candidate :: "'a recovery_candidate_scheme \<Rightarrow> bool" where
  "valid_recovery_candidate c \<longleftrightarrow> cd_candidate_id c \<noteq> [] \<and> 0 \<le> cd_arrival_delay_minutes c \<and>
     0 \<le> cd_incremental_cost c \<and> 0 \<le> cd_connection_minutes c"

record evaluated_candidate = recovery_candidate +
  cd_eligible :: bool
  cd_exclusion_reasons :: "string list"
  cd_deterministic_recovery_score :: "pyfloat option"
  cd_normalized_candidate_features :: "(string, json) dict"
  cd_feature_schema_version :: string
  cd_displayed_position :: "int option"
  cd_ranker_score :: "pyfloat option"
  cd_ranker_model_version :: "string option"
  cd_lifecycle_state :: recovery_candidate_state

definition valid_evaluated_candidate :: "evaluated_candidate \<Rightarrow> bool" where
  "valid_evaluated_candidate c \<longleftrightarrow>
     (case cd_deterministic_recovery_score c of None \<Rightarrow> True | Some x \<Rightarrow> percent x) \<and>
     (case cd_displayed_position c of None \<Rightarrow> True | Some p \<Rightarrow> 1 \<le> p)"

section \<open>Outcomes and candidate sets\<close>

record recovery_candidate_outcome_update =
  out_state :: recovery_candidate_outcome_state
  out_reason :: "string option"
  out_manager_override_reason :: "string option"
  out_final_itinerary :: "json_object option"
  out_material_outcome :: "json_object option"

definition opt_object_truthy :: "json_object option \<Rightarrow> bool" where
  "opt_object_truthy d \<longleftrightarrow> (case d of None \<Rightarrow> False | Some kvs \<Rightarrow> kvs \<noteq> [])"

definition validate_required_outcome_details ::
  "'a recovery_candidate_outcome_update_scheme \<Rightarrow> bool" where
  "validate_required_outcome_details u \<longleftrightarrow>
     \<not> (out_state u = OREJECTED \<and> falsy (out_reason u)) \<and>
     \<not> (truthy (out_manager_override_reason u) \<and> out_state u \<noteq> SELECTED) \<and>
     \<not> (out_state u = OCOMPLETED \<and> \<not> opt_object_truthy (out_material_outcome u))"

record recovery_candidate_outcome = recovery_candidate_outcome_update +
  out_outcome_id :: uuid
  out_candidate_set_id :: uuid
  out_incident_id :: uuid
  out_candidate_id :: string
  out_actor_id :: "string option"
  out_occurred_at :: datetime

record recovery_candidate_set =
  cs_candidate_set_id :: uuid
  cs_incident_id :: uuid
  cs_score_version :: string
  cs_policy_version :: string
  cs_candidates :: "evaluated_candidate list"
  cs_created_at :: datetime
  cs_outcomes :: "recovery_candidate_outcome list"
  cs_selected_candidate_id :: "string option"
  cs_manager_override_reason :: "string option"

text \<open>\<^verbatim>\<open>RecoveryCandidateSetCreate\<close>: between 1 and 50 candidates with unique identifiers.\<close>

definition valid_candidate_set_create :: "recovery_candidate list \<Rightarrow> bool" where
  "valid_candidate_set_create cs \<longleftrightarrow> 1 \<le> length cs \<and> length cs \<le> 50 \<and>
     list_all valid_recovery_candidate cs \<and> distinct (map cd_candidate_id cs)"

section \<open>Evaluation\<close>

definition exclusion_reasons_for :: "recovery_candidate \<Rightarrow> int \<Rightarrow> string list" where
  "exclusion_reasons_for c minimum_connection_minutes =
     (if \<not> cd_available c then [''unavailable''] else []) @
     (if \<not> cd_feasible c then [''itinerary_infeasible''] else []) @
     (if \<not> cd_policy_compliant c then [''policy_ineligible''] else []) @
     (if \<not> cd_accessibility_compliant c then [''accessibility_ineligible''] else []) @
     (if cd_connection_minutes c < minimum_connection_minutes then [''connection_below_minimum'']
      else [])"

definition recovery_score :: "recovery_candidate \<Rightarrow> pyfloat result" where
  "recovery_score c = result_bind (float_of_int (cd_arrival_delay_minutes c)) (\<lambda>delay.
     Inr (py_round2 (max 0
       (fsub (fsub 100 (fmul delay (fl (1 / 2)))) (fmul (cd_incremental_cost c) (fl (1 / 10)))))))"

definition lifecycle_state_for :: "recovery_candidate \<Rightarrow> bool \<Rightarrow> recovery_candidate_state" where
  "lifecycle_state_for c eligible =
     (if \<not> cd_available c then CUNAVAILABLE
      else if \<not> cd_policy_compliant c then CPOLICY_INELIGIBLE
      else if \<not> eligible then CINELIGIBLE else CELIGIBLE)"

definition evaluate_candidate :: "recovery_candidate \<Rightarrow> int \<Rightarrow> evaluated_candidate result" where
  "evaluate_candidate c minimum_connection_minutes =
     (let reasons = exclusion_reasons_for c minimum_connection_minutes; eligible = (reasons = [])
      in result_bind
           (if eligible then result_bind (recovery_score c) (\<lambda>x. Inr (Some x)) else Inr None)
           (\<lambda>score.
             let e = recovery_candidate.extend c
               \<lparr>cd_eligible = eligible, cd_exclusion_reasons = reasons,
                cd_deterministic_recovery_score = score,
                cd_normalized_candidate_features =
                  [(''available'', JBool (cd_available c)),
                   (''policy_compliant'', JBool (cd_policy_compliant c)),
                   (''accessibility_compliant'', JBool (cd_accessibility_compliant c)),
                   (''feasible'', JBool (cd_feasible c)),
                   (''arrival_delay_minutes'', JInt (cd_arrival_delay_minutes c)),
                   (''incremental_cost'', JFloat (cd_incremental_cost c)),
                   (''connection_minutes'', JInt (cd_connection_minutes c))],
                cd_feature_schema_version = ''recovery-candidate-v1'',
                cd_displayed_position = None, cd_ranker_score = None,
                cd_ranker_model_version = None,
                cd_lifecycle_state = lifecycle_state_for c eligible\<rparr>
             in if valid_evaluated_candidate e then Inr e
                else Inl (ValidationError ''EvaluatedCandidate'')))"

section \<open>Ranking\<close>

definition rank_key :: "evaluated_candidate \<Rightarrow> pyfloat \<times> string" where
  "rank_key c = ((case cd_deterministic_recovery_score c of None \<Rightarrow> 0 | Some x \<Rightarrow> x),
     cd_candidate_id c)"

fun number_from :: "int \<Rightarrow> evaluated_candidate list \<Rightarrow> evaluated_candidate list" where
  "number_from position [] = []"
| "number_from position (c # cs) =
     c\<lparr>cd_displayed_position := Some position\<rparr> # number_from (position + 1) cs"

definition rank_eligible :: "evaluated_candidate list \<Rightarrow> evaluated_candidate list" where
  "rank_eligible candidates = number_from 1 (py_sorted_desc rank_key (filter cd_eligible candidates))"

section \<open>Projection of outcomes\<close>

definition outcome_key :: "recovery_candidate_outcome \<Rightarrow> datetime \<times> string" where
  "outcome_key item = (out_occurred_at item, str_uuid (out_outcome_id item))"

definition by_candidate :: "recovery_candidate_outcome list \<Rightarrow> (string, recovery_candidate_outcome) dict" where
  "by_candidate outcomes =
     fold (\<lambda>outcome d. dict_set (out_candidate_id outcome) outcome d) (py_sorted outcome_key outcomes) []"

definition latest_selection ::
  "recovery_candidate_outcome list \<Rightarrow> recovery_candidate_outcome option" where
  "latest_selection outcomes =
     (case filter (\<lambda>oc. out_state oc = SELECTED) outcomes of
        [] \<Rightarrow> None | s # ss \<Rightarrow> Some (py_max_by outcome_key s ss))"

definition project_candidate :: "recovery_candidate_outcome list \<Rightarrow> evaluated_candidate \<Rightarrow> evaluated_candidate" where
  "project_candidate outcomes c = (case dict_get (by_candidate outcomes) (cd_candidate_id c) of
     None \<Rightarrow> c | Some oc \<Rightarrow> c\<lparr>cd_lifecycle_state := candidate_state_of (out_state oc)\<rparr>)"

definition project_candidate_set_outcomes ::
  "recovery_candidate_set \<Rightarrow> recovery_candidate_outcome list \<Rightarrow> recovery_candidate_set" where
  "project_candidate_set_outcomes cs outcomes = cs\<lparr>
     cs_candidates := map (project_candidate outcomes) (cs_candidates cs),
     cs_outcomes := py_sorted outcome_key outcomes,
     cs_selected_candidate_id := map_option out_candidate_id (latest_selection outcomes),
     cs_manager_override_reason :=
       (case latest_selection outcomes of None \<Rightarrow> None | Some oc \<Rightarrow> out_manager_override_reason oc)\<rparr>"

section \<open>Lifecycle\<close>

definition transition_allowed ::
  "recovery_candidate_state \<Rightarrow> recovery_candidate_outcome_state \<Rightarrow> bool" where
  "transition_allowed current_state target_state =
     (target_state \<in> (case current_state of
        CELIGIBLE \<Rightarrow> {OFFERED}
      | COFFERED \<Rightarrow> {VIEWED, SELECTED, OREJECTED}
      | CVIEWED \<Rightarrow> {SELECTED, OREJECTED}
      | CSELECTED \<Rightarrow> {OCOMPLETED}
      | _ \<Rightarrow> {}))"

text \<open>The states a candidate passes through when a sequence of outcomes is recorded for it.\<close>

inductive lifecycle_run ::
  "recovery_candidate_state \<Rightarrow> recovery_candidate_outcome_state list \<Rightarrow> recovery_candidate_state \<Rightarrow> bool" where
  run_nil: "lifecycle_run s [] s"
| run_step: "transition_allowed s t \<Longrightarrow> lifecycle_run (candidate_state_of t) ts s' \<Longrightarrow>
    lifecycle_run s (t # ts) s'"

inductive_cases lifecycle_run_ConsE: "lifecycle_run s (t # ts) s'"
inductive_cases lifecycle_run_NilE: "lifecycle_run s [] s'"

section \<open>Lemmas: evaluation\<close>

lemma recovery_score_percent:
  assumes "valid_recovery_candidate c" "recovery_score c = Inr x"
  shows "percent x"
proof -
  obtain d where d: "float_of_int (cd_arrival_delay_minutes c) = Inr d"
    and x: "x = py_round2 (max 0 (fsub (fsub 100 (fmul d (fl (1 / 2))))
              (fmul (cd_incremental_cost c) (fl (1 / 10)))))"
    using assms(2) by (auto simp: recovery_score_def result_bind_def split: sum.splits)
  have "0 \<le> d" using d assms(1)
    by (auto simp: float_of_int_def valid_recovery_candidate_def intro!: fl_nonneg split: if_splits)
  then have "0 \<le> fmul d (fl (1 / 2))" unfolding fmul_def
    by (intro fl_nonneg mult_nonneg_nonneg) (auto intro: fl_nonneg)
  then have "fsub 100 (fmul d (fl (1 / 2))) \<le> 100" unfolding fsub_def by (intro fl_le) auto
  moreover have "0 \<le> fmul (cd_incremental_cost c) (fl (1 / 10))" unfolding fmul_def
    using assms(1) by (intro fl_nonneg mult_nonneg_nonneg)
      (auto simp: valid_recovery_candidate_def intro: fl_nonneg)
  ultimately have "fsub (fsub 100 (fmul d (fl (1 / 2)))) (fmul (cd_incremental_cost c) (fl (1 / 10))) \<le> 100"
    unfolding fsub_def [of "fsub _ _"] by (intro fl_le) auto
  then have hi: "py_round2 (max 0 (fsub (fsub 100 (fmul d (fl (1 / 2))))
      (fmul (cd_incremental_cost c) (fl (1 / 10))))) \<le> py_round2 (of_int 100)"
    by (intro py_round2_mono) simp
  have lo: "py_round2 (of_int 0) \<le> py_round2 (max 0 (fsub (fsub 100 (fmul d (fl (1 / 2))))
      (fmul (cd_incremental_cost c) (fl (1 / 10)))))"
    by (intro py_round2_mono) simp
  show ?thesis
    using hi lo py_round2_int [of 100] py_round2_int [of 0] by (simp add: percent_def x)
qed

definition hard_constraints :: "recovery_candidate \<Rightarrow> int \<Rightarrow> bool" where
  "hard_constraints c m \<longleftrightarrow> cd_available c \<and> cd_feasible c \<and> cd_policy_compliant c \<and>
     cd_accessibility_compliant c \<and> m \<le> cd_connection_minutes c"

lemma exclusion_reasons_Nil: "exclusion_reasons_for c m = [] \<longleftrightarrow> hard_constraints c m"
  by (auto simp: exclusion_reasons_for_def hard_constraints_def)

lemma evaluate_candidate_total:
  assumes "valid_recovery_candidate c" "cd_arrival_delay_minutes c < 2 ^ 1023"
  shows "\<exists>e. evaluate_candidate c m = Inr e"
proof -
  have "\<bar>cd_arrival_delay_minutes c\<bar> < 2 ^ 1024 - 2 ^ 970"
    using assms by (simp add: valid_recovery_candidate_def)
  then obtain x where x: "recovery_score c = Inr x"
    by (auto simp: recovery_score_def float_of_int_def result_bind_def)
  with recovery_score_percent [OF assms(1) x] show ?thesis
    by (simp add: evaluate_candidate_def result_bind_def Let_def valid_evaluated_candidate_def
        recovery_candidate.defs)
qed

lemma evaluate_candidate_cases:
  assumes "evaluate_candidate c m = Inr e"
  shows "cd_eligible e = hard_constraints c m"
    and "cd_exclusion_reasons e = exclusion_reasons_for c m"
    and "recovery_candidate.truncate e = c"
    and "cd_lifecycle_state e = lifecycle_state_for c (hard_constraints c m)"
    and "if hard_constraints c m
         then \<exists>x. recovery_score c = Inr x \<and> cd_deterministic_recovery_score e = Some x
         else cd_deterministic_recovery_score e = None"
    and "cd_displayed_position e = None"
  using assms
  by (auto simp: evaluate_candidate_def result_bind_def Let_def exclusion_reasons_Nil
      recovery_candidate.defs split: if_splits sum.splits)

section \<open>Lemmas: ranking\<close>

lemma length_number_from [simp]: "length (number_from p cs) = length cs"
  by (induction cs arbitrary: p) auto

lemma nth_number_from:
  "i < length cs \<Longrightarrow> number_from p cs ! i = (cs ! i)\<lparr>cd_displayed_position := Some (p + int i)\<rparr>"
  by (induction cs arbitrary: p i) (auto simp: nth_Cons algebra_simps split: nat.splits)

lemma rank_key_position [simp]: "rank_key (c\<lparr>cd_displayed_position := p\<rparr>) = rank_key c"
  by (simp add: rank_key_def)

lemma sorted_wrt_number_from:
  assumes "\<And>a b p q. P (a\<lparr>cd_displayed_position := p\<rparr>) (b\<lparr>cd_displayed_position := q\<rparr>) = P a b"
  shows "sorted_wrt P (number_from p cs) = sorted_wrt P cs"
proof (induction cs arbitrary: p)
  case (Cons c cs)
  have "(\<forall>x \<in> set (number_from q cs). P (c\<lparr>cd_displayed_position := Some p\<rparr>) x)
      = (\<forall>x \<in> set cs. P c x)" for q
    by (induction cs arbitrary: q) (auto simp: assms)
  with Cons show ?case by simp
qed simp

lemma sorted_wrt_strict:
  fixes f :: "'a \<Rightarrow> 'k::order"
  assumes "sorted_wrt (\<lambda>a b. f b \<le> f a) xs" "distinct xs" "inj_on f (set xs)"
  shows "sorted_wrt (\<lambda>a b. f b < f a) xs"
  using assms
proof (induction xs)
  case (Cons a xs)
  have "f b < f a" if "b \<in> set xs" for b
    using Cons.prems that by (auto simp: inj_on_def order.strict_iff_order)
  then show ?case using Cons by (auto simp: inj_on_def)
qed simp

lemma rank_key_inj_on_ids:
  assumes "distinct (map cd_candidate_id cs)"
  shows "inj_on rank_key (set cs)"
  using assms by (auto simp: inj_on_def rank_key_def distinct_map)

lemma rank_eligible_origin:
  assumes "r \<in> set (rank_eligible cs)"
  obtains c p where "c \<in> set cs" "cd_eligible c" "r = c\<lparr>cd_displayed_position := p\<rparr>"
proof -
  let ?s = "py_sorted_desc rank_key (filter cd_eligible cs)"
  obtain i where i: "i < length ?s" "r = number_from 1 ?s ! i"
    using assms unfolding rank_eligible_def in_set_conv_nth by auto
  have "?s ! i \<in> set ?s" using i(1) by (rule nth_mem)
  then have "?s ! i \<in> set cs" "cd_eligible (?s ! i)" by simp_all
  with i nth_number_from [OF i(1)] show thesis by (intro that) simp_all
qed

text \<open>A stable sort by an injective key does not depend on the input order.\<close>

lemma py_sorted_desc_perm:
  assumes "mset xs = mset ys" "inj_on f (set xs)"
  shows "py_sorted_desc f xs = py_sorted_desc f ys"
proof -
  have "sort_key f (rev xs) = sort_key f (rev ys)"
  proof (rule properties_for_sort_key)
    show "mset (sort_key f (rev ys)) = mset (rev xs)" using assms(1) by simp
    show "sorted (map f (sort_key f (rev ys)))" by simp
    fix k assume "k \<in> set (sort_key f (rev ys))"
    then have k: "k \<in> set xs" using mset_eq_setD [OF assms(1)] by simp
    have one: "filter (\<lambda>x. f k = f x) zs = replicate (count (mset zs) k) k"
      if "set zs \<subseteq> set xs" for zs
      using that assms(2) k by (induction zs) (auto simp: inj_on_def)
    show "filter (\<lambda>x. f k = f x) (sort_key f (rev ys)) = filter (\<lambda>x. f k = f x) (rev xs)"
      using one [of "sort_key f (rev ys)"] one [of "rev xs"] assms(1) mset_eq_setD [OF assms(1)]
      by simp
  qed
  then show ?thesis by (simp add: py_sorted_desc_def)
qed

section \<open>Lemmas: projection\<close>

lemma by_candidate_get:
  "dict_get (by_candidate os) cid =
     (let mine = filter (\<lambda>oc. out_candidate_id oc = cid) (py_sorted outcome_key os)
      in if mine = [] then None else Some (last mine))"
  by (auto simp: by_candidate_def fold_dict_set_get Let_def split: list.splits)

lemma sorted_last_ge:
  "sorted (map f xs) \<Longrightarrow> x \<in> set xs \<Longrightarrow> f x \<le> f (last xs)"
  by (induction xs) auto

lemma by_candidate_latest:
  assumes "dict_get (by_candidate os) cid = Some oc'"
  shows "oc' \<in> set os \<and> out_candidate_id oc' = cid \<and>
    (\<forall>oc \<in> set os. out_candidate_id oc = cid \<longrightarrow> outcome_key oc \<le> outcome_key oc')"
proof -
  let ?mine = "filter (\<lambda>oc. out_candidate_id oc = cid) (py_sorted outcome_key os)"
  have ne: "?mine \<noteq> []" and l: "oc' = last ?mine"
    using assms by (auto simp: by_candidate_get Let_def split: if_splits)
  then have "oc' \<in> set ?mine" by (metis last_in_set)
  moreover have "sorted (map outcome_key ?mine)"
    using sorted_filter [of outcome_key "py_sorted outcome_key os"] sorted_py_sorted by blast
  then have "\<forall>oc \<in> set ?mine. outcome_key oc \<le> outcome_key oc'" unfolding l by (blast intro: sorted_last_ge)
  ultimately show ?thesis by auto
qed

lemma by_candidate_None:
  "dict_get (by_candidate os) cid = None \<longleftrightarrow> (\<forall>oc \<in> set os. out_candidate_id oc \<noteq> cid)"
  by (auto simp: by_candidate_get Let_def filter_empty_conv)

lemma projected_candidate:
  fixes c outs
  defines "mine \<equiv> {oc \<in> set outs. out_candidate_id oc = cd_candidate_id c}"
    and "after \<equiv> project_candidate outs c"
  shows "after\<lparr>cd_lifecycle_state := cd_lifecycle_state c\<rparr> = c \<and>
    (if mine = {} then after = c
     else \<exists>oc \<in> mine. (\<forall>oc' \<in> mine. outcome_key oc' \<le> outcome_key oc) \<and>
        cd_lifecycle_state after = candidate_state_of (out_state oc))"
proof (cases "dict_get (by_candidate outs) (cd_candidate_id c)")
  case None
  then have "mine = {}" unfolding mine_def using by_candidate_None by blast
  with None show ?thesis by (simp add: after_def project_candidate_def)
next
  case (Some oc)
  from by_candidate_latest [OF this] have "oc \<in> mine" "\<forall>oc' \<in> mine. outcome_key oc' \<le> outcome_key oc"
    unfolding mine_def by blast+
  with Some show ?thesis by (auto simp: after_def project_candidate_def)
qed

lemma projected_nth:
  "i < length (cs_candidates cs) \<Longrightarrow>
     cs_candidates (project_candidate_set_outcomes cs outs) ! i = project_candidate outs (cs_candidates cs ! i)"
  by (simp add: project_candidate_set_outcomes_def)

lemma latest_selection_Some:
  assumes "latest_selection outs = Some s"
  shows "s \<in> set outs \<and> out_state s = SELECTED \<and>
    (\<forall>oc \<in> set outs. out_state oc = SELECTED \<longrightarrow> outcome_key oc \<le> outcome_key s)"
proof -
  obtain y ys where f: "filter (\<lambda>oc. out_state oc = SELECTED) outs = y # ys"
    and s: "s = py_max_by outcome_key y ys"
    using assms by (auto simp: latest_selection_def split: list.splits)
  have set: "insert y (set ys) = {oc \<in> set outs. out_state oc = SELECTED}"
    using arg_cong [OF f, of set] by simp
  show ?thesis using py_max_by_in [of outcome_key y ys] py_max_by_ge [of _ y ys outcome_key] s set by blast
qed

lemma latest_selection_None:
  "latest_selection outs = None \<longleftrightarrow> (\<forall>oc \<in> set outs. out_state oc \<noteq> SELECTED)"
  by (simp add: latest_selection_def filter_empty_conv [symmetric] split: list.splits)

section \<open>Lemmas: lifecycle\<close>

fun stage :: "recovery_candidate_state \<Rightarrow> nat" where
  "stage CELIGIBLE = 4"
| "stage COFFERED = 3"
| "stage CVIEWED = 2"
| "stage CSELECTED = 1"
| "stage _ = 0"

lemma transition_stage: "transition_allowed s t \<Longrightarrow> stage (candidate_state_of t) < stage s"
  by (cases s; cases t) (auto simp: transition_allowed_def)

lemma lifecycle_run_length: "lifecycle_run s ts s' \<Longrightarrow> length ts + stage s' \<le> stage s"
  by (induction rule: lifecycle_run.induct) (use transition_stage in fastforce)+

lemma stuck_state: "stage s = 0 \<Longrightarrow> \<not> transition_allowed s t"
  using transition_stage by fastforce

lemma lifecycle_run_completed:
  "lifecycle_run s ts s' \<Longrightarrow> s' = CCOMPLETED \<Longrightarrow> s \<noteq> CCOMPLETED \<Longrightarrow> s \<noteq> CSELECTED \<Longrightarrow> SELECTED \<in> set ts"
proof (induction rule: lifecycle_run.induct)
  case (run_step s t ts s')
  then show ?case by (cases s; cases t) (auto simp: transition_allowed_def)
qed simp

lemma recovery_score_antitone:
  assumes "cd_arrival_delay_minutes a \<le> cd_arrival_delay_minutes b"
    "cd_incremental_cost a \<le> cd_incremental_cost b"
    "recovery_score a = Inr x" "recovery_score b = Inr y"
  shows "y \<le> x"
proof -
  obtain d e where d: "float_of_int (cd_arrival_delay_minutes a) = Inr d"
    and e: "float_of_int (cd_arrival_delay_minutes b) = Inr e"
    using assms(3,4) by (auto simp: recovery_score_def result_bind_def split: sum.splits)
  have "d \<le> e" using d e assms(1)
    by (auto simp: float_of_int_def intro!: fl_mono split: if_splits)
  then have "fmul d (fl (1 / 2)) \<le> fmul e (fl (1 / 2))" unfolding fmul_def
    by (intro fl_mono mult_right_mono) (auto intro: fl_nonneg)
  then have "fsub 100 (fmul e (fl (1 / 2))) \<le> fsub 100 (fmul d (fl (1 / 2)))"
    unfolding fsub_def by (intro fl_mono) auto
  moreover have "fmul (cd_incremental_cost a) (fl (1 / 10)) \<le> fmul (cd_incremental_cost b) (fl (1 / 10))"
    unfolding fmul_def using assms(2) by (intro fl_mono mult_right_mono) (auto intro: fl_nonneg)
  ultimately have "fsub (fsub 100 (fmul e (fl (1 / 2)))) (fmul (cd_incremental_cost b) (fl (1 / 10)))
      \<le> fsub (fsub 100 (fmul d (fl (1 / 2)))) (fmul (cd_incremental_cost a) (fl (1 / 10)))"
    unfolding fsub_def [of "fsub _ _"] by (intro fl_mono) auto
  with assms(3,4) d e show ?thesis
    by (auto simp: recovery_score_def result_bind_def intro!: py_round2_mono)
qed

section \<open>Properties\<close>

text \<open>
  C26. Evaluation of a validated candidate always returns (for a delay that fits a float), keeps
  the candidate's own fields, and marks it eligible exactly when it is available, feasible, policy
  and accessibility compliant and meets the minimum connection; an eligible candidate has a score
  between 0 and 100, an ineligible one has none and carries at least one reason.
\<close>

theorem evaluate_candidate_correct:
  assumes "valid_recovery_candidate c" "cd_arrival_delay_minutes c < 2 ^ 1023"
  shows "\<exists>e. evaluate_candidate c m = Inr e \<and> recovery_candidate.truncate e = c \<and>
    cd_eligible e = hard_constraints c m \<and>
    (cd_exclusion_reasons e = []) = cd_eligible e \<and>
    (if cd_eligible e then \<exists>x. cd_deterministic_recovery_score e = Some x \<and> percent x
     else cd_deterministic_recovery_score e = None)"
proof -
  obtain e where e: "evaluate_candidate c m = Inr e" using evaluate_candidate_total assms by blast
  note [simp] = evaluate_candidate_cases(1-4) [OF e]
  show ?thesis
    using e evaluate_candidate_cases(5) [OF e] recovery_score_percent [OF assms(1)]
    by (intro exI [of _ e]) (auto simp: exclusion_reasons_Nil split: if_splits)
qed

definition sample_candidate :: recovery_candidate where
  "sample_candidate = \<lparr>cd_candidate_id = ''alt-1'', cd_available = True, cd_policy_compliant = True,
     cd_accessibility_compliant = True, cd_feasible = True, cd_arrival_delay_minutes = 30,
     cd_incremental_cost = 40, cd_connection_minutes = 60\<rparr>"

theorem evaluate_candidate_correct_witness:
  "\<exists>e. evaluate_candidate sample_candidate 45 = Inr e \<and> cd_eligible e"
  using evaluate_candidate_correct [of sample_candidate 45]
  by (auto simp: sample_candidate_def valid_recovery_candidate_def hard_constraints_def)

text \<open>
  C27. Ranking returns exactly the eligible candidates, best score first (ties by descending
  identifier), numbered 1, 2, 3, ...; nothing but the displayed position of a candidate changes.
  For distinct identifiers the result does not depend on the order the candidates came in.
\<close>

theorem rank_eligible_correct:
  assumes "distinct (map cd_candidate_id cs)" "mset cs' = mset cs"
  shows "rank_eligible cs' = rank_eligible cs \<and>
    sorted_wrt (\<lambda>a b. rank_key b < rank_key a) (rank_eligible cs) \<and>
    mset (map (\<lambda>c. c\<lparr>cd_displayed_position := None\<rparr>) (rank_eligible cs)) =
      mset (map (\<lambda>c. c\<lparr>cd_displayed_position := None\<rparr>) (filter cd_eligible cs)) \<and>
    map cd_displayed_position (rank_eligible cs) =
      map (\<lambda>i. Some (1 + int i)) [0..<length (filter cd_eligible cs)]"
proof (intro conjI)
  let ?e = "filter cd_eligible cs"
  have inj: "inj_on rank_key (set ?e)"
    using rank_key_inj_on_ids [OF assms(1)] by (rule inj_on_subset) auto
  have "mset ?e = mset (filter cd_eligible cs')" using assms(2) by (simp add: mset_filter)
  with inj show "rank_eligible cs' = rank_eligible cs"
    unfolding rank_eligible_def using py_sorted_desc_perm [of ?e _ rank_key] by metis
  have dist: "distinct (py_sorted_desc rank_key ?e)"
    using assms(1) by (simp add: py_sorted_desc_def distinct_map)
  have "sorted_wrt (\<lambda>a b. rank_key b < rank_key a) (py_sorted_desc rank_key ?e)"
    using sorted_wrt_strict [OF sorted_py_sorted_desc dist] inj by simp
  then show "sorted_wrt (\<lambda>a b. rank_key b < rank_key a) (rank_eligible cs)"
    by (simp add: rank_eligible_def sorted_wrt_number_from)
  have "map (\<lambda>c. c\<lparr>cd_displayed_position := None\<rparr>) (number_from p xs) =
      map (\<lambda>c. c\<lparr>cd_displayed_position := None\<rparr>) xs" for p xs
    by (induction xs arbitrary: p) auto
  then show "mset (map (\<lambda>c. c\<lparr>cd_displayed_position := None\<rparr>) (rank_eligible cs)) =
      mset (map (\<lambda>c. c\<lparr>cd_displayed_position := None\<rparr>) ?e)"
    by (simp add: rank_eligible_def)
  show "map cd_displayed_position (rank_eligible cs) = map (\<lambda>i. Some (1 + int i)) [0..<length ?e]"
    by (rule nth_equalityI) (auto simp: rank_eligible_def nth_number_from)
qed

theorem rank_eligible_correct_witness:
  "\<exists>e. evaluate_candidate sample_candidate 45 = Inr e \<and>
     map cd_displayed_position (rank_eligible [e]) = [Some 1]"
proof -
  obtain e where e: "evaluate_candidate sample_candidate 45 = Inr e"
    using evaluate_candidate_total [of sample_candidate 45]
    by (auto simp: sample_candidate_def valid_recovery_candidate_def)
  then have "cd_eligible e"
    by (simp add: evaluate_candidate_cases(1) hard_constraints_def sample_candidate_def)
  with rank_eligible_correct [of "[e]" "[e]"] e show ?thesis by auto
qed

text \<open>
  C29. A candidate that arrives no later and costs no more than another one is never scored below
  it: rounding the two products and the final result does not invert a dominance.
\<close>

theorem dominating_candidate_scores_no_worse:
  assumes "evaluate_candidate a m = Inr ea" "evaluate_candidate b m = Inr eb"
    and "cd_eligible ea" "cd_eligible eb"
    and "cd_arrival_delay_minutes a \<le> cd_arrival_delay_minutes b"
    and "cd_incremental_cost a \<le> cd_incremental_cost b"
  shows "\<exists>x y. cd_deterministic_recovery_score ea = Some x \<and>
    cd_deterministic_recovery_score eb = Some y \<and> y \<le> x"
  using evaluate_candidate_cases(1,5) [OF assms(1)] evaluate_candidate_cases(1,5) [OF assms(2)]
    assms(3-6) recovery_score_antitone [of a b]
  by (auto split: if_splits)

theorem dominating_candidate_scores_no_worse_witness:
  "\<exists>ea eb x y. evaluate_candidate sample_candidate 45 = Inr ea \<and>
     evaluate_candidate (sample_candidate\<lparr>cd_incremental_cost := 200\<rparr>) 45 = Inr eb \<and>
     cd_deterministic_recovery_score ea = Some x \<and> cd_deterministic_recovery_score eb = Some y \<and> y \<le> x"
proof -
  let ?b = "sample_candidate\<lparr>cd_incremental_cost := 200\<rparr>"
  obtain ea where ea: "evaluate_candidate sample_candidate 45 = Inr ea"
    using evaluate_candidate_total [of sample_candidate 45]
    by (auto simp: sample_candidate_def valid_recovery_candidate_def)
  obtain eb where eb: "evaluate_candidate ?b 45 = Inr eb"
    using evaluate_candidate_total [of ?b 45]
    by (auto simp: sample_candidate_def valid_recovery_candidate_def)
  have "cd_eligible ea" "cd_eligible eb"
    using evaluate_candidate_cases(1) [OF ea] evaluate_candidate_cases(1) [OF eb]
    by (auto simp: hard_constraints_def sample_candidate_def)
  with dominating_candidate_scores_no_worse [OF ea eb] ea eb show ?thesis
    by (auto simp: sample_candidate_def)
qed

text \<open>
  C28. The projection of recorded outcomes onto a candidate set keeps every candidate's identity
  and evaluation and shows the state of its latest outcome (by time, then identifier); a candidate
  without outcomes keeps its evaluated state, and the selected candidate is that of the latest
  selection.
\<close>

theorem projection_shows_latest_outcome:
  "(case cs_selected_candidate_id (project_candidate_set_outcomes cs outs) of
      None \<Rightarrow> \<forall>oc \<in> set outs. out_state oc \<noteq> SELECTED
    | Some cid \<Rightarrow> \<exists>oc \<in> set outs. out_state oc = SELECTED \<and> out_candidate_id oc = cid \<and>
        (\<forall>oc' \<in> set outs. out_state oc' = SELECTED \<longrightarrow> outcome_key oc' \<le> outcome_key oc)) \<and>
   (\<forall>i < length (cs_candidates cs).
     let before = cs_candidates cs ! i; after = cs_candidates (project_candidate_set_outcomes cs outs) ! i;
       mine = {oc \<in> set outs. out_candidate_id oc = cd_candidate_id before}
     in after\<lparr>cd_lifecycle_state := cd_lifecycle_state before\<rparr> = before \<and>
        (if mine = {} then after = before
         else \<exists>oc \<in> mine. (\<forall>oc' \<in> mine. outcome_key oc' \<le> outcome_key oc) \<and>
            cd_lifecycle_state after = candidate_state_of (out_state oc)))"
proof (rule conjI)
  show "case cs_selected_candidate_id (project_candidate_set_outcomes cs outs) of
      None \<Rightarrow> \<forall>oc \<in> set outs. out_state oc \<noteq> SELECTED
    | Some cid \<Rightarrow> \<exists>oc \<in> set outs. out_state oc = SELECTED \<and> out_candidate_id oc = cid \<and>
        (\<forall>oc' \<in> set outs. out_state oc' = SELECTED \<longrightarrow> outcome_key oc' \<le> outcome_key oc)"
    using latest_selection_Some [of outs] latest_selection_None [of outs]
    by (cases "latest_selection outs") (auto simp: project_candidate_set_outcomes_def)
qed (unfold Let_def, intro allI impI, simp only: projected_nth, rule projected_candidate)

definition sample_outcome :: recovery_candidate_outcome where
  "sample_outcome = \<lparr>out_state = SELECTED, out_reason = None, out_manager_override_reason = None,
     out_final_itinerary = None, out_material_outcome = None, out_outcome_id = 7,
     out_candidate_set_id = 1, out_incident_id = 2, out_candidate_id = ''alt-1'',
     out_actor_id = None, out_occurred_at = 5\<rparr>"

definition sample_candidate_set :: recovery_candidate_set where
  "sample_candidate_set = \<lparr>cs_candidate_set_id = 1, cs_incident_id = 2, cs_score_version = ''v1'',
     cs_policy_version = ''v1'', cs_candidates = [], cs_created_at = 0, cs_outcomes = [],
     cs_selected_candidate_id = None, cs_manager_override_reason = None\<rparr>"

theorem projection_shows_latest_outcome_witness:
  "cs_selected_candidate_id (project_candidate_set_outcomes sample_candidate_set [sample_outcome])
     = Some ''alt-1''"
  using projection_shows_latest_outcome [where cs = sample_candidate_set and outs = "[sample_outcome]"]
  by (auto simp: sample_outcome_def split: option.splits)

text \<open>
  Outcomes of one candidate form a path of at most four steps from eligible: a state of an
  ineligible, rejected or completed candidate accepts no outcome, and completion is only reached
  through a selection.
\<close>

theorem lifecycle_is_bounded:
  assumes "lifecycle_run s ts s'"
  shows "length ts \<le> 4 \<and>
    (s \<in> {CUNAVAILABLE, CPOLICY_INELIGIBLE, CINELIGIBLE, CREJECTED, CCOMPLETED} \<longrightarrow> ts = []) \<and>
    (s = CELIGIBLE \<and> s' = CCOMPLETED \<longrightarrow> SELECTED \<in> set ts \<and> OFFERED \<in> set ts)"
proof (intro conjI impI)
  have "stage s \<le> 4" by (cases s) auto
  then show "length ts \<le> 4" using lifecycle_run_length [OF assms] by linarith
next
  assume "s \<in> {CUNAVAILABLE, CPOLICY_INELIGIBLE, CINELIGIBLE, CREJECTED, CCOMPLETED}"
  then have "stage s = 0" by auto
  then show "ts = []" using lifecycle_run_length [OF assms] by simp
next
  assume a: "s = CELIGIBLE \<and> s' = CCOMPLETED"
  show "SELECTED \<in> set ts" using assms a lifecycle_run_completed by auto
  show "OFFERED \<in> set ts"
    using assms a by (cases rule: lifecycle_run.cases) (auto simp: transition_allowed_def)
qed

theorem lifecycle_is_bounded_witness:
  "lifecycle_run CELIGIBLE [OFFERED, VIEWED, SELECTED, OCOMPLETED] CCOMPLETED \<and>
   length [OFFERED, VIEWED, SELECTED, OCOMPLETED] \<le> 4 \<and> SELECTED \<in> set [OFFERED, VIEWED, SELECTED, OCOMPLETED]"
proof -
  have run: "lifecycle_run CELIGIBLE [OFFERED, VIEWED, SELECTED, OCOMPLETED] CCOMPLETED"
    by (rule run_step, simp add: transition_allowed_def)+ (simp add: run_nil)
  show ?thesis using lifecycle_is_bounded [OF run] run by simp
qed

end
