(* ===== verification/Policies.thy ===== *)
theory Policies
  imports Recovery
begin

text \<open>
  \<^verbatim>\<open>domain/policies.py\<close>, the corporate travel policy that is authoritative over ranking, and
  \<^verbatim>\<open>tools/alternatives.py\<close>, the read-only fixture of alternative flights.
\<close>

record corporate_travel_policy =
  pol_version :: string
  pol_maximum_incremental_cost :: pyfloat
  pol_minimum_connection_minutes :: int
  pol_allow_overnight_connections :: bool

definition default_policy :: corporate_travel_policy where
  "default_policy = \<lparr>pol_version = ''mvp-v1'', pol_maximum_incremental_cost = 500,
     pol_minimum_connection_minutes = 45, pol_allow_overnight_connections = False\<rparr>"

record policy_decision =
  pd_eligible :: bool
  pd_reasons :: "string list"
  pd_policy_version :: string

definition evaluate_recovery_policy ::
  "recovery_candidate \<Rightarrow> corporate_travel_policy \<Rightarrow> policy_decision" where
  "evaluate_recovery_policy candidate policy =
     (let reasons =
        (if cd_incremental_cost candidate > pol_maximum_incremental_cost policy
         then [''cost_exceeds_policy''] else []) @
        (if cd_connection_minutes candidate < pol_minimum_connection_minutes policy
         then [''connection_below_policy_minimum''] else [])
      in \<lparr>pd_eligible = (reasons = []), pd_reasons = reasons, pd_policy_version = pol_version policy\<rparr>)"

definition evaluate_policy_eligible_candidate ::
  "recovery_candidate \<Rightarrow> corporate_travel_policy \<Rightarrow> evaluated_candidate result" where
  "evaluate_policy_eligible_candidate candidate policy =
     (let decision = evaluate_recovery_policy candidate policy
      in result_bind
           (evaluate_candidate
             (candidate\<lparr>cd_policy_compliant := cd_policy_compliant candidate \<and> pd_eligible decision\<rparr>)
             (pol_minimum_connection_minutes policy))
           (\<lambda>evaluated.
             let reasons = py_dedup (cd_exclusion_reasons evaluated @ pd_reasons decision)
             in if \<not> pd_eligible decision
                then Inr (evaluated\<lparr>cd_eligible := False, cd_exclusion_reasons := reasons,
                       cd_deterministic_recovery_score := None,
                       cd_lifecycle_state := CPOLICY_INELIGIBLE\<rparr>)
                else Inr (evaluated\<lparr>cd_exclusion_reasons := reasons\<rparr>)))"

text \<open>\<^verbatim>\<open>not minimum_connection_minutes\<close> holds for \<^verbatim>\<open>None\<close> and for 0.\<close>

definition apply_traveler_minimum_connection ::
  "evaluated_candidate \<Rightarrow> int option \<Rightarrow> evaluated_candidate" where
  "apply_traveler_minimum_connection candidate minimum_connection_minutes =
     (case minimum_connection_minutes of
        None \<Rightarrow> candidate
      | Some m \<Rightarrow>
          if m = 0 \<or> cd_connection_minutes candidate \<ge> m \<or> \<not> cd_eligible candidate then candidate
          else candidate\<lparr>cd_eligible := False,
                 cd_exclusion_reasons :=
                   cd_exclusion_reasons candidate @ [''traveler_minimum_connection_not_met''],
                 cd_deterministic_recovery_score := None,
                 cd_lifecycle_state := CINELIGIBLE\<rparr>)"

definition fixture_alternatives :: "recovery_candidate list" where
  "fixture_alternatives =
     [\<lparr>cd_candidate_id = ''fixture-alt-1'', cd_available = True, cd_policy_compliant = True,
       cd_accessibility_compliant = True, cd_feasible = True, cd_arrival_delay_minutes = 45,
       cd_incremental_cost = 120, cd_connection_minutes = 75\<rparr>,
      \<lparr>cd_candidate_id = ''fixture-alt-2'', cd_available = True, cd_policy_compliant = True,
       cd_accessibility_compliant = True, cd_feasible = True, cd_arrival_delay_minutes = 90,
       cd_incremental_cost = 20, cd_connection_minutes = 55\<rparr>]"

section \<open>Lemmas\<close>

definition within_policy :: "recovery_candidate \<Rightarrow> corporate_travel_policy \<Rightarrow> bool" where
  "within_policy c p \<longleftrightarrow> cd_incremental_cost c \<le> pol_maximum_incremental_cost p \<and>
     pol_minimum_connection_minutes p \<le> cd_connection_minutes c"

lemma pd_eligible_iff: "pd_eligible (evaluate_recovery_policy c p) \<longleftrightarrow> within_policy c p"
  by (auto simp: evaluate_recovery_policy_def within_policy_def)

lemma pd_reasons_Nil: "pd_reasons (evaluate_recovery_policy c p) = [] \<longleftrightarrow> within_policy c p"
  by (auto simp: evaluate_recovery_policy_def within_policy_def)

lemma valid_recovery_candidate_policy [simp]:
  "valid_recovery_candidate (c\<lparr>cd_policy_compliant := b\<rparr>) = valid_recovery_candidate c"
  by (simp add: valid_recovery_candidate_def)

lemma recovery_score_policy [simp]:
  "recovery_score (c\<lparr>cd_policy_compliant := b\<rparr>) = recovery_score c"
  by (simp add: recovery_score_def)

text \<open>What a policy evaluation that returns has computed.\<close>

lemma evaluate_policy_cases:
  assumes "evaluate_policy_eligible_candidate c p = Inr e"
  shows "cd_eligible e \<longleftrightarrow> hard_constraints c (pol_minimum_connection_minutes p) \<and> within_policy c p"
    and "cd_exclusion_reasons e = [] \<longleftrightarrow> cd_eligible e"
    and "distinct (cd_exclusion_reasons e)"
    and "if cd_eligible e
         then \<exists>x. recovery_score c = Inr x \<and> cd_deterministic_recovery_score e = Some x
         else cd_deterministic_recovery_score e = None"
    and "cd_candidate_id e = cd_candidate_id c"
    and "cd_connection_minutes e = cd_connection_minutes c"
    and "cd_displayed_position e = None"
proof -
  let ?d = "evaluate_recovery_policy c p"
  let ?c = "c\<lparr>cd_policy_compliant := cd_policy_compliant c \<and> pd_eligible ?d\<rparr>"
  let ?m = "pol_minimum_connection_minutes p"
  obtain v where v: "evaluate_candidate ?c ?m = Inr v"
    and e: "e = (if \<not> pd_eligible ?d
                 then v\<lparr>cd_eligible := False,
                   cd_exclusion_reasons := py_dedup (cd_exclusion_reasons v @ pd_reasons ?d),
                   cd_deterministic_recovery_score := None, cd_lifecycle_state := CPOLICY_INELIGIBLE\<rparr>
                 else v\<lparr>cd_exclusion_reasons := py_dedup (cd_exclusion_reasons v @ pd_reasons ?d)\<rparr>)"
    using assms by (auto simp: evaluate_policy_eligible_candidate_def Let_def result_bind_def
        split: sum.splits if_splits)
  note v_facts = evaluate_candidate_cases [OF v]
  have hc: "hard_constraints ?c ?m \<longleftrightarrow> hard_constraints c ?m \<and> within_policy c p"
    by (auto simp: hard_constraints_def pd_eligible_iff)
  have tr: "cd_candidate_id v = cd_candidate_id c" "cd_connection_minutes v = cd_connection_minutes c"
    using arg_cong [OF v_facts(3), of cd_candidate_id] arg_cong [OF v_facts(3), of cd_connection_minutes]
    by (auto simp: recovery_candidate.defs)
  show "cd_eligible e \<longleftrightarrow> hard_constraints c ?m \<and> within_policy c p"
    using v_facts(1) hc by (auto simp: e pd_eligible_iff)
  show "cd_exclusion_reasons e = [] \<longleftrightarrow> cd_eligible e"
    using v_facts(1,2) hc by (auto simp: e pd_eligible_iff pd_reasons_Nil exclusion_reasons_Nil)
  show "distinct (cd_exclusion_reasons e)" by (simp add: e)
  show "if cd_eligible e
         then \<exists>x. recovery_score c = Inr x \<and> cd_deterministic_recovery_score e = Some x
         else cd_deterministic_recovery_score e = None"
    using v_facts(1,5) hc by (auto simp: e pd_eligible_iff split: if_splits)
  show "cd_candidate_id e = cd_candidate_id c" "cd_connection_minutes e = cd_connection_minutes c"
    using tr by (auto simp: e)
  show "cd_displayed_position e = None" using v_facts(6) by (simp add: e)
qed

lemma evaluate_policy_total:
  assumes "valid_recovery_candidate c" "cd_arrival_delay_minutes c < 2 ^ 1023"
  shows "\<exists>e. evaluate_policy_eligible_candidate c p = Inr e"
proof -
  let ?c = "c\<lparr>cd_policy_compliant := cd_policy_compliant c \<and> pd_eligible (evaluate_recovery_policy c p)\<rparr>"
  obtain e where "evaluate_candidate ?c (pol_minimum_connection_minutes p) = Inr e"
    using evaluate_candidate_total [of ?c] assms by auto
  then show ?thesis by (simp add: evaluate_policy_eligible_candidate_def Let_def result_bind_def)
qed

lemma apply_traveler_keeps [simp]:
  "cd_candidate_id (apply_traveler_minimum_connection e m) = cd_candidate_id e"
  "cd_connection_minutes (apply_traveler_minimum_connection e m) = cd_connection_minutes e"
  by (auto simp: apply_traveler_minimum_connection_def split: option.splits)

lemma apply_traveler_eligible:
  "cd_eligible (apply_traveler_minimum_connection e m) \<longleftrightarrow> cd_eligible e \<and>
     (case m of None \<Rightarrow> True | Some n \<Rightarrow> n = 0 \<or> n \<le> cd_connection_minutes e)"
  by (auto simp: apply_traveler_minimum_connection_def split: option.splits)

section \<open>Properties\<close>

text \<open>
  C17. A candidate a policy evaluation leaves eligible satisfies both the candidate's hard
  constraints and the corporate policy, and only such a candidate is scored; a traveler's own
  minimum connection applied afterwards can only remove eligibility, and when it removes it the
  score goes too.  So a ranked candidate always satisfies policy and preference together.
\<close>

theorem ranked_candidates_satisfy_policy:
  assumes "\<forall>c \<in> set cands. evaluate_policy_eligible_candidate c p = Inr (ev c)"
    and "r \<in> set (rank_eligible (map (\<lambda>c. apply_traveler_minimum_connection (ev c) m) cands))"
  shows "\<exists>c \<in> set cands. cd_candidate_id r = cd_candidate_id c \<and>
    hard_constraints c (pol_minimum_connection_minutes p) \<and> within_policy c p \<and>
    (case m of None \<Rightarrow> True | Some n \<Rightarrow> n = 0 \<or> n \<le> cd_connection_minutes c) \<and>
    (\<exists>x. recovery_score c = Inr x \<and> cd_deterministic_recovery_score r = Some x)"
proof -
  let ?f = "\<lambda>c. apply_traveler_minimum_connection (ev c) m"
  obtain d pos where d: "d \<in> set (map ?f cands)" "cd_eligible d" "r = d\<lparr>cd_displayed_position := pos\<rparr>"
    using assms(2) by (rule rank_eligible_origin)
  then obtain c where c: "c \<in> set cands" and el: "cd_eligible (?f c)"
    and r: "r = (?f c)\<lparr>cd_displayed_position := pos\<rparr>"
    by auto
  note facts = evaluate_policy_cases [OF assms(1) [rule_format, OF c]]
  have "?f c = ev c" using el
    by (auto simp: apply_traveler_minimum_connection_def split: option.splits if_splits)
  moreover have "case m of None \<Rightarrow> True | Some n \<Rightarrow> n = 0 \<or> n \<le> cd_connection_minutes c"
    using el facts(6) by (auto simp: apply_traveler_eligible split: option.splits)
  ultimately show ?thesis using el facts(1,4,5) c r by (intro bexI [of _ c]) auto
qed

theorem ranked_candidates_satisfy_policy_witness:
  "\<exists>ev r. (\<forall>c \<in> set fixture_alternatives. evaluate_policy_eligible_candidate c default_policy = Inr (ev c)) \<and>
     r \<in> set (rank_eligible (map (\<lambda>c. apply_traveler_minimum_connection (ev c) (Some 60)) fixture_alternatives)) \<and>
     cd_candidate_id r = ''fixture-alt-1''"
proof -
  define ev where "ev c = (SOME e. evaluate_policy_eligible_candidate c default_policy = Inr e)" for c
  let ?cs = "map (\<lambda>c. apply_traveler_minimum_connection (ev c) (Some 60)) fixture_alternatives"
  have "\<exists>e. evaluate_policy_eligible_candidate c default_policy = Inr e"
    if "c \<in> set fixture_alternatives" for c
    using that
    by (intro evaluate_policy_total) (auto simp: fixture_alternatives_def valid_recovery_candidate_def)
  then have ev: "\<forall>c \<in> set fixture_alternatives. evaluate_policy_eligible_candidate c default_policy = Inr (ev c)"
    unfolding ev_def by (meson someI_ex)
  let ?c = "hd fixture_alternatives"
  have "?c \<in> set fixture_alternatives" by (simp add: fixture_alternatives_def)
  note facts = evaluate_policy_cases [OF ev [rule_format, OF this]]
  have "cd_eligible (ev ?c)" "cd_connection_minutes (ev ?c) = 75"
    using facts(1,6)
    by (auto simp: fixture_alternatives_def hard_constraints_def within_policy_def default_policy_def)
  then have "cd_eligible (apply_traveler_minimum_connection (ev ?c) (Some 60))"
    by (simp add: apply_traveler_eligible)
  then have "filter cd_eligible ?cs \<noteq> []" by (auto simp: filter_empty_conv fixture_alternatives_def)
  then have "rank_eligible ?cs \<noteq> []"
    by (metis length_0_conv length_number_from length_py_sorted_desc rank_eligible_def)
  then obtain r where r: "r \<in> set (rank_eligible ?cs)" using hd_in_set by blast
  from ranked_candidates_satisfy_policy [OF ev r] have "cd_candidate_id r = ''fixture-alt-1''"
    by (auto simp: fixture_alternatives_def)
  with ev r show ?thesis by blast
qed

end
