(* ===== verification/RiskEngine.thy ===== *)
theory RiskEngine
  imports Host
begin

text \<open>
  \<^verbatim>\<open>domain/risk_engine.py\<close>: the fixed, versioned weighting of six factors, the rounded score and
  its severity band.  The lemmas reduce the floating-point computation to integer arithmetic in
  hundredths: the score is exactly the float nearest to the sum of the rounded contributions.
\<close>

section \<open>Model\<close>

definition RISK_POLICY_VERSION :: string where
  "RISK_POLICY_VERSION = ''mvp-2026-07-14''"

definition WEIGHTS :: "(string \<times> pyfloat) list" where
  "WEIGHTS = [
     (''flight_disruption'', fl (35 / 100)),
     (''connection_fragility'', fl (20 / 100)),
     (''airport_weather'', fl (20 / 100)),
     (''ground_route_disruption'', fl (10 / 100)),
     (''destination_advisory'', fl (10 / 100)),
     (''traveler_trip_criticality'', fl (5 / 100))]"

definition severity_for_score :: "pyfloat \<Rightarrow> severity" where
  "severity_for_score score =
     (if score < 25 then LOW else if score < 50 then WATCH else if score < 75 then HIGH
      else CRITICAL)"

text \<open>\<^verbatim>\<open>getattr(factors, factor)\<close> on the six attributes.\<close>

definition factor_attr :: "risk_factors \<Rightarrow> string \<Rightarrow> pyfloat" where
  "factor_attr f name =
     (if name = ''flight_disruption'' then flight_disruption f
      else if name = ''connection_fragility'' then connection_fragility f
      else if name = ''airport_weather'' then airport_weather f
      else if name = ''ground_route_disruption'' then ground_route_disruption f
      else if name = ''destination_advisory'' then destination_advisory f
      else traveler_trip_criticality f)"

definition contributions_of :: "risk_factors \<Rightarrow> (string, pyfloat) dict" where
  "contributions_of f = map (\<lambda>(factor, weight). (factor, py_round2 (fmul (factor_attr f factor) weight))) WEIGHTS"

definition score_of :: "risk_factors \<Rightarrow> pyfloat" where
  "score_of f = py_round2 (py_fsum (dict_values (contributions_of f)))"

definition calculate_risk ::
  "'h host_scheme \<Rightarrow> uuid \<Rightarrow> risk_factors \<Rightarrow> uuid list \<Rightarrow> string list \<Rightarrow>
    ('s run_scheme, risk_assessment) prog" where
  "calculate_risk h trip_id factors evidence_ids unknown_factors =
     bindP (uuid4 h) (\<lambda>assessment_id.
     bindP (now_utc h) (\<lambda>assessment_time.
       let score = score_of factors;
           a = \<lparr>ra_assessment_id = assessment_id, ra_trip_id = trip_id,
                ra_policy_version = RISK_POLICY_VERSION, ra_risk_score = score,
                ra_severity = severity_for_score score,
                ra_factor_contributions = contributions_of factors,
                ra_assessment_time = assessment_time, ra_evidence_ids = evidence_ids,
                ra_unknown_factors = unknown_factors,
                ra_uncertainty = (if unknown_factors \<noteq> [] then ''high'' else ''low'')\<rparr>
       in thenP (raise_when (\<not> valid_risk_assessment a) (ValidationError ''RiskAssessment''))
            (ret a)))"

section \<open>Hundredths\<close>

text \<open>The contribution of one factor in hundredths, as \<^verbatim>\<open>round(value * weight, 2)\<close> computes it.\<close>

definition cents :: "pyfloat \<Rightarrow> pyfloat \<Rightarrow> int" where
  "cents x w = round_half_even (fmul x w * 100)"

definition total_cents :: "risk_factors \<Rightarrow> int" where
  "total_cents f =
     cents (flight_disruption f) (fl (35 / 100)) + cents (connection_fragility f) (fl (20 / 100)) +
     cents (airport_weather f) (fl (20 / 100)) + cents (ground_route_disruption f) (fl (10 / 100)) +
     cents (destination_advisory f) (fl (10 / 100)) +
     cents (traveler_trip_criticality f) (fl (5 / 100))"

lemma py_round2_cents: "py_round2 (fmul x w) = fl (of_int (cents x w) / 100)"
  by (simp add: py_round2_def cents_def)

lemma fl_weight:
  "fl (35 / 100) = 3152519739159347 / 9007199254740992"
  "fl (20 / 100) = 3602879701896397 / 18014398509481984"
  "fl (10 / 100) = 3602879701896397 / 36028797018963968"
  "fl (5 / 100) = 3602879701896397 / 72057594037927936"
  by code_simp+

lemma cents_bounds:
  assumes "percent x" "0 \<le> w" "w * 100 \<le> of_int p + 1 / 1000" "0 \<le> p" "p \<le> 100"
  shows "0 \<le> cents x w \<and> cents x w \<le> 100 * p"
proof -
  have xw: "0 \<le> x * w" "x * w \<le> of_int p + 1 / 1000"
  proof -
    show "0 \<le> x * w" using assms by (simp add: percent_def)
    have "x * w \<le> 100 * w" using assms by (intro mult_right_mono) (auto simp: percent_def)
    with assms show "x * w \<le> of_int p + 1 / 1000" by simp
  qed
  have p: "(of_int p :: rat) \<le> 100" using assms(5) by simp
  have "\<bar>x * w\<bar> < 1024" using xw p by simp
  then have "\<bar>fmul x w - x * w\<bar> \<le> fdelta" unfolding fmul_def by (rule fl_delta)
  then have "\<bar>fmul x w - x * w\<bar> \<le> 1 / 1000" by (rule order_trans) simp
  with xw have up: "fmul x w * 100 \<le> 100 * of_int p + 1 / 4" by linarith
  have "\<bar>of_int (cents x w) - fmul x w * 100\<bar> \<le> 1 / 2"
    using round_half_even_error by (simp add: cents_def)
  with up have "(of_int (cents x w) :: rat) < 100 * of_int p + 1" by linarith
  then have "(of_int (cents x w) :: rat) < of_int (100 * p + 1)" by simp
  then have "cents x w \<le> 100 * p" by (simp only: of_int_less_iff)
  moreover have "0 \<le> fmul x w" unfolding fmul_def using xw by (intro fl_nonneg)
  then have "0 \<le> cents x w" unfolding cents_def by (intro round_half_even_ge) simp
  ultimately show ?thesis by blast
qed

lemma cents_mono: "0 \<le> w \<Longrightarrow> x \<le> y \<Longrightarrow> cents x w \<le> cents y w"
  unfolding cents_def fmul_def by (intro round_half_even_mono mult_right_mono fl_mono) auto

lemma factor_cents_bounds:
  assumes "valid_risk_factors f"
  shows "0 \<le> cents (flight_disruption f) (fl (35 / 100)) \<and> cents (flight_disruption f) (fl (35 / 100)) \<le> 3500"
    and "0 \<le> cents (connection_fragility f) (fl (20 / 100)) \<and> cents (connection_fragility f) (fl (20 / 100)) \<le> 2000"
    and "0 \<le> cents (airport_weather f) (fl (20 / 100)) \<and> cents (airport_weather f) (fl (20 / 100)) \<le> 2000"
    and "0 \<le> cents (ground_route_disruption f) (fl (10 / 100)) \<and> cents (ground_route_disruption f) (fl (10 / 100)) \<le> 1000"
    and "0 \<le> cents (destination_advisory f) (fl (10 / 100)) \<and> cents (destination_advisory f) (fl (10 / 100)) \<le> 1000"
    and "0 \<le> cents (traveler_trip_criticality f) (fl (5 / 100)) \<and> cents (traveler_trip_criticality f) (fl (5 / 100)) \<le> 500"
  using assms
    cents_bounds [of "flight_disruption f" "fl (35 / 100)" 35]
    cents_bounds [of "connection_fragility f" "fl (20 / 100)" 20]
    cents_bounds [of "airport_weather f" "fl (20 / 100)" 20]
    cents_bounds [of "ground_route_disruption f" "fl (10 / 100)" 10]
    cents_bounds [of "destination_advisory f" "fl (10 / 100)" 10]
    cents_bounds [of "traveler_trip_criticality f" "fl (5 / 100)" 5]
  unfolding fl_weight by (simp_all add: valid_risk_factors_def)

lemma total_cents_bounds: "valid_risk_factors f \<Longrightarrow> 0 \<le> total_cents f \<and> total_cents f \<le> 10000"
  using factor_cents_bounds [of f] unfolding total_cents_def by linarith

lemma fl_cents_error:
  assumes "0 \<le> n" "n \<le> 10000"
  shows "\<bar>fl (of_int n / 100) - of_int n / 100\<bar> \<le> fdelta"
proof -
  have "(of_int n :: rat) \<le> 10000" "(0::rat) \<le> of_int n" using assms by simp_all
  then show ?thesis by (intro fl_delta) simp
qed

lemma contributions_values:
  "dict_values (contributions_of f) =
     map (\<lambda>n. fl (of_int n / 100))
       [cents (flight_disruption f) (fl (35 / 100)), cents (connection_fragility f) (fl (20 / 100)),
        cents (airport_weather f) (fl (20 / 100)), cents (ground_route_disruption f) (fl (10 / 100)),
        cents (destination_advisory f) (fl (10 / 100)),
        cents (traveler_trip_criticality f) (fl (5 / 100))]"
  by (simp add: dict_values_def contributions_of_def WEIGHTS_def factor_attr_def py_round2_cents)

lemma fsum_cents:
  assumes "\<forall>n \<in> set ns. 0 \<le> n \<and> n \<le> 10000" "length ns \<le> 6" "sum_list ns \<le> 10000"
  shows "py_round2 (py_fsum (map (\<lambda>n. fl (of_int n / 100)) ns)) = fl (of_int (sum_list ns) / 100)"
proof (rule py_round2_near)
  let ?v = "\<lambda>n. fl (of_int n / 100)"
  have dist: "\<bar>sum_list (map ?v ns) - of_int (sum_list ns) / 100\<bar> \<le> of_nat (length ns) * fdelta"
    using assms(1)
  proof (induction ns)
    case (Cons n ns)
    have "\<bar>?v n - of_int n / 100\<bar> \<le> fdelta" using Cons.prems by (intro fl_cents_error) auto
    moreover have "\<bar>sum_list (map ?v ns) - of_int (sum_list ns) / 100\<bar> \<le> of_nat (length ns) * fdelta"
      using Cons by simp
    moreover have "(of_nat (length (n # ns)) :: rat) * fdelta = of_nat (length ns) * fdelta + fdelta"
      by (simp add: distrib_right)
    moreover have "(of_int (sum_list (n # ns)) :: rat) / 100 = of_int n / 100 + of_int (sum_list ns) / 100"
      by (simp add: add_divide_distrib)
    ultimately show ?case by (simp only: list.map sum_list.Cons)
  qed simp
  have len: "of_nat (length ns) * fdelta \<le> 6 * fdelta" using assms(2) by simp
  have nonneg: "\<And>n. n \<in> set ns \<Longrightarrow> 0 \<le> ?v n" using assms(1) by (auto intro!: fl_nonneg)
  then have abs: "map abs (map ?v ns) = map ?v ns" by (simp cong: map_cong)
  have "sum_list (map ?v ns) \<le> 980"
  proof -
    have "(of_int (sum_list ns) :: rat) / 100 \<le> 100"
      using assms(3) by simp
    moreover have "6 * fdelta \<le> 1" by simp
    ultimately show ?thesis using dist len by linarith
  qed
  then have "\<bar>py_fsum (map ?v ns) - sum_list (map ?v ns)\<bar> \<le> 64 * fdelta"
    using assms(2) by (intro py_fsum_error) (simp_all only: abs length_map)
  with dist len have "\<bar>py_fsum (map ?v ns) - of_int (sum_list ns) / 100\<bar> \<le> 70 * fdelta"
    by linarith
  also have "70 * fdelta < 1 / 1000" by simp
  finally show "\<bar>py_fsum (map ?v ns) * 100 - of_int (sum_list ns)\<bar> < 1 / 2" by linarith
qed

lemma score_of_cents:
  assumes "valid_risk_factors f"
  shows "score_of f = fl (of_int (total_cents f) / 100)"
proof -
  note b = factor_cents_bounds [OF assms] total_cents_bounds [OF assms]
  show ?thesis
    unfolding score_of_def contributions_values
    by (subst fsum_cents) (use b in \<open>auto simp: total_cents_def add.assoc\<close>)
qed

lemma fl_cents_less:
  assumes "0 \<le> n" "n \<le> 10000" "0 \<le> k" "k \<le> 100"
  shows "fl (of_int n / 100) < of_int k \<longleftrightarrow> n < 100 * k"
proof
  assume "n < 100 * k"
  then have "(of_int n :: rat) \<le> of_int (100 * k - 1)" by (simp only: of_int_le_iff)
  then have "(of_int n :: rat) / 100 \<le> of_int k - 1 / 100" by simp
  moreover have "\<bar>fl (of_int n / 100) - of_int n / 100\<bar> \<le> 1 / 1000"
    by (rule order_trans [OF fl_cents_error [OF assms(1,2)]]) simp
  ultimately show "fl (of_int n / 100) < of_int k" by linarith
next
  assume lt: "fl (of_int n / 100) < of_int k"
  show "n < 100 * k"
  proof (rule ccontr)
    assume "\<not> n < 100 * k"
    then have "(of_int (100 * k) :: rat) \<le> of_int n" by (simp only: of_int_le_iff)
    then have "of_int k \<le> (of_int n :: rat) / 100" by simp
    then have "of_int k \<le> fl (of_int n / 100)"
      by (rule fl_ge) (use assms in \<open>auto intro!: fl_of_int\<close>)
    with lt show False by simp
  qed
qed

lemma severity_of_cents:
  assumes "0 \<le> n" "n \<le> 10000"
  shows "severity_for_score (fl (of_int n / 100)) =
    (if n < 2500 then LOW else if n < 5000 then WATCH else if n < 7500 then HIGH else CRITICAL)"
  using fl_cents_less [OF assms, of 25] fl_cents_less [OF assms, of 50]
    fl_cents_less [OF assms, of 75]
  by (simp add: severity_for_score_def)

lemma score_of_percent:
  assumes "valid_risk_factors f"
  shows "percent (score_of f)"
proof -
  note b = total_cents_bounds [OF assms]
  have "fl (of_int (total_cents f) / 100) \<le> 100"
  proof (rule fl_le)
    show "(of_int (total_cents f) :: rat) / 100 \<le> 100"
      using b by simp
  qed simp
  moreover have "0 \<le> fl (of_int (total_cents f) / 100)" using b by (intro fl_nonneg) simp
  ultimately show ?thesis by (simp add: score_of_cents [OF assms] percent_def)
qed

lemma calculate_risk_app:
  assumes "valid_risk_factors f"
  shows "calculate_risk h trip_id f ids unknown s =
    (Inr \<lparr>ra_assessment_id = host_uuid4 h (run_draws s), ra_trip_id = trip_id,
          ra_policy_version = RISK_POLICY_VERSION, ra_risk_score = score_of f,
          ra_severity = severity_for_score (score_of f),
          ra_factor_contributions = contributions_of f,
          ra_assessment_time = host_now h (run_reads s), ra_evidence_ids = ids,
          ra_unknown_factors = unknown,
          ra_uncertainty = (if unknown \<noteq> [] then ''high'' else ''low'')\<rparr>,
     s\<lparr>run_draws := Suc (run_draws s), run_reads := Suc (run_reads s)\<rparr>)"
  using score_of_percent [OF assms]
  by (simp add: calculate_risk_def prog_simps valid_risk_assessment_def Let_def)

section \<open>Severity as an order\<close>

fun severity_rank :: "severity \<Rightarrow> nat" where
  "severity_rank LOW = 1"
| "severity_rank WATCH = 2"
| "severity_rank HIGH = 3"
| "severity_rank CRITICAL = 4"

instantiation severity :: linorder
begin

definition less_eq_severity :: "severity \<Rightarrow> severity \<Rightarrow> bool" where
  "less_eq_severity a b \<longleftrightarrow> severity_rank a \<le> severity_rank b"

definition less_severity :: "severity \<Rightarrow> severity \<Rightarrow> bool" where
  "less_severity a b \<longleftrightarrow> severity_rank a < severity_rank b"

instance
proof
  fix a b c :: severity
  show "a \<le> b \<Longrightarrow> b \<le> a \<Longrightarrow> a = b"
    by (cases a; cases b) (auto simp: less_eq_severity_def)
qed (auto simp: less_eq_severity_def less_severity_def)

end

lemma severity_for_score_mono: "x \<le> y \<Longrightarrow> severity_for_score x \<le> severity_for_score y"
  by (auto simp: severity_for_score_def less_eq_severity_def)

definition factors_le :: "risk_factors \<Rightarrow> risk_factors \<Rightarrow> bool" where
  "factors_le f g \<longleftrightarrow>
     flight_disruption f \<le> flight_disruption g \<and> connection_fragility f \<le> connection_fragility g \<and>
     airport_weather f \<le> airport_weather g \<and>
     ground_route_disruption f \<le> ground_route_disruption g \<and>
     destination_advisory f \<le> destination_advisory g \<and>
     traveler_trip_criticality f \<le> traveler_trip_criticality g"

lemma total_cents_mono: "factors_le f g \<Longrightarrow> total_cents f \<le> total_cents g"
  unfolding total_cents_def factors_le_def
  by (intro add_mono cents_mono) (auto intro: fl_nonneg)

lemma score_of_mono:
  assumes "valid_risk_factors f" "valid_risk_factors g" "factors_le f g"
  shows "score_of f \<le> score_of g"
  using total_cents_mono [OF assms(3)]
  by (simp add: score_of_cents assms(1,2)) (intro fl_mono, simp add: divide_right_mono)

section \<open>Properties\<close>

text \<open>
  C1. For factors within their declared range, the assessment is always produced (the model
  validator never rejects the computed score), its score is exactly the float nearest to the
  sum of the six rounded contributions in hundredths, that sum lies between 0 and 10000, and
  the severity is the integer band of the sum: no floating-point error reaches a decision.
\<close>

theorem calculate_risk_exact:
  assumes "valid_risk_factors f"
  shows "\<exists>a s'. calculate_risk h trip_id f ids unknown s = (Inr a, s') \<and>
    ra_risk_score a = fl (of_int (total_cents f) / 100) \<and>
    0 \<le> total_cents f \<and> total_cents f \<le> 10000 \<and>
    ra_severity a =
      (if total_cents f < 2500 then LOW else if total_cents f < 5000 then WATCH
       else if total_cents f < 7500 then HIGH else CRITICAL) \<and>
    ra_uncertainty a = (if unknown = [] then ''low'' else ''high'')"
  using calculate_risk_app [OF assms, of h trip_id ids unknown s] score_of_cents [OF assms]
    total_cents_bounds [OF assms] severity_of_cents [of "total_cents f"]
  by auto

definition disruption_factors :: risk_factors where
  "disruption_factors = \<lparr>flight_disruption = 90, connection_fragility = 75, airport_weather = 70,
     ground_route_disruption = 35, destination_advisory = 15, traveler_trip_criticality = 20\<rparr>"

lemma disruption_total_cents: "total_cents disruption_factors = 6650"
  unfolding total_cents_def disruption_factors_def cents_def fmul_def by code_simp

theorem calculate_risk_exact_witness:
  "\<exists>a s'. calculate_risk \<lparr>host_uuid4 = of_nat, host_now = int\<rparr> 7 disruption_factors [] []
      \<lparr>run_draws = 0, run_reads = 0\<rparr> = (Inr a, s') \<and>
    ra_risk_score a = fl (133 / 2) \<and> ra_severity a = HIGH"
proof -
  have v: "valid_risk_factors disruption_factors"
    by (simp add: valid_risk_factors_def percent_def disruption_factors_def)
  show ?thesis
    using calculate_risk_exact [OF v, of "\<lparr>host_uuid4 = of_nat, host_now = int\<rparr>" 7 "[]" "[]"
        "\<lparr>run_draws = 0, run_reads = 0\<rparr>"]
    by (auto simp: disruption_total_cents)
qed

text \<open>
  C24. Scoring is monotone: when no factor gets smaller, neither the score nor the severity
  does, in the floating-point arithmetic the code runs.
\<close>

theorem risk_monotone:
  assumes "valid_risk_factors f" "valid_risk_factors g" "factors_le f g"
  shows "score_of f \<le> score_of g \<and>
    severity_for_score (score_of f) \<le> severity_for_score (score_of g)"
  using score_of_mono [OF assms] severity_for_score_mono by blast

theorem risk_monotone_witness:
  "factors_le (disruption_factors\<lparr>airport_weather := 5\<rparr>) disruption_factors \<and>
   score_of (disruption_factors\<lparr>airport_weather := 5\<rparr>) \<le> score_of disruption_factors"
proof -
  have "valid_risk_factors (disruption_factors\<lparr>airport_weather := 5\<rparr>)"
      "valid_risk_factors disruption_factors"
      "factors_le (disruption_factors\<lparr>airport_weather := 5\<rparr>) disruption_factors"
    by (simp_all add: valid_risk_factors_def percent_def disruption_factors_def factors_le_def)
  then show ?thesis using risk_monotone by blast
qed

end
