(* ===== verification/Assessment.thy ===== *)
theory Assessment
  imports RiskEngine
begin

text \<open>
  From evidence to a disposition: \<^verbatim>\<open>get_scoring_input\<close>, \<^verbatim>\<open>source_health_for\<close> and
  \<^verbatim>\<open>disposition_for\<close> of \<^verbatim>\<open>apps/api/main.py\<close> and the two functions that write a recommendation
  without a model, \<^verbatim>\<open>investigate\<close> and \<^verbatim>\<open>create_limited_visibility_incident\<close>.

  \<^verbatim>\<open>source_health_for\<close> iterates over a Python \<^verbatim>\<open>set\<close> of strings, whose order differs from process
  to process; the order is an argument of the model and \<open>core_order\<close> says it is one of the six.
\<close>

section \<open>Scoring input\<close>

definition degraded :: "evidence_envelope \<Rightarrow> bool" where
  "degraded item \<longleftrightarrow> ev_freshness_status item \<in> {STALE, UNAVAILABLE}"

definition scoring_fields :: "(string \<times> string) list" where
  "scoring_fields =
     [(''flight_disruption'', ''flight_status''),
      (''connection_fragility'', ''connection_feasibility''),
      (''airport_weather'', ''airport_weather''),
      (''ground_route_disruption'', ''ground_route''),
      (''destination_advisory'', ''destination_advisory'')]"

definition available_items :: "evidence_envelope list \<Rightarrow> string \<Rightarrow> evidence_envelope list" where
  "available_items evidence source_type =
     filter (\<lambda>item. \<not> degraded item) (filter (\<lambda>item. ev_source_type item = source_type) evidence)"

definition risk_values :: "evidence_envelope list \<Rightarrow> json list" where
  "risk_values items =
     filter is_number (map (\<lambda>item. get_or (ev_normalized_payload item) ''risk_score'' (JInt 0)) items)"

text \<open>\<^verbatim>\<open>max((float(value) for value in values), default=0)\<close>\<close>

definition field_score :: "evidence_envelope list \<Rightarrow> string \<Rightarrow> pyfloat result" where
  "field_score evidence source_type =
     (let available = available_items evidence source_type
      in if available = [] then Inr 0
         else result_bind (result_map float_of_number (risk_values available)) (\<lambda>values.
           Inr (case values of [] \<Rightarrow> 0 | v # vs \<Rightarrow> fold max vs v)))"

fun criticality_score :: "trip_criticality \<Rightarrow> pyfloat" where
  "criticality_score STANDARD = 20"
| "criticality_score IMPORTANT = 60"
| "criticality_score BUSINESS_CRITICAL = 100"

text \<open>\<^verbatim>\<open>RiskFactors(**scores)\<close>, where every field has a score.\<close>

definition risk_factors_of :: "(string, pyfloat) dict \<Rightarrow> risk_factors result" where
  "risk_factors_of scores =
     (let v = (\<lambda>k. case dict_get scores k of None \<Rightarrow> 0 | Some x \<Rightarrow> x);
          f = \<lparr>flight_disruption = v ''flight_disruption'',
               connection_fragility = v ''connection_fragility'',
               airport_weather = v ''airport_weather'',
               ground_route_disruption = v ''ground_route_disruption'',
               destination_advisory = v ''destination_advisory'',
               traveler_trip_criticality = v ''traveler_trip_criticality''\<rparr>
      in if valid_risk_factors f then Inr f else Inl (ValidationError ''RiskFactors''))"

definition get_scoring_input ::
  "evidence_envelope list \<Rightarrow> trip \<Rightarrow> (risk_factors \<times> string list) result" where
  "get_scoring_input evidence t =
     result_bind
       (result_map (\<lambda>(field, source_type).
          result_bind (field_score evidence source_type) (\<lambda>x. Inr (field, x))) scoring_fields)
       (\<lambda>scores. result_bind
          (risk_factors_of (scores @
             [(''traveler_trip_criticality'', criticality_score (trip_trip_criticality t))]))
          (\<lambda>factors. Inr (factors,
             [field. (field, source_type) \<leftarrow> scoring_fields, available_items evidence source_type = []])))"

section \<open>Source health and disposition\<close>

definition core_source_types :: "string list" where
  "core_source_types = [''flight_status'', ''airport_weather'', ''ground_route'']"

definition core_order :: "string list \<Rightarrow> bool" where
  "core_order order \<longleftrightarrow> mset order = mset core_source_types"

definition source_health_for :: "string list \<Rightarrow> evidence_envelope list \<Rightarrow> source_health" where
  "source_health_for order evidence =
     (let unavailable = filter (\<lambda>source_type.
        let items = filter (\<lambda>item. ev_source_type item = source_type) evidence
        in items = [] \<or> list_all degraded items) order
      in \<lparr>sh_core_sources_unavailable = unavailable, sh_limited_visibility = (unavailable \<noteq> [])\<rparr>)"

definition disposition_for :: "severity \<Rightarrow> source_health \<Rightarrow> assessment_disposition" where
  "disposition_for sev health =
     (if sev \<in> {HIGH, CRITICAL} \<and> ''flight_status'' \<in> set (sh_core_sources_unavailable health)
      then NEEDS_HUMAN_REVIEW
      else if length (sh_core_sources_unavailable health) \<ge> 2 then NEEDS_HUMAN_REVIEW
      else if sev \<in> {HIGH, CRITICAL} then INVESTIGATE
      else if sev = WATCH then MANAGER_QUEUE
      else MONITOR)"

section \<open>Recommendations without a model\<close>

text \<open>The constructor of \<^verbatim>\<open>Recommendation\<close>, with its default identifier and time.\<close>

definition new_recommendation ::
  "'h host_scheme \<Rightarrow> uuid \<Rightarrow> string \<Rightarrow> uuid list \<Rightarrow> string \<Rightarrow> string \<Rightarrow> string \<Rightarrow> string \<Rightarrow> string list \<Rightarrow>
    ('s run_scheme, recommendation) prog" where
  "new_recommendation h incident_id explanation evidence_ids uncertainty action traveler_message
     manager_message missing =
     bindP (uuid4 h) (\<lambda>rid. bindP (now_utc h) (\<lambda>generated_at.
       let r = \<lparr>rec_recommendation_id = rid, rec_incident_id = incident_id,
                rec_severity_explanation = explanation, rec_evidence_ids = evidence_ids,
                rec_uncertainty = uncertainty, rec_recommended_action = action,
                rec_ranked_alternative_ids = [], rec_traveler_message = traveler_message,
                rec_manager_message = manager_message, rec_requires_human_approval = True,
                rec_missing_information = missing, rec_generated_at = generated_at\<rparr>
       in if valid_recommendation r then ret r else throw (ValidationError ''Recommendation'')))"

definition investigate ::
  "'h host_scheme \<Rightarrow> incident \<Rightarrow> evidence_envelope list \<Rightarrow> ('s run_scheme, incident) prog" where
  "investigate h inc evidence =
     (let relevant = map ev_evidence_id (filter (\<lambda>i. ev_freshness_status i = FRESH) evidence);
          missing = map ev_source_type (filter (\<lambda>i. ev_freshness_status i \<noteq> FRESH) evidence)
      in bindP (for_each [''get_trip_context'', ''get_flight_status'', ''get_connection_feasibility'']
             (\<lambda>name. bindP (now_utc h) (\<lambda>t. ret
                \<lparr>ta_tool_name = name,
                 ta_arguments = [(''trip_id'', JStr (str_uuid (inc_trip_id inc)))],
                 ta_evidence_ids = relevant, ta_occurred_at = t, ta_outcome = ''completed''\<rparr>)))
           (\<lambda>audit. bindP
             (new_recommendation h (inc_incident_id inc)
               (''This trip is '' @ severity_value (inc_severity inc) @
                '' risk based on the verified evidence shown. '' @
                ''RouteShield has not made or requested any booking change.'')
               (map ev_evidence_id evidence)
               (if missing \<noteq> [] then ''high'' else ''medium'')
               (''Review the current itinerary and provider evidence before '' @
                ''approving any recovery action.'')
               (''Your travel manager is reviewing a possible disruption. '' @
                ''No itinerary change has been made.'')
               (''Review the evidence timestamps and decide whether a '' @
                ''policy-eligible recovery option is needed.'')
               missing)
             (\<lambda>r. bindP (now_utc h) (\<lambda>t. ret (inc\<lparr>inc_tool_audit := audit,
                inc_recommendation := Some r, inc_status := PENDING_APPROVAL,
                inc_updated_at := t\<rparr>)))))"

definition create_limited_visibility_incident ::
  "'h host_scheme \<Rightarrow> incident \<Rightarrow> evidence_envelope list \<Rightarrow> ('s run_scheme, incident) prog" where
  "create_limited_visibility_incident h inc evidence =
     bindP (new_recommendation h (inc_incident_id inc)
         ''RouteShield has limited visibility because required sources are unavailable.''
         (map ev_evidence_id evidence) ''high''
         ''Manually verify the itinerary before taking any recovery action.''
         ''Your travel manager is checking your itinerary. No itinerary change has been made.''
         ''Required source evidence is unavailable; verify the itinerary directly with providers.''
         (map ev_source_type (filter degraded evidence)))
       (\<lambda>r. bindP (now_utc h) (\<lambda>t. ret (inc\<lparr>inc_recommendation := Some r,
          inc_status := PENDING_APPROVAL, inc_updated_at := t\<rparr>)))"

text \<open>The allow-listed fields of a confirmed profile that may influence recovery advice.\<close>

definition graph_traveler_context :: "traveler_preference_profile option \<Rightarrow> json_object option" where
  "graph_traveler_context profile = map_option (\<lambda>p.
     [(''preferred_airports'', JList (map JStr (prof_preferred_airports p))),
      (''preferred_carriers'', JList (map JStr (prof_preferred_carriers p))),
      (''minimum_connection_minutes'', json_opt_int (prof_minimum_connection_minutes p)),
      (''avoid_overnight_connections'',
         case prof_avoid_overnight_connections p of None \<Rightarrow> JNull | Some b \<Rightarrow> JBool b),
      (''approved_ground_transport_preferences'',
         JList (map JStr (prof_approved_ground_transport_preferences p))),
      (''approved_accessibility_accommodations'',
         JList (map JStr (prof_approved_accessibility_accommodations p))),
      (''version'', JInt (prof_version p))]) profile"

section \<open>Lemmas\<close>

lemma degraded_available: "filter degraded (available_items evidence s) = []"
  by (auto simp: available_items_def filter_empty_conv)

lemma available_items_filter [simp]:
  "available_items (filter (\<lambda>i. \<not> degraded i) evidence) s = available_items evidence s"
  by (auto simp: available_items_def intro: filter_cong)

lemma available_items_Cons:
  "available_items (i # evidence) s =
     (if ev_source_type i = s \<and> \<not> degraded i then i # available_items evidence s
      else available_items evidence s)"
  by (simp add: available_items_def)

lemma fold_max_ge: "(x::'a::linorder) \<in> insert v (set vs) \<Longrightarrow> x \<le> fold max vs v"
proof (induction vs arbitrary: v x)
  case (Cons w vs)
  have "max w v \<le> fold max vs (max w v)" by (rule Cons.IH) simp
  with Cons.prems Cons.IH [of x "max w v"] show ?case by auto
qed simp

lemma fold_max_in: "fold max vs (v::'a::linorder) \<in> insert v (set vs)"
  by (induction vs arbitrary: v) (auto simp: max_def)

lemma field_score_filter [simp]:
  "field_score (filter (\<lambda>i. \<not> degraded i) evidence) s = field_score evidence s"
  by (simp add: field_score_def)

lemma get_scoring_input_cases:
  assumes "get_scoring_input evidence t = Inr (f, unknown)"
  shows "valid_risk_factors f"
    and "field_score evidence ''flight_status'' = Inr (flight_disruption f)"
    and "field_score evidence ''connection_feasibility'' = Inr (connection_fragility f)"
    and "field_score evidence ''airport_weather'' = Inr (airport_weather f)"
    and "field_score evidence ''ground_route'' = Inr (ground_route_disruption f)"
    and "field_score evidence ''destination_advisory'' = Inr (destination_advisory f)"
    and "traveler_trip_criticality f = criticality_score (trip_trip_criticality t)"
    and "unknown = [field. (field, s) \<leftarrow> scoring_fields, available_items evidence s = []]"
proof -
  obtain a b c d e where
    fs: "field_score evidence ''flight_status'' = Inr a"
      "field_score evidence ''connection_feasibility'' = Inr b"
      "field_score evidence ''airport_weather'' = Inr c"
      "field_score evidence ''ground_route'' = Inr d"
      "field_score evidence ''destination_advisory'' = Inr e"
    and f: "risk_factors_of [(''flight_disruption'', a), (''connection_fragility'', b),
      (''airport_weather'', c), (''ground_route_disruption'', d), (''destination_advisory'', e),
      (''traveler_trip_criticality'', criticality_score (trip_trip_criticality t))] = Inr f"
    and u: "unknown = [field. (field, s) \<leftarrow> scoring_fields, available_items evidence s = []]"
    using assms unfolding get_scoring_input_def result_bind_Inr
    by (auto simp: scoring_fields_def result_bind_Inr)
  from f have v: "valid_risk_factors f"
    and eq: "flight_disruption f = a" "connection_fragility f = b" "airport_weather f = c"
      "ground_route_disruption f = d" "destination_advisory f = e"
      "traveler_trip_criticality f = criticality_score (trip_trip_criticality t)"
    by (auto simp: risk_factors_of_def Let_def split: if_splits)
  show "valid_risk_factors f" by (rule v)
  show "field_score evidence ''flight_status'' = Inr (flight_disruption f)"
    "field_score evidence ''connection_feasibility'' = Inr (connection_fragility f)"
    "field_score evidence ''airport_weather'' = Inr (airport_weather f)"
    "field_score evidence ''ground_route'' = Inr (ground_route_disruption f)"
    "field_score evidence ''destination_advisory'' = Inr (destination_advisory f)"
    "traveler_trip_criticality f = criticality_score (trip_trip_criticality t)"
    using fs eq by simp_all
  show "unknown = [field. (field, s) \<leftarrow> scoring_fields, available_items evidence s = []]" by (rule u)
qed

lemma risk_values_set:
  "set (risk_values items) = {v. \<exists>i \<in> set items. v = get_or (ev_normalized_payload i) ''risk_score'' (JInt 0) \<and> is_number v}"
  by (auto simp: risk_values_def)

text \<open>A field score is an upper bound of the numeric scores of its available items, and one of them.\<close>

lemma field_score_ge:
  assumes "field_score evidence s = Inr x" "i \<in> set (available_items evidence s)"
    "v = get_or (ev_normalized_payload i) ''risk_score'' (JInt 0)" "is_number v"
  shows "\<exists>y. float_of_number v = Inr y \<and> y \<le> x"
proof -
  let ?vs = "risk_values (available_items evidence s)"
  obtain ys where ys: "result_map float_of_number ?vs = Inr ys"
    and x: "x = (case ys of [] \<Rightarrow> 0 | v # vs \<Rightarrow> fold max vs v)"
    using assms(1,2) by (auto simp: field_score_def Let_def result_bind_Inr split: if_splits)
  have "v \<in> set ?vs" using assms(2-4) by (auto simp: risk_values_set)
  then obtain k where k: "k < length ?vs" "?vs ! k = v" by (meson in_set_conv_nth)
  with ys have y: "float_of_number v = Inr (ys ! k)" "k < length ys" by (auto simp: result_map_Inr)
  then have "ys ! k \<in> set ys" by simp
  then have "ys ! k \<le> x" using x fold_max_ge by (cases ys) auto
  with y show ?thesis by blast
qed

lemma field_score_in:
  assumes "field_score evidence s = Inr x"
  shows "x = 0 \<or> (\<exists>i \<in> set (available_items evidence s). \<exists>v.
    v = get_or (ev_normalized_payload i) ''risk_score'' (JInt 0) \<and> is_number v \<and> float_of_number v = Inr x)"
proof (cases "available_items evidence s = []")
  case False
  let ?vs = "risk_values (available_items evidence s)"
  obtain ys where ys: "result_map float_of_number ?vs = Inr ys"
    and x: "x = (case ys of [] \<Rightarrow> 0 | v # vs \<Rightarrow> fold max vs v)"
    using assms False by (auto simp: field_score_def Let_def result_bind_Inr)
  show ?thesis
  proof (cases ys)
    case (Cons v vs)
    then have "x \<in> set ys" using x fold_max_in [of vs v] by simp
    then obtain k where k: "k < length ys" "ys ! k = x" by (meson in_set_conv_nth)
    with ys have "float_of_number (?vs ! k) = Inr x" "?vs ! k \<in> set ?vs" by (auto simp: result_map_Inr)
    then show ?thesis unfolding risk_values_set by blast
  qed (simp add: x)
qed (use assms in \<open>simp add: field_score_def\<close>)

lemma available_items_mono:
  "set evidence \<subseteq> set evidence' \<Longrightarrow> set (available_items evidence s) \<subseteq> set (available_items evidence' s)"
  by (auto simp: available_items_def)

lemma field_score_mono:
  assumes "set evidence \<subseteq> set evidence'"
    and "field_score evidence s = Inr x" "field_score evidence' s = Inr x'" "0 \<le> x'"
  shows "x \<le> x'"
proof (cases "x = 0")
  case False
  then obtain i v where i: "i \<in> set (available_items evidence s)"
      "v = get_or (ev_normalized_payload i) ''risk_score'' (JInt 0)" "is_number v"
    and x: "float_of_number v = Inr x"
    using field_score_in [OF assms(2)] by blast
  have "i \<in> set (available_items evidence' s)" using i(1) available_items_mono [OF assms(1)] by blast
  from field_score_ge [OF assms(3) this i(2,3)] x show ?thesis by auto
qed (use assms(4) in simp)

lemma scoring_mono:
  assumes "set evidence \<subseteq> set evidence'"
    and "get_scoring_input evidence t = Inr (f, u)" "get_scoring_input evidence' t = Inr (f', u')"
  shows "factors_le f f'"
proof -
  note a = get_scoring_input_cases [OF assms(2)] and b = get_scoring_input_cases [OF assms(3)]
  note m = field_score_mono [OF assms(1)]
  show ?thesis unfolding factors_le_def
    using b(1) a(7) b(7) m [OF a(2) b(2)] m [OF a(3) b(3)] m [OF a(4) b(4)] m [OF a(5) b(5)]
      m [OF a(6) b(6)]
    by (auto simp: valid_risk_factors_def percent_def)
qed

lemma scoring_field_attr:
  assumes "P ''flight_status'' (flight_disruption f) \<and> P ''connection_feasibility'' (connection_fragility f) \<and>
    P ''airport_weather'' (airport_weather f) \<and> P ''ground_route'' (ground_route_disruption f) \<and>
    P ''destination_advisory'' (destination_advisory f)"
    and "(field, s) \<in> set scoring_fields"
  shows "P s (factor_attr f field)"
proof -
  have "\<forall>(field, s) \<in> set scoring_fields. P s (factor_attr f field)"
    using assms(1) by (simp add: scoring_fields_def factor_attr_def)
  with assms(2) show ?thesis by blast
qed

lemma comprehension_filter: "[f. (f, s) \<leftarrow> xs, P s] = map fst (filter (\<lambda>(f, s). P s) xs)"
  by (induction xs) auto

text \<open>A core source is down when no usable report of it is at hand.\<close>

definition sources_down :: "evidence_envelope list \<Rightarrow> string set" where
  "sources_down evidence =
     {s \<in> set core_source_types. \<forall>i \<in> set evidence. ev_source_type i = s \<longrightarrow> degraded i}"

lemma source_health_set:
  assumes "core_order order"
  shows "set (sh_core_sources_unavailable (source_health_for order evidence)) = sources_down evidence"
    and "length (sh_core_sources_unavailable (source_health_for order evidence)) = card (sources_down evidence)"
proof -
  have set: "set order = set core_source_types"
    using assms mset_eq_setD by (auto simp: core_order_def)
  have dist: "distinct order"
    using assms mset_eq_imp_distinct_iff [of order core_source_types]
    by (simp add: core_order_def core_source_types_def)
  show 1: "set (sh_core_sources_unavailable (source_health_for order evidence)) = sources_down evidence"
  proof -
    have "(filter (\<lambda>i. ev_source_type i = s) evidence = [] \<or>
        list_all degraded (filter (\<lambda>i. ev_source_type i = s) evidence)) \<longleftrightarrow>
        (\<forall>i \<in> set evidence. ev_source_type i = s \<longrightarrow> degraded i)" for s
      by (auto simp: list_all_iff filter_empty_conv)
    then show ?thesis by (simp add: source_health_for_def Let_def sources_down_def set)
  qed
  have "distinct (sh_core_sources_unavailable (source_health_for order evidence))"
    using dist by (simp add: source_health_for_def Let_def)
  with 1 show "length (sh_core_sources_unavailable (source_health_for order evidence)) = card (sources_down evidence)"
    using distinct_card by metis
qed

lemma severity_value_short: "length (severity_value s) \<le> 8"
  by (cases s) auto

lemma new_recommendation_app:
  "new_recommendation h iid ex ids unc act tm mm missing s =
     (let r = \<lparr>rec_recommendation_id = host_uuid4 h (run_draws s), rec_incident_id = iid,
                rec_severity_explanation = ex, rec_evidence_ids = ids, rec_uncertainty = unc,
                rec_recommended_action = act, rec_ranked_alternative_ids = [],
                rec_traveler_message = tm, rec_manager_message = mm,
                rec_requires_human_approval = True, rec_missing_information = missing,
                rec_generated_at = host_now h (run_reads s)\<rparr>
      in (if valid_recommendation r then Inr r else Inl (ValidationError ''Recommendation''),
          s\<lparr>run_draws := Suc (run_draws s), run_reads := Suc (run_reads s)\<rparr>))"
  by (simp add: new_recommendation_def prog_simps Let_def)

section \<open>Properties\<close>

text \<open>
  C22. Only usable evidence is scored: stale and unavailable reports change nothing, a field is
  listed as unknown exactly when no usable report of its source exists, an unknown field scores 0,
  and whatever is returned satisfies the range constraints of the risk factors.
\<close>

theorem scoring_uses_only_usable_evidence:
  "get_scoring_input evidence t = get_scoring_input (filter (\<lambda>i. \<not> degraded i) evidence) t \<and>
   (case get_scoring_input evidence t of Inl _ \<Rightarrow> True | Inr (f, unknown) \<Rightarrow>
     valid_risk_factors f \<and> distinct unknown \<and>
     (\<forall>(field, source) \<in> set scoring_fields.
        (field \<in> set unknown) = (\<forall>i \<in> set evidence. ev_source_type i = source \<longrightarrow> degraded i)) \<and>
     (\<forall>field \<in> set unknown. factor_attr f field = 0))"
proof (rule conjI)
  show "get_scoring_input evidence t = get_scoring_input (filter (\<lambda>i. \<not> degraded i) evidence) t"
    by (simp add: get_scoring_input_def)
next
  have av: "available_items evidence s = [] \<longleftrightarrow> (\<forall>i \<in> set evidence. ev_source_type i = s \<longrightarrow> degraded i)" for s
    by (auto simp: available_items_def filter_empty_conv)
  show "case get_scoring_input evidence t of Inl _ \<Rightarrow> True | Inr (f, unknown) \<Rightarrow>
     valid_risk_factors f \<and> distinct unknown \<and>
     (\<forall>(field, source) \<in> set scoring_fields.
        (field \<in> set unknown) = (\<forall>i \<in> set evidence. ev_source_type i = source \<longrightarrow> degraded i)) \<and>
     (\<forall>field \<in> set unknown. factor_attr f field = 0)"
  proof (cases "get_scoring_input evidence t")
    case (Inr fu)
    obtain f u where fu: "fu = (f, u)" by fastforce
    note c = get_scoring_input_cases [OF Inr [unfolded fu]]
    have u_set: "field \<in> set u \<longleftrightarrow> (\<exists>s. (field, s) \<in> set scoring_fields \<and> available_items evidence s = [])"
      for field by (force simp: c(8))
    have dist: "distinct (map fst scoring_fields)" by (simp add: scoring_fields_def)
    then have "distinct u" unfolding c(8) comprehension_filter by (rule distinct_map_filter)
    moreover have "(field \<in> set u) = (\<forall>i \<in> set evidence. ev_source_type i = source \<longrightarrow> degraded i)"
      if "(field, source) \<in> set scoring_fields" for field source
    proof -
      have "field \<in> set u \<longleftrightarrow> available_items evidence source = []"
        using that u_set eq_key_imp_eq_value [OF dist] by blast
      then show ?thesis by (simp only: av)
    qed
    moreover have "factor_attr f field = 0" if mem: "field \<in> set u" for field
    proof -
      obtain s where fs: "(field, s) \<in> set scoring_fields" and "available_items evidence s = []"
        using mem u_set by blast
      then have "field_score evidence s = Inr 0" by (simp add: field_score_def)
      moreover have "field_score evidence s = Inr (factor_attr f field)"
        by (rule scoring_field_attr [OF _ fs]) (intro conjI c(2-6))
      ultimately show ?thesis by simp
    qed
    ultimately show ?thesis using c(1) unfolding Inr fu by simp blast
  qed simp
qed

text \<open>
  C25. Further evidence never lowers an assessment: if every report of one collection also occurs
  in another and both can be scored, no factor, nor the risk score, nor the severity is lower.
\<close>

theorem more_evidence_never_lowers_severity:
  assumes "set evidence \<subseteq> set evidence'"
    and "get_scoring_input evidence t = Inr (f, u)" "get_scoring_input evidence' t = Inr (f', u')"
  shows "factors_le f f' \<and> score_of f \<le> score_of f' \<and>
    severity_for_score (score_of f) \<le> severity_for_score (score_of f')"
  using scoring_mono [OF assms] score_of_mono [OF get_scoring_input_cases(1) get_scoring_input_cases(1),
      OF assms(2,3)] severity_for_score_mono
  by blast

definition sample_trip :: trip where
  "sample_trip = \<lparr>trip_tenant_id = ''t'', trip_traveler_id = ''u'', trip_assigned_manager_id = None,
     trip_trip_criticality = STANDARD, trip_ground_origin = ''home'', trip_destination_country = ''US'',
     trip_segments = [], trip_trip_id = 7, trip_status = TRIP_ACTIVE, trip_created_at = 0\<rparr>"

definition sample_report :: "string \<Rightarrow> freshness_status \<Rightarrow> int \<Rightarrow> evidence_envelope" where
  "sample_report source fresh score = \<lparr>ev_evidence_id = 1, ev_source_name = ''x'',
     ev_source_type = source, ev_source_url_or_record_id = ''r'', ev_retrieved_at = 0,
     ev_observed_at = None, ev_expires_at = 0, ev_freshness_status = fresh,
     ev_normalized_payload = [(''risk_score'', JInt score)], ev_raw_payload_reference = None,
     ev_provider_latency_ms = None, ev_provider_request_id = None, ev_error_code = None\<rparr>"

theorem scoring_uses_only_usable_evidence_witness:
  "\<exists>f unknown. get_scoring_input [sample_report ''flight_status'' STALE 90] sample_trip = Inr (f, unknown) \<and>
     ''flight_disruption'' \<in> set unknown \<and> factor_attr f ''flight_disruption'' = 0"
proof -
  define f where "f = \<lparr>flight_disruption = 0, connection_fragility = 0, airport_weather = 0,
        ground_route_disruption = 0, destination_advisory = 0, traveler_trip_criticality = 20\<rparr>"
  have eq: "get_scoring_input [sample_report ''flight_status'' STALE 90] sample_trip = Inr (f, map fst scoring_fields)"
    unfolding f_def by code_simp
  have mem: "''flight_disruption'' \<in> set (map fst scoring_fields)" by (simp add: scoring_fields_def)
  have "\<forall>field \<in> set (map fst scoring_fields). factor_attr f field = 0"
    using scoring_uses_only_usable_evidence [of "[sample_report ''flight_status'' STALE 90]" sample_trip]
    unfolding eq sum.case prod.case by (elim conjE)
  with eq mem show ?thesis by blast
qed

theorem more_evidence_never_lowers_severity_witness:
  "\<exists>f f'. get_scoring_input [sample_report ''flight_status'' FRESH 15] sample_trip =
       Inr (f, [''connection_fragility'', ''airport_weather'', ''ground_route_disruption'', ''destination_advisory'']) \<and>
     get_scoring_input [sample_report ''flight_status'' FRESH 70, sample_report ''flight_status'' FRESH 15] sample_trip =
       Inr (f', [''connection_fragility'', ''airport_weather'', ''ground_route_disruption'', ''destination_advisory'']) \<and>
     severity_for_score (score_of f) \<le> severity_for_score (score_of f')"
proof -
  let ?u = "[''connection_fragility'', ''airport_weather'', ''ground_route_disruption'', ''destination_advisory'']"
  define f where "f x = \<lparr>flight_disruption = x, connection_fragility = 0, airport_weather = 0,
    ground_route_disruption = 0, destination_advisory = 0, traveler_trip_criticality = 20\<rparr>" for x :: pyfloat
  have a: "get_scoring_input [sample_report ''flight_status'' FRESH 15] sample_trip = Inr (f 15, ?u)"
    unfolding f_def by code_simp
  have b: "get_scoring_input [sample_report ''flight_status'' FRESH 70, sample_report ''flight_status'' FRESH 15]
      sample_trip = Inr (f 70, ?u)"
    unfolding f_def by code_simp
  from more_evidence_never_lowers_severity [OF _ a b] a b show ?thesis by auto
qed



text \<open>
  The fallback investigation never fails on a non-empty evidence collection and always leaves
  the incident pending approval, with a recommendation that cites exactly the collected evidence,
  requires human approval and ranks no alternative; without evidence it raises instead of
  recommending anything.
\<close>

theorem fallback_investigation_is_grounded:
  "(case investigate h inc evidence s of
      (Inr inc', s') \<Rightarrow> evidence \<noteq> [] \<and> inc_status inc' = PENDING_APPROVAL \<and>
        (\<exists>r. inc_recommendation inc' = Some r \<and> rec_incident_id r = inc_incident_id inc \<and>
           rec_evidence_ids r = map ev_evidence_id evidence \<and> rec_requires_human_approval r \<and>
           rec_ranked_alternative_ids r = [] \<and>
           (rec_uncertainty r = ''high'' \<longleftrightarrow> (\<exists>i \<in> set evidence. ev_freshness_status i \<noteq> FRESH))) \<and>
        list_all (\<lambda>a. set (ta_evidence_ids a) \<subseteq> ev_evidence_id ` set evidence) (inc_tool_audit inc')
    | (Inl e, s') \<Rightarrow> evidence = [] \<and> e = ValidationError ''Recommendation'')"
  using severity_value_short [of "inc_severity inc"]
  by (auto simp: investigate_def Let_def prog_simps new_recommendation_app valid_recommendation_def
      len_between_def filter_empty_conv)

end
