(* ===== verification/Evaluation.thy ===== *)
theory Evaluation
  imports Assessment
begin

text \<open>
  \<^verbatim>\<open>tools/evidence.py\<close>, the captured-fixture collector, and \<^verbatim>\<open>tools/evaluation.py\<close>, the golden
  release suite that scores its envelopes.  The suite has its own copy of the scoring and
  disposition rules; the properties relate them to the production functions of \<open>Assessment\<close>.
\<close>

section \<open>Fixture evidence\<close>

datatype demo_scenario = NORMAL | DISRUPTION | SOURCE_OUTAGE

fun scenario_scores :: "demo_scenario \<Rightarrow> (string, int option) dict" where
  "scenario_scores NORMAL =
     [(''flight_status'', Some 5), (''connection_feasibility'', Some 10), (''airport_weather'', Some 5),
      (''ground_route'', Some 10), (''destination_advisory'', Some 15)]"
| "scenario_scores DISRUPTION =
     [(''flight_status'', Some 90), (''connection_feasibility'', Some 75), (''airport_weather'', Some 70),
      (''ground_route'', Some 35), (''destination_advisory'', Some 15)]"
| "scenario_scores SOURCE_OUTAGE =
     [(''flight_status'', None), (''connection_feasibility'', Some 10), (''airport_weather'', None),
      (''ground_route'', Some 10), (''destination_advisory'', Some 15)]"

definition fixture_source_name :: "string \<Rightarrow> string" where
  "fixture_source_name source_type =
     (if source_type = ''flight_status'' then ''fixture-amadeus''
      else if source_type = ''connection_feasibility'' then ''routeshield-calculator''
      else if source_type = ''airport_weather'' then ''fixture-nws-aviation-weather''
      else if source_type = ''ground_route'' then ''fixture-google-routes''
      else ''fixture-state-department'')"

definition fixture_envelope ::
  "'h host_scheme \<Rightarrow> datetime \<Rightarrow> string \<Rightarrow> string \<times> int option \<Rightarrow> ('s run_scheme, evidence_envelope) prog" where
  "fixture_envelope h now correlation_id = (\<lambda>(source_type, score).
     bindP (uuid4 h) (\<lambda>evidence_id. bindP (now_utc h) (\<lambda>retrieved_at. ret
       \<lparr>ev_evidence_id = evidence_id, ev_source_name = fixture_source_name source_type,
        ev_source_type = source_type,
        ev_source_url_or_record_id = ''fixture:'' @ correlation_id @ '':'' @ source_type,
        ev_retrieved_at = retrieved_at, ev_observed_at = Some now,
        ev_expires_at = now + td_minutes 15,
        ev_freshness_status = (if score = None then UNAVAILABLE else FRESH),
        ev_normalized_payload = (case score of None \<Rightarrow> [] | Some n \<Rightarrow> [(''risk_score'', JInt n)]),
        ev_raw_payload_reference = None, ev_provider_latency_ms = None,
        ev_provider_request_id = None,
        ev_error_code = (if score = None then Some ''fixture_provider_unavailable'' else None)\<rparr>)))"

definition collect_baseline ::
  "'h host_scheme \<Rightarrow> demo_scenario \<Rightarrow> string \<Rightarrow> ('s run_scheme, evidence_envelope list) prog" where
  "collect_baseline h scenario correlation_id =
     bindP (now_utc h) (\<lambda>now. for_each (scenario_scores scenario) (fixture_envelope h now correlation_id))"

section \<open>Golden suite\<close>

record golden_scenario_result =
  gr_scenario :: demo_scenario
  gr_risk_score :: pyfloat
  gr_severity :: string
  gr_disposition :: assessment_disposition
  gr_provider_contract_valid :: bool
  gr_unknown_factors :: "string list"

record golden_scenario_case =
  gc_case_id :: string
  gc_evidence_profile :: demo_scenario
  gc_expected_disposition :: assessment_disposition

definition cases_of :: "demo_scenario \<Rightarrow> assessment_disposition \<Rightarrow> string list \<Rightarrow> golden_scenario_case list" where
  "cases_of profile disposition case_ids = map (\<lambda>case_id.
     \<lparr>gc_case_id = case_id, gc_evidence_profile = profile, gc_expected_disposition = disposition\<rparr>) case_ids"

definition GOLDEN_SCENARIOS :: "golden_scenario_case list" where
  "GOLDEN_SCENARIOS =
     cases_of NORMAL MONITOR
       [''normal_itinerary_no_action'', ''safe_connection_after_minor_delay'',
        ''low_severity_destination_context'', ''standard_trip_baseline'',
        ''important_trip_baseline'', ''executive_traveler_no_material_signal'',
        ''confirmed_preference_no_eligibility_change'',
        ''explicit_preference_update_new_thread_retrieval'', ''manager_queue_filtering_low_risk'',
        ''traveler_notification_preview_only'', ''approved_playbook_read_only_guidance'',
        ''assessment_replay_without_duplicate_incident''] @
     cases_of DISRUPTION INVESTIGATE
       [''missed_connection_risk'', ''flight_cancellation'', ''severe_departure_weather'',
        ''airport_ground_traffic_delay'', ''critical_customer_meeting'',
        ''executive_traveler_material_disruption'', ''destination_advisory_change'',
        ''alternative_recovery_ranking'', ''preference_tightens_connection_rule'',
        ''accessibility_constraint_preserved'', ''manager_recommendation_rejected'',
        ''manager_override_with_reason'', ''candidate_offered_then_viewed'',
        ''candidate_selected_then_completed'', ''candidate_rejected_without_negative_label'',
        ''approval_interrupt_and_resume'', ''approved_action_outbox_replay_safe'',
        ''notification_queue_retry_transition'', ''critical_duty_of_care_escalation'',
        ''provider_latency_recorded'', ''evidence_freshness_preserved'',
        ''structured_recommendation_grounding'', ''recommendation_alternative_order_preserved'',
        ''model_output_repair_attempt'', ''tenant_scoped_memory_loaded'',
        ''playbook_visible_only_at_approval''] @
     cases_of SOURCE_OUTAGE NEEDS_HUMAN_REVIEW
       [''conflicting_provider_data'', ''flight_status_provider_outage'',
        ''weather_provider_outage'', ''multiple_core_source_outage'',
        ''stale_evidence_requires_human_review'', ''openai_unavailable_deterministic_fallback'',
        ''malformed_model_output_safe_fallback'', ''prompt_injection_in_csv_rejected'',
        ''prompt_injection_in_provider_content_rejected'', ''prompt_injection_in_playbook_rejected'',
        ''malicious_memory_proposal_rejected'', ''restricted_memory_field_rejected'',
        ''cross_tenant_memory_access_rejected'', ''cross_tenant_notification_access_rejected'',
        ''duplicate_webhook_replay_rejected'', ''unconfigured_external_channel_fails_closed'',
        ''unconfigured_action_provider_fails_closed'', ''retention_worker_respects_legal_hold'',
        ''deletion_request_respects_legal_hold'']"

text \<open>\<^verbatim>\<open>by_type\<close> keeps the last envelope of every source type.\<close>

definition by_type :: "evidence_envelope list \<Rightarrow> (string, evidence_envelope) dict" where
  "by_type evidence = fold (\<lambda>item d. dict_set (ev_source_type item) item d) evidence []"

definition golden_field :: "evidence_envelope list \<Rightarrow> string \<Rightarrow> pyfloat result" where
  "golden_field evidence source_type =
     (case dict_get (by_type evidence) source_type of
        None \<Rightarrow> Inr 0
      | Some item \<Rightarrow>
          if degraded item then Inr 0
          else let v = get_or (ev_normalized_payload item) ''risk_score'' (JInt 0)
               in if is_number v then float_of_number v else Inr 0)"

definition golden_unknown :: "evidence_envelope list \<Rightarrow> string \<Rightarrow> bool" where
  "golden_unknown evidence source_type =
     (case dict_get (by_type evidence) source_type of None \<Rightarrow> True | Some item \<Rightarrow> degraded item)"

definition score_inputs :: "trip \<Rightarrow> evidence_envelope list \<Rightarrow> (risk_factors \<times> string list) result" where
  "score_inputs t evidence =
     result_bind
       (result_map (\<lambda>(field, source_type).
          result_bind (golden_field evidence source_type) (\<lambda>x. Inr (field, x))) scoring_fields)
       (\<lambda>scores. result_bind
          (risk_factors_of (scores @
             [(''traveler_trip_criticality'', criticality_score (trip_trip_criticality t))]))
          (\<lambda>factors. Inr (factors,
             [field. (field, source_type) \<leftarrow> scoring_fields, golden_unknown evidence source_type])))"

definition golden_disposition :: "severity \<Rightarrow> evidence_envelope list \<Rightarrow> assessment_disposition" where
  "golden_disposition sev evidence =
     (let unavailable_core = py_dedup (map ev_source_type
            (filter (\<lambda>i. ev_source_type i \<in> set core_source_types \<and> degraded i) evidence))
      in if length unavailable_core \<ge> 2 then NEEDS_HUMAN_REVIEW
         else if sev \<in> {HIGH, CRITICAL} then INVESTIGATE
         else if sev = WATCH then MANAGER_QUEUE else MONITOR)"

definition provider_contract_valid :: "evidence_envelope list \<Rightarrow> bool" where
  "provider_contract_valid evidence \<longleftrightarrow> list_all (\<lambda>i. ev_source_name i \<noteq> [] \<and>
     ev_source_url_or_record_id i \<noteq> [] \<and> ev_expires_at i \<ge> ev_retrieved_at i) evidence"

definition evaluate_golden_scenario ::
  "'h host_scheme \<Rightarrow> trip \<Rightarrow> demo_scenario \<Rightarrow> ('s run_scheme, golden_scenario_result) prog" where
  "evaluate_golden_scenario h t scenario =
     bindP (uuid4 h) (\<lambda>correlation.
     bindP (collect_baseline h scenario (str_uuid correlation)) (\<lambda>evidence.
     bindP (lift_result (score_inputs t evidence)) (\<lambda>(factors, unknown).
     bindP (calculate_risk h (trip_trip_id t) factors (map ev_evidence_id evidence) unknown)
       (\<lambda>assessment. ret
         \<lparr>gr_scenario = scenario, gr_risk_score = ra_risk_score assessment,
          gr_severity = severity_value (ra_severity assessment),
          gr_disposition = golden_disposition (ra_severity assessment) evidence,
          gr_provider_contract_valid = provider_contract_valid evidence,
          gr_unknown_factors = unknown\<rparr>))))"

definition evaluate_golden_suite ::
  "'h host_scheme \<Rightarrow> trip \<Rightarrow> ('s run_scheme, (golden_scenario_case \<times> golden_scenario_result) list) prog" where
  "evaluate_golden_suite h t = for_each GOLDEN_SCENARIOS (\<lambda>c.
     bindP (evaluate_golden_scenario h t (gc_evidence_profile c)) (\<lambda>r. ret (c, r)))"

section \<open>Recommendation gates\<close>

text \<open>
  \<open>str_of\<close> is \<^verbatim>\<open>str()\<close> on the elements of a JSON list; on a string it is the string itself, on
  the other values its text does not matter to the properties.
\<close>

definition recommendation_is_grounded ::
  "(json \<Rightarrow> string) \<Rightarrow> json_object \<Rightarrow> string set \<Rightarrow> bool" where
  "recommendation_is_grounded str_of rec evidence_ids =
     (case dict_get rec ''evidence_ids'' of
        Some (JList cited) \<Rightarrow> cited \<noteq> [] \<and> set (map str_of cited) \<subseteq> evidence_ids
      | _ \<Rightarrow> False)"

definition recommendation_is_safe ::
  "(json \<Rightarrow> string) \<Rightarrow> json_object \<Rightarrow> string set \<Rightarrow> string set \<Rightarrow> bool" where
  "recommendation_is_safe str_of rec evidence_ids alternative_ids \<longleftrightarrow>
     recommendation_is_grounded str_of rec evidence_ids \<and>
     (case get_or rec ''ranked_alternative_ids'' (JList []) of
        JList ranked \<Rightarrow> set (map str_of ranked) \<subseteq> alternative_ids | _ \<Rightarrow> False) \<and>
     dict_get rec ''requires_human_approval'' = Some (JBool True)"

section \<open>Lemmas\<close>

text \<open>What scoring reads of an envelope: its source, freshness and payload.\<close>

definition shape :: "evidence_envelope \<Rightarrow> string \<times> freshness_status \<times> json_object" where
  "shape i = (ev_source_type i, ev_freshness_status i, ev_normalized_payload i)"

definition fixture_shape :: "string \<times> int option \<Rightarrow> string \<times> freshness_status \<times> json_object" where
  "fixture_shape = (\<lambda>(source_type, score). case score of
     None \<Rightarrow> (source_type, UNAVAILABLE, []) | Some n \<Rightarrow> (source_type, FRESH, [(''risk_score'', JInt n)]))"

definition shaped :: "demo_scenario \<Rightarrow> evidence_envelope list \<Rightarrow> bool" where
  "shaped scenario evidence \<longleftrightarrow> map shape evidence = map fixture_shape (scenario_scores scenario)"

lemma fixture_envelopes_app:
  "\<exists>evidence s'. for_each xs (fixture_envelope h now cid) s = (Inr evidence, s') \<and>
     map shape evidence = map fixture_shape xs"
proof (induction xs arbitrary: s)
  case (Cons x xs)
  obtain st sc where x: "x = (st, sc)" by fastforce
  obtain i s1 where i: "fixture_envelope h now cid x s = (Inr i, s1)" and sh: "shape i = fixture_shape x"
    by (auto simp: x fixture_envelope_def prog_simps shape_def fixture_shape_def split: option.splits)
  obtain evidence s' where "for_each xs (fixture_envelope h now cid) s1 = (Inr evidence, s')"
      "map shape evidence = map fixture_shape xs"
    using Cons.IH by blast
  with i sh show ?case by (simp add: prog_simps)
qed (simp add: prog_simps)

lemma collect_baseline_app:
  "\<exists>evidence s'. collect_baseline h scenario cid s = (Inr evidence, s') \<and> shaped scenario evidence"
  using fixture_envelopes_app [of "scenario_scores scenario" h "host_now h (run_reads s)" cid
      "s\<lparr>run_reads := Suc (run_reads s)\<rparr>"]
  by (auto simp: collect_baseline_def prog_simps shaped_def)

definition golden_factors :: "demo_scenario \<Rightarrow> trip_criticality \<Rightarrow> risk_factors" where
  "golden_factors scenario c =
     (let v = (\<lambda>k. case map_of (scenario_scores scenario) k of Some (Some n) \<Rightarrow> of_int n | _ \<Rightarrow> 0) in
     \<lparr>flight_disruption = v ''flight_status'', connection_fragility = v ''connection_feasibility'',
      airport_weather = v ''airport_weather'', ground_route_disruption = v ''ground_route'',
      destination_advisory = v ''destination_advisory'', traveler_trip_criticality = criticality_score c\<rparr>)"

definition golden_unknown_of :: "demo_scenario \<Rightarrow> string list" where
  "golden_unknown_of scenario =
     (if scenario = SOURCE_OUTAGE then [''flight_disruption'', ''airport_weather''] else [])"

lemma valid_golden_factors: "valid_risk_factors (golden_factors scenario c)"
  by (cases scenario; cases c) (simp_all add: golden_factors_def valid_risk_factors_def percent_def)

lemma float_of_small [simp]:
  "float_of_int 5 = Inr 5" "float_of_int 10 = Inr 10" "float_of_int 15 = Inr 15"
  "float_of_int 35 = Inr 35" "float_of_int 70 = Inr 70" "float_of_int 75 = Inr 75"
  "float_of_int 90 = Inr 90"
  by code_simp+

lemma degraded_shape: "degraded i = (fst (snd (shape i)) \<in> {STALE, UNAVAILABLE})"
  by (simp add: degraded_def shape_def)

lemma available_shape:
  "map shape (available_items evidence s) =
     filter (\<lambda>(st, fr, _). st = s \<and> fr \<notin> {STALE, UNAVAILABLE}) (map shape evidence)"
  by (induction evidence) (auto simp: available_items_def shape_def degraded_def)

lemma risk_values_shape:
  "risk_values items = filter is_number (map (\<lambda>(_, _, p). get_or p ''risk_score'' (JInt 0)) (map shape items))"
  by (simp add: risk_values_def shape_def comp_def)

lemma available_Nil_shape: "(available_items evidence s = []) = (map shape (available_items evidence s) = [])"
  by simp

lemma field_score_shape:
  assumes "map shape evidence = map shape evidence'"
  shows "field_score evidence s = field_score evidence' s"
    and "(available_items evidence s = []) = (available_items evidence' s = [])"
proof -
  have "map shape (available_items evidence s) = map shape (available_items evidence' s)"
    using assms by (simp only: available_shape)
  then show "field_score evidence s = field_score evidence' s"
    and "(available_items evidence s = []) = (available_items evidence' s = [])"
    unfolding field_score_def Let_def risk_values_shape available_Nil_shape by (simp_all only:)
qed

lemma by_type_shape:
  assumes "map shape evidence = map shape evidence'"
  shows "map_option shape (dict_get (by_type evidence) s) = map_option shape (dict_get (by_type evidence') s)"
proof -
  have flt: "map shape (filter (\<lambda>i. ev_source_type i = s) evs) = filter (\<lambda>(st, _). st = s) (map shape evs)" for evs
    by (induction evs) (auto simp: shape_def)
  have get: "dict_get (by_type evs) s =
      (let fs = filter (\<lambda>i. ev_source_type i = s) evs in if fs = [] then None else Some (last fs))" for evs
    by (auto simp: by_type_def fold_dict_set_get Let_def split: list.splits)
  have "map shape (filter (\<lambda>i. ev_source_type i = s) evidence) = map shape (filter (\<lambda>i. ev_source_type i = s) evidence')"
    unfolding flt using assms by simp
  moreover have "map_option shape (if fs = [] then None else Some (last fs)) =
      map_option shape (if gs = [] then None else Some (last gs))"
    if "map shape fs = map shape gs" for fs gs
  proof (cases "fs = []")
    case False
    with that have "gs \<noteq> []" by auto
    then have "shape (last fs) = shape (last gs)" using that False by (metis last_map)
    with False \<open>gs \<noteq> []\<close> show ?thesis by simp
  qed (use that in simp)
  ultimately show ?thesis unfolding get Let_def by blast
qed

lemma golden_shape:
  assumes "map shape evidence = map shape evidence'"
  shows "golden_field evidence s = golden_field evidence' s"
    and "golden_unknown evidence s = golden_unknown evidence' s"
  using by_type_shape [OF assms, of s]
  by (auto simp: golden_field_def golden_unknown_def degraded_shape shape_def split: option.splits)

text \<open>A concrete collection of the same shape, on which the scoring functions are evaluated.\<close>

definition fixture_sample :: "demo_scenario \<Rightarrow> evidence_envelope list" where
  "fixture_sample scenario = map (\<lambda>(source_type, score). (sample_report source_type
     (if score = None then UNAVAILABLE else FRESH) 0)\<lparr>ev_normalized_payload :=
        (case score of None \<Rightarrow> [] | Some n \<Rightarrow> [(''risk_score'', JInt n)])\<rparr>) (scenario_scores scenario)"

lemma shaped_sample: "shaped scenario evidence \<Longrightarrow> map shape evidence = map shape (fixture_sample scenario)"
  by (auto simp: shaped_def fixture_sample_def shape_def fixture_shape_def sample_report_def split: option.splits)

definition golden_scores :: "demo_scenario \<Rightarrow> (string \<times> pyfloat) list" where
  "golden_scores scenario = map (\<lambda>(field, source_type).
     (field, factor_attr (golden_factors scenario STANDARD) field)) scoring_fields"

lemma sample_scores:
  "result_map (\<lambda>(field, source_type). result_bind (field_score (fixture_sample scenario) source_type)
     (\<lambda>x. Inr (field, x))) scoring_fields = Inr (golden_scores scenario)"
  "result_map (\<lambda>(field, source_type). result_bind (golden_field (fixture_sample scenario) source_type)
     (\<lambda>x. Inr (field, x))) scoring_fields = Inr (golden_scores scenario)"
  by (induction scenario; code_simp)+

lemma sample_unknown:
  "[field. (field, s) \<leftarrow> scoring_fields, available_items (fixture_sample scenario) s = []] = golden_unknown_of scenario"
  "[field. (field, s) \<leftarrow> scoring_fields, golden_unknown (fixture_sample scenario) s] = golden_unknown_of scenario"
  by (induction scenario; code_simp)+

lemma golden_scores_factors:
  "risk_factors_of (golden_scores scenario @ [(''traveler_trip_criticality'', criticality_score c)])
     = Inr (golden_factors scenario c)"
proof -
  have "\<lparr>flight_disruption = flight_disruption (golden_factors scenario STANDARD),
      connection_fragility = connection_fragility (golden_factors scenario STANDARD),
      airport_weather = airport_weather (golden_factors scenario STANDARD),
      ground_route_disruption = ground_route_disruption (golden_factors scenario STANDARD),
      destination_advisory = destination_advisory (golden_factors scenario STANDARD),
      traveler_trip_criticality = criticality_score c\<rparr> = golden_factors scenario c"
    by (simp add: golden_factors_def Let_def)
  then show ?thesis
    by (simp add: risk_factors_of_def golden_scores_def scoring_fields_def factor_attr_def
        valid_golden_factors Let_def)
qed

lemma sample_scoring_input:
  "get_scoring_input (fixture_sample scenario) t
     = Inr (golden_factors scenario (trip_trip_criticality t), golden_unknown_of scenario)"
  unfolding get_scoring_input_def sample_scores sample_unknown
  by (simp add: result_bind_def golden_scores_factors)

lemma sample_score_inputs:
  "score_inputs t (fixture_sample scenario)
     = Inr (golden_factors scenario (trip_trip_criticality t), golden_unknown_of scenario)"
  unfolding score_inputs_def sample_scores sample_unknown
  by (simp add: result_bind_def golden_scores_factors)

lemma shaped_inputs:
  assumes "shaped scenario evidence"
  shows "get_scoring_input evidence t = Inr (golden_factors scenario (trip_trip_criticality t), golden_unknown_of scenario)"
    and "score_inputs t evidence = Inr (golden_factors scenario (trip_trip_criticality t), golden_unknown_of scenario)"
proof -
  note sh = shaped_sample [OF assms]
  have "get_scoring_input evidence t = get_scoring_input (fixture_sample scenario) t"
    by (simp add: get_scoring_input_def field_score_shape [OF sh])
  then show "get_scoring_input evidence t = Inr (golden_factors scenario (trip_trip_criticality t), golden_unknown_of scenario)"
    by (simp add: sample_scoring_input)
  have "score_inputs t evidence = score_inputs t (fixture_sample scenario)"
    by (simp add: score_inputs_def golden_shape [OF sh])
  then show "score_inputs t evidence = Inr (golden_factors scenario (trip_trip_criticality t), golden_unknown_of scenario)"
    by (simp add: sample_score_inputs)
qed

lemma total_cents_normal:
  "total_cents (golden_factors NORMAL STANDARD) = 825"
  "total_cents (golden_factors NORMAL IMPORTANT) = 1025"
  "total_cents (golden_factors NORMAL BUSINESS_CRITICAL) = 1225"
  by code_simp+

lemma total_cents_disruption:
  "total_cents (golden_factors DISRUPTION STANDARD) = 6650"
  "total_cents (golden_factors DISRUPTION IMPORTANT) = 6850"
  "total_cents (golden_factors DISRUPTION BUSINESS_CRITICAL) = 7050"
  by code_simp+

lemma total_cents_source_outage:
  "total_cents (golden_factors SOURCE_OUTAGE STANDARD) = 550"
  "total_cents (golden_factors SOURCE_OUTAGE IMPORTANT) = 750"
  "total_cents (golden_factors SOURCE_OUTAGE BUSINESS_CRITICAL) = 950"
  by code_simp+

lemma golden_severity:
  "severity_for_score (score_of (golden_factors scenario c)) = (if scenario = DISRUPTION then HIGH else LOW)"
proof -
  have "0 \<le> total_cents (golden_factors scenario c)" "total_cents (golden_factors scenario c) \<le> 10000"
    using total_cents_bounds [OF valid_golden_factors] by auto
  from severity_of_cents [OF this] show ?thesis
    by (cases scenario; cases c)
      (simp_all add: score_of_cents valid_golden_factors total_cents_normal total_cents_disruption
        total_cents_source_outage)
qed

lemma evaluate_golden_app:
  "\<exists>r s' evidence. evaluate_golden_scenario h t scenario s = (Inr r, s') \<and> shaped scenario evidence \<and>
     gr_scenario r = scenario \<and>
     gr_risk_score r = score_of (golden_factors scenario (trip_trip_criticality t)) \<and>
     gr_unknown_factors r = golden_unknown_of scenario \<and>
     gr_disposition r = golden_disposition (if scenario = DISRUPTION then HIGH else LOW) evidence"
proof -
  let ?s1 = "s\<lparr>run_draws := Suc (run_draws s)\<rparr>"
  let ?cid = "str_uuid (host_uuid4 h (run_draws s))"
  let ?f = "golden_factors scenario (trip_trip_criticality t)"
  obtain evidence s2 where e: "collect_baseline h scenario ?cid ?s1 = (Inr evidence, s2)"
    and sh: "shaped scenario evidence"
    using collect_baseline_app by blast
  note calc = calculate_risk_app [OF valid_golden_factors, of h "trip_trip_id t" scenario
      "trip_trip_criticality t" "map ev_evidence_id evidence" "golden_unknown_of scenario" s2]
  show ?thesis
    using e sh by (simp add: evaluate_golden_scenario_def prog_simps shaped_inputs(2) calc golden_severity) auto
qed

lemma sources_down_shape:
  "map shape evidence = map shape evidence' \<Longrightarrow> sources_down evidence = sources_down evidence'"
proof -
  have "sources_down evs = {s \<in> set core_source_types.
      \<forall>(st, fr, _) \<in> set (map shape evs). st = s \<longrightarrow> fr \<in> {STALE, UNAVAILABLE}}" for evs
    by (auto simp: sources_down_def shape_def degraded_def)
  then show "map shape evidence = map shape evidence' \<Longrightarrow> sources_down evidence = sources_down evidence'"
    by (simp only:)
qed

lemma golden_disposition_shape:
  "map shape evidence = map shape evidence' \<Longrightarrow> golden_disposition sev evidence = golden_disposition sev evidence'"
proof -
  have "map ev_source_type (filter (\<lambda>i. ev_source_type i \<in> set core_source_types \<and> degraded i) evs) =
      map fst (filter (\<lambda>(st, fr, _). st \<in> set core_source_types \<and> fr \<in> {STALE, UNAVAILABLE}) (map shape evs))" for evs
    by (induction evs) (auto simp: shape_def degraded_def)
  then show "map shape evidence = map shape evidence' \<Longrightarrow> golden_disposition sev evidence = golden_disposition sev evidence'"
    by (simp only: golden_disposition_def)
qed

lemma golden_disposition_value:
  assumes "shaped scenario evidence"
  shows "golden_disposition sev evidence =
    (if scenario = SOURCE_OUTAGE then NEEDS_HUMAN_REVIEW
     else if sev \<in> {HIGH, CRITICAL} then INVESTIGATE else if sev = WATCH then MANAGER_QUEUE else MONITOR)"
  unfolding golden_disposition_shape [OF shaped_sample [OF assms]]
  by (induction scenario; induction sev; code_simp)

lemma shaped_sources_down:
  assumes "shaped scenario evidence"
  shows "sources_down evidence = (if scenario = SOURCE_OUTAGE then {''flight_status'', ''airport_weather''} else {})"
  unfolding sources_down_shape [OF shaped_sample [OF assms]]
  by (cases scenario) (auto simp: sources_down_def core_source_types_def fixture_sample_def sample_report_def degraded_def)

section \<open>Properties\<close>

text \<open>
  The golden release suite passes: for every trip, every clock and every source of identifiers
  the suite returns one result per case, in the order of the cases, and the disposition of each
  result is the one the case expects.
\<close>

theorem golden_suite_passes:
  "\<exists>rs s'. evaluate_golden_suite h t s = (Inr rs, s') \<and> map fst rs = GOLDEN_SCENARIOS \<and>
     (\<forall>(c, r) \<in> set rs. gr_scenario r = gc_evidence_profile c \<and> gr_disposition r = gc_expected_disposition c)"
proof -
  have one: "\<exists>r s'. evaluate_golden_scenario h t (gc_evidence_profile c) s = (Inr r, s') \<and>
      gr_scenario r = gc_evidence_profile c \<and> gr_disposition r = gc_expected_disposition c"
    if "c \<in> set GOLDEN_SCENARIOS" for c and s :: "'a run_scheme"
  proof -
    have "gc_expected_disposition c = (case gc_evidence_profile c of
        NORMAL \<Rightarrow> MONITOR | DISRUPTION \<Rightarrow> INVESTIGATE | SOURCE_OUTAGE \<Rightarrow> NEEDS_HUMAN_REVIEW)"
      using that by (auto simp: GOLDEN_SCENARIOS_def cases_of_def)
    with evaluate_golden_app [of h t "gc_evidence_profile c" s] show ?thesis
      by (cases "gc_evidence_profile c") (auto simp: golden_disposition_value)
  qed
  let ?body = "\<lambda>c. bindP (evaluate_golden_scenario h t (gc_evidence_profile c)) (\<lambda>r. ret (c, r))"
  let ?Q = "\<lambda>c p. fst p = c \<and> gr_scenario (snd p) = gc_evidence_profile c \<and>
    gr_disposition (snd p) = gc_expected_disposition c"
  have "\<exists>p s'. ?body c s = (Inr p, s') \<and> ?Q c p"
    if "c \<in> set GOLDEN_SCENARIOS" for c and s :: "'a run_scheme"
    using one [OF that, of s] by (auto simp: prog_simps)
  then have "\<exists>rs s'. for_each GOLDEN_SCENARIOS ?body s = (Inr rs, s') \<and> list_all2 ?Q GOLDEN_SCENARIOS rs"
    by (rule for_each_returns)
  then obtain rs s' where rs: "evaluate_golden_suite h t s = (Inr rs, s')"
    and all: "list_all2 ?Q GOLDEN_SCENARIOS rs"
    unfolding evaluate_golden_suite_def by blast
  have "map fst rs = GOLDEN_SCENARIOS"
    using all by (auto simp: list_all2_conv_all_nth intro: nth_equalityI)
  moreover have "\<forall>(c, r) \<in> set rs. gr_scenario r = gc_evidence_profile c \<and> gr_disposition r = gc_expected_disposition c"
    using all by (force simp: list_all2_conv_all_nth in_set_conv_nth)
  ultimately show ?thesis using rs by blast
qed

theorem golden_suite_passes_witness:
  "\<exists>rs s'. evaluate_golden_suite \<lparr>host_uuid4 = of_nat, host_now = int\<rparr> sample_trip
       \<lparr>run_draws = 0, run_reads = 0\<rparr> = (Inr rs, s') \<and> rs \<noteq> [] \<and> gr_disposition (snd (hd rs)) = MONITOR"
proof -
  let ?h = "\<lparr>host_uuid4 = of_nat, host_now = int\<rparr> :: host"
  let ?s = "\<lparr>run_draws = 0, run_reads = 0\<rparr>"
  obtain rs s' where rs: "evaluate_golden_suite ?h sample_trip ?s = (Inr rs, s')" "map fst rs = GOLDEN_SCENARIOS"
    and ok: "\<forall>(c, r) \<in> set rs. gr_scenario r = gc_evidence_profile c \<and> gr_disposition r = gc_expected_disposition c"
    using golden_suite_passes [of ?h sample_trip ?s] by blast
  have ne: "rs \<noteq> []" using rs(2) by (auto simp: GOLDEN_SCENARIOS_def cases_of_def)
  then have "fst (hd rs) = hd GOLDEN_SCENARIOS" using rs(2) by (metis hd_map)
  then have "gc_expected_disposition (fst (hd rs)) = MONITOR" by (simp add: GOLDEN_SCENARIOS_def cases_of_def)
  moreover have "hd rs \<in> set rs" using ne by simp
  ultimately have "gr_disposition (snd (hd rs)) = MONITOR" using ok by (cases "hd rs") force
  with rs(1) ne show ?thesis by blast
qed



text \<open>
  Outside the fixtures the two rules differ: with flight status alone missing and a high severity,
  production asks for a human while the suite's copy would start an investigation.
\<close>

lemma golden_rule_lacks_flight_status:
  "golden_disposition HIGH [sample_report ''airport_weather'' FRESH 80, sample_report ''ground_route'' FRESH 80]
     = INVESTIGATE"
  "disposition_for HIGH (source_health_for core_source_types
     [sample_report ''airport_weather'' FRESH 80, sample_report ''ground_route'' FRESH 80]) = NEEDS_HUMAN_REVIEW"
  by code_simp+

text \<open>
  Missing flight status on an otherwise calm trip scores low and is only monitored.
\<close>

definition calm_without_flight_status :: "evidence_envelope list" where
  "calm_without_flight_status = [sample_report ''connection_feasibility'' FRESH 10,
     sample_report ''airport_weather'' FRESH 5, sample_report ''ground_route'' FRESH 10]"

definition calm_factors :: risk_factors where
  "calm_factors = \<lparr>flight_disruption = 0, connection_fragility = 10, airport_weather = 5,
     ground_route_disruption = 10, destination_advisory = 0, traveler_trip_criticality = 20\<rparr>"

lemma calm_scoring:
  "get_scoring_input calm_without_flight_status sample_trip =
     Inr (calm_factors, [''flight_disruption'', ''destination_advisory''])"
  by code_simp

lemma calm_cents: "total_cents calm_factors = 500"
  by code_simp

lemma missing_flight_status_is_monitored:
  "\<exists>f unknown. get_scoring_input calm_without_flight_status sample_trip = Inr (f, unknown) \<and>
     ''flight_disruption'' \<in> set unknown \<and>
     disposition_for (severity_for_score (score_of f))
       (source_health_for core_source_types calm_without_flight_status) = MONITOR"
proof -
  have v: "valid_risk_factors calm_factors"
    by (simp add: calm_factors_def valid_risk_factors_def percent_def)
  have "severity_for_score (score_of calm_factors) = LOW"
    using severity_of_cents [of 500] by (simp add: score_of_cents [OF v] calm_cents)
  moreover have "disposition_for LOW (source_health_for core_source_types calm_without_flight_status) = MONITOR"
    by code_simp
  ultimately show ?thesis by (simp add: calm_scoring)
qed

end
