(* ===== verification/Providers.thy ===== *)
theory Providers
  imports Assessment
begin

text \<open>
  \<^verbatim>\<open>tools/providers.py\<close> and \<^verbatim>\<open>tools/live_providers.py\<close>: the provider cache, the circuit breaker, the
  bounded HTTP adapter and the collector that queries six of them, and the payload normalizers of
  \<^verbatim>\<open>tools/amadeus.py\<close>, \<^verbatim>\<open>tools/weather_sources.py\<close>, \<^verbatim>\<open>tools/route_advisory_sources.py\<close> and
  the bounded score of \<^verbatim>\<open>apps/mock_provider/main.py\<close>.

  The HTTP client is a parameter: what each attempt of a provider answers.  \<^verbatim>\<open>asyncio.gather\<close> starts
  every fetch in order; a fetch that goes to the network is suspended at its first request and
  finishes in an order the model takes as an argument.
\<close>

section \<open>Payload normalizers\<close>

definition risk_score_payload :: "json_object \<Rightarrow> json_object result" where
  "risk_score_payload payload =
     (let score = get_or payload ''risk_score'' (JInt 0)
      in if is_number score
         then result_bind (float_of_number score) (\<lambda>x. Inr [(''risk_score'', JFloat x)])
         else Inr [(''risk_score'', JInt 0)])"

text \<open>
  \<^verbatim>\<open>str.upper\<close> on Latin-1.  The sharp s becomes two letters; the two characters whose capital is
  not a Latin-1 code point stay as they are.
\<close>

definition py_upper :: "string \<Rightarrow> string" where
  "py_upper s = concat (map (\<lambda>c. let n = of_char c :: nat in
     if n = 223 then ''SS''
     else if (97 \<le> n \<and> n \<le> 122) \<or> (224 \<le> n \<and> n \<le> 254 \<and> n \<noteq> 247) then [char_of (n - 32)]
     else [c]) s)"

definition amadeus_score :: "string \<Rightarrow> int" where
  "amadeus_score status =
     (if status = ''SCHEDULED'' then 5 else if status = ''ACTIVE'' then 15
      else if status = ''LANDED'' then 0 else if status = ''CANCELLED'' then 100
      else if status = ''DELAYED'' then 70 else 30)"

definition normalize_amadeus_status :: "(json \<Rightarrow> string) \<Rightarrow> json_object \<Rightarrow> json_object" where
  "normalize_amadeus_status str_of payload =
     (case dict_get payload ''data'' of
        Some (JList (JObj flight # _)) \<Rightarrow>
          (let status = py_upper (str_of (get_or flight ''status'' (JStr ''UNKNOWN'')))
           in [(''risk_score'', JInt (amadeus_score status)), (''status'', JStr status)])
      | _ \<Rightarrow> [(''risk_score'', JInt 0), (''status'', JStr ''unknown'')])"

definition nonempty_list_score :: "string \<Rightarrow> int \<Rightarrow> json_object \<Rightarrow> json_object" where
  "nonempty_list_score key score payload =
     [(''risk_score'', case get_or payload key (JList []) of
        JList (_ # _) \<Rightarrow> JInt score | _ \<Rightarrow> JInt 0)]"

definition normalize_faa_nas :: "json_object \<Rightarrow> json_object" where
  "normalize_faa_nas = nonempty_list_score ''events'' 75"

definition normalize_nws_alerts :: "json_object \<Rightarrow> json_object" where
  "normalize_nws_alerts = nonempty_list_score ''features'' 80"

definition normalize_aviation_weather :: "json_object \<Rightarrow> json_object" where
  "normalize_aviation_weather = nonempty_list_score ''hazards'' 70"

text \<open>\<^verbatim>\<open>min(100, x)\<close> is the integer 100 unless \<^verbatim>\<open>x\<close> is smaller.\<close>

definition normalize_google_routes :: "json_object \<Rightarrow> json_object result" where
  "normalize_google_routes payload =
     (let duration = get_or payload ''traffic_delay_minutes'' (JInt 0)
      in if is_number duration
         then result_bind (float_of_number duration) (\<lambda>x.
           Inr [(''risk_score'', if fmul x 2 < 100 then JFloat (fmul x 2) else JInt 100)])
         else Inr [(''risk_score'', JInt 0)])"

definition normalize_destination_advisory :: "json_object \<Rightarrow> json_object" where
  "normalize_destination_advisory payload =
     (let score = (\<lambda>level. min 100 (max 0 ((level - 1) * 30)))
      in [(''risk_score'', case get_or payload ''advisory_level'' (JInt 1) of
           JInt level \<Rightarrow> JInt (score level)
         | JBool b \<Rightarrow> JInt (score (if b then 1 else 0))
         | _ \<Rightarrow> JInt 0)])"

definition mock_score :: "pyfloat \<Rightarrow> pyfloat option \<Rightarrow> pyfloat" where
  "mock_score default_score risk_score =
     min 100 (max 0 (case risk_score of None \<Rightarrow> default_score | Some x \<Rightarrow> x))"

section \<open>Cache and circuit breaker\<close>

record provider_world = run +
  pw_cache :: "(string, evidence_envelope) dict"
  pw_failures :: "(string, int) dict"

definition cache_get ::
  "'h host_scheme \<Rightarrow> string \<Rightarrow> ('s provider_world_scheme, evidence_envelope option) prog" where
  "cache_get h key = bindP (gets (\<lambda>s. dict_get (pw_cache s) key)) (\<lambda>item.
     case item of None \<Rightarrow> ret None
     | Some i \<Rightarrow> bindP (now_utc h) (\<lambda>now.
         ret (if ev_expires_at i > now then Some (i\<lparr>ev_freshness_status := CACHED\<rparr>) else None)))"

definition cache_put :: "string \<Rightarrow> evidence_envelope \<Rightarrow> ('s provider_world_scheme, unit) prog" where
  "cache_put key item = modify (\<lambda>s. s\<lparr>pw_cache := dict_set key item (pw_cache s)\<rparr>)"

definition breaker_failures :: "string \<Rightarrow> 's provider_world_scheme \<Rightarrow> int" where
  "breaker_failures name s = (case dict_get (pw_failures s) name of None \<Rightarrow> 0 | Some n \<Rightarrow> n)"

definition breaker_open :: "string \<Rightarrow> 's provider_world_scheme \<Rightarrow> bool" where
  "breaker_open name s \<longleftrightarrow> breaker_failures name s \<ge> 3"

definition record_success :: "string \<Rightarrow> ('s provider_world_scheme, unit) prog" where
  "record_success name = modify (\<lambda>s. s\<lparr>pw_failures := dict_set name 0 (pw_failures s)\<rparr>)"

definition record_failure :: "string \<Rightarrow> ('s provider_world_scheme, unit) prog" where
  "record_failure name = modify (\<lambda>s. s\<lparr>pw_failures :=
     dict_set name (breaker_failures name s + 1) (pw_failures s)\<rparr>)"

section \<open>The HTTP adapter\<close>

record provider =
  pv_name :: string
  pv_source_type :: string
  pv_enabled_env :: string
  pv_url_env :: string
  pv_freshness_minutes :: int
  pv_retries :: nat

text \<open>
  One attempt: an HTTP error, raised by the request or by \<^verbatim>\<open>raise_for_status\<close>, with the lower-case
  name of its class; a \<^verbatim>\<open>TimeoutError\<close>; a body that is not JSON; another exception; a JSON value.
\<close>

datatype http_reply = HttpError string | HttpTimeout | NotJson string | HttpRaises exn | HttpJson json

text \<open>What ends the \<^verbatim>\<open>try\<close> block: a caught exception (its class name) or one that escapes.\<close>

datatype fetch_failure = Caught string | Escapes exn

fun reply_outcome :: "http_reply \<Rightarrow> fetch_failure + json" where
  "reply_outcome (HttpError name) = Inl (Caught name)"
| "reply_outcome HttpTimeout = Inl (Caught ''timeouterror'')"
| "reply_outcome (NotJson name) = Inl (Caught name)"
| "reply_outcome (HttpRaises e) = Inl (Escapes e)"
| "reply_outcome (HttpJson j) = Inr j"

text \<open>Only an HTTP error is retried, \<^verbatim>\<open>retries\<close> times; the last one is raised.\<close>

fun http_attempts :: "(nat \<Rightarrow> http_reply) \<Rightarrow> nat \<Rightarrow> nat \<Rightarrow> fetch_failure + json" where
  "http_attempts http attempt 0 = reply_outcome (http attempt)"
| "http_attempts http attempt (Suc remaining) =
     (case http attempt of
        HttpError name \<Rightarrow> http_attempts http (Suc attempt) remaining
      | reply \<Rightarrow> reply_outcome reply)"

declare http_attempts.simps [simp del]

text \<open>\<^verbatim>\<open>int(delta.total_seconds() * 1000)\<close>\<close>

definition py_trunc :: "rat \<Rightarrow> int" where
  "py_trunc x = (if 0 \<le> x then \<lfloor>x\<rfloor> else \<lceil>x\<rceil>)"

definition total_seconds :: "timedelta \<Rightarrow> pyfloat" where
  "total_seconds d = fl (of_int d / 1000000)"

definition unavailable ::
  "'h host_scheme \<Rightarrow> provider \<Rightarrow> string \<Rightarrow> string \<Rightarrow> ('s run_scheme, evidence_envelope) prog" where
  "unavailable h p correlation_id code =
     bindP (now_utc h) (\<lambda>now. bindP (uuid4 h) (\<lambda>eid. bindP (now_utc h) (\<lambda>retrieved. ret
       \<lparr>ev_evidence_id = eid, ev_source_name = pv_name p, ev_source_type = pv_source_type p,
        ev_source_url_or_record_id = ''unavailable:'' @ correlation_id,
        ev_retrieved_at = retrieved, ev_observed_at = Some now, ev_expires_at = now,
        ev_freshness_status = UNAVAILABLE, ev_normalized_payload = [],
        ev_raw_payload_reference = None, ev_provider_latency_ms = None,
        ev_provider_request_id = None, ev_error_code = Some code\<rparr>)))"

definition cache_key_for :: "string \<Rightarrow> provider \<Rightarrow> string \<Rightarrow> string" where
  "cache_key_for tenant_id p cache_key = tenant_id @ '':'' @ pv_source_type p @ '':'' @ cache_key"

text \<open>
  The part of \<^verbatim>\<open>fetch\<close> up to its first request.  It either returns, or is suspended with the URL and
  the time it started.
\<close>

definition fetch_start ::
  "'h host_scheme \<Rightarrow> (string \<Rightarrow> string option) \<Rightarrow> provider \<Rightarrow> string \<Rightarrow> string \<Rightarrow> string \<Rightarrow> bool option \<Rightarrow>
    ('s provider_world_scheme, evidence_envelope + (string \<times> datetime)) prog" where
  "fetch_start h getenv p tenant_id cache_key correlation_id enabled =
     bindP (cache_get h (cache_key_for tenant_id p cache_key)) (\<lambda>cached. case cached of
       Some item \<Rightarrow> ret (Inl item)
     | None \<Rightarrow>
         bindP (gets (breaker_open (pv_name p))) (\<lambda>is_open.
         if is_open
         then bindP (unavailable h p correlation_id ''provider_circuit_open'') (\<lambda>e. ret (Inl e))
         else if enabled = Some False \<or> (enabled = None \<and>
            py_lower (case getenv (pv_enabled_env p) of None \<Rightarrow> ''false'' | Some v \<Rightarrow> v) \<noteq> ''true'')
         then bindP (unavailable h p correlation_id ''provider_disabled'') (\<lambda>e. ret (Inl e))
         else if falsy (getenv (pv_url_env p))
         then bindP (unavailable h p correlation_id ''provider_url_not_configured'') (\<lambda>e. ret (Inl e))
         else bindP (now_utc h) (\<lambda>started. ret (Inr (the (getenv (pv_url_env p)), started)))))"

definition fetch_failed ::
  "'h host_scheme \<Rightarrow> provider \<Rightarrow> string \<Rightarrow> string \<Rightarrow> ('s provider_world_scheme, evidence_envelope) prog" where
  "fetch_failed h p correlation_id name =
     thenP (record_failure (pv_name p)) (unavailable h p correlation_id name)"

text \<open>
  The rest of \<^verbatim>\<open>fetch\<close>: the attempts, the envelope, the cache and the breaker.  A negative latency
  (the clock went back) is a \<^verbatim>\<open>ValidationError\<close>, which is a \<^verbatim>\<open>ValueError\<close> and is caught.
\<close>

definition fetch_finish ::
  "'h host_scheme \<Rightarrow> (nat \<Rightarrow> http_reply) \<Rightarrow> provider \<Rightarrow> string \<Rightarrow> string \<Rightarrow> string \<Rightarrow> string \<Rightarrow> datetime \<Rightarrow>
    ('s provider_world_scheme, evidence_envelope) prog" where
  "fetch_finish h http p tenant_id cache_key correlation_id url started =
     (let failed = fetch_failed h p correlation_id
      in case http_attempts http 0 (pv_retries p) of
           Inl (Caught name) \<Rightarrow> failed name
         | Inl (Escapes e) \<Rightarrow> throw e
         | Inr (JObj payload) \<Rightarrow>
             (case risk_score_payload payload of
                Inl e \<Rightarrow> throw e
              | Inr normalized \<Rightarrow>
                  bindP (now_utc h) (\<lambda>later.
                    let latency = py_trunc (fmul (total_seconds (later - started)) 1000)
                    in bindP (uuid4 h) (\<lambda>eid. bindP (now_utc h) (\<lambda>retrieved.
                      if latency < 0 then failed ''validationerror''
                      else let item =
                        \<lparr>ev_evidence_id = eid, ev_source_name = pv_name p,
                         ev_source_type = pv_source_type p, ev_source_url_or_record_id = url,
                         ev_retrieved_at = retrieved, ev_observed_at = Some started,
                         ev_expires_at = started + td_minutes (pv_freshness_minutes p),
                         ev_freshness_status = FRESH, ev_normalized_payload = normalized,
                         ev_raw_payload_reference = None, ev_provider_latency_ms = Some latency,
                         ev_provider_request_id = None, ev_error_code = None\<rparr>
                      in thenP (cache_put (cache_key_for tenant_id p cache_key) item)
                        (thenP (record_success (pv_name p)) (ret item))))))
         | Inr _ \<Rightarrow> failed ''valueerror'')"

definition fetch ::
  "'h host_scheme \<Rightarrow> (string \<Rightarrow> string option) \<Rightarrow> (nat \<Rightarrow> http_reply) \<Rightarrow> provider \<Rightarrow> string \<Rightarrow> string \<Rightarrow> string \<Rightarrow>
    bool option \<Rightarrow> ('s provider_world_scheme, evidence_envelope) prog" where
  "fetch h getenv http p tenant_id cache_key correlation_id enabled =
     bindP (fetch_start h getenv p tenant_id cache_key correlation_id enabled) (\<lambda>r. case r of
       Inl e \<Rightarrow> ret e
     | Inr (url, started) \<Rightarrow> fetch_finish h http p tenant_id cache_key correlation_id url started)"

section \<open>The live collector\<close>

definition amadeus_flight_status :: provider where
  "amadeus_flight_status = \<lparr>pv_name = ''amadeus-flight-status'', pv_source_type = ''flight_status'',
     pv_enabled_env = ''PROVIDER_AMADEUS_ENABLED'', pv_url_env = ''AMADEUS_FLIGHT_STATUS_URL'',
     pv_freshness_minutes = 5, pv_retries = 1\<rparr>"

definition faa_nas :: provider where
  "faa_nas = \<lparr>pv_name = ''faa-nas-status'', pv_source_type = ''airport_weather'',
     pv_enabled_env = ''PROVIDER_FAA_ENABLED'', pv_url_env = ''FAA_NAS_STATUS_URL'',
     pv_freshness_minutes = 15, pv_retries = 1\<rparr>"

definition nws_alerts :: provider where
  "nws_alerts = \<lparr>pv_name = ''nws-alerts'', pv_source_type = ''airport_weather'',
     pv_enabled_env = ''PROVIDER_NWS_ENABLED'', pv_url_env = ''NWS_ALERTS_URL'',
     pv_freshness_minutes = 15, pv_retries = 1\<rparr>"

definition aviation_weather :: provider where
  "aviation_weather = \<lparr>pv_name = ''aviation-weather'', pv_source_type = ''airport_weather'',
     pv_enabled_env = ''PROVIDER_AVIATION_WEATHER_ENABLED'', pv_url_env = ''AVIATION_WEATHER_URL'',
     pv_freshness_minutes = 15, pv_retries = 1\<rparr>"

definition google_routes :: provider where
  "google_routes = \<lparr>pv_name = ''google-routes'', pv_source_type = ''ground_route'',
     pv_enabled_env = ''PROVIDER_GOOGLE_ROUTES_ENABLED'', pv_url_env = ''GOOGLE_ROUTES_URL'',
     pv_freshness_minutes = 5, pv_retries = 1\<rparr>"

definition destination_advisory_provider :: provider where
  "destination_advisory_provider = \<lparr>pv_name = ''state-department-advisory'',
     pv_source_type = ''destination_advisory'',
     pv_enabled_env = ''PROVIDER_DESTINATION_ADVISORY_ENABLED'', pv_url_env = ''DESTINATION_ADVISORY_URL'',
     pv_freshness_minutes = 1440, pv_retries = 1\<rparr>"

definition live_providers :: "provider list" where
  "live_providers = [amadeus_flight_status, faa_nas, nws_alerts, aviation_weather, google_routes,
     destination_advisory_provider]"

definition connection_minutes_of :: "flight_segment list \<Rightarrow> pyfloat list" where
  "connection_minutes_of segments = map (\<lambda>(previous, next_segment).
     fl (total_seconds (dt_instant (seg_scheduled_departure_at next_segment)
           - dt_instant (seg_scheduled_arrival_at previous)) / 60))
     (zip segments (tl segments))"

definition connection_risk :: "pyfloat \<Rightarrow> int" where
  "connection_risk connection_minutes =
     (if connection_minutes < 45 then 90 else if connection_minutes < 60 then 40 else 5)"

definition connection_feasibility ::
  "'h host_scheme \<Rightarrow> trip \<Rightarrow> string \<Rightarrow> ('s run_scheme, evidence_envelope) prog" where
  "connection_feasibility h t correlation_id =
     (let mins = connection_minutes_of (trip_segments t);
          m = (case mins of [] \<Rightarrow> 90 | x # xs \<Rightarrow> fold min xs x);
          shown = (case mins of [] \<Rightarrow> JInt 90 | _ \<Rightarrow> JFloat m)
      in bindP (now_utc h) (\<lambda>now. bindP (uuid4 h) (\<lambda>eid. bindP (now_utc h) (\<lambda>retrieved. ret
        \<lparr>ev_evidence_id = eid, ev_source_name = ''routeshield-connection-feasibility'',
         ev_source_type = ''connection_feasibility'',
         ev_source_url_or_record_id = ''calculated:'' @ correlation_id,
         ev_retrieved_at = retrieved, ev_observed_at = Some now,
         ev_expires_at = now + td_minutes 15, ev_freshness_status = FRESH,
         ev_normalized_payload =
           [(''risk_score'', JInt (connection_risk m)), (''connection_minutes'', shown)],
         ev_raw_payload_reference = None, ev_provider_latency_ms = None,
         ev_provider_request_id = None, ev_error_code = None\<rparr>))))"

definition trip_cache_key :: "trip \<Rightarrow> string" where
  "trip_cache_key t = (let s = hd (trip_segments t) in
     seg_carrier_code s @ '':'' @ seg_flight_number s @ '':'' @ seg_departure_airport s @ '':'' @
     trip_destination_country t)"

text \<open>
  \<open>completion\<close> lists the indices of the providers in the order their requests complete;
  \<open>replies\<close> gives the answers of each provider by name.
\<close>

definition collect ::
  "'h host_scheme \<Rightarrow> (string \<Rightarrow> string option) \<Rightarrow> (string \<Rightarrow> nat \<Rightarrow> http_reply) \<Rightarrow> nat list \<Rightarrow> trip \<Rightarrow> string \<Rightarrow>
    (string \<Rightarrow> ('s provider_world_scheme, bool) prog) \<Rightarrow>
    ('s provider_world_scheme, evidence_envelope list) prog" where
  "collect h getenv replies completion t correlation_id provider_enabled =
     (if trip_segments t = [] then throw (OtherException ''IndexError'')
      else bindP (for_each live_providers (\<lambda>p. provider_enabled (pv_enabled_env p))) (\<lambda>enabled.
        bindP (for_each (zip enabled live_providers) (\<lambda>(on, p).
          fetch_start h getenv p (trip_tenant_id t) (trip_cache_key t) correlation_id (Some on)))
        (\<lambda>started. bindP
          (for_each completion (\<lambda>i. case started ! i of
             Inl e \<Rightarrow> ret (i, e)
           | Inr (url, begun) \<Rightarrow>
               bindP (fetch_finish h (replies (pv_name (live_providers ! i))) (live_providers ! i)
                 (trip_tenant_id t) (trip_cache_key t) correlation_id url begun) (\<lambda>e. ret (i, e))))
        (\<lambda>finished. bindP (connection_feasibility h t correlation_id) (\<lambda>c.
           ret (map (\<lambda>i. the (map_of finished i)) [0..<length live_providers] @ [c]))))))"

section \<open>Lemmas: the adapter\<close>

lemma cache_get_app:
  "cache_get h key s = (case dict_get (pw_cache s) key of
     None \<Rightarrow> (Inr None, s)
   | Some i \<Rightarrow> (Inr (if ev_expires_at i > host_now h (run_reads s)
                   then Some (i\<lparr>ev_freshness_status := CACHED\<rparr>) else None),
               s\<lparr>run_reads := Suc (run_reads s)\<rparr>))"
  by (simp add: cache_get_def prog_simps split: option.splits)

definition is_unavailable :: "provider \<Rightarrow> evidence_envelope \<Rightarrow> bool" where
  "is_unavailable p e \<longleftrightarrow> ev_source_type e = pv_source_type p \<and> ev_source_name e = pv_name p \<and>
     ev_freshness_status e = UNAVAILABLE \<and> ev_normalized_payload e = [] \<and> ev_error_code e \<noteq> None"

lemma unavailable_app:
  "\<exists>e. unavailable h p cid code s =
     (Inr e, s\<lparr>run_draws := run_draws s + 1, run_reads := run_reads s + 2\<rparr>) \<and>
     is_unavailable p e \<and> ev_error_code e = Some code"
  by (simp add: unavailable_def prog_simps is_unavailable_def)

text \<open>The state after the cache has been consulted: only a hit reads the clock.\<close>

definition after_cache_get :: "string \<Rightarrow> 's provider_world_scheme \<Rightarrow> 's provider_world_scheme" where
  "after_cache_get key s =
     (if dict_get (pw_cache s) key = None then s else s\<lparr>run_reads := Suc (run_reads s)\<rparr>)"

lemma after_cache_get_keeps [simp]:
  "pw_cache (after_cache_get key s) = pw_cache s" "pw_failures (after_cache_get key s) = pw_failures s"
  "breaker_open name (after_cache_get key s) = breaker_open name s"
  by (simp_all add: after_cache_get_def breaker_open_def breaker_failures_def)

definition cache_hit ::
  "'h host_scheme \<Rightarrow> string \<Rightarrow> 's provider_world_scheme \<Rightarrow> evidence_envelope option" where
  "cache_hit h key s = (case dict_get (pw_cache s) key of None \<Rightarrow> None
     | Some i \<Rightarrow> if ev_expires_at i > host_now h (run_reads s)
         then Some (i\<lparr>ev_freshness_status := CACHED\<rparr>) else None)"

lemma cache_get_hit: "cache_get h key s = (Inr (cache_hit h key s), after_cache_get key s)"
  by (simp add: cache_get_app cache_hit_def after_cache_get_def split: option.splits)

text \<open>A start that returns has found an unexpired report or declared the source unavailable.\<close>

definition start_blocked ::
  "(string \<Rightarrow> string option) \<Rightarrow> provider \<Rightarrow> bool option \<Rightarrow> 's provider_world_scheme \<Rightarrow> bool" where
  "start_blocked getenv p enabled s \<longleftrightarrow> breaker_open (pv_name p) s \<or> enabled = Some False \<or>
     (enabled = None \<and>
       py_lower (case getenv (pv_enabled_env p) of None \<Rightarrow> ''false'' | Some v \<Rightarrow> v) \<noteq> ''true'') \<or>
     falsy (getenv (pv_url_env p))"

lemma fetch_start_hit:
  "cache_hit h (cache_key_for tenant p key) s = Some i \<Longrightarrow>
     fetch_start h getenv p tenant key cid enabled s = (Inr (Inl i), after_cache_get (cache_key_for tenant p key) s)"
  by (simp add: fetch_start_def bindP_app cache_get_hit ret_app)

lemma fetch_start_blocked:
  assumes "cache_hit h (cache_key_for tenant p key) s = None" "start_blocked getenv p enabled s"
  shows "\<exists>e s'. fetch_start h getenv p tenant key cid enabled s = (Inr (Inl e), s') \<and> is_unavailable p e \<and>
    pw_cache s' = pw_cache s \<and> pw_failures s' = pw_failures s"
proof -
  let ?s1 = "after_cache_get (cache_key_for tenant p key) s"
  have un: "\<exists>e s'. bindP (unavailable h p cid code) (\<lambda>e. ret (Inl e)) ?s1 = (Inr (Inl e), s') \<and>
      is_unavailable p e \<and> pw_cache s' = pw_cache s \<and> pw_failures s' = pw_failures s" for code
    using unavailable_app [of h p cid code ?s1] by (auto simp: bindP_app ret_app)
  show ?thesis
    using un [of "''provider_circuit_open''"] un [of "''provider_disabled''"]
      un [of "''provider_url_not_configured''"] assms(2)
    unfolding fetch_start_def bindP_app [of "cache_get _ _"] cache_get_hit assms(1) start_blocked_def
    by (auto simp: bindP_app [of "gets _"] gets_app)
qed

lemma fetch_start_go:
  assumes "cache_hit h (cache_key_for tenant p key) s = None" "\<not> start_blocked getenv p enabled s"
  shows "\<exists>url started s'. getenv (pv_url_env p) = Some url \<and>
    fetch_start h getenv p tenant key cid enabled s = (Inr (Inr (url, started)), s') \<and>
    pw_cache s' = pw_cache s \<and> pw_failures s' = pw_failures s"
  using assms
  by (auto simp: fetch_start_def bindP_app cache_get_hit gets_app start_blocked_def now_utc_app ret_app
      falsy_def split: option.splits)

lemma fetch_failed_cases:
  assumes "fetch_failed h p cid name s = (r, s')"
  shows "\<exists>e. r = Inr e \<and> is_unavailable p e \<and> pw_cache s' = pw_cache s \<and>
    pw_failures s' = dict_set (pv_name p) (breaker_failures (pv_name p) s + 1) (pw_failures s)"
proof -
  let ?t = "s\<lparr>pw_failures := dict_set (pv_name p) (breaker_failures (pv_name p) s + 1) (pw_failures s)\<rparr>"
  obtain e where "unavailable h p cid name ?t =
      (Inr e, ?t\<lparr>run_draws := run_draws ?t + 1, run_reads := run_reads ?t + 2\<rparr>)" "is_unavailable p e"
    using unavailable_app by blast
  then show ?thesis using assms by (auto simp: fetch_failed_def thenP_app record_failure_def modify_app)
qed

text \<open>A finish either stores and returns a fresh report, or counts one failure, or raises.\<close>

lemma fetch_finish_cases:
  assumes "fetch_finish h http p tenant key cid url started s = (r, s')"
  shows "(\<exists>e. r = Inr e \<and> is_unavailable p e \<and> pw_cache s' = pw_cache s \<and>
      pw_failures s' = dict_set (pv_name p) (breaker_failures (pv_name p) s + 1) (pw_failures s)) \<or>
    (\<exists>e. r = Inr e \<and> ev_freshness_status e = FRESH \<and> ev_source_type e = pv_source_type p \<and>
      ev_source_name e = pv_name p \<and> ev_expires_at e = started + td_minutes (pv_freshness_minutes p) \<and>
      pw_cache s' = dict_set (cache_key_for tenant p key) e (pw_cache s) \<and>
      pw_failures s' = dict_set (pv_name p) 0 (pw_failures s)) \<or>
    (\<exists>x. r = Inl x \<and> pw_cache s' = pw_cache s \<and> pw_failures s' = pw_failures s)"
proof (cases "http_attempts http 0 (pv_retries p)")
  case (Inl failure)
  show ?thesis
  proof (cases failure)
    case (Caught name)
    then show ?thesis
      using fetch_failed_cases [of h p cid name s] assms by (simp add: fetch_finish_def Inl)
  next
    case (Escapes x)
    then show ?thesis using assms by (auto simp: fetch_finish_def Inl throw_app)
  qed
next
  case (Inr j)
  show ?thesis
  proof (cases "\<exists>payload. j = JObj payload")
    case True
    then obtain payload where j: "j = JObj payload" by blast
    show ?thesis
    proof (cases "risk_score_payload payload")
      case (Inl x)
      then show ?thesis using assms by (auto simp: fetch_finish_def Inr j throw_app)
    next
      case normalized: (Inr normalized)
      let ?s1 = "s\<lparr>run_draws := Suc (run_draws s), run_reads := Suc (Suc (run_reads s))\<rparr>"
      let ?late = "py_trunc (fmul (total_seconds (host_now h (run_reads s) - started)) 1000) < 0"
      show ?thesis
      proof (cases ?late)
        case True
        then have "fetch_failed h p cid ''validationerror'' ?s1 = (r, s')"
          using assms by (simp add: fetch_finish_def Inr j normalized bindP_app now_utc_app uuid4_app Let_def)
        from fetch_failed_cases [OF this] show ?thesis by (simp add: breaker_failures_def)
      next
        case False
        then show ?thesis using assms
          by (simp add: fetch_finish_def Inr j normalized bindP_app now_utc_app uuid4_app Let_def thenP_app
              cache_put_def record_success_def modify_app ret_app) auto
      qed
    qed
  next
    case False
    then have "fetch_failed h p cid ''valueerror'' s = (r, s')"
      using assms by (cases j) (auto simp: fetch_finish_def Inr)
    from fetch_failed_cases [OF this] show ?thesis by simp
  qed
qed

lemma breaker_failures_set [simp]:
  "pw_failures s' = dict_set n k (pw_failures s) \<Longrightarrow>
     breaker_failures m s' = (if m = n then k else breaker_failures m s)"
  by (simp add: breaker_failures_def dict_get_set)

section \<open>Lemmas: cache keys\<close>

lemma split_at_colon:
  assumes "x @ '':'' @ y = x' @ '':'' @ y'" "CHR '':'' \<notin> set y" "CHR '':'' \<notin> set y'"
  shows "x = x' \<and> y = y'"
proof -
  have "takeWhile (\<lambda>c. c \<noteq> CHR '':'') (rev (u @ '':'' @ v)) = rev v" if "CHR '':'' \<notin> set v" for u v :: string
    using that by (auto simp: takeWhile_append2 takeWhile_tail)
  then have "rev y = rev y'" using assms by metis
  with assms(1) show ?thesis by auto
qed

definition colon_free :: "string \<Rightarrow> bool" where
  "colon_free s \<longleftrightarrow> CHR '':'' \<notin> set s"

lemma pattern_class_colon_free:
  "pattern_class p lo hi s \<Longrightarrow> \<not> p (CHR '':'') \<Longrightarrow> colon_free s"
  by (auto simp: pattern_class_def colon_free_def list_all_iff)

lemma trip_cache_key_parts:
  assumes "valid_trip_create t"
  shows "\<exists>a b c d. trip_cache_key t = a @ '':'' @ b @ '':'' @ c @ '':'' @ d \<and>
    colon_free a \<and> colon_free b \<and> colon_free c \<and> colon_free d"
proof -
  let ?s = "hd (trip_segments t)"
  have "trip_segments t \<noteq> []" using assms by (auto simp: valid_trip_create_def)
  then have "valid_flight_segment ?s" using assms by (auto simp: valid_trip_create_def list_all_iff)
  then have "colon_free (seg_carrier_code ?s)" "colon_free (seg_flight_number ?s)"
      "colon_free (seg_departure_airport ?s)"
    by (auto simp: valid_flight_segment_def char_between_def elim!: pattern_class_colon_free)
  moreover have "colon_free (trip_destination_country t)"
    using assms by (auto simp: valid_trip_create_def char_between_def elim!: pattern_class_colon_free)
  ultimately show ?thesis by (auto simp: trip_cache_key_def Let_def)
qed

lemma cache_key_inject:
  assumes "valid_trip_create t" "valid_trip_create t'"
    and "colon_free (pv_source_type p)" "colon_free (pv_source_type p')"
    and "cache_key_for x p (trip_cache_key t) = cache_key_for x' p' (trip_cache_key t')"
  shows "x = x' \<and> pv_source_type p = pv_source_type p' \<and> trip_cache_key t = trip_cache_key t'"
proof -
  obtain a b c d where k: "trip_cache_key t = a @ '':'' @ b @ '':'' @ c @ '':'' @ d"
    and cf: "colon_free a" "colon_free b" "colon_free c" "colon_free d"
    using trip_cache_key_parts [OF assms(1)] by blast
  obtain a' b' c' d' where k': "trip_cache_key t' = a' @ '':'' @ b' @ '':'' @ c' @ '':'' @ d'"
    and cf': "colon_free a'" "colon_free b'" "colon_free c'" "colon_free d'"
    using trip_cache_key_parts [OF assms(2)] by blast
  have eq: "((((x @ '':'' @ pv_source_type p) @ '':'' @ a) @ '':'' @ b) @ '':'' @ c) @ '':'' @ d =
      ((((x' @ '':'' @ pv_source_type p') @ '':'' @ a') @ '':'' @ b') @ '':'' @ c') @ '':'' @ d'"
    using assms(5) by (simp add: cache_key_for_def k k')
  note colon = colon_free_def
  from split_at_colon [OF eq] cf(4) cf'(4) have 1: "d = d'"
    "(((x @ '':'' @ pv_source_type p) @ '':'' @ a) @ '':'' @ b) @ '':'' @ c =
      (((x' @ '':'' @ pv_source_type p') @ '':'' @ a') @ '':'' @ b') @ '':'' @ c'"
    by (auto simp: colon)
  from split_at_colon [OF 1(2)] cf(3) cf'(3) have 2: "c = c'"
    "((x @ '':'' @ pv_source_type p) @ '':'' @ a) @ '':'' @ b = ((x' @ '':'' @ pv_source_type p') @ '':'' @ a') @ '':'' @ b'"
    by (auto simp: colon)
  from split_at_colon [OF 2(2)] cf(2) cf'(2) have 3: "b = b'"
    "(x @ '':'' @ pv_source_type p) @ '':'' @ a = (x' @ '':'' @ pv_source_type p') @ '':'' @ a'"
    by (auto simp: colon)
  from split_at_colon [OF 3(2)] cf(1) cf'(1) have 4: "a = a'" "x @ '':'' @ pv_source_type p = x' @ '':'' @ pv_source_type p'"
    by (auto simp: colon)
  from split_at_colon [OF 4(2)] assms(3,4) have "x = x'" "pv_source_type p = pv_source_type p'" by (auto simp: colon)
  with 1(1) 2(1) 3(1) 4(1) k k' show ?thesis by simp
qed

lemma live_sources_colon_free: "p \<in> set live_providers \<Longrightarrow> colon_free (pv_source_type p)"
  by (auto simp: live_providers_def amadeus_flight_status_def faa_nas_def nws_alerts_def
      aviation_weather_def google_routes_def destination_advisory_provider_def colon_free_def)

section \<open>Lemmas: the collector\<close>

text \<open>Every cached report lies under a key of its own source type.\<close>

definition cache_ok :: "'s provider_world_scheme \<Rightarrow> bool" where
  "cache_ok s \<longleftrightarrow> (\<forall>x t p i. valid_trip_create (t :: trip) \<longrightarrow> p \<in> set live_providers \<longrightarrow>
     dict_get (pw_cache s) (cache_key_for x p (trip_cache_key t)) = Some i \<longrightarrow>
     ev_source_type i = pv_source_type p)"

lemma cache_ok_cong: "pw_cache s' = pw_cache s \<Longrightarrow> cache_ok s' = cache_ok s"
  by (simp add: cache_ok_def)

lemma cache_ok_put:
  assumes "cache_ok s" "valid_trip_create (t :: trip)" "p \<in> set live_providers" "ev_source_type e = pv_source_type p"
    and "pw_cache s' = dict_set (cache_key_for x p (trip_cache_key t)) e (pw_cache s)"
  shows "cache_ok s'"
  unfolding cache_ok_def
proof (intro allI impI)
  fix x' t' p' i
  assume a: "valid_trip_create (t' :: trip)" "p' \<in> set live_providers"
    "dict_get (pw_cache s') (cache_key_for x' p' (trip_cache_key t')) = Some i"
  show "ev_source_type i = pv_source_type p'"
  proof (cases "cache_key_for x' p' (trip_cache_key t') = cache_key_for x p (trip_cache_key t)")
    case True
    from cache_key_inject [OF a(1) assms(2) _ _ True] live_sources_colon_free a(2) assms(3)
    have "pv_source_type p' = pv_source_type p" by blast
    with True a(3) assms(4,5) show ?thesis by (simp add: dict_get_set)
  next
    case False
    with a assms(1,5) show ?thesis by (auto simp: cache_ok_def dict_get_set)
  qed
qed

lemma start_source:
  assumes "cache_ok s" "valid_trip_create (t :: trip)" "p \<in> set live_providers"
    and "fetch_start h getenv p x (trip_cache_key t) cid on s = (Inr r, s')"
  shows "cache_ok s' \<and> (case r of Inl e \<Rightarrow> ev_source_type e = pv_source_type p | Inr _ \<Rightarrow> True)"
proof (cases "cache_hit h (cache_key_for x p (trip_cache_key t)) s")
  case (Some i)
  have "ev_source_type i = pv_source_type p"
    using assms(1-3) Some by (auto simp: cache_ok_def cache_hit_def split: option.splits if_splits)
  then show ?thesis using assms(4) fetch_start_hit [OF Some] assms(1)
    by (auto simp: cache_ok_cong [OF after_cache_get_keeps(1)])
next
  case None
  show ?thesis
  proof (cases "start_blocked getenv p on s")
    case True
    then show ?thesis using fetch_start_blocked [OF None True, of cid] assms(1,4)
      by (auto simp: is_unavailable_def dest: cache_ok_cong)
  next
    case False
    then show ?thesis using fetch_start_go [OF None False, of cid] assms(1,4) by (auto dest: cache_ok_cong)
  qed
qed

lemma finish_source:
  assumes "cache_ok s" "valid_trip_create (t :: trip)" "p \<in> set live_providers"
    and "fetch_finish h http p x (trip_cache_key t) cid url started s = (Inr e, s')"
  shows "cache_ok s' \<and> ev_source_type e = pv_source_type p"
  using fetch_finish_cases [OF assms(4)] assms(1) cache_ok_put [OF assms(1-3)]
  by (auto simp: is_unavailable_def dest: cache_ok_cong)

lemma connection_feasibility_app:
  "\<exists>e. connection_feasibility h t cid s = (Inr e, s\<lparr>run_draws := run_draws s + 1, run_reads := run_reads s + 2\<rparr>) \<and>
     ev_source_type e = ''connection_feasibility'' \<and> ev_freshness_status e = FRESH"
  by (simp add: connection_feasibility_def Let_def prog_simps)

lemma collect_sources:
  assumes "cache_ok s" "valid_trip_create t" "mset completion = mset [0..<length live_providers]"
    and keep: "\<And>flag. moves (\<lambda>s s'. pw_cache s' = pw_cache s) (provider_enabled flag)"
    and run: "collect h getenv replies completion t cid provider_enabled s = (Inr es, s')"
  shows "map ev_source_type es = map pv_source_type live_providers @ [''connection_feasibility'']"
proof -
  let ?start = "\<lambda>(on, p). fetch_start h getenv p (trip_tenant_id t) (trip_cache_key t) cid (Some on)"
  obtain enabled s1 started s2 finished s3 c where
    en: "for_each live_providers (\<lambda>p. provider_enabled (pv_enabled_env p)) s = (Inr enabled, s1)"
    and st: "for_each (zip enabled live_providers) ?start s1 = (Inr started, s2)"
    and fi: "for_each completion (\<lambda>i. case started ! i of Inl e \<Rightarrow> ret (i, e)
           | Inr (url, begun) \<Rightarrow>
               bindP (fetch_finish h (replies (pv_name (live_providers ! i))) (live_providers ! i)
                 (trip_tenant_id t) (trip_cache_key t) cid url begun) (\<lambda>e. ret (i, e))) s2 = (Inr finished, s3)"
    and c: "connection_feasibility h t cid s3 = (Inr c, s')"
    and es: "es = map (\<lambda>i. the (map_of finished i)) [0..<length live_providers] @ [c]"
    using run unfolding collect_def
    by (auto simp: prog_simps split: if_splits prod.splits sum.splits)
  have "cache_ok s1 \<and> list_all2 (\<lambda>_ _. True) live_providers enabled"
    using en assms(1)
  proof (rule for_each_invariant)
    fix p s y s' assume "cache_ok s" "provider_enabled (pv_enabled_env p) s = (Inr y, s')"
    then show "cache_ok s' \<and> True" using movesD [OF keep] cache_ok_cong by metis
  qed
  then have ok1: "cache_ok s1" and len: "length enabled = length live_providers"
    by (auto dest: list_all2_lengthD)
  have "cache_ok s2 \<and> list_all2 (\<lambda>(_, p) r. case r of Inl e \<Rightarrow> ev_source_type e = pv_source_type p | Inr _ \<Rightarrow> True)
      (zip enabled live_providers) started"
    using st ok1
  proof (rule for_each_invariant)
    fix z s y s' assume z: "z \<in> set (zip enabled live_providers)" and "cache_ok s" "?start z s = (Inr y, s')"
    moreover obtain on p where zp: "z = (on, p)" by fastforce
    moreover have "p \<in> set live_providers" using z zp by (simp add: set_zip_rightD)
    ultimately show "cache_ok s' \<and> (case z of (_, p) \<Rightarrow> (\<lambda>r. case r of Inl e \<Rightarrow> ev_source_type e = pv_source_type p | Inr _ \<Rightarrow> True)) y"
      using start_source [OF _ assms(2)] by simp
  qed
  then have ok2: "cache_ok s2" and started: "\<And>i e. i < length live_providers \<Longrightarrow> started ! i = Inl e \<Longrightarrow>
      ev_source_type e = pv_source_type (live_providers ! i)"
    using len by (auto simp: list_all2_conv_all_nth)
  have comp: "set completion = {..<length live_providers}"
    using assms(3) by (metis atLeast_upt set_mset_mset)
  have "cache_ok s3 \<and> list_all2 (\<lambda>i q. fst q = i \<and> ev_source_type (snd q) = pv_source_type (live_providers ! i)) completion finished"
    using fi ok2
  proof (rule for_each_invariant)
    fix i s q s'
    assume i: "i \<in> set completion" and ok: "cache_ok s"
      and q: "(case started ! i of Inl e \<Rightarrow> ret (i, e)
           | Inr (url, begun) \<Rightarrow>
               bindP (fetch_finish h (replies (pv_name (live_providers ! i))) (live_providers ! i)
                 (trip_tenant_id t) (trip_cache_key t) cid url begun) (\<lambda>e. ret (i, e))) s = (Inr q, s')"
    then have i': "i < length live_providers" "live_providers ! i \<in> set live_providers" using comp by auto
    show "cache_ok s' \<and> fst q = i \<and> ev_source_type (snd q) = pv_source_type (live_providers ! i)"
    proof (cases "started ! i")
      case (Inl e)
      then show ?thesis using q ok started [OF i'(1) Inl] by (auto simp: ret_app)
    next
      case (Inr ub)
      then obtain e where ff: "fetch_finish h (replies (pv_name (live_providers ! i))) (live_providers ! i)
          (trip_tenant_id t) (trip_cache_key t) cid (fst ub) (snd ub) s = (Inr e, s')" and qe: "q = (i, e)"
        using q by (cases ub) (auto simp: prog_simps split: prod.splits sum.splits)
      show ?thesis using finish_source [OF ok assms(2) i'(2) ff] qe by simp
    qed
  qed
  then have "list_all2 (\<lambda>i q. fst q = i \<and> ev_source_type (snd q) = pv_source_type (live_providers ! i)) completion finished"
    by blast
  then have all: "map fst finished = completion"
    "\<And>q. q \<in> set finished \<Longrightarrow> ev_source_type (snd q) = pv_source_type (live_providers ! fst q)"
    by (auto simp: list_all2_conv_all_nth in_set_conv_nth intro: nth_equalityI)
  have "ev_source_type (the (map_of finished i)) = pv_source_type (live_providers ! i)"
    if "i < length live_providers" for i
  proof -
    have "i \<in> fst ` set finished" using that comp all(1) by (metis lessThan_iff list.set_map)
    then obtain e where "map_of finished i = Some e" by (metis map_of_eq_None_iff not_None_eq)
    then show ?thesis using all(2) map_of_SomeD by fastforce
  qed
  moreover have "ev_source_type c = ''connection_feasibility''"
    using connection_feasibility_app [of h t cid s3] c by auto
  ultimately show ?thesis by (auto simp: es intro: nth_equalityI)
qed

text \<open>A reply that leads to a report: anything but a foreign exception or a score beyond every float.\<close>

fun benign_reply :: "http_reply \<Rightarrow> bool" where
  "benign_reply (HttpRaises e) = False"
| "benign_reply (HttpJson (JObj payload)) = (\<exists>d. risk_score_payload payload = Inr d)"
| "benign_reply _ = True"

lemma http_attempts_benign:
  fixes http :: "nat \<Rightarrow> http_reply"
  shows "(\<And>n. benign_reply (http n)) \<Longrightarrow>
     (\<exists>name. http_attempts http k r = Inl (Caught name)) \<or>
     (\<exists>j. http_attempts http k r = Inr j \<and> benign_reply (HttpJson j))"
proof (induction http k r rule: http_attempts.induct)
  case (1 http k)
  then show ?case using "1.prems" [of k] by (cases "http k") (auto simp: http_attempts.simps)
next
  case (2 http k r)
  then show ?case using "2.prems" [of k] by (cases "http k") (auto simp: http_attempts.simps)
qed

lemma fetch_finish_returns:
  assumes "\<And>n. benign_reply (http n)"
  shows "\<exists>e s'. fetch_finish h http p x key cid url started s = (Inr e, s')"
proof -
  have failed: "\<exists>e s'. fetch_failed h p cid name t = (Inr e, s')" for name and t :: "'a provider_world_scheme"
    using fetch_failed_cases [of h p cid name t] by (cases "fetch_failed h p cid name t") auto
  show ?thesis
    using http_attempts_benign [of http 0 "pv_retries p", OF assms]
  proof (elim disjE exE conjE)
    fix name assume "http_attempts http 0 (pv_retries p) = Inl (Caught name)"
    then show ?thesis using failed by (simp add: fetch_finish_def)
  next
    fix j assume j: "http_attempts http 0 (pv_retries p) = Inr j" and b: "benign_reply (HttpJson j)"
    show ?thesis
    proof (cases j)
      case (JObj payload)
      then obtain d where "risk_score_payload payload = Inr d" using b by auto
      then show ?thesis using failed
        by (simp add: fetch_finish_def j JObj bindP_app now_utc_app uuid4_app Let_def thenP_app
            cache_put_def record_success_def modify_app ret_app)
    qed (use failed in \<open>auto simp: fetch_finish_def j\<close>)
  qed
qed

lemma fetch_start_returns:
  "\<exists>r s'. fetch_start h getenv p x key cid on s = (Inr r, s')"
  using fetch_start_hit [of h x p key s] fetch_start_blocked [of h x p key s getenv on]
    fetch_start_go [of h x p key s getenv on]
  by (cases "cache_hit h (cache_key_for x p key) s"; cases "start_blocked getenv p on s") blast+

lemma collect_returns:
  assumes "valid_trip_create t"
    and enabled: "\<And>flag s. \<exists>b s'. provider_enabled flag s = (Inr b, s')"
    and benign: "\<And>name n. benign_reply (replies name n)"
  shows "\<exists>es s'. collect h getenv replies completion t cid provider_enabled s = (Inr es, s')"
proof -
  have ne: "trip_segments t \<noteq> []" using assms(1) by (auto simp: valid_trip_create_def)
  let ?start = "\<lambda>(on, p). fetch_start h getenv p (trip_tenant_id t) (trip_cache_key t) cid (Some on)"
  obtain en s1 where en: "for_each live_providers (\<lambda>p. provider_enabled (pv_enabled_env p)) s = (Inr en, s1)"
    using for_each_returns [of live_providers "\<lambda>p. provider_enabled (pv_enabled_env p)" "\<lambda>_ _. True" s] enabled
    by blast
  obtain started s2 where st: "for_each (zip en live_providers) ?start s1 = (Inr started, s2)"
    using for_each_returns [of "zip en live_providers" ?start "\<lambda>_ _. True" s1] fetch_start_returns
    by (metis (no_types, lifting) case_prod_beta)
  let ?fin = "\<lambda>i. case started ! i of Inl e \<Rightarrow> ret (i, e)
           | Inr (url, begun) \<Rightarrow>
               bindP (fetch_finish h (replies (pv_name (live_providers ! i))) (live_providers ! i)
                 (trip_tenant_id t) (trip_cache_key t) cid url begun) (\<lambda>e. ret (i, e))"
  have one: "\<exists>q s'. ?fin i s = (Inr q, s') \<and> True" for i and s :: "'a provider_world_scheme"
  proof (cases "started ! i")
    case (Inr ub)
    obtain e s' where "fetch_finish h (replies (pv_name (live_providers ! i))) (live_providers ! i)
        (trip_tenant_id t) (trip_cache_key t) cid (fst ub) (snd ub) s = (Inr e, s')"
      using fetch_finish_returns [of "replies (pv_name (live_providers ! i))"] benign by blast
    then show ?thesis by (cases ub) (simp add: Inr bindP_app ret_app)
  qed (simp add: ret_app)
  obtain finished s3 where fi: "for_each completion ?fin s2 = (Inr finished, s3)"
    using for_each_returns [of completion ?fin "\<lambda>_ _. True" s2] one by blast
  obtain c s4 where "connection_feasibility h t cid s3 = (Inr c, s4)"
    using connection_feasibility_app [of h t cid s3] by blast
  with ne en st fi show ?thesis by (simp add: collect_def bindP_app ret_app)
qed

section \<open>Properties\<close>


definition sample_segment :: flight_segment where
  "sample_segment = \<lparr>seg_segment_id = ''s'', seg_carrier_code = ''AA'', seg_flight_number = ''12'',
     seg_departure_airport = ''SFO'', seg_arrival_airport = ''JFK'',
     seg_scheduled_departure_at = \<lparr>dt_instant = 0, dt_utcoffset = Some 0\<rparr>,
     seg_scheduled_arrival_at = \<lparr>dt_instant = 5, dt_utcoffset = Some 0\<rparr>\<rparr>"

definition flying_trip :: trip where
  "flying_trip = sample_trip\<lparr>trip_segments := [sample_segment]\<rparr>"

definition sample_host :: host where
  "sample_host = \<lparr>host_uuid4 = of_nat, host_now = int\<rparr>"

definition empty_providers :: provider_world where
  "empty_providers = \<lparr>run_draws = 0, run_reads = 0, pw_cache = [], pw_failures = []\<rparr>"

lemma flying_trip_valid: "valid_trip_create flying_trip"
  by code_simp

text \<open>Three providers are configured, the others are not; requests time out, in reverse order.\<close>

definition sample_env :: "string \<Rightarrow> string option" where
  "sample_env name = (if name \<in> {''FAA_NAS_STATUS_URL'', ''NWS_ALERTS_URL'', ''GOOGLE_ROUTES_URL''}
     then Some ''http://mock'' else None)"




text \<open>
  The circuit breaker has no way back: once a provider has failed three times in a row, every
  later fetch is answered from the cache or as unavailable without a request, whatever the network
  would say, and leaves the breaker open.
\<close>

theorem open_breaker_never_closes:
  assumes "breaker_open (pv_name p) s"
    and "fetch h getenv http p x key cid enabled s = (r, s')"
  shows "breaker_open (pv_name p) s' \<and> fetch h getenv http' p x key cid enabled s = (r, s') \<and>
    (\<exists>e. r = Inr e \<and> (is_unavailable p e \<or> cache_hit h (cache_key_for x p key) s = Some e))"
proof -
  have blocked: "start_blocked getenv p enabled s" using assms(1) by (simp add: start_blocked_def)
  show ?thesis
  proof (cases "cache_hit h (cache_key_for x p key) s")
    case (Some i)
    then show ?thesis using assms fetch_start_hit [OF Some] by (auto simp: fetch_def bindP_app ret_app)
  next
    case None
    obtain e s1 where "fetch_start h getenv p x key cid enabled s = (Inr (Inl e), s1)" "is_unavailable p e"
        "pw_failures s1 = pw_failures s"
      using fetch_start_blocked [OF None blocked, of cid] by blast
    then show ?thesis using assms by (auto simp: fetch_def bindP_app ret_app breaker_open_def breaker_failures_def)
  qed
qed

theorem open_breaker_never_closes_witness:
  "\<exists>e s'. fetch sample_host sample_env (\<lambda>_. HttpJson (JObj [])) faa_nas ''t'' ''k'' ''c'' (Some True)
       (empty_providers\<lparr>pw_failures := [(''faa-nas-status'', 3)]\<rparr>) = (Inr e, s') \<and> is_unavailable faa_nas e \<and>
     breaker_open ''faa-nas-status'' s'"
proof -
  let ?s = "empty_providers\<lparr>pw_failures := [(''faa-nas-status'', 3)]\<rparr>"
  obtain r s' where run: "fetch sample_host sample_env (\<lambda>_. HttpJson (JObj [])) faa_nas ''t'' ''k'' ''c'' (Some True) ?s = (r, s')"
    by fastforce
  have "breaker_open (pv_name faa_nas) ?s" "pv_name faa_nas = ''faa-nas-status''"
    by (simp_all add: breaker_open_def breaker_failures_def faa_nas_def)
  with open_breaker_never_closes [OF this(1) run] run show ?thesis
    by (auto simp: cache_hit_def empty_providers_def)
qed

text \<open>
  The three weather providers share one cache entry per trip: a report fetched by one of them
  is returned, until it expires, as the answer of another one, even of one that is switched off.
\<close>

theorem weather_providers_share_cache:
  assumes "pv_source_type p = pv_source_type q"
    and "fetch_finish h http p x key cid url started s = (Inr e, s')" "ev_freshness_status e = FRESH"
    and "host_now h (run_reads s') < started + td_minutes (pv_freshness_minutes p)"
  shows "\<exists>s''. fetch h getenv http' q x key cid' (Some False) s' =
    (Inr (e\<lparr>ev_freshness_status := CACHED\<rparr>), s'') \<and> ev_source_name e = pv_name p"
proof -
  have k: "cache_key_for x q key = cache_key_for x p key" by (simp add: cache_key_for_def assms(1))
  have "pw_cache s' = dict_set (cache_key_for x p key) e (pw_cache s)" "ev_source_name e = pv_name p"
      "ev_expires_at e = started + td_minutes (pv_freshness_minutes p)"
    using fetch_finish_cases [OF assms(2)] assms(3) by (auto simp: is_unavailable_def)
  moreover from this have hit: "cache_hit h (cache_key_for x q key) s' = Some (e\<lparr>ev_freshness_status := CACHED\<rparr>)"
    using assms(4) by (simp add: cache_hit_def k dict_get_set)
  ultimately show ?thesis using fetch_start_hit [OF hit] by (simp add: fetch_def bindP_app ret_app)
qed

theorem weather_providers_share_cache_witness:
  "\<exists>e s' s''. fetch_finish sample_host (\<lambda>_. HttpJson (JObj [(''risk_score'', JInt 75)])) faa_nas ''t'' ''k'' ''c''
       ''http://faa'' 0 empty_providers = (Inr e, s') \<and>
     fetch sample_host sample_env (\<lambda>_. HttpTimeout) nws_alerts ''t'' ''k'' ''d'' (Some False) s' =
       (Inr (e\<lparr>ev_freshness_status := CACHED\<rparr>), s'') \<and> ev_source_name e = ''faa-nas-status''"
proof -
  have "case fetch_finish sample_host (\<lambda>_. HttpJson (JObj [(''risk_score'', JInt 75)])) faa_nas ''t'' ''k'' ''c''
       ''http://faa'' 0 empty_providers of (Inr e, s') \<Rightarrow> ev_freshness_status e = FRESH \<and>
        host_now sample_host (run_reads s') < 0 + td_minutes (pv_freshness_minutes faa_nas) | _ \<Rightarrow> False"
    by code_simp
  then obtain e s' where run: "fetch_finish sample_host (\<lambda>_. HttpJson (JObj [(''risk_score'', JInt 75)])) faa_nas
       ''t'' ''k'' ''c'' ''http://faa'' 0 empty_providers = (Inr e, s')"
    and f: "ev_freshness_status e = FRESH"
      "host_now sample_host (run_reads s') < 0 + td_minutes (pv_freshness_minutes faa_nas)"
    by (auto split: prod.splits sum.splits)
  have "pv_source_type faa_nas = pv_source_type nws_alerts" "pv_name faa_nas = ''faa-nas-status''"
    by (simp_all add: faa_nas_def nws_alerts_def)
  with weather_providers_share_cache [OF this(1) run f] run show ?thesis by metis
qed

text \<open>
  The floating-point bands of the connection feasibility are exact: a connection of whole
  microseconds is scored 90 below 45 minutes, 40 below 60 minutes and 5 otherwise, with no rounding
  at the borders.
\<close>

theorem connection_bands_exact:
  "connection_risk (fl (total_seconds gap / 60)) =
     (if gap < td_minutes 45 then 90 else if gap < td_minutes 60 then 40 else 5)"
proof -
  have below: "fl (total_seconds gap / 60) < of_int m"
    if "gap < td_minutes m" "fl (fl (of_int (td_minutes m - 1) / 1000000) / 60) < of_int m" for m
  proof -
    have "fl (total_seconds gap / 60) \<le> fl (fl (of_int (td_minutes m - 1) / 1000000) / 60)"
      unfolding total_seconds_def using that(1)
      by (intro fl_mono divide_right_mono) auto
    with that(2) show ?thesis by linarith
  qed
  have above: "of_int m \<le> fl (total_seconds gap / 60)"
    if "td_minutes m \<le> gap" "\<bar>m\<bar> < 2 ^ 40" for m
  proof -
    have "(of_int (td_minutes m) :: rat) \<le> of_int gap" using that(1) by linarith
    then have "(of_int (60 * m) :: rat) \<le> of_int gap / 1000000"
      by (simp add: td_defs)
    then have "of_int (60 * m) \<le> total_seconds gap"
      unfolding total_seconds_def using fl_of_int [of "60 * m"] that(2) by (intro fl_ge) auto
    then have "(of_int m :: rat) \<le> total_seconds gap / 60" by simp
    then show ?thesis using fl_of_int [of m] that(2) by (intro fl_ge) auto
  qed
  have c: "fl (fl (of_int (td_minutes 45 - 1) / 1000000) / 60) < 45"
    "fl (fl (of_int (td_minutes 60 - 1) / 1000000) / 60) < 60"
    by code_simp+
  show ?thesis
    using below [of 45] below [of 60] above [of 45] above [of 60] c
    by (auto simp: connection_risk_def not_less)
qed

end
