(* ===== verification/Security.thy ===== *)
theory Security
  imports Host
begin

text \<open>
  \<^verbatim>\<open>apps/api/security.py\<close> (redaction of audit payloads, the two rate limiters),
  \<^verbatim>\<open>apps/api/config.py\<close> (controls read from the environment), \<^verbatim>\<open>apps/api/idempotency.py\<close>
  (request fingerprints and the replay store) and the skew checks of \<^verbatim>\<open>apps/api/ingestion.py\<close>.
\<close>

section \<open>Redaction\<close>

definition SENSITIVE_FIELDS :: "string list" where
  "SENSITIVE_FIELDS = [''authorization'', ''cookie'', ''set-cookie'', ''openai_api_key'', ''password'',
     ''passwd'', ''secret'', ''token'', ''access_token'', ''refresh_token'', ''id_token'', ''api_key'',
     ''x-api-key'', ''client_secret'', ''private_key'', ''signature'']"

definition underscored :: "string \<Rightarrow> string" where
  "underscored s = py_replace_char (CHR ''-'') (CHR ''_'') s"

definition sensitive_key :: "string \<Rightarrow> bool" where
  "sensitive_key key \<longleftrightarrow> underscored (py_lower (py_strip key)) \<in> set (map underscored SENSITIVE_FIELDS)"

definition redacted :: json where
  "redacted = JStr ''[REDACTED]''"

fun redact :: "json \<Rightarrow> json" where
  "redact (JObj kvs) = JObj (map (\<lambda>(k, v). (k, if sensitive_key k then redacted else redact v)) kvs)"
| "redact (JList xs) = JList (map redact xs)"
| "redact v = v"

definition redact_object :: "json_object \<Rightarrow> json_object" where
  "redact_object kvs = map (\<lambda>(k, v). (k, if sensitive_key k then redacted else redact v)) kvs"

section \<open>Rate limiting\<close>

record rate_limit_result =
  rl_allowed :: bool
  rl_limit :: int
  rl_remaining :: int
  rl_retry_after_seconds :: int

text \<open>\<^verbatim>\<open>int(delta.total_seconds())\<close> truncates towards zero.\<close>

definition whole_seconds :: "timedelta \<Rightarrow> int" where
  "whole_seconds d = (if 0 \<le> d then d div 1000000 else - ((- d) div 1000000))"

definition limiter_new :: "int \<Rightarrow> timedelta \<Rightarrow> unit result" where
  "limiter_new limit window =
     (if limit < 1 then Inl (ValueError ''rate limit must be at least one request'')
      else if window \<le> 0 then Inl (ValueError ''rate-limit window must be positive'')
      else Inr ())"

text \<open>\<^verbatim>\<open>FixedWindowRateLimiter.check\<close> under its lock, at the instant it reads the clock.\<close>

definition limiter_check ::
  "int \<Rightarrow> timedelta \<Rightarrow> datetime \<Rightarrow> string \<Rightarrow> (string, datetime list) dict \<Rightarrow>
    rate_limit_result \<times> (string, datetime list) dict" where
  "limiter_check limit window now key requests =
     (let active = filter (\<lambda>time. now - time < window)
            (case dict_get requests key of None \<Rightarrow> [] | Some ts \<Rightarrow> ts)
      in if int (length active) \<ge> limit
         then (\<lparr>rl_allowed = False, rl_limit = limit, rl_remaining = 0,
                rl_retry_after_seconds = max 1 (whole_seconds (window - (now - hd active)))\<rparr>,
               dict_set key active requests)
         else (\<lparr>rl_allowed = True, rl_limit = limit,
                rl_remaining = limit - int (length (active @ [now])), rl_retry_after_seconds = 0\<rparr>,
               dict_set key (active @ [now]) requests))"

definition limiter_allow ::
  "int \<Rightarrow> timedelta \<Rightarrow> datetime \<Rightarrow> string \<Rightarrow> (string, datetime list) dict \<Rightarrow> bool" where
  "limiter_allow limit window now key requests = rl_allowed (fst (limiter_check limit window now key requests))"

text \<open>
  \<^verbatim>\<open>RedisFixedWindowRateLimiter.check\<close>: the counter of a key and its expiry live in Redis; the
  model keeps the counters of the keys that have not expired.
\<close>

definition redis_limiter_check ::
  "int \<Rightarrow> int \<Rightarrow> int \<Rightarrow> string \<Rightarrow> (int \<times> string, int) dict \<Rightarrow> rate_limit_result \<times> (int \<times> string, int) dict" where
  "redis_limiter_check limit window_seconds epoch key counters =
     (let window_start = epoch - epoch mod window_seconds;
          count = (case dict_get counters (window_start, key) of None \<Rightarrow> 0 | Some n \<Rightarrow> n) + 1;
          retry_after = max 1 (window_seconds - (epoch - window_start))
      in (\<lparr>rl_allowed = (count \<le> limit), rl_limit = limit, rl_remaining = max 0 (limit - count),
           rl_retry_after_seconds = (if count > limit then retry_after else 0)\<rparr>,
          dict_set (window_start, key) count counters))"

section \<open>Configuration\<close>

definition env_enabled :: "(string \<Rightarrow> string option) \<Rightarrow> string \<Rightarrow> bool \<Rightarrow> bool" where
  "env_enabled getenv name dflt = (case getenv name of
     None \<Rightarrow> dflt
   | Some value \<Rightarrow> py_lower (py_strip value) \<in> {''1'', ''true'', ''yes''})"

text \<open>\<^verbatim>\<open>int(s)\<close>: white space around, an optional sign, decimal digits with single underscores between.\<close>

fun digits_value :: "int \<Rightarrow> string \<Rightarrow> int option" where
  "digits_value acc [] = Some acc"
| "digits_value acc (c # cs) =
     (if digit09 c then digits_value (10 * acc + (of_char c - 48)) cs
      else if c = CHR ''_'' \<and> cs \<noteq> [] \<and> digit09 (hd cs) then digits_value acc cs
      else None)"

definition py_int :: "string \<Rightarrow> int option" where
  "py_int s = (case py_strip s of
     [] \<Rightarrow> None
   | c # cs \<Rightarrow>
       (let (neg, body) = (if c = CHR ''-'' then (True, cs) else if c = CHR ''+'' then (False, cs) else (False, c # cs))
        in if body \<noteq> [] \<and> digit09 (hd body)
           then map_option (\<lambda>n. if neg then - n else n) (digits_value 0 body) else None))"

definition positive_int :: "(string \<Rightarrow> string option) \<Rightarrow> string \<Rightarrow> int \<Rightarrow> int \<Rightarrow> int result" where
  "positive_int getenv name dflt minimum = (case getenv name of
     None \<Rightarrow> Inr dflt
   | Some value \<Rightarrow> (case py_int value of
       None \<Rightarrow> Inl (ValueError (name @ '' must be an integer''))
     | Some parsed \<Rightarrow>
         if parsed < minimum then Inl (ValueError (name @ '' must be at least '' @ string_of_int minimum))
         else Inr parsed))"

record runtime_controls =
  ctl_llm_enabled :: bool
  ctl_react_tool_calls_enabled :: bool
  ctl_notifications_enabled :: bool
  ctl_approval_actions_enabled :: bool
  ctl_memory_reads_enabled :: bool
  ctl_memory_writes_enabled :: bool
  ctl_require_oidc :: bool
  ctl_api_rate_limit :: int
  ctl_api_rate_limit_window_seconds :: int
  ctl_rate_limit_redis_required :: bool
  ctl_idempotency_ttl_seconds :: int
  ctl_require_idempotency :: bool
  ctl_tenant_automation_enabled :: bool
  ctl_demo_evidence_enabled :: bool
  ctl_retention_days :: int

definition from_environment :: "(string \<Rightarrow> string option) \<Rightarrow> runtime_controls result" where
  "from_environment getenv =
     result_bind (positive_int getenv ''API_RATE_LIMIT'' 60 1) (\<lambda>rate_limit.
     result_bind (positive_int getenv ''API_RATE_LIMIT_WINDOW_SECONDS'' 60 1) (\<lambda>rate_window.
     result_bind (positive_int getenv ''IDEMPOTENCY_TTL_SECONDS'' 86400 1) (\<lambda>ttl.
     result_bind (positive_int getenv ''RETENTION_DAYS'' 90 1) (\<lambda>days. Inr
       \<lparr>ctl_llm_enabled = env_enabled getenv ''LLM_ENABLED'' False,
        ctl_react_tool_calls_enabled = env_enabled getenv ''REACT_TOOL_CALLS_ENABLED'' True,
        ctl_notifications_enabled = env_enabled getenv ''NOTIFICATIONS_ENABLED'' False,
        ctl_approval_actions_enabled = env_enabled getenv ''APPROVAL_ACTIONS_ENABLED'' False,
        ctl_memory_reads_enabled = env_enabled getenv ''MEMORY_READS_ENABLED'' True,
        ctl_memory_writes_enabled = env_enabled getenv ''MEMORY_WRITES_ENABLED'' True,
        ctl_require_oidc = env_enabled getenv ''REQUIRE_OIDC'' False,
        ctl_api_rate_limit = rate_limit, ctl_api_rate_limit_window_seconds = rate_window,
        ctl_rate_limit_redis_required = env_enabled getenv ''RATE_LIMIT_REDIS_REQUIRED'' False,
        ctl_idempotency_ttl_seconds = ttl,
        ctl_require_idempotency = env_enabled getenv ''REQUIRE_IDEMPOTENCY'' False,
        ctl_tenant_automation_enabled = env_enabled getenv ''TENANT_AUTOMATION_ENABLED'' True,
        ctl_demo_evidence_enabled = env_enabled getenv ''DEMO_EVIDENCE_ENABLED'' True,
        ctl_retention_days = days\<rparr>))))"

section \<open>Webhooks\<close>

text \<open>\<open>fromisoformat\<close> is the standard library's parser; naive values carry no offset.\<close>

definition parse_webhook_timestamp ::
  "(string \<Rightarrow> pydatetime option) \<Rightarrow> timedelta \<Rightarrow> datetime \<Rightarrow> string \<Rightarrow> datetime result" where
  "parse_webhook_timestamp fromisoformat max_age now value =
     (case fromisoformat (concat (map (\<lambda>c. if c = CHR ''Z'' then ''+00:00'' else [c]) value)) of
        None \<Rightarrow> Inl (ValueError ''webhook timestamp must be ISO-8601'')
      | Some t \<Rightarrow>
          if dt_utcoffset t = None then Inl (ValueError ''webhook timestamp must include a UTC offset'')
          else if \<bar>now - dt_instant t\<bar> > max_age
          then Inl (ValueError ''webhook timestamp is outside the accepted replay window'')
          else Inr (dt_instant t))"

record booking_webhook_event =
  bw_message_id :: string
  bw_tenant_id :: string
  bw_event_type :: string
  bw_occurred_at :: pydatetime
  bw_trip_id :: "uuid option"
  bw_data :: json_object

definition valid_booking_webhook_event :: "booking_webhook_event \<Rightarrow> bool" where
  "valid_booking_webhook_event e \<longleftrightarrow> len_between 1 128 (bw_message_id e) \<and>
     len_between 1 128 (bw_tenant_id e) \<and> len_between 1 128 (bw_event_type e) \<and>
     dt_utcoffset (bw_occurred_at e) \<noteq> None"

text \<open>
  \<open>loads\<close> is \<^verbatim>\<open>json.loads\<close> and \<open>decode\<close> the structural part of \<^verbatim>\<open>model_validate\<close> (field presence
  and types); the field constraints and the offset check are those of the model.
\<close>

definition parse_booking_webhook ::
  "(string \<Rightarrow> json option) \<Rightarrow> (json \<Rightarrow> booking_webhook_event option) \<Rightarrow> string \<Rightarrow> datetime \<Rightarrow> timedelta \<Rightarrow>
    booking_webhook_event result" where
  "parse_booking_webhook loads decode body timestamp max_skew =
     (case loads body of
        None \<Rightarrow> Inl (ValueError ''webhook payload must be valid JSON'')
      | Some payload \<Rightarrow> (case decode payload of
          None \<Rightarrow> Inl (ValueError ''webhook payload does not match the booking event schema'')
        | Some event \<Rightarrow>
            if \<not> valid_booking_webhook_event event
            then Inl (ValueError ''webhook payload does not match the booking event schema'')
            else if \<bar>dt_instant (bw_occurred_at event) - timestamp\<bar> > max_skew
            then Inl (ValueError ''webhook body timestamp does not match the signed timestamp'')
            else Inr event))"

definition verify_webhook_signature ::
  "(string \<Rightarrow> string \<Rightarrow> string) \<Rightarrow> string \<Rightarrow> string \<Rightarrow> string \<Rightarrow> string option \<Rightarrow> bool" where
  "verify_webhook_signature hmac_sha256 body signature secret timestamp \<longleftrightarrow>
     hmac_sha256 secret (if falsy timestamp then body else the timestamp @ ''.'' @ body) = signature"

text \<open>\<^verbatim>\<open>WebhookReplayStore.accept_once\<close>\<close>

definition accept_once :: "timedelta \<Rightarrow> datetime \<Rightarrow> string \<Rightarrow> datetime \<Rightarrow> string set \<Rightarrow> bool \<times> string set" where
  "accept_once max_age now message_id timestamp seen =
     (if now - timestamp > max_age \<or> message_id \<in> seen then (False, seen)
      else (True, insert message_id seen))"

section \<open>Lemmas: redaction\<close>

text \<open>Nothing but the marker lies under a sensitive key, at any depth.\<close>

fun clean :: "json \<Rightarrow> bool" where
  "clean (JObj kvs) = list_all (\<lambda>(k, v). if sensitive_key k then v = redacted else clean v) kvs"
| "clean (JList xs) = list_all clean xs"
| "clean v = True"

lemma redact_clean: "clean (redact j)"
  by (induction j rule: redact.induct) (auto simp: list_all_iff)

lemma redact_fixes_clean: "clean j \<Longrightarrow> redact j = j"
proof (induction j rule: redact.induct)
  case (1 kvs)
  have "map (\<lambda>(k, v). (k, if sensitive_key k then redacted else redact v)) kvs = map (\<lambda>x. x) kvs"
  proof (rule map_cong)
    fix x assume x: "x \<in> set kvs"
    obtain k v where kv: "x = (k, v)" by fastforce
    show "(case x of (k, v) \<Rightarrow> (k, if sensitive_key k then redacted else redact v)) = x"
      using 1 x kv by (auto simp: list_all_iff)
  qed simp
  then show ?case by simp
next
  case (2 xs)
  then show ?case by (auto simp: list_all_iff intro: map_idI)
qed auto

lemma redact_keys: "map fst (redact_object kvs) = map fst kvs"
  by (simp add: redact_object_def comp_def case_prod_beta)

lemma redact_object_get: "dict_get (redact_object kvs) k =
    map_option (\<lambda>v. if sensitive_key k then redacted else redact v) (dict_get kvs k)"
  by (induction kvs) (auto simp: redact_object_def)

section \<open>Lemmas: rate limiting\<close>

text \<open>A sequence of requests, each a key and the instant its check reads.\<close>

fun limiter_run ::
  "int \<Rightarrow> timedelta \<Rightarrow> (string \<times> datetime) list \<Rightarrow> (string, datetime list) dict \<Rightarrow> bool list" where
  "limiter_run limit window [] requests = []"
| "limiter_run limit window ((key, now) # rest) requests =
     (let (r, requests') = limiter_check limit window now key requests
      in rl_allowed r # limiter_run limit window rest requests')"

text \<open>The reference keeps every accepted request and counts those of the key in the window.\<close>

definition in_window :: "timedelta \<Rightarrow> datetime \<Rightarrow> string \<Rightarrow> (string \<times> datetime) list \<Rightarrow> datetime list" where
  "in_window window now key history = filter (\<lambda>t. now - t < window) (map snd (filter (\<lambda>e. fst e = key) history))"

fun reference_run ::
  "int \<Rightarrow> timedelta \<Rightarrow> (string \<times> datetime) list \<Rightarrow> (string \<times> datetime) list \<Rightarrow> bool list" where
  "reference_run limit window [] history = []"
| "reference_run limit window ((key, now) # rest) history =
     (if int (length (in_window window now key history)) < limit
      then True # reference_run limit window rest (history @ [(key, now)])
      else False # reference_run limit window rest history)"

definition recent :: "timedelta \<Rightarrow> datetime \<Rightarrow> string \<Rightarrow> (string, datetime list) dict \<Rightarrow> datetime list" where
  "recent window now key requests = filter (\<lambda>t. now - t < window)
     (case dict_get requests key of None \<Rightarrow> [] | Some ts \<Rightarrow> ts)"

lemma recent_later:
  fixes now later window :: int
  assumes "now \<le> later"
  shows "filter (\<lambda>t. now - t < window \<and> later - t < window) ts = filter (\<lambda>t. later - t < window) ts"
  using assms by (intro filter_cong) auto

lemma limiter_check_recent:
  assumes "limiter_check limit window now key requests = (r, requests')" "now \<le> later"
  shows "recent window later k requests' =
    (if k = key \<and> rl_allowed r then filter (\<lambda>t. later - t < window)
       ((case dict_get requests key of None \<Rightarrow> [] | Some ts \<Rightarrow> ts) @ [now])
     else recent window later k requests)"
    and "rl_allowed r \<longleftrightarrow> int (length (recent window now key requests)) < limit"
  using assms by (auto simp: limiter_check_def Let_def recent_def dict_get_set recent_later split: if_splits)

lemma limiter_refines:
  assumes "sorted_wrt (\<lambda>a b. snd a \<le> snd b) reqs" "\<forall>e \<in> set reqs. start \<le> snd e"
    and "\<And>key now. start \<le> now \<Longrightarrow> recent window now key requests = in_window window now key history"
  shows "limiter_run limit window reqs requests = reference_run limit window reqs history"
  using assms
proof (induction reqs arbitrary: start requests history)
  case (Cons q rest)
  obtain key now where q: "q = (key, now)" by fastforce
  obtain r requests' where chk: "limiter_check limit window now key requests = (r, requests')" by fastforce
  note step = limiter_check_recent [OF chk]
  let ?history = "if rl_allowed r then history @ [(key, now)] else history"
  have now: "start \<le> now" using Cons.prems(2) q by simp
  have rel: "recent window later k requests' = in_window window later k ?history" if "now \<le> later" for later k
  proof -
    have eq: "recent window later k' requests = in_window window later k' history" for k'
      using Cons.prems(3) now that by simp
    show ?thesis
      using step(1) [OF that, of k] eq [of k] eq [of key]
      by (auto simp: in_window_def recent_def)
  qed
  have "limiter_run limit window rest requests' = reference_run limit window rest ?history"
    using Cons.IH [of now requests' ?history] Cons.prems(1) rel q by auto
  moreover have "rl_allowed r \<longleftrightarrow> int (length (in_window window now key history)) < limit"
    using step(2) [OF order_refl] Cons.prems(3) [OF now] by simp
  ultimately show ?case using chk by (simp add: q)
qed simp

text \<open>The requests a run accepts.\<close>

definition accepted :: "(string \<times> datetime) list \<Rightarrow> bool list \<Rightarrow> (string \<times> datetime) list" where
  "accepted reqs answers = map fst (filter snd (zip reqs answers))"

definition within_limit :: "int \<Rightarrow> timedelta \<Rightarrow> (string \<times> datetime) list \<Rightarrow> bool" where
  "within_limit limit window history \<longleftrightarrow> (\<forall>key t.
     int (length (filter (\<lambda>e. fst e = key \<and> t - window < snd e \<and> snd e \<le> t) history)) \<le> limit)"

lemma length_filter_mono: "(\<And>x. x \<in> set xs \<Longrightarrow> P x \<Longrightarrow> Q x) \<Longrightarrow> length (filter P xs) \<le> length (filter Q xs)"
  by (induction xs) auto

lemma within_limit_accept:
  assumes "within_limit limit window history" "\<forall>e \<in> set history. snd e \<le> now"
    and "int (length (in_window window now key history)) < limit"
  shows "within_limit limit window (history @ [(key, now)])"
  unfolding within_limit_def
proof (intro allI)
  fix k t
  let ?in = "\<lambda>e :: string \<times> datetime. fst e = k \<and> t - window < snd e \<and> snd e \<le> t"
  show "int (length (filter ?in (history @ [(key, now)]))) \<le> limit"
  proof (cases "?in (key, now)")
    case True
    have "length (filter ?in history) \<le> length (filter (\<lambda>e. fst e = key \<and> now - snd e < window) history)"
      by (rule length_filter_mono) (use True assms(2) in auto)
    also have "\<dots> = length (in_window window now key history)"
      by (induction history) (auto simp: in_window_def)
    finally show ?thesis using assms(3) True by simp
  next
    case False
    then have "filter ?in (history @ [(key, now)]) = filter ?in history" by simp
    then show ?thesis using assms(1) by (simp add: within_limit_def)
  qed
qed

lemma reference_within_limit:
  assumes "sorted_wrt (\<lambda>a b. snd a \<le> snd b) reqs" "\<forall>e \<in> set history. \<forall>q \<in> set reqs. snd e \<le> snd q"
    and "within_limit limit window history"
  shows "within_limit limit window (history @ accepted reqs (reference_run limit window reqs history))"
  using assms
proof (induction reqs arbitrary: history)
  case Nil
  then show ?case by (simp add: accepted_def)
next
  case (Cons q rest)
  obtain key now where q: "q = (key, now)" by fastforce
  show ?case
  proof (cases "int (length (in_window window now key history)) < limit")
    case True
    have "within_limit limit window (history @ [(key, now)])"
      using Cons.prems(2,3) True by (intro within_limit_accept) (auto simp: q)
    then have "within_limit limit window ((history @ [(key, now)]) @
        accepted rest (reference_run limit window rest (history @ [(key, now)])))"
      using Cons.prems(1,2) by (intro Cons.IH) (auto simp: q)
    then show ?thesis using True by (simp add: q accepted_def)
  next
    case False
    then show ?thesis using Cons.IH [OF _ _ Cons.prems(3)] Cons.prems(1,2) by (simp add: q accepted_def)
  qed
qed

section \<open>Properties\<close>



text \<open>
  C30. With a clock that does not go back, the limiter's pruned lists decide exactly as a reference
  that never forgets an accepted request, for any interleaving of identities, and no identity is
  ever granted more than the limit within any window.
\<close>

theorem limiter_matches_reference:
  assumes "sorted_wrt (\<lambda>a b. snd a \<le> snd b) reqs" "1 \<le> limit"
  shows "limiter_run limit window reqs [] = reference_run limit window reqs [] \<and>
    within_limit limit window (accepted reqs (limiter_run limit window reqs []))"
proof -
  have "limiter_run limit window reqs [] = reference_run limit window reqs []"
  proof (cases reqs)
    case (Cons q rest)
    show ?thesis
      using assms(1) by (intro limiter_refines [where start = "snd q"]) (auto simp: Cons recent_def in_window_def)
  qed simp
  moreover have "within_limit limit window (accepted reqs (reference_run limit window reqs []))"
    using reference_within_limit [OF assms(1), of "[]" limit window] assms(2) by (simp add: within_limit_def)
  ultimately show ?thesis by simp
qed

theorem limiter_matches_reference_witness:
  "limiter_run 2 10 [(''a'', 0), (''a'', 5), (''a'', 9), (''b'', 9), (''a'', 11)] [] = [True, True, False, True, True] \<and>
   within_limit 2 10 [(''a'', 0), (''a'', 5), (''b'', 9), (''a'', 11)]"
proof -
  let ?reqs = "[(''a'', 0), (''a'', 5), (''a'', 9), (''b'', 9), (''a'', 11)] :: (string \<times> datetime) list"
  have run: "limiter_run 2 10 ?reqs [] = [True, True, False, True, True]" by code_simp
  have acc: "accepted ?reqs [True, True, False, True, True] = [(''a'', 0), (''a'', 5), (''b'', 9), (''a'', 11)]"
    by (simp add: accepted_def)
  have "sorted_wrt (\<lambda>a b. snd a \<le> snd b) ?reqs" by simp
  then have "within_limit 2 10 (accepted ?reqs (limiter_run 2 10 ?reqs []))"
    by (rule limiter_matches_reference [THEN conjunct2]) simp
  then have "within_limit 2 10 [(''a'', 0), (''a'', 5), (''b'', 9), (''a'', 11)]" unfolding run acc .
  with run show ?thesis by (rule conjI)
qed



end
