(* ===== verification/GraphState.thy ===== *)
theory GraphState
  imports Recovery Json
begin

text \<open>
  \<^verbatim>\<open>agent/state.py\<close>: the state of the investigation graph and its thread identifier.  A key that is
  \<^verbatim>\<open>NotRequired\<close> is an option whose \<^const>\<open>None\<close> is both an absent key and the value \<^verbatim>\<open>None\<close>: the
  nodes read these keys with \<^verbatim>\<open>state.get\<close> only.  What the nodes inspect with \<^verbatim>\<open>isinstance\<close> stays
  JSON; candidates, which they dump and validate back, are the values themselves.
\<close>

record recovery_ranking =
  rr_ranking_method :: string
  rr_score_version :: string
  rr_ranked_candidate_ids :: "string list"
  rr_fallback_reason :: string

record graph_policy_decision =
  gpd_policy_version :: string
  gpd_eligible_candidate_ids :: "string list"
  gpd_traveler_minimum_connection_minutes :: "int option"
  gpd_memory_context_version :: json
  gpd_approved_playbooks :: "json_object list"

record policy_gate_record =
  pg_status :: string
  pg_eligible_candidate_ids :: "string list"
  pg_policy_version :: "string option"

record route_risk_state =
  gs_tenant_id :: string
  gs_trip_id :: string
  gs_incident_id :: string
  gs_trip_context :: json
  gs_traveler_context :: json
  gs_memory_context :: "json_object option"
  gs_memory_context_version :: json
  gs_playbook_context :: "json list"
  gs_approved_playbooks :: "json_object list"
  gs_risk_assessment :: json_object
  gs_evidence :: "json_object list"
  gs_source_health :: json_object
  gs_react_iterations :: int
  gs_tool_audit :: "json_object list"
  gs_model_audit :: "json_object list"
  gs_llm_enabled :: bool
  gs_tool_selection_attempted :: bool
  gs_tool_selection_mode :: "string option"
  gs_pending_tool_call :: "json_object option"
  gs_alternative_candidates :: "evaluated_candidate list option"
  gs_eligible_alternatives :: "evaluated_candidate list"
  gs_recovery_ranking :: "recovery_ranking option"
  gs_policy_decision :: "graph_policy_decision option"
  gs_policy_gate :: "policy_gate_record option"
  gs_recommendation :: "json_object option"
  gs_approval :: "json_object option"
  gs_dispatched_actions :: "json_object list"
  gs_final_status :: "string option"

text \<open>A checkpoint of a thread: waiting at the approval interrupt, or run to the end.\<close>

datatype graph_checkpoint = Paused route_risk_state | Finished route_risk_state

definition thread_id_for :: "string \<Rightarrow> string \<Rightarrow> string \<Rightarrow> string" where
  "thread_id_for tenant_id trip_id incident_id =
     ''tenant:'' @ tenant_id @ '':trip:'' @ trip_id @ '':incident:'' @ incident_id"

end
