(* ===== verification/Repository.thy ===== *)
theory Repository
  imports Security Policies Providers GraphState
begin

text \<open>
  \<^verbatim>\<open>apps/api/repository.py\<close>: the in-memory repository.  The world is one record: the run (clock and
  identifiers), the provider cache, the tables of the
  repository, the local upload store, the checkpoints of the graph and the lines the service prints.
  A table is the source's dictionary.  An operation that neither reads the clock nor raises is a
  plain function of the world; the others are computations.  The locks of the source guard bodies
  without a suspension point, so each operation is one atomic step.

  A record saved in the source is shared with its caller; the callers modelled here save what they
  change before they suspend, or change a copy, so the model stores values.
\<close>

section \<open>Tables\<close>

record world = provider_world +
  db_trips :: "(uuid, trip) dict"
  db_trip_segments :: "(uuid, flight_segment list) dict"
  db_evidence :: "(uuid, evidence_envelope list) dict"
  db_assessments :: "(uuid, risk_assessment list) dict"
  db_incidents :: "(uuid, incident) dict"
  db_approvals :: "(uuid, approval_record) dict"
  db_events :: "event_record list"
  db_profiles :: "(string \<times> string, traveler_preference_profile) dict"
  db_memory_proposals :: "(uuid, memory_update_proposal) dict"
  db_idempotency_records :: "(string \<times> string, idempotency_record) dict"
  db_candidate_sets :: "(uuid, string \<times> recovery_candidate_set) dict"
  db_candidate_outcomes :: "(uuid, string \<times> recovery_candidate_outcome) dict"
  db_manager_feedback :: "(uuid, manager_feedback) dict"
  db_tenant_playbooks :: "(uuid, tenant_playbook) dict"
  db_notifications :: "(uuid, notification_record) dict"
  db_notification_attempts :: "(uuid, notification_attempt list) dict"
  db_action_dispatches :: "(uuid, action_dispatch_record) dict"
  db_action_dispatch_attempts :: "(uuid, action_dispatch_attempt list) dict"
  db_memory_audits :: "memory_audit_event list"
  db_change_records :: "(uuid, change_record) dict"
  db_provider_onboarding :: "(uuid, provider_onboarding_record) dict"
  db_legal_holds :: "(uuid, legal_hold_record) dict"
  db_deletion_requests :: "(uuid, deletion_request) dict"
  db_control_overrides :: "(string \<times> runtime_control_name, runtime_control_change) dict"
  db_control_changes :: "runtime_control_change list"
  db_platform_overrides :: "(runtime_control_name, platform_runtime_control_change) dict"
  db_platform_changes :: "platform_runtime_control_change list"
  db_original_uploads :: "(uuid, original_upload_record) dict"
  w_upload_objects :: "(string, string) dict"
  w_graph_threads :: "(string, graph_checkpoint) dict"
  w_seen_webhooks :: "string set"
  w_stdout :: "json_object list"

definition empty_world :: world where
  "empty_world = \<lparr>run_draws = 0, run_reads = 0, pw_cache = [], pw_failures = [], db_trips = [],
     db_trip_segments = [], db_evidence = [], db_assessments = [], db_incidents = [],
     db_approvals = [], db_events = [], db_profiles = [], db_memory_proposals = [],
     db_idempotency_records = [], db_candidate_sets = [], db_candidate_outcomes = [],
     db_manager_feedback = [], db_tenant_playbooks = [], db_notifications = [],
     db_notification_attempts = [], db_action_dispatches = [], db_action_dispatch_attempts = [],
     db_memory_audits = [], db_change_records = [], db_provider_onboarding = [],
     db_legal_holds = [], db_deletion_requests = [], db_control_overrides = [],
     db_control_changes = [], db_platform_overrides = [], db_platform_changes = [],
     db_original_uploads = [], w_upload_objects = [], w_graph_threads = [], w_seen_webhooks = {}, w_stdout = []\<rparr>"

type_synonym 'a act = "(world, 'a) prog"

text \<open>\<^verbatim>\<open>x = table.get(key); return x if x and x.tenant_id == tenant_id else None\<close>\<close>

definition owned_get :: "('v \<Rightarrow> string) \<Rightarrow> string \<Rightarrow> 'k \<Rightarrow> ('k, 'v) dict \<Rightarrow> 'v option" where
  "owned_get tenant_of tenant_id key table = (case dict_get table key of
     None \<Rightarrow> None | Some v \<Rightarrow> if tenant_of v = tenant_id then Some v else None)"

definition owned_values :: "('v \<Rightarrow> string) \<Rightarrow> string \<Rightarrow> ('k, 'v) dict \<Rightarrow> 'v list" where
  "owned_values tenant_of tenant_id table = filter (\<lambda>v. tenant_of v = tenant_id) (dict_values table)"

section \<open>Trips, evidence, assessments and incidents\<close>

definition save_trip :: "trip \<Rightarrow> world \<Rightarrow> world" where
  "save_trip t w = w\<lparr>db_trips := dict_set (trip_trip_id t) t (db_trips w),
     db_trip_segments := dict_set (trip_trip_id t) (trip_segments t) (db_trip_segments w)\<rparr>"

definition repo_create_trip :: "trip \<Rightarrow> world \<Rightarrow> world" where
  "repo_create_trip t w = w\<lparr>db_trips := dict_set (trip_trip_id t) t (db_trips w),
     db_trip_segments := dict_set (trip_trip_id t) (trip_segments t) (db_trip_segments w)\<rparr>"

definition get_trip :: "string \<Rightarrow> uuid \<Rightarrow> world \<Rightarrow> trip option" where
  "get_trip tenant_id trip_id w = owned_get trip_tenant_id tenant_id trip_id (db_trips w)"

definition list_trips :: "world \<Rightarrow> trip list" where
  "list_trips w = dict_values (db_trips w)"

definition save_evidence :: "string \<Rightarrow> uuid \<Rightarrow> evidence_envelope list \<Rightarrow> unit act" where
  "save_evidence tenant_id trip_id evidence =
     bindP (gets (get_trip tenant_id trip_id)) (\<lambda>t.
       if t = None then throw (KeyError ''trip not found'')
       else modify (\<lambda>w. w\<lparr>db_evidence := dict_set trip_id evidence (db_evidence w)\<rparr>))"

definition get_evidence :: "string \<Rightarrow> uuid \<Rightarrow> world \<Rightarrow> evidence_envelope list" where
  "get_evidence tenant_id trip_id w =
     (if get_trip tenant_id trip_id w = None then []
      else case dict_get (db_evidence w) trip_id of None \<Rightarrow> [] | Some e \<Rightarrow> e)"

definition save_assessment :: "string \<Rightarrow> risk_assessment \<Rightarrow> risk_assessment act" where
  "save_assessment tenant_id a =
     bindP (gets (get_trip tenant_id (ra_trip_id a))) (\<lambda>t.
       if t = None then throw (KeyError ''trip not found'')
       else thenP (modify (\<lambda>w. w\<lparr>db_assessments := dict_append (ra_trip_id a) a (db_assessments w)\<rparr>))
         (ret a))"

definition save_incident :: "incident \<Rightarrow> world \<Rightarrow> world" where
  "save_incident i w = w\<lparr>db_incidents := dict_set (inc_incident_id i) i (db_incidents w)\<rparr>"

definition get_incident :: "string \<Rightarrow> uuid \<Rightarrow> world \<Rightarrow> incident option" where
  "get_incident tenant_id incident_id w = owned_get inc_tenant_id tenant_id incident_id (db_incidents w)"

definition list_incidents :: "string \<Rightarrow> world \<Rightarrow> incident list" where
  "list_incidents tenant_id w = owned_values inc_tenant_id tenant_id (db_incidents w)"

definition save_approval :: "approval_record \<Rightarrow> world \<Rightarrow> world" where
  "save_approval a w = w\<lparr>db_approvals := dict_set (apr_incident_id a) a (db_approvals w)\<rparr>"

section \<open>Idempotency records\<close>

datatype idempotency_disposition = EXECUTE | REPLAY | CONFLICT | STILL_IN_PROGRESS

definition claim_idempotency ::
  "'h host_scheme \<Rightarrow> string \<Rightarrow> string \<Rightarrow> string \<Rightarrow> string \<Rightarrow> datetime \<Rightarrow>
    (idempotency_disposition \<times> idempotency_record) act" where
  "claim_idempotency h tenant_id key scope request_hash expires_at =
     bindP (gets (\<lambda>w. dict_get (db_idempotency_records w) (tenant_id, key))) (\<lambda>found.
     bindP (now_utc h) (\<lambda>now.
       let existing = (case found of None \<Rightarrow> None | Some r \<Rightarrow> if idem_expires_at r \<le> now then None else Some r)
       in thenP (if found \<noteq> None \<and> existing = None
                 then modify (\<lambda>w. w\<lparr>db_idempotency_records :=
                        dict_pop (tenant_id, key) (db_idempotency_records w)\<rparr>)
                 else ret ())
         (case existing of
            None \<Rightarrow> bindP (now_utc h) (\<lambda>created.
              let r = \<lparr>idem_tenant_id = tenant_id, idem_idempotency_key = key, idem_scope = scope,
                       idem_request_hash = request_hash, idem_state = IN_PROGRESS,
                       idem_response_status_code = None, idem_response_payload = None,
                       idem_created_at = created, idem_expires_at = expires_at,
                       idem_completed_at = None\<rparr>
              in if \<not> valid_idempotency_record r then throw (ValidationError ''IdempotencyRecord'')
                 else thenP (modify (\<lambda>w. w\<lparr>db_idempotency_records :=
                        dict_set (tenant_id, key) r (db_idempotency_records w)\<rparr>))
                   (ret (EXECUTE, r)))
          | Some r \<Rightarrow>
              if idem_scope r \<noteq> scope \<or> idem_request_hash r \<noteq> request_hash then ret (CONFLICT, r)
              else if idem_state r = COMPLETED then ret (REPLAY, r)
              else ret (STILL_IN_PROGRESS, r))))"

definition complete_idempotency ::
  "'h host_scheme \<Rightarrow> string \<Rightarrow> string \<Rightarrow> string \<Rightarrow> int \<Rightarrow> json_object \<Rightarrow> idempotency_record act" where
  "complete_idempotency h tenant_id key request_hash status_code payload =
     bindP (gets (\<lambda>w. dict_get (db_idempotency_records w) (tenant_id, key))) (\<lambda>found. case found of
       None \<Rightarrow> throw (KeyError ''idempotency claim not found'')
     | Some r \<Rightarrow>
         if idem_request_hash r \<noteq> request_hash then throw (KeyError ''idempotency claim not found'')
         else bindP (now_utc h) (\<lambda>now.
           let r' = r\<lparr>idem_state := COMPLETED, idem_response_status_code := Some status_code,
                      idem_response_payload := Some payload, idem_completed_at := Some now\<rparr>
           in thenP (modify (\<lambda>w. w\<lparr>db_idempotency_records :=
                dict_set (tenant_id, key) r' (db_idempotency_records w)\<rparr>)) (ret r')))"

section \<open>Events, candidate sets, feedback, playbooks and memory\<close>

definition record_event :: "event_record \<Rightarrow> world \<Rightarrow> world" where
  "record_event e w = w\<lparr>db_events := db_events w @ [e\<lparr>evt_details := redact_object (evt_details e)\<rparr>]\<rparr>"

definition list_events :: "string \<Rightarrow> world \<Rightarrow> event_record list" where
  "list_events tenant_id w = filter (\<lambda>e. evt_tenant_id e = tenant_id) (db_events w)"

definition save_candidate_set :: "string \<Rightarrow> recovery_candidate_set \<Rightarrow> world \<Rightarrow> world" where
  "save_candidate_set tenant_id cs w =
     w\<lparr>db_candidate_sets := dict_set (cs_candidate_set_id cs) (tenant_id, cs) (db_candidate_sets w)\<rparr>"

definition get_candidate_set :: "string \<Rightarrow> uuid \<Rightarrow> uuid \<Rightarrow> world \<Rightarrow> recovery_candidate_set option" where
  "get_candidate_set tenant_id incident_id set_id w = (case dict_get (db_candidate_sets w) set_id of
     None \<Rightarrow> None
   | Some (saved_tenant, cs) \<Rightarrow>
       if saved_tenant \<noteq> tenant_id \<or> cs_incident_id cs \<noteq> incident_id then None else Some cs)"

definition list_candidate_sets :: "string \<Rightarrow> uuid \<Rightarrow> world \<Rightarrow> recovery_candidate_set list" where
  "list_candidate_sets tenant_id incident_id w =
     [cs. (saved_tenant, cs) \<leftarrow> dict_values (db_candidate_sets w),
       saved_tenant = tenant_id \<and> cs_incident_id cs = incident_id]"

definition repo_record_candidate_outcome :: "string \<Rightarrow> recovery_candidate_outcome \<Rightarrow> world \<Rightarrow> world" where
  "repo_record_candidate_outcome tenant_id oc w =
     w\<lparr>db_candidate_outcomes := dict_set (out_outcome_id oc) (tenant_id, oc) (db_candidate_outcomes w)\<rparr>"

definition list_candidate_outcomes :: "string \<Rightarrow> uuid \<Rightarrow> world \<Rightarrow> recovery_candidate_outcome list" where
  "list_candidate_outcomes tenant_id set_id w = py_sorted outcome_key
     [oc. (saved_tenant, oc) \<leftarrow> dict_values (db_candidate_outcomes w),
       saved_tenant = tenant_id \<and> out_candidate_set_id oc = set_id]"

definition save_manager_feedback :: "manager_feedback \<Rightarrow> world \<Rightarrow> world" where
  "save_manager_feedback f w = w\<lparr>db_manager_feedback := dict_set (mf_feedback_id f) f (db_manager_feedback w)\<rparr>"

definition list_manager_feedback :: "string \<Rightarrow> uuid \<Rightarrow> world \<Rightarrow> manager_feedback list" where
  "list_manager_feedback tenant_id incident_id w =
     py_sorted (\<lambda>f. (mf_created_at f, str_uuid (mf_feedback_id f)))
       (filter (\<lambda>f. mf_tenant_id f = tenant_id \<and> mf_incident_id f = incident_id)
         (dict_values (db_manager_feedback w)))"

definition get_playbook :: "string \<Rightarrow> uuid \<Rightarrow> world \<Rightarrow> tenant_playbook option" where
  "get_playbook tenant_id pid w = owned_get pb_tenant_id tenant_id pid (db_tenant_playbooks w)"

text \<open>An identifier already taken keeps its playbook.\<close>

definition save_playbook :: "tenant_playbook \<Rightarrow> tenant_playbook act" where
  "save_playbook p = bindP (gets (\<lambda>w. dict_get (db_tenant_playbooks w) (pb_playbook_id p))) (\<lambda>existing.
     case existing of Some e \<Rightarrow> ret e
     | None \<Rightarrow> thenP (modify (\<lambda>w. w\<lparr>db_tenant_playbooks :=
           dict_set (pb_playbook_id p) p (db_tenant_playbooks w)\<rparr>)) (ret p))"

definition list_approved_playbooks :: "string \<Rightarrow> world \<Rightarrow> tenant_playbook list" where
  "list_approved_playbooks tenant_id w = py_sorted (\<lambda>p. (pb_name p, pb_version p))
     (owned_values pb_tenant_id tenant_id (db_tenant_playbooks w))"

definition get_profile :: "string \<Rightarrow> string \<Rightarrow> world \<Rightarrow> traveler_preference_profile option" where
  "get_profile tenant_id traveler_id w = dict_get (db_profiles w) (tenant_id, traveler_id)"

definition save_profile :: "traveler_preference_profile \<Rightarrow> world \<Rightarrow> world" where
  "save_profile p w = w\<lparr>db_profiles := dict_set (prof_tenant_id p, prof_traveler_id p) p (db_profiles w)\<rparr>"

definition save_memory_proposal :: "memory_update_proposal \<Rightarrow> world \<Rightarrow> world" where
  "save_memory_proposal p w = w\<lparr>db_memory_proposals := dict_set (mp_proposal_id p) p (db_memory_proposals w)\<rparr>"

definition get_memory_proposal :: "string \<Rightarrow> uuid \<Rightarrow> world \<Rightarrow> memory_update_proposal option" where
  "get_memory_proposal tenant_id pid w = owned_get mp_tenant_id tenant_id pid (db_memory_proposals w)"

definition repo_delete_traveler_memory :: "string \<Rightarrow> string \<Rightarrow> (string, int) dict act" where
  "repo_delete_traveler_memory tenant_id traveler_id =
     bindP (gets (\<lambda>w. (dict_get (db_profiles w) (tenant_id, traveler_id) \<noteq> None,
        [pid. (pid, p) \<leftarrow> db_memory_proposals w,
           mp_tenant_id p = tenant_id \<and> mp_traveler_id p = traveler_id]))) (\<lambda>(had_profile, pids).
     thenP (modify (\<lambda>w. w\<lparr>db_profiles := dict_pop (tenant_id, traveler_id) (db_profiles w),
          db_memory_proposals := dict_pop_all (set pids) (db_memory_proposals w)\<rparr>))
       (ret [(''profiles'', if had_profile then 1 else 0), (''memory_proposals'', int (length pids))]))"

section \<open>Outboxes\<close>

definition save_notification :: "notification_record \<Rightarrow> world \<Rightarrow> world" where
  "save_notification n w = w\<lparr>db_notifications := dict_set (nt_notification_id n) n (db_notifications w)\<rparr>"

definition get_notification :: "string \<Rightarrow> uuid \<Rightarrow> world \<Rightarrow> notification_record option" where
  "get_notification tenant_id nid w = owned_get nt_tenant_id tenant_id nid (db_notifications w)"

definition list_notifications ::
  "string \<Rightarrow> notification_status set option \<Rightarrow> world \<Rightarrow> notification_record list" where
  "list_notifications tenant_id statuses w = filter (\<lambda>n. nt_tenant_id n = tenant_id \<and>
     (case statuses of None \<Rightarrow> True | Some ss \<Rightarrow> nt_status n \<in> ss)) (dict_values (db_notifications w))"

definition list_due_notifications :: "datetime \<Rightarrow> world \<Rightarrow> notification_record list" where
  "list_due_notifications timestamp w = filter (\<lambda>n. nt_status n \<in> {NQUEUED, NRETRY_SCHEDULED} \<and>
     nt_next_attempt_at n \<le> timestamp) (dict_values (db_notifications w))"

text \<open>
  The claim loop of both outboxes: walk the table in insertion order, skip what is not due, stop at
  the limit, and replace each due record by a leased copy with a fresh claim identifier.
\<close>

fun claim_loop ::
  "'h host_scheme \<Rightarrow> ('r \<Rightarrow> bool) \<Rightarrow> (uuid \<Rightarrow> 'r \<Rightarrow> 'r) \<Rightarrow> (uuid \<Rightarrow> 'r \<Rightarrow> world \<Rightarrow> world) \<Rightarrow> int \<Rightarrow>
    (uuid \<times> 'r) list \<Rightarrow> 'r list \<Rightarrow> 'r list act" where
  "claim_loop h claimable lease put limit [] claimed = ret claimed"
| "claim_loop h claimable lease put limit ((k, r) # rest) claimed =
     (if int (length claimed) \<ge> limit then ret claimed
      else if \<not> claimable r then claim_loop h claimable lease put limit rest claimed
      else bindP (uuid4 h) (\<lambda>claim_id.
        thenP (modify (put k (lease claim_id r)))
          (claim_loop h claimable lease put limit rest (claimed @ [lease claim_id r]))))"

definition lease_free :: "datetime option \<Rightarrow> datetime \<Rightarrow> bool" where
  "lease_free expires timestamp \<longleftrightarrow> (case expires of None \<Rightarrow> True | Some e \<Rightarrow> \<not> e > timestamp)"

definition tenant_matches :: "string option \<Rightarrow> string \<Rightarrow> bool" where
  "tenant_matches tenant_id owner \<longleftrightarrow> falsy tenant_id \<or> tenant_id = Some owner"

definition notification_claimable :: "string option \<Rightarrow> datetime \<Rightarrow> notification_record \<Rightarrow> bool" where
  "notification_claimable tenant_id timestamp n \<longleftrightarrow> tenant_matches tenant_id (nt_tenant_id n) \<and>
     nt_status n \<in> {NQUEUED, NRETRY_SCHEDULED} \<and> \<not> nt_next_attempt_at n > timestamp \<and>
     lease_free (nt_dispatch_claim_expires_at n) timestamp"

definition lease_notification ::
  "string \<Rightarrow> datetime \<Rightarrow> timedelta \<Rightarrow> uuid \<Rightarrow> notification_record \<Rightarrow> notification_record" where
  "lease_notification worker_id timestamp claim_ttl claim_id n = n\<lparr>nt_dispatch_claim_id := Some claim_id,
     nt_dispatch_claimed_by := Some worker_id, nt_dispatch_claimed_at := Some timestamp,
     nt_dispatch_claim_expires_at := Some (timestamp + claim_ttl)\<rparr>"

definition put_notification :: "uuid \<Rightarrow> notification_record \<Rightarrow> world \<Rightarrow> world" where
  "put_notification k n w = w\<lparr>db_notifications := dict_set k n (db_notifications w)\<rparr>"

definition claim_due_notifications ::
  "'h host_scheme \<Rightarrow> string option \<Rightarrow> string \<Rightarrow> timedelta \<Rightarrow> datetime option \<Rightarrow> int \<Rightarrow>
    notification_record list act" where
  "claim_due_notifications h tenant_id worker_id claim_ttl now limit =
     bindP (now_or h now) (\<lambda>timestamp. bindP (gets db_notifications) (\<lambda>table.
       claim_loop h (notification_claimable tenant_id timestamp)
         (lease_notification worker_id timestamp claim_ttl) put_notification limit table []))"

definition complete_notification_delivery ::
  "notification_record \<Rightarrow> notification_attempt \<Rightarrow> uuid \<Rightarrow> notification_record option act" where
  "complete_notification_delivery n attempt claim_id =
     bindP (gets (\<lambda>w. dict_get (db_notifications w) (nt_notification_id n))) (\<lambda>current. case current of
       None \<Rightarrow> ret None
     | Some c \<Rightarrow>
         if nt_dispatch_claim_id c \<noteq> Some claim_id then ret None
         else let completed = n\<lparr>nt_dispatch_claim_id := None, nt_dispatch_claimed_by := None,
                    nt_dispatch_claimed_at := None, nt_dispatch_claim_expires_at := None\<rparr>
              in thenP (modify (\<lambda>w. w\<lparr>
                   db_notifications := dict_set (nt_notification_id completed) completed (db_notifications w),
                   db_notification_attempts :=
                     dict_append (na_notification_id attempt) attempt (db_notification_attempts w)\<rparr>))
                 (ret (Some completed)))"

definition record_notification_attempt :: "notification_attempt \<Rightarrow> world \<Rightarrow> world" where
  "record_notification_attempt a w =
     w\<lparr>db_notification_attempts := dict_append (na_notification_id a) a (db_notification_attempts w)\<rparr>"

definition list_notification_attempts :: "string \<Rightarrow> uuid \<Rightarrow> world \<Rightarrow> notification_attempt list" where
  "list_notification_attempts tenant_id nid w =
     (if get_notification tenant_id nid w = None then []
      else case dict_get (db_notification_attempts w) nid of None \<Rightarrow> [] | Some xs \<Rightarrow> xs)"

definition save_action_dispatch :: "action_dispatch_record \<Rightarrow> world \<Rightarrow> world" where
  "save_action_dispatch a w =
     w\<lparr>db_action_dispatches := dict_set (ad_action_dispatch_id a) a (db_action_dispatches w)\<rparr>"

definition list_action_dispatches :: "string \<Rightarrow> uuid \<Rightarrow> world \<Rightarrow> action_dispatch_record list" where
  "list_action_dispatches tenant_id incident_id w =
     filter (\<lambda>a. ad_tenant_id a = tenant_id \<and> ad_incident_id a = incident_id) (dict_values (db_action_dispatches w))"

definition action_claimable :: "string option \<Rightarrow> datetime \<Rightarrow> action_dispatch_record \<Rightarrow> bool" where
  "action_claimable tenant_id timestamp a \<longleftrightarrow> tenant_matches tenant_id (ad_tenant_id a) \<and>
     ad_status a \<in> {AQUEUED, ARETRY_SCHEDULED} \<and> \<not> ad_next_attempt_at a > timestamp \<and>
     lease_free (ad_dispatch_claim_expires_at a) timestamp"

definition lease_action ::
  "string \<Rightarrow> datetime \<Rightarrow> timedelta \<Rightarrow> uuid \<Rightarrow> action_dispatch_record \<Rightarrow> action_dispatch_record" where
  "lease_action worker_id timestamp claim_ttl claim_id a = a\<lparr>ad_dispatch_claim_id := Some claim_id,
     ad_dispatch_claimed_by := Some worker_id, ad_dispatch_claimed_at := Some timestamp,
     ad_dispatch_claim_expires_at := Some (timestamp + claim_ttl)\<rparr>"

definition put_action :: "uuid \<Rightarrow> action_dispatch_record \<Rightarrow> world \<Rightarrow> world" where
  "put_action k a w = w\<lparr>db_action_dispatches := dict_set k a (db_action_dispatches w)\<rparr>"

definition claim_due_action_dispatches ::
  "'h host_scheme \<Rightarrow> string option \<Rightarrow> string \<Rightarrow> timedelta \<Rightarrow> datetime option \<Rightarrow> int \<Rightarrow>
    action_dispatch_record list act" where
  "claim_due_action_dispatches h tenant_id worker_id claim_ttl now limit =
     bindP (now_or h now) (\<lambda>timestamp. bindP (gets db_action_dispatches) (\<lambda>table.
       claim_loop h (action_claimable tenant_id timestamp)
         (lease_action worker_id timestamp claim_ttl) put_action limit table []))"

definition complete_action_dispatch ::
  "action_dispatch_record \<Rightarrow> action_dispatch_attempt \<Rightarrow> uuid \<Rightarrow> action_dispatch_record option act" where
  "complete_action_dispatch a attempt claim_id =
     bindP (gets (\<lambda>w. dict_get (db_action_dispatches w) (ad_action_dispatch_id a))) (\<lambda>current. case current of
       None \<Rightarrow> ret None
     | Some c \<Rightarrow>
         if ad_dispatch_claim_id c \<noteq> Some claim_id then ret None
         else let completed = a\<lparr>ad_dispatch_claim_id := None, ad_dispatch_claimed_by := None,
                    ad_dispatch_claimed_at := None, ad_dispatch_claim_expires_at := None\<rparr>
              in thenP (modify (\<lambda>w. w\<lparr>
                   db_action_dispatches := dict_set (ad_action_dispatch_id completed) completed (db_action_dispatches w),
                   db_action_dispatch_attempts :=
                     dict_append (aa_action_dispatch_id attempt) attempt (db_action_dispatch_attempts w)\<rparr>))
                 (ret (Some completed)))"

definition record_action_dispatch_attempt :: "action_dispatch_attempt \<Rightarrow> world \<Rightarrow> world" where
  "record_action_dispatch_attempt a w =
     w\<lparr>db_action_dispatch_attempts := dict_append (aa_action_dispatch_id a) a (db_action_dispatch_attempts w)\<rparr>"

definition list_action_dispatch_attempts :: "string \<Rightarrow> uuid \<Rightarrow> world \<Rightarrow> action_dispatch_attempt list" where
  "list_action_dispatch_attempts tenant_id did w =
     (if owned_get ad_tenant_id tenant_id did (db_action_dispatches w) = None then []
      else case dict_get (db_action_dispatch_attempts w) did of None \<Rightarrow> [] | Some xs \<Rightarrow> xs)"

section \<open>Audit, governance, uploads and privacy records\<close>

definition record_memory_audit :: "memory_audit_event \<Rightarrow> world \<Rightarrow> world" where
  "record_memory_audit e w = w\<lparr>db_memory_audits := db_memory_audits w @ [e]\<rparr>"

definition repo_list_memory_audit :: "string \<Rightarrow> string option \<Rightarrow> world \<Rightarrow> memory_audit_event list" where
  "repo_list_memory_audit tenant_id traveler_id w = filter (\<lambda>e. mau_tenant_id e = tenant_id \<and>
     (traveler_id = None \<or> traveler_id = Some (mau_traveler_id e))) (db_memory_audits w)"

definition save_change_record :: "change_record \<Rightarrow> world \<Rightarrow> world" where
  "save_change_record r w = w\<lparr>db_change_records := dict_set (cr_change_id r) r (db_change_records w)\<rparr>"

definition repo_list_change_records :: "string \<Rightarrow> world \<Rightarrow> change_record list" where
  "repo_list_change_records tenant_id w = owned_values cr_tenant_id tenant_id (db_change_records w)"

definition save_provider_onboarding :: "provider_onboarding_record \<Rightarrow> world \<Rightarrow> world" where
  "save_provider_onboarding r w =
     w\<lparr>db_provider_onboarding := dict_set (po_provider_onboarding_id r) r (db_provider_onboarding w)\<rparr>"

definition repo_list_provider_onboarding :: "string \<Rightarrow> world \<Rightarrow> provider_onboarding_record list" where
  "repo_list_provider_onboarding tenant_id w = owned_values po_tenant_id tenant_id (db_provider_onboarding w)"

text \<open>The clock is read only when the override has an expiry.\<close>

definition unexpired :: "'h host_scheme \<Rightarrow> ('r \<Rightarrow> datetime option) \<Rightarrow> 'r option \<Rightarrow> 'r option act" where
  "unexpired h expires_at r = (case r of
     None \<Rightarrow> ret None
   | Some x \<Rightarrow> (case expires_at x of
       None \<Rightarrow> ret (Some x)
     | Some e \<Rightarrow> bindP (now_utc h) (\<lambda>now. ret (if e \<le> now then None else Some x))))"

definition get_runtime_control_override ::
  "'h host_scheme \<Rightarrow> string \<Rightarrow> runtime_control_name \<Rightarrow> runtime_control_change option act" where
  "get_runtime_control_override h tenant_id name =
     bindP (gets (\<lambda>w. dict_get (db_control_overrides w) (tenant_id, name))) (unexpired h rc_expires_at)"

definition save_runtime_control_change :: "runtime_control_change \<Rightarrow> world \<Rightarrow> world" where
  "save_runtime_control_change r w =
     w\<lparr>db_control_overrides := dict_set (rc_tenant_id r, rc_control_name r) r (db_control_overrides w),
       db_control_changes := db_control_changes w @ [r]\<rparr>"

definition repo_list_runtime_control_changes :: "string \<Rightarrow> world \<Rightarrow> runtime_control_change list" where
  "repo_list_runtime_control_changes tenant_id w = filter (\<lambda>r. rc_tenant_id r = tenant_id) (db_control_changes w)"

definition get_platform_control_override ::
  "'h host_scheme \<Rightarrow> runtime_control_name \<Rightarrow> platform_runtime_control_change option act" where
  "get_platform_control_override h name =
     bindP (gets (\<lambda>w. dict_get (db_platform_overrides w) name)) (unexpired h rc_expires_at)"

definition save_platform_control_change :: "platform_runtime_control_change \<Rightarrow> world \<Rightarrow> world" where
  "save_platform_control_change r w =
     w\<lparr>db_platform_overrides := dict_set (prc_control_name r) r (db_platform_overrides w),
       db_platform_changes := db_platform_changes w @ [r]\<rparr>"

definition list_platform_control_changes :: "world \<Rightarrow> platform_runtime_control_change list" where
  "list_platform_control_changes w = db_platform_changes w"

definition save_original_upload :: "original_upload_record \<Rightarrow> world \<Rightarrow> world" where
  "save_original_upload r w =
     w\<lparr>db_original_uploads := dict_set (up_original_upload_id r) r (db_original_uploads w)\<rparr>"

definition get_original_upload :: "string \<Rightarrow> uuid \<Rightarrow> world \<Rightarrow> original_upload_record option" where
  "get_original_upload tenant_id uid w = owned_get up_tenant_id tenant_id uid (db_original_uploads w)"

definition save_legal_hold :: "legal_hold_record \<Rightarrow> world \<Rightarrow> world" where
  "save_legal_hold r w = w\<lparr>db_legal_holds := dict_set (lh_legal_hold_id r) r (db_legal_holds w)\<rparr>"

definition get_legal_hold :: "string \<Rightarrow> uuid \<Rightarrow> world \<Rightarrow> legal_hold_record option" where
  "get_legal_hold tenant_id hid w = owned_get lh_tenant_id tenant_id hid (db_legal_holds w)"

definition repo_list_legal_holds :: "string \<Rightarrow> world \<Rightarrow> legal_hold_record list" where
  "repo_list_legal_holds tenant_id w = py_sorted (\<lambda>r. (lh_created_at r, str_uuid (lh_legal_hold_id r)))
     (owned_values lh_tenant_id tenant_id (db_legal_holds w))"

definition active_legal_holds_for_traveler ::
  "string \<Rightarrow> string \<Rightarrow> datetime \<Rightarrow> world \<Rightarrow> legal_hold_record list" where
  "active_legal_holds_for_traveler tenant_id traveler_id timestamp w =
     (let trip_ids = [trip_trip_id t. t \<leftarrow> dict_values (db_trips w),
            trip_tenant_id t = tenant_id \<and> trip_traveler_id t = traveler_id]
      in filter (\<lambda>r. is_active r timestamp \<and>
           (lh_scope r = HOLD_TENANT \<or>
            lh_scope r = HOLD_TRAVELER \<and> lh_traveler_id r = Some traveler_id \<or>
            lh_scope r = HOLD_TRIP \<and> lh_trip_id r \<in> Some ` set trip_ids))
         (repo_list_legal_holds tenant_id w))"

definition save_deletion_request :: "deletion_request \<Rightarrow> world \<Rightarrow> world" where
  "save_deletion_request r w =
     w\<lparr>db_deletion_requests := dict_set (dr_deletion_request_id r) r (db_deletion_requests w)\<rparr>"

definition get_deletion_request :: "string \<Rightarrow> uuid \<Rightarrow> world \<Rightarrow> deletion_request option" where
  "get_deletion_request tenant_id rid w = owned_get dr_tenant_id tenant_id rid (db_deletion_requests w)"

definition deletion_request_key :: "deletion_request \<Rightarrow> datetime \<times> string" where
  "deletion_request_key r = (dr_submitted_at r, str_uuid (dr_deletion_request_id r))"

definition repo_list_deletion_requests :: "string \<Rightarrow> string option \<Rightarrow> world \<Rightarrow> deletion_request list" where
  "repo_list_deletion_requests tenant_id traveler_id w = py_sorted deletion_request_key
     (filter (\<lambda>r. dr_tenant_id r = tenant_id \<and> (traveler_id = None \<or> traveler_id = Some (dr_traveler_id r)))
       (dict_values (db_deletion_requests w)))"

definition list_pending_deletion_requests :: "world \<Rightarrow> deletion_request list" where
  "list_pending_deletion_requests w = py_sorted deletion_request_key
     (filter (\<lambda>r. dr_status r \<in> {DEL_PENDING, BLOCKED_BY_LEGAL_HOLD}) (dict_values (db_deletion_requests w)))"

end
