(* ===== verification/Tenancy.thy ===== *)
theory Tenancy
  imports Repository
begin

text \<open>
  What the repository promises about tenants.  The tables are keyed by identifier only; the tenant
  is a field of the record and every read filters on it.  \<open>tenant_store\<close> is that interface: a
  save and a tenant-filtered read, with the two laws the client needs.  It is interpreted on each
  pair of operations of the repository that has this shape.
\<close>

section \<open>The interface\<close>

locale tenant_store =
  fixes save :: "'v \<Rightarrow> 's \<Rightarrow> 's"
    and get :: "string \<Rightarrow> 'k \<Rightarrow> 's \<Rightarrow> 'v option"
    and key_of :: "'v \<Rightarrow> 'k"
    and tenant_of :: "'v \<Rightarrow> string"
  assumes get_save: "get t k (save v s) =
      (if k = key_of v then if t = tenant_of v then Some v else None else get t k s)"
    and get_tenant: "get t k s = Some v \<Longrightarrow> tenant_of v = t"
    and get_unique: "get t k s = Some v \<Longrightarrow> get t' k s = Some v' \<Longrightarrow> v = v'"
begin

lemma read_own_write: "get (tenant_of v) (key_of v) (save v s) = Some v"
  by (simp add: get_save)

lemma other_tenant_sees_nothing: "t \<noteq> tenant_of v \<Longrightarrow> get t (key_of v) (save v s) = None"
  by (simp add: get_save)

lemma save_frames: "k \<noteq> key_of v \<Longrightarrow> get t k (save v s) = get t k s"
  by (simp add: get_save)

lemma one_owner: "get t k s = Some v \<Longrightarrow> get t' k s = Some v' \<Longrightarrow> t = t' \<and> v = v'"
  using get_tenant get_unique by blast

text \<open>Any sequence of saves by other tenants under other keys leaves a tenant's reads alone.\<close>

lemma saves_frame: "\<forall>v \<in> set vs. key_of v \<noteq> k \<Longrightarrow> get t k (fold save vs s) = get t k s"
  by (induction vs arbitrary: s) (auto simp: get_save)

lemma last_save_wins:
  assumes "key_of v = k" "\<forall>u \<in> set vs. key_of u \<noteq> k"
  shows "get t k (fold save (v # vs) s) = (if t = tenant_of v then Some v else None)"
  using saves_frame [OF assms(2), of t "save v s"] assms(1) by (simp add: get_save)

end

text \<open>A store that can also be listed: the listing is exactly what a tenant can read.\<close>

locale listed_store = tenant_store save get key_of tenant_of
  for save :: "'v \<Rightarrow> 's \<Rightarrow> 's" and get :: "string \<Rightarrow> 'k \<Rightarrow> 's \<Rightarrow> 'v option"
    and key_of :: "'v \<Rightarrow> 'k" and tenant_of :: "'v \<Rightarrow> string" +
  fixes list :: "string \<Rightarrow> 's \<Rightarrow> 'v list" and ok :: "'s \<Rightarrow> bool"
  assumes list_get: "ok s \<Longrightarrow> v \<in> set (list t s) \<longleftrightarrow> get t (key_of v) s = Some v"
    and ok_save: "ok s \<Longrightarrow> ok (save v s)"
begin

lemma listed_are_own: "ok s \<Longrightarrow> v \<in> set (list t s) \<Longrightarrow> tenant_of v = t"
  using list_get get_tenant by blast

lemma saved_is_listed: "ok s \<Longrightarrow> v \<in> set (list t (save v s)) \<longleftrightarrow> t = tenant_of v"
  by (simp add: list_get ok_save get_save)

end

section \<open>Lemmas on owned tables\<close>

lemma owned_get_set:
  "owned_get f t k (dict_set k' v d) = (if k = k' then if f v = t then Some v else None else owned_get f t k d)"
  by (simp add: owned_get_def dict_get_set)

lemma owned_get_tenant: "owned_get f t k d = Some v \<Longrightarrow> f v = t"
  by (auto simp: owned_get_def split: option.splits if_splits)

lemma owned_get_unique: "owned_get f t k d = Some v \<Longrightarrow> owned_get f t' k d = Some v' \<Longrightarrow> v = v'"
  by (auto simp: owned_get_def split: option.splits if_splits)

text \<open>A table whose entries lie under their own identifier, with distinct keys.\<close>

definition table_ok :: "('v \<Rightarrow> 'k) \<Rightarrow> ('k, 'v) dict \<Rightarrow> bool" where
  "table_ok key d \<longleftrightarrow> dict_wf d \<and> (\<forall>(k, v) \<in> set d. key v = k)"

lemma table_ok_Nil [simp]: "table_ok key []"
  by (simp add: table_ok_def)

lemma table_ok_set [simp]: "table_ok key d \<Longrightarrow> k = key v \<Longrightarrow> table_ok key (dict_set k v d)"
proof -
  assume ok: "table_ok key d" and k: "k = key v"
  have wf: "dict_wf (dict_set k v d)" using ok by (simp add: table_ok_def)
  have "key y = x" if "(x, y) \<in> set (dict_set k v d)" for x y
  proof -
    have "dict_get (dict_set k v d) x = Some y" using that dict_get_in_items [OF wf] by blast
    then show ?thesis using ok k by (auto simp: dict_get_set table_ok_def split: if_splits dest: map_of_SomeD)
  qed
  with wf show ?thesis by (auto simp: table_ok_def)
qed

lemma table_ok_filter [simp]: "table_ok key d \<Longrightarrow> table_ok key (dict_filter p d)"
  by (auto simp: table_ok_def dict_filter_def dict_wf_def distinct_map_filter_fst)

lemma table_ok_pop_all [simp]: "table_ok key d \<Longrightarrow> table_ok key (dict_pop_all ks d)"
  by (auto simp: table_ok_def dict_pop_all_def dict_wf_def distinct_map_filter_fst)

lemma table_ok_get: "table_ok key d \<Longrightarrow> dict_get d k = Some v \<Longrightarrow> key v = k"
  by (auto simp: table_ok_def dest: map_of_SomeD)

lemma table_ok_values:
  "table_ok key d \<Longrightarrow> v \<in> set (dict_values d) \<longleftrightarrow> dict_get d (key v) = Some v"
  by (auto simp: table_ok_def dict_get_in_values dest!: dict_values_get) (metis map_of_SomeD case_prodD)

lemma owned_values_get:
  "table_ok key d \<Longrightarrow> v \<in> set (owned_values f t d) \<longleftrightarrow> owned_get f t (key v) d = Some v"
  by (auto simp: owned_values_def table_ok_values owned_get_def split: option.splits if_splits)

section \<open>Interpretations\<close>

lemmas store_defs = save_trip_def get_trip_def save_incident_def get_incident_def
  save_memory_proposal_def get_memory_proposal_def save_notification_def get_notification_def
  save_legal_hold_def get_legal_hold_def save_deletion_request_def get_deletion_request_def
  save_original_upload_def get_original_upload_def

lemma list_notifications_owned: "list_notifications t None w = owned_values nt_tenant_id t (db_notifications w)"
  by (simp add: list_notifications_def owned_values_def)

lemma list_deletion_requests_owned:
  "set (repo_list_deletion_requests t None w) = set (owned_values dr_tenant_id t (db_deletion_requests w))"
  by (simp add: repo_list_deletion_requests_def owned_values_def)

lemma list_legal_holds_owned:
  "set (repo_list_legal_holds t w) = set (owned_values lh_tenant_id t (db_legal_holds w))"
  by (simp add: repo_list_legal_holds_def)

lemmas store_laws = store_defs owned_get_set owned_values_get list_incidents_def
  list_notifications_owned list_deletion_requests_owned list_legal_holds_owned

interpretation trips: tenant_store save_trip get_trip trip_trip_id trip_tenant_id
  by unfold_locales (simp_all add: store_laws, (erule owned_get_tenant owned_get_unique, assumption?)+)

interpretation incidents: listed_store save_incident get_incident inc_incident_id inc_tenant_id
    list_incidents "\<lambda>w. table_ok inc_incident_id (db_incidents w)"
  by unfold_locales (simp_all add: store_laws, (erule owned_get_tenant owned_get_unique, assumption?)+)

interpretation proposals: tenant_store save_memory_proposal get_memory_proposal mp_proposal_id mp_tenant_id
  by unfold_locales (simp_all add: store_laws, (erule owned_get_tenant owned_get_unique, assumption?)+)

interpretation notifications: listed_store save_notification get_notification nt_notification_id nt_tenant_id
    "\<lambda>t. list_notifications t None" "\<lambda>w. table_ok nt_notification_id (db_notifications w)"
  by unfold_locales (simp_all add: store_laws, (erule owned_get_tenant owned_get_unique, assumption?)+)

interpretation holds: listed_store save_legal_hold get_legal_hold lh_legal_hold_id lh_tenant_id
    repo_list_legal_holds "\<lambda>w. table_ok lh_legal_hold_id (db_legal_holds w)"
  by unfold_locales (simp_all add: store_laws, (erule owned_get_tenant owned_get_unique, assumption?)+)

interpretation deletions: listed_store save_deletion_request get_deletion_request dr_deletion_request_id dr_tenant_id
    "\<lambda>t. repo_list_deletion_requests t None" "\<lambda>w. table_ok dr_deletion_request_id (db_deletion_requests w)"
  by unfold_locales (simp_all add: store_laws, (erule owned_get_tenant owned_get_unique, assumption?)+)

interpretation uploads: tenant_store save_original_upload get_original_upload up_original_upload_id up_tenant_id
  by unfold_locales (simp_all add: store_laws, (erule owned_get_tenant owned_get_unique, assumption?)+)

section \<open>Properties\<close>

text \<open>
  C33. Tenant isolation of incidents: over any sequence of saves, an incident can be read under its
  identifier by exactly the tenant that saved it last, listings contain only the tenant's own
  incidents, and no identifier is ever readable by two tenants.
\<close>

theorem incidents_are_tenant_isolated:
  assumes "table_ok inc_incident_id (db_incidents w)" "inc_incident_id i = k"
    and "\<forall>j \<in> set later. inc_incident_id j \<noteq> k"
  shows "get_incident t k (fold save_incident (i # later) w) = (if t = inc_tenant_id i then Some i else None) \<and>
    (\<forall>j \<in> set (list_incidents t w). inc_tenant_id j = t) \<and>
    (i \<in> set (list_incidents t (save_incident i w)) \<longleftrightarrow> t = inc_tenant_id i) \<and>
    (\<forall>x y t'. get_incident t k w = Some x \<longrightarrow> get_incident t' k w = Some y \<longrightarrow> t = t')"
proof (intro conjI ballI allI impI)
  show "get_incident t k (fold save_incident (i # later) w) = (if t = inc_tenant_id i then Some i else None)"
    by (rule incidents.last_save_wins [OF assms(2,3)])
  show "inc_tenant_id j = t" if "j \<in> set (list_incidents t w)" for j
    by (rule incidents.listed_are_own [OF assms(1) that])
  show "i \<in> set (list_incidents t (save_incident i w)) \<longleftrightarrow> t = inc_tenant_id i"
    by (rule incidents.saved_is_listed [OF assms(1)])
  show "t = t'" if "get_incident t k w = Some x" "get_incident t' k w = Some y" for x y t'
    using incidents.one_owner [OF that] by blast
qed

definition sample_incident :: "string \<Rightarrow> uuid \<Rightarrow> incident" where
  "sample_incident tenant k = \<lparr>inc_incident_id = k, inc_tenant_id = tenant, inc_trip_id = 7,
     inc_assessment_id = 8, inc_severity = HIGH, inc_status = INC_OPEN, inc_correlation_id = 9,
     inc_created_at = 0, inc_updated_at = 0, inc_tool_audit = [], inc_model_audit = [],
     inc_recommendation = None, inc_graph_thread_id = None, inc_approval_payload = None\<rparr>"

theorem incidents_are_tenant_isolated_witness:
  "get_incident ''b'' 1 (fold save_incident [sample_incident ''a'' 1, sample_incident ''b'' 2] empty_world) = None \<and>
   get_incident ''a'' 1 (fold save_incident [sample_incident ''a'' 1, sample_incident ''b'' 2] empty_world)
     = Some (sample_incident ''a'' 1)"
proof -
  have ok: "table_ok inc_incident_id (db_incidents empty_world)" by (simp add: empty_world_def)
  have id: "inc_incident_id (sample_incident ''a'' 1) = 1" "\<forall>j \<in> set [sample_incident ''b'' 2]. inc_incident_id j \<noteq> 1"
    "inc_tenant_id (sample_incident ''a'' 1) = ''a''"
    by (simp_all add: sample_incident_def)
  show ?thesis
    using incidents_are_tenant_isolated [OF ok id(1,2), of "''a''", THEN conjunct1]
      incidents_are_tenant_isolated [OF ok id(1,2), of "''b''", THEN conjunct1] id(3)
    by simp
qed

end
