(* ===== verification/Outbox.thy ===== *)
theory Outbox
  imports Tenancy
begin

text \<open>
  The two durable outboxes: \<^verbatim>\<open>apps/api/notifications.py\<close> and \<^verbatim>\<open>apps/api/actions.py\<close> over the claim
  and completion operations of the repository.  A worker claims due records under a lease, sends
  each one and completes it; several workers may hold copies of the same record.

  The locale \<open>outbox\<close> is the contract both queues satisfy; its lemmas describe the claim loop and
  carry an invariant over every interleaving of enqueueing, claiming, delivering and acknowledging.
  A sender is a function from the record to its result; a raised exception is its left side.
  Delivery touches the repository only when it completes, so it is one step whose sender result may
  be anything.
\<close>

section \<open>Notifications\<close>

record delivery_result =
  dl_delivered :: bool
  dl_provider_message_reference :: "string option"
  dl_error_code :: "string option"

definition in_app_send :: "notification_record \<Rightarrow> delivery_result result" where
  "in_app_send n = Inr
     (if nt_channel n = ''in_app''
      then \<lparr>dl_delivered = True,
            dl_provider_message_reference = Some (''in-app:'' @ str_uuid (nt_notification_id n)),
            dl_error_code = None\<rparr>
      else \<lparr>dl_delivered = False, dl_provider_message_reference = None,
            dl_error_code = Some ''channel_not_configured''\<rparr>)"

definition retry_at :: "int \<Rightarrow> datetime \<Rightarrow> datetime" where
  "retry_at attempt_number now = now + td_minutes (min 60 (2 ^ nat (max 0 (attempt_number - 1))))"

definition error_or :: "string option \<Rightarrow> string \<Rightarrow> string option" where
  "error_or e fallback = (if falsy e then Some fallback else e)"

definition settle_notification ::
  "int \<Rightarrow> datetime \<Rightarrow> delivery_result \<Rightarrow> notification_record \<Rightarrow> notification_record \<times> string" where
  "settle_notification max_attempts timestamp result n =
     (let attempt_number = nt_attempt_count n + 1;
          n1 = n\<lparr>nt_attempt_count := attempt_number, nt_updated_at := timestamp\<rparr>
      in if dl_delivered result
         then (n1\<lparr>nt_status := NDELIVERED, nt_delivered_at := Some timestamp, nt_last_error_code := None\<rparr>,
               ''delivered'')
         else if attempt_number \<ge> max_attempts
         then (n1\<lparr>nt_status := NFAILED,
                  nt_last_error_code := error_or (dl_error_code result) ''delivery_failed''\<rparr>, ''failed'')
         else (n1\<lparr>nt_status := NRETRY_SCHEDULED, nt_next_attempt_at := retry_at attempt_number timestamp,
                  nt_last_error_code := error_or (dl_error_code result) ''delivery_failed''\<rparr>,
               ''retry_scheduled''))"

definition deliver_notification ::
  "'h host_scheme \<Rightarrow> (notification_record \<Rightarrow> delivery_result result) \<Rightarrow> int \<Rightarrow> datetime option \<Rightarrow>
    notification_record \<Rightarrow> notification_record act" where
  "deliver_notification h send max_attempts now n =
     (if nt_status n \<notin> {NQUEUED, NRETRY_SCHEDULED} then ret n
      else bindP (now_or h now) (\<lambda>timestamp.
        if nt_next_attempt_at n > timestamp then ret n
        else if (case nt_dispatch_claim_expires_at n of None \<Rightarrow> False | Some e \<Rightarrow> e \<le> timestamp) then ret n
        else
          let result = (case send n of Inr r \<Rightarrow> r
                | Inl _ \<Rightarrow> \<lparr>dl_delivered = False, dl_provider_message_reference = None,
                            dl_error_code = Some ''sender_exception''\<rparr>);
              (n1, outcome) = settle_notification max_attempts timestamp result n
          in bindP (uuid4 h) (\<lambda>attempt_id.
            let attempt = \<lparr>na_attempt_id = attempt_id, na_notification_id = nt_notification_id n1,
                  na_attempt_number = nt_attempt_count n1, na_attempted_at = timestamp,
                  na_outcome = outcome,
                  na_provider_message_reference = dl_provider_message_reference result,
                  na_error_code = dl_error_code result\<rparr>
            in if \<not> valid_notification_attempt attempt then throw (ValidationError ''NotificationAttempt'')
               else case nt_dispatch_claim_id n of
                 Some claim_id \<Rightarrow>
                   bindP (complete_notification_delivery n1 attempt claim_id) (\<lambda>completed.
                     ret (case completed of Some c \<Rightarrow> c | None \<Rightarrow> n1))
               | None \<Rightarrow> thenP (modify (save_notification n1))
                   (thenP (modify (record_notification_attempt attempt)) (ret n1)))))"

section \<open>Approved actions\<close>

record action_dispatch_result =
  ares_dispatched :: bool
  ares_external_reference :: "string option"
  ares_error_code :: "string option"

definition unconfigured_dispatch :: "action_dispatch_record \<Rightarrow> action_dispatch_result result" where
  "unconfigured_dispatch a = Inr \<lparr>ares_dispatched = False, ares_external_reference = None,
     ares_error_code = Some ''action_provider_not_configured''\<rparr>"

definition action_retry_at :: "int \<Rightarrow> datetime \<Rightarrow> datetime" where
  "action_retry_at attempt_number now = now + td_minutes (min 60 (2 ^ nat (max 0 (attempt_number - 1))))"

definition settle_action ::
  "int \<Rightarrow> datetime \<Rightarrow> action_dispatch_result \<Rightarrow> action_dispatch_record \<Rightarrow> action_dispatch_record \<times> string" where
  "settle_action max_attempts timestamp result a =
     (let attempt_number = ad_attempt_count a + 1;
          a1 = a\<lparr>ad_attempt_count := attempt_number, ad_updated_at := timestamp\<rparr>
      in if ares_dispatched result
         then (a1\<lparr>ad_status := ADISPATCHED, ad_dispatched_at := Some timestamp, ad_last_error_code := None\<rparr>,
               ''dispatched'')
         else if attempt_number \<ge> max_attempts
         then (a1\<lparr>ad_status := AFAILED,
                  ad_last_error_code := error_or (ares_error_code result) ''action_dispatch_failed''\<rparr>, ''failed'')
         else (a1\<lparr>ad_status := ARETRY_SCHEDULED, ad_next_attempt_at := action_retry_at attempt_number timestamp,
                  ad_last_error_code := error_or (ares_error_code result) ''action_dispatch_failed''\<rparr>,
               ''retry_scheduled''))"

definition dispatch_approved_action ::
  "'h host_scheme \<Rightarrow> (action_dispatch_record \<Rightarrow> action_dispatch_result result) \<Rightarrow> int \<Rightarrow> datetime option \<Rightarrow>
    action_dispatch_record \<Rightarrow> action_dispatch_record act" where
  "dispatch_approved_action h send max_attempts now a =
     (if ad_status a \<notin> {AQUEUED, ARETRY_SCHEDULED} then ret a
      else bindP (now_or h now) (\<lambda>timestamp.
        if ad_next_attempt_at a > timestamp then ret a
        else if (case ad_dispatch_claim_expires_at a of None \<Rightarrow> False | Some e \<Rightarrow> e \<le> timestamp) then ret a
        else
          let result = (case send a of Inr r \<Rightarrow> r
                | Inl _ \<Rightarrow> \<lparr>ares_dispatched = False, ares_external_reference = None,
                            ares_error_code = Some ''action_sender_exception''\<rparr>);
              (a1, outcome) = settle_action max_attempts timestamp result a
          in bindP (uuid4 h) (\<lambda>attempt_id.
            let attempt = \<lparr>aa_attempt_id = attempt_id, aa_action_dispatch_id = ad_action_dispatch_id a1,
                  aa_attempt_number = ad_attempt_count a1, aa_attempted_at = timestamp,
                  aa_outcome = outcome, aa_external_reference = ares_external_reference result,
                  aa_error_code = ares_error_code result\<rparr>
            in if \<not> valid_action_dispatch_attempt attempt then throw (ValidationError ''ActionDispatchAttempt'')
               else case ad_dispatch_claim_id a of
                 Some claim_id \<Rightarrow>
                   bindP (complete_action_dispatch a1 attempt claim_id) (\<lambda>completed.
                     ret (case completed of Some c \<Rightarrow> c | None \<Rightarrow> a1))
               | None \<Rightarrow> thenP (modify (save_action_dispatch a1))
                   (thenP (modify (record_action_dispatch_attempt attempt)) (ret a1)))))"

section \<open>The claim loop\<close>

text \<open>The records a claim leases: the first claimable ones in insertion order, up to the limit.\<close>

definition due_records :: "('r \<Rightarrow> bool) \<Rightarrow> int \<Rightarrow> (uuid \<times> 'r) list \<Rightarrow> (uuid \<times> 'r) list" where
  "due_records claimable limit rest = take (nat limit) (filter (\<lambda>(k, r). claimable r) rest)"

fun leased :: "(nat \<Rightarrow> uuid) \<Rightarrow> (uuid \<Rightarrow> 'r \<Rightarrow> 'r) \<Rightarrow> nat \<Rightarrow> (uuid \<times> 'r) list \<Rightarrow> (uuid \<times> 'r) list" where
  "leased draw lease n [] = []"
| "leased draw lease n ((k, r) # rest) = (k, lease (draw n) r) # leased draw lease (Suc n) rest"

lemma due_records_sub: "set (due_records claimable limit rest) \<subseteq> {(k, r) \<in> set rest. claimable r}"
  by (auto simp: due_records_def dest: in_set_takeD)

lemma due_records_skip: "\<not> claimable r \<Longrightarrow> due_records claimable limit ((k, r) # rest) = due_records claimable limit rest"
  by (simp add: due_records_def)

lemma due_records_stop: "limit \<le> 0 \<Longrightarrow> due_records claimable limit rest = []"
  by (simp add: due_records_def)

lemma due_records_take:
  "0 < limit \<Longrightarrow> claimable r \<Longrightarrow>
    due_records claimable limit ((k, r) # rest) = (k, r) # due_records claimable (limit - 1) rest"
  by (cases "nat limit") (simp_all add: due_records_def nat_diff_distrib')

lemma leased_origin:
  "(k, x) \<in> set (leased draw lease n ps) \<Longrightarrow>
    \<exists>i r. n \<le> i \<and> i < n + length ps \<and> (k, r) \<in> set ps \<and> x = lease (draw i) r"
proof (induction ps arbitrary: n)
  case (Cons p ps)
  obtain k0 r0 where p: "p = (k0, r0)" by fastforce
  show ?case
  proof (cases "(k, x) = (k0, lease (draw n) r0)")
    case True
    then show ?thesis by (intro exI [of _ n] exI [of _ r0]) (simp add: p)
  next
    case False
    with Cons.prems p have "(k, x) \<in> set (leased draw lease (Suc n) ps)" by auto
    from Cons.IH [OF this] obtain i r where "Suc n \<le> i" "i < Suc n + length ps" "(k, r) \<in> set ps"
      "x = lease (draw i) r" by blast
    then show ?thesis by (intro exI [of _ i] exI [of _ r]) simp
  qed
qed simp

lemma map_fst_leased [simp]: "map fst (leased draw lease n ps) = map fst ps"
  by (induction ps arbitrary: n) auto

lemma length_leased [simp]: "length (leased draw lease n ps) = length ps"
  by (induction ps arbitrary: n) auto

lemma fold_set_get:
  "distinct (map fst ps) \<Longrightarrow> dict_get (fold (\<lambda>(k, r). dict_set k r) ps d) k =
     (case map_of ps k of Some x \<Rightarrow> Some x | None \<Rightarrow> dict_get d k)"
proof (induction ps arbitrary: d)
  case (Cons p ps)
  obtain k0 r0 where p: "p = (k0, r0)" by fastforce
  from Cons.prems p have "map_of ps k0 = None" by (auto simp: map_of_eq_None_iff)
  moreover have "dict_get (fold (\<lambda>(k, r). dict_set k r) ps (dict_set k0 r0 d)) k =
      (case map_of ps k of Some x \<Rightarrow> Some x | None \<Rightarrow> dict_get (dict_set k0 r0 d) k)"
    by (rule Cons.IH) (use Cons.prems in simp)
  ultimately show ?case by (auto simp: p dict_get_set split: option.splits)
qed simp

section \<open>The contract of a queue\<close>

definition entries :: "('k, 'a list) dict \<Rightarrow> 'k \<Rightarrow> 'a list" where
  "entries l k = (case dict_get l k of None \<Rightarrow> [] | Some xs \<Rightarrow> xs)"

lemma entries_append [simp]: "entries (dict_append k a l) k' = (if k' = k then entries l k @ [a] else entries l k')"
  by (simp add: entries_def dict_get_append split: option.splits)

text \<open>
  The state of a queue: its table and attempt log, and the copies workers hold.  Every record agrees
  with its log; claim identifiers have been drawn; a held copy whose claim is still the stored one
  is the stored record.
\<close>

definition lease_inv ::
  "(nat \<Rightarrow> uuid) \<Rightarrow> ('r \<Rightarrow> uuid) \<Rightarrow> ('r \<Rightarrow> uuid option) \<Rightarrow> ('r \<Rightarrow> 'a list \<Rightarrow> bool) \<Rightarrow> nat \<Rightarrow>
    (uuid, 'r) dict \<Rightarrow> (uuid, 'a list) dict \<Rightarrow> 'r set \<Rightarrow> bool" where
  "lease_inv draw key_of claim_of consistent n d l held \<longleftrightarrow> table_ok key_of d \<and>
     (\<forall>k r. dict_get d k = Some r \<longrightarrow> consistent r (entries l k)) \<and>
     (\<forall>k. dict_get d k = None \<longrightarrow> entries l k = []) \<and>
     (\<forall>k r c. dict_get d k = Some r \<longrightarrow> claim_of r = Some c \<longrightarrow> (\<exists>i < n. c = draw i)) \<and>
     (\<forall>r \<in> held. \<exists>i < n. claim_of r = Some (draw i)) \<and>
     (\<forall>r \<in> held. \<forall>cur. dict_get d (key_of r) = Some cur \<longrightarrow> claim_of cur = claim_of r \<longrightarrow> cur = r)"

lemma lease_inv_empty [simp]: "lease_inv draw key_of claim_of consistent n [] [] {}"
  by (simp add: lease_inv_def entries_def)

lemma lease_inv_later:
  "lease_inv draw key_of claim_of consistent n d l held \<Longrightarrow> n \<le> n' \<Longrightarrow>
    lease_inv draw key_of claim_of consistent n' d l held"
  unfolding lease_inv_def by (meson order_less_le_trans)

text \<open>Storing a record no worker has claimed: an enqueue or an acknowledgement.\<close>

lemma lease_inv_save:
  assumes inv: "lease_inv draw key_of claim_of consistent n d l held"
    and r: "key_of r = k" "claim_of r = None" "consistent r (entries l' k)"
    and l': "\<And>k'. k' \<noteq> k \<Longrightarrow> entries l' k' = entries l k'"
  shows "lease_inv draw key_of claim_of consistent n (dict_set k r d) l' held"
  unfolding lease_inv_def
proof (intro conjI allI ballI impI)
  show "table_ok key_of (dict_set k r d)" using inv r by (simp add: lease_inv_def)
  show "consistent r' (entries l' k')" if "dict_get (dict_set k r d) k' = Some r'" for k' r'
    using that inv r l' by (auto simp: dict_get_set lease_inv_def split: if_splits)
  show "entries l' k' = []" if "dict_get (dict_set k r d) k' = None" for k'
    using that inv l' by (auto simp: dict_get_set lease_inv_def split: if_splits)
  show "\<exists>i < n. c = draw i" if "dict_get (dict_set k r d) k' = Some r'" "claim_of r' = Some c" for k' r' c
    using that inv r by (auto simp: dict_get_set lease_inv_def split: if_splits)
  show "\<exists>i < n. claim_of r' = Some (draw i)" if "r' \<in> held" for r' using that inv by (auto simp: lease_inv_def)
  show "cur = r'" if "r' \<in> held" "dict_get (dict_set k r d) (key_of r') = Some cur" "claim_of cur = claim_of r'"
    for r' cur using that inv r by (auto simp: dict_get_set lease_inv_def split: if_splits)
qed

locale outbox =
  fixes h :: "'h host_scheme"
    and table :: "world \<Rightarrow> (uuid, 'r) dict"
    and log :: "world \<Rightarrow> (uuid, 'a list) dict"
    and put :: "uuid \<Rightarrow> 'r \<Rightarrow> world \<Rightarrow> world"
    and claimable :: "string option \<Rightarrow> datetime \<Rightarrow> 'r \<Rightarrow> bool"
    and lease :: "string \<Rightarrow> datetime \<Rightarrow> timedelta \<Rightarrow> uuid \<Rightarrow> 'r \<Rightarrow> 'r"
    and claim :: "string option \<Rightarrow> string \<Rightarrow> timedelta \<Rightarrow> datetime option \<Rightarrow> int \<Rightarrow> 'r list act"
    and deliver :: "'r \<Rightarrow> world \<Rightarrow> world \<Rightarrow> bool"
    and key_of :: "'r \<Rightarrow> uuid"
    and claim_of :: "'r \<Rightarrow> uuid option"
    and expires :: "'r \<Rightarrow> datetime option"
    and consistent :: "'r \<Rightarrow> 'a list \<Rightarrow> bool"
  assumes put_table: "table (put k r w) = dict_set k r (table w)"
    and put_log: "log (put k r w) = log w"
    and put_draws: "run_draws (put k r w) = run_draws w"
    and run_table: "table (w\<lparr>run_draws := n\<rparr>) = table w" "table (w\<lparr>run_reads := n\<rparr>) = table w"
    and run_log: "log (w\<lparr>run_draws := n\<rparr>) = log w" "log (w\<lparr>run_reads := n\<rparr>) = log w"
    and due_is_free: "claimable t now r \<Longrightarrow> lease_free (expires r) now"
    and lease_fields: "key_of (lease wk now ttl c r) = key_of r" "claim_of (lease wk now ttl c r) = Some c"
      "expires (lease wk now ttl c r) = Some (now + ttl)"
      "claimable t now r \<Longrightarrow> consistent (lease wk now ttl c r) as = consistent r as"
    and claim_is_loop: "claim t wk ttl given limit = bindP (now_or h given) (\<lambda>ts. bindP (gets table) (\<lambda>d.
        claim_loop h (claimable t ts) (lease wk ts ttl) put limit d []))"
    and deliver_cases: "deliver r w w' \<Longrightarrow> claim_of r = Some c \<Longrightarrow> run_draws w \<le> run_draws w' \<and>
        (table w' = table w \<and> log w' = log w \<or>
         (\<exists>cur r' a. dict_get (table w) (key_of r) = Some cur \<and> claim_of cur = Some c \<and>
            key_of r' = key_of r \<and> claim_of r' = None \<and> table w' = dict_set (key_of r) r' (table w) \<and>
            log w' = dict_append (key_of r) a (log w) \<and>
            (\<forall>as. consistent r as \<longrightarrow> consistent r' (as @ [a]))))"
begin

lemma claim_loop_run:
  "\<exists>w'. claim_loop h due ls put limit rest acc w = (Inr (acc @ map snd L), w') \<and>
     table w' = fold (\<lambda>(k, r). dict_set k r) L (table w) \<and> log w' = log w \<and>
     run_draws w' = run_draws w + length L"
  if "L = leased (host_uuid4 h) ls (run_draws w) (due_records due (limit - int (length acc)) rest)"
  using that
proof (induction rest arbitrary: acc w L)
  case Nil
  then show ?case by (simp add: prog_simps due_records_def)
next
  case (Cons p rest)
  obtain k r where p: "p = (k, r)" by fastforce
  consider "limit \<le> int (length acc)" | "\<not> due r" "\<not> limit \<le> int (length acc)"
    | "due r" "\<not> limit \<le> int (length acc)" by blast
  then show ?case
  proof cases
    case 1
    then show ?thesis using Cons.prems by (simp add: p prog_simps due_records_stop)
  next
    case 2
    with Cons.IH [of L w acc] Cons.prems show ?thesis by (simp add: p due_records_skip)
  next
    case 3
    let ?x = "ls (host_uuid4 h (run_draws w)) r"
    let ?w = "put k ?x (w\<lparr>run_draws := Suc (run_draws w)\<rparr>)"
    have pos: "0 < limit - int (length acc)" using 3 by simp
    let ?M = "leased (host_uuid4 h) ls (Suc (run_draws w)) (due_records due (limit - int (length acc) - 1) rest)"
    have L: "L = (k, ?x) # ?M" using Cons.prems by (simp add: p due_records_take [where claimable = due, OF pos 3(1)])
    have "\<exists>w'. claim_loop h due ls put limit rest (acc @ [?x]) ?w = (Inr ((acc @ [?x]) @ map snd ?M), w') \<and>
        table w' = fold (\<lambda>(k, r). dict_set k r) ?M (table ?w) \<and> log w' = log ?w \<and>
        run_draws w' = run_draws ?w + length ?M"
      by (rule Cons.IH) (simp add: put_draws algebra_simps)
    with 3 show ?thesis
      by (auto simp: p L prog_simps put_table put_log put_draws run_table run_log)
  qed
qed

text \<open>A claim returns, leases the due records in order and changes nothing else of the queue.\<close>

lemma claim_run:
  assumes "claim t wk ttl now limit w = (res, w')"
  obtains ts L where "(case now of Some n \<Rightarrow> ts = n | None \<Rightarrow> ts = host_now h (run_reads w))"
    "L = leased (host_uuid4 h) (lease wk ts ttl) (run_draws w) (due_records (claimable t ts) limit (table w))"
    "res = Inr (map snd L)" "table w' = fold (\<lambda>(k, r). dict_set k r) L (table w)" "log w' = log w"
    "run_draws w' = run_draws w + length L"
proof (cases now)
  case None
  have run: "claim_loop h (claimable t (host_now h (run_reads w))) (lease wk (host_now h (run_reads w)) ttl) put limit
      (table w) [] (w\<lparr>run_reads := Suc (run_reads w)\<rparr>) = (res, w')"
    using assms by (simp add: claim_is_loop None prog_simps run_table)
  show ?thesis
    by (rule that [of "host_now h (run_reads w)", OF _ refl]; use claim_loop_run [of _ "lease wk (host_now h (run_reads w)) ttl"
      "w\<lparr>run_reads := Suc (run_reads w)\<rparr>" "claimable t (host_now h (run_reads w))" limit "[]" "table w", OF refl] run
      in \<open>simp add: None run_table run_log\<close>)
next
  case (Some n)
  have run: "claim_loop h (claimable t n) (lease wk n ttl) put limit (table w) [] w = (res, w')"
    using assms by (simp add: claim_is_loop Some prog_simps)
  show ?thesis
    by (rule that [of n, OF _ refl]; use claim_loop_run [of _ "lease wk n ttl" w "claimable t n" limit "[]" "table w", OF refl] run
      in \<open>simp add: Some\<close>)
qed

text \<open>Every claimed record was claimable, and its lease starts now.\<close>

lemma claim_origin:
  assumes "claim t wk ttl now limit w = (Inr xs, w')" "x \<in> set xs" "table_ok key_of (table w)"
  obtains ts r c where "(case now of Some n \<Rightarrow> ts = n | None \<Rightarrow> ts = host_now h (run_reads w))"
    "dict_get (table w) (key_of x) = Some r" "claimable t ts r" "x = lease wk ts ttl c r"
proof -
  obtain ts L where ts: "(case now of Some n \<Rightarrow> ts = n | None \<Rightarrow> ts = host_now h (run_reads w))"
    and L: "L = leased (host_uuid4 h) (lease wk ts ttl) (run_draws w) (due_records (claimable t ts) limit (table w))"
    and xs: "Inr xs = (Inr (map snd L) :: 'r list result)"
    using claim_run [OF assms(1)] by metis
  from xs assms(2) obtain k where "(k, x) \<in> set L" by auto
  from leased_origin [OF this [unfolded L]] obtain i r where
    r: "(k, r) \<in> set (due_records (claimable t ts) limit (table w))" "x = lease wk ts ttl (host_uuid4 h i) r"
    by blast
  with due_records_sub [of "claimable t ts" limit "table w"] have "(k, r) \<in> set (table w)" "claimable t ts r" by auto
  moreover have "key_of r = k" using calculation(1) assms(3) by (auto simp: table_ok_def)
  ultimately show ?thesis
    using that [OF ts] r(2) assms(3) by (simp add: lease_fields table_ok_def dict_get_in_items)
qed

lemma claim_length: "claim t wk ttl now limit w = (Inr xs, w') \<Longrightarrow> int (length xs) \<le> max 0 limit"
  by (erule claim_run) (auto simp: due_records_def)

text \<open>A record under a lease that has not expired is not handed out again.\<close>

lemma no_double_lease:
  assumes claim: "claim t wk ttl now limit w = (Inr xs, w')" and ok: "table_ok key_of (table w)"
    and cur: "dict_get (table w) k = Some cur" "expires cur = Some e"
    and early: "case now of Some n \<Rightarrow> n < e | None \<Rightarrow> host_now h (run_reads w) < e"
  shows "k \<notin> key_of ` set xs"
proof
  assume "k \<in> key_of ` set xs"
  then obtain x where "x \<in> set xs" "k = key_of x" by blast
  with claim ok cur obtain ts where "(case now of Some n \<Rightarrow> ts = n | None \<Rightarrow> ts = host_now h (run_reads w))"
    "claimable t ts cur" by (metis claim_origin option.inject)
  with early cur(2) show False
    using due_is_free [of t ts cur] by (auto simp: lease_free_def split: option.splits)
qed

abbreviation queue_inv :: "world \<Rightarrow> 'r set \<Rightarrow> bool" where
  "queue_inv w held \<equiv> lease_inv (host_uuid4 h) key_of claim_of consistent (run_draws w) (table w) (log w) held"

lemma claim_keeps_inv:
  assumes inv: "queue_inv w held" and uniq: "distinct_uuids h (run_draws w')"
    and claim: "claim t wk ttl now limit w = (Inr xs, w')"
  shows "queue_inv w' (held \<union> set xs)"
proof -
  obtain ts L where L: "L = leased (host_uuid4 h) (lease wk ts ttl) (run_draws w) (due_records (claimable t ts) limit (table w))"
    and xs: "Inr xs = (Inr (map snd L) :: 'r list result)" and tab: "table w' = fold (\<lambda>(k, r). dict_set k r) L (table w)"
    and lg: "log w' = log w" and dr: "run_draws w' = run_draws w + length L"
    using claim_run [OF claim] by metis
  have ok: "table_ok key_of (table w)" using inv by (simp add: lease_inv_def)
  have dist: "distinct (map fst L)"
    using ok by (simp add: L due_records_def table_ok_def dict_wf_def distinct_map_filter take_map [symmetric] distinct_take)
  have origin: "\<exists>i r. run_draws w \<le> i \<and> i < run_draws w' \<and> dict_get (table w) k = Some r \<and> key_of x = k \<and>
      claim_of x = Some (host_uuid4 h i) \<and> (\<forall>as. consistent x as = consistent r as)" if "(k, x) \<in> set L" for k x
  proof -
    from leased_origin [OF that [unfolded L]] obtain i r where ir: "run_draws w \<le> i" "i < run_draws w'"
      "(k, r) \<in> set (due_records (claimable t ts) limit (table w))" "x = lease wk ts ttl (host_uuid4 h i) r"
      unfolding dr L by auto
    with due_records_sub [of "claimable t ts" limit "table w"] have "(k, r) \<in> set (table w)" "claimable t ts r" by auto
    moreover have "key_of r = k" using calculation(1) ok by (auto simp: table_ok_def)
    ultimately show ?thesis using ok ir
      by (intro exI [of _ i] exI [of _ r]) (simp add: table_ok_def dict_get_in_items lease_fields)
  qed
  have get: "dict_get (table w') k = (case map_of L k of Some x \<Rightarrow> Some x | None \<Rightarrow> dict_get (table w) k)" for k
    unfolding tab by (rule fold_set_get [OF dist])
  have "table_ok key_of (fold (\<lambda>(k, r). dict_set k r) M d)"
    if "table_ok key_of d" "\<forall>(k, x) \<in> set M. key_of x = k" for M d
    using that by (induction M arbitrary: d) auto
  from this [OF ok] have ok': "table_ok key_of (table w')" using origin by (fastforce simp: tab)
  show ?thesis
    unfolding lease_inv_def
  proof (intro conjI allI ballI impI)
    show "table_ok key_of (table w')" by (rule ok')
    show "consistent r (entries (log w') k)" if "dict_get (table w') k = Some r" for k r
    proof (cases "map_of L k")
      case (Some x)
      then have "(k, r) \<in> set L" using that unfolding get by (simp add: map_of_SomeD)
      from origin [OF this] inv show ?thesis unfolding lg lease_inv_def by blast
    qed (use that inv in \<open>simp add: get lg lease_inv_def\<close>)
    show "entries (log w') k = []" if "dict_get (table w') k = None" for k
      using that inv unfolding lg get lease_inv_def by (auto split: option.splits)
    show "\<exists>i < run_draws w'. c = host_uuid4 h i" if "dict_get (table w') k = Some r" "claim_of r = Some c" for k r c
    proof (cases "map_of L k")
      case (Some x)
      then have "(k, r) \<in> set L" using that unfolding get by (simp add: map_of_SomeD)
      from origin [OF this] that(2) show ?thesis by auto
    next
      case None
      with that have "dict_get (table w) k = Some r" by (simp add: get)
      with that(2) inv have "\<exists>i < run_draws w. c = host_uuid4 h i" unfolding lease_inv_def by blast
      then show ?thesis by (auto simp: dr intro: trans_less_add1)
    qed
    show "\<exists>i < run_draws w'. claim_of r = Some (host_uuid4 h i)" if "r \<in> held \<union> set xs" for r
    proof (cases "r \<in> set xs")
      case True
      then obtain k where "(k, r) \<in> set L" using xs by auto
      then show ?thesis using origin by blast
    next
      case False
      with that inv have "\<exists>i < run_draws w. claim_of r = Some (host_uuid4 h i)" by (simp add: lease_inv_def)
      then show ?thesis by (auto simp: dr intro: trans_less_add1)
    qed
    show "cur = r" if r: "r \<in> held \<union> set xs" and cur: "dict_get (table w') (key_of r) = Some cur"
      and same: "claim_of cur = claim_of r" for r cur
    proof (cases "\<exists>k. (k, r) \<in> set L")
      case True
      then obtain k where k: "(k, r) \<in> set L" by blast
      with origin have "key_of r = k" by blast
      with k cur dist show ?thesis unfolding get by (simp add: map_of_is_SomeI)
    next
      case False
      with r xs have old: "r \<in> held" by force
      then obtain j where j: "j < run_draws w" "claim_of r = Some (host_uuid4 h j)" using inv by (auto simp: lease_inv_def)
      have "map_of L (key_of r) = None"
      proof (rule ccontr)
        assume "map_of L (key_of r) \<noteq> None"
        with cur have "(key_of r, cur) \<in> set L" unfolding get by (auto dest: map_of_SomeD)
        with origin obtain i where i: "run_draws w \<le> i" "i < run_draws w'" "claim_of cur = Some (host_uuid4 h i)" by blast
        with same j have "host_uuid4 h i = host_uuid4 h j" by simp
        with uniq i(2) j(1) have "i = j" by (simp add: distinct_uuids_def dr)
        with i(1) j(1) show False by simp
      qed
      with cur old same inv show ?thesis unfolding get by (auto simp: lease_inv_def)
    qed
  qed
qed

lemma deliver_keeps_inv:
  assumes inv: "queue_inv w held" and held: "r \<in> held" and del: "deliver r w w'"
  shows "queue_inv w' held"
proof -
  obtain c where c: "claim_of r = Some c" using inv held by (auto simp: lease_inv_def)
  from deliver_cases [OF del c] have later: "run_draws w \<le> run_draws w'" by blast
  from deliver_cases [OF del c] consider "table w' = table w" "log w' = log w"
    | cur r' a where "dict_get (table w) (key_of r) = Some cur" "claim_of cur = Some c" "key_of r' = key_of r"
      "claim_of r' = None" "table w' = dict_set (key_of r) r' (table w)" "log w' = dict_append (key_of r) a (log w)"
      "\<forall>as. consistent r as \<longrightarrow> consistent r' (as @ [a])" by blast
  then show ?thesis
  proof cases
    case 1
    with lease_inv_later [OF inv later] show ?thesis by simp
  next
    case 2
    have "cur = r" using 2 c held inv by (auto simp: lease_inv_def)
    with 2 inv have "consistent r (entries (log w) (key_of r))" by (auto simp: lease_inv_def)
    with 2 show ?thesis
      by (auto intro!: lease_inv_save [OF lease_inv_later [OF inv later]])
  qed
qed

text \<open>A worker whose claim is no longer the stored one changes nothing.\<close>

lemma superseded_delivery:
  assumes "deliver r w w'" "claim_of r = Some c"
    and "\<And>cur. dict_get (table w) (key_of r) = Some cur \<Longrightarrow> claim_of cur \<noteq> Some c"
  shows "table w' = table w \<and> log w' = log w"
  using deliver_cases [OF assms(1,2)] assms(3) by blast

end

section \<open>The two queues\<close>

text \<open>
  What a record's attempt log says of it: attempts are numbered from 1, every attempt but the last
  was to be retried, and the status is the last outcome.  \<open>queued\<close>, \<open>delivered\<close> and so on are given
  by the queue.
\<close>

definition log_agrees :: "int \<Rightarrow> string \<Rightarrow> int list \<Rightarrow> string list \<Rightarrow> int \<Rightarrow> string \<Rightarrow> bool" where
  "log_agrees max_attempts success numbers outcomes attempt_count expected \<longleftrightarrow>
     attempt_count = int (length outcomes) \<and> numbers = map int [1..<Suc (length outcomes)] \<and>
     (if outcomes = [] then expected = ''queued''
      else last outcomes = expected \<and> expected \<in> {success, ''retry_scheduled'', ''failed''} \<and>
        (\<forall>s \<in> set (butlast outcomes). s = ''retry_scheduled'') \<and>
        attempt_count \<le> max_attempts \<and> (expected = ''retry_scheduled'' \<longrightarrow> attempt_count < max_attempts))"

lemma log_agrees_snoc:
  assumes "log_agrees mx s ns os n e" "e \<in> {''queued'', ''retry_scheduled''}" "1 \<le> mx"
    and "m = n + 1" "e' \<in> {s, ''retry_scheduled'', ''failed''}" "e' = ''retry_scheduled'' \<longrightarrow> m < mx"
    and "s \<notin> {''queued'', ''retry_scheduled''}"
  shows "log_agrees mx s (ns @ [m]) (os @ [e']) m e'"
proof -
  have "\<forall>x \<in> set os. x = ''retry_scheduled''"
    using assms(1,2,7) by (cases os rule: rev_cases) (auto simp: log_agrees_def)
  moreover have "n < mx" using assms(1-3,7) by (auto simp: log_agrees_def split: if_splits)
  moreover have "n = int (length os)" "ns = map int [1..<Suc (length os)]" using assms(1) by (auto simp: log_agrees_def)
  ultimately show ?thesis using assms(4-6) by (auto simp: log_agrees_def)
qed

definition notification_agrees :: "int \<Rightarrow> notification_record \<Rightarrow> notification_attempt list \<Rightarrow> bool" where
  "notification_agrees max_attempts n as \<longleftrightarrow>
     (nt_dispatch_claim_id n \<noteq> None \<longrightarrow> nt_status n \<in> {NQUEUED, NRETRY_SCHEDULED}) \<and>
     log_agrees max_attempts ''delivered'' (map na_attempt_number as) (map na_outcome as) (nt_attempt_count n)
       (if nt_status n = NACKNOWLEDGED then ''delivered'' else notification_status_value (nt_status n))"

definition action_agrees :: "int \<Rightarrow> action_dispatch_record \<Rightarrow> action_dispatch_attempt list \<Rightarrow> bool" where
  "action_agrees max_attempts a as \<longleftrightarrow>
     (ad_dispatch_claim_id a \<noteq> None \<longrightarrow> ad_status a \<in> {AQUEUED, ARETRY_SCHEDULED}) \<and>
     log_agrees max_attempts ''dispatched'' (map aa_attempt_number as) (map aa_outcome as) (ad_attempt_count a)
       (action_status_value (ad_status a))"

lemma now_or_run:
  obtains ts k where "now_or h now w = (Inr ts, w\<lparr>run_reads := k\<rparr>)"
proof (cases now)
  case None
  then show ?thesis using that by (simp add: prog_simps)
next
  case (Some n)
  then show ?thesis using that [of n "run_reads w"] by (simp add: prog_simps)
qed

section \<open>One delivery\<close>

text \<open>The two delivery functions have one body; the lemma about it is proved once.\<close>

definition deliver_once ::
  "'h host_scheme \<Rightarrow> ('r \<Rightarrow> bool) \<Rightarrow> ('r \<Rightarrow> datetime) \<Rightarrow> ('r \<Rightarrow> datetime option) \<Rightarrow> ('r \<Rightarrow> uuid option) \<Rightarrow>
    (datetime \<Rightarrow> 'r \<Rightarrow> 'r \<times> (uuid \<Rightarrow> 'a)) \<Rightarrow> ('a \<Rightarrow> unit result) \<Rightarrow> ('r \<Rightarrow> 'a \<Rightarrow> uuid \<Rightarrow> 'r option act) \<Rightarrow>
    ('r \<Rightarrow> 'a \<Rightarrow> 'r act) \<Rightarrow> datetime option \<Rightarrow> 'r \<Rightarrow> 'r act" where
  "deliver_once h is_open next_at expires_of claim_of attempt valid finish save now r =
     (if \<not> is_open r then ret r
      else bindP (now_or h now) (\<lambda>ts.
        if next_at r > ts then ret r
        else if (case expires_of r of None \<Rightarrow> False | Some e \<Rightarrow> e \<le> ts) then ret r
        else bindP (uuid4 h) (\<lambda>i. case valid (snd (attempt ts r) i) of
            Inl e \<Rightarrow> throw e
          | Inr _ \<Rightarrow> (case claim_of r of
              Some c \<Rightarrow> bindP (finish (fst (attempt ts r)) (snd (attempt ts r) i) c) (\<lambda>completed.
                ret (case completed of Some x \<Rightarrow> x | None \<Rightarrow> fst (attempt ts r)))
            | None \<Rightarrow> save (fst (attempt ts r)) (snd (attempt ts r) i)))))"

lemma deliver_once_cases:
  fixes table :: "world \<Rightarrow> (uuid, 'r) dict" and log :: "world \<Rightarrow> (uuid, 'a list) dict"
  assumes run: "deliver_once h is_open next_at expires_of claim_of attempt valid finish save now r w = (res, w')"
    and c: "claim_of r = Some c"
    and frame: "\<And>i j. table (w\<lparr>run_reads := i, run_draws := j\<rparr>) = table w"
      "\<And>i j. log (w\<lparr>run_reads := i, run_draws := j\<rparr>) = log w"
      "\<And>i. table (w\<lparr>run_reads := i\<rparr>) = table w" "\<And>i. log (w\<lparr>run_reads := i\<rparr>) = log w"
    and finish: "\<And>x a w. finish x a c w = (case dict_get (table w) (key_of x) of None \<Rightarrow> (Inr None, w)
        | Some cur \<Rightarrow> if claim_of cur \<noteq> Some c then (Inr None, w) else (Inr (Some (release x)), commit x a w))"
    and commit: "\<And>x a w. table (commit x a w) = dict_set (key_of x) (release x) (table w)"
      "\<And>x a w. log (commit x a w) = dict_append (log_key a) a (log w)"
      "\<And>x a w. run_draws (commit x a w) = run_draws w"
    and release: "\<And>x. key_of (release x) = key_of x" "\<And>x. claim_of (release x) = None"
    and attempt: "\<And>ts i. key_of (fst (attempt ts r)) = key_of r"
      "\<And>ts i. log_key (snd (attempt ts r) i) = key_of r"
      "\<And>ts i as. is_open r \<Longrightarrow> consistent r as \<Longrightarrow>
         consistent (release (fst (attempt ts r))) (as @ [snd (attempt ts r) i])"
  shows "run_draws w \<le> run_draws w' \<and>
    (table w' = table w \<and> log w' = log w \<or>
     (\<exists>cur r' a. dict_get (table w) (key_of r) = Some cur \<and> claim_of cur = Some c \<and>
        key_of r' = key_of r \<and> claim_of r' = None \<and> table w' = dict_set (key_of r) r' (table w) \<and>
        log w' = dict_append (key_of r) a (log w) \<and> (\<forall>as. consistent r as \<longrightarrow> consistent r' (as @ [a]))))"
proof -
  obtain ts k where ts: "now_or h now w = (Inr ts, w\<lparr>run_reads := k\<rparr>)" by (rule now_or_run)
  define i where "i = host_uuid4 h (run_draws w)"
  define x where "x = fst (attempt ts r)"
  define a where "a = snd (attempt ts r) i"
  define w2 where "w2 = w\<lparr>run_reads := k, run_draws := Suc (run_draws w)\<rparr>"
  have w2: "table w2 = table w" "log w2 = log w" "run_draws w2 = Suc (run_draws w)" by (simp_all add: w2_def frame)
  have eq: "deliver_once h is_open next_at expires_of claim_of attempt valid finish save now r w =
      (if \<not> is_open r then (Inr r, w)
       else if next_at r > ts then (Inr r, w\<lparr>run_reads := k\<rparr>)
       else if (case expires_of r of None \<Rightarrow> False | Some e \<Rightarrow> e \<le> ts) then (Inr r, w\<lparr>run_reads := k\<rparr>)
       else case valid a of Inl e \<Rightarrow> (Inl e, w2)
       | Inr _ \<Rightarrow> bindP (finish x a c) (\<lambda>d. ret (case d of Some y \<Rightarrow> y | None \<Rightarrow> x)) w2)"
    by (simp add: deliver_once_def bindP_app [of "now_or h now"] ts c ret_app throw_app uuid4_app bindP_app [of "uuid4 h"]
      a_def i_def x_def w2_def split: sum.splits cong: option.case_cong)
  show ?thesis
  proof (cases "is_open r \<and> \<not> next_at r > ts \<and> \<not> (case expires_of r of None \<Rightarrow> False | Some e \<Rightarrow> e \<le> ts) \<and>
      \<not> isl (valid a) \<and> (\<exists>cur. dict_get (table w) (key_of r) = Some cur \<and> claim_of cur = Some c)")
    case True
    then obtain cur where cur: "dict_get (table w) (key_of r) = Some cur" "claim_of cur = Some c" by blast
    have b: "bindP (finish x a c) (\<lambda>d. ret (case d of Some y \<Rightarrow> y | None \<Rightarrow> x)) w2 = (res, w')"
      using True run eq by (auto simp: isl_def split: sum.splits)
    then have w': "w' = commit x a w2"
      using cur by (simp add: bindP_app ret_app finish w2 x_def attempt(1) split: option.splits)
    have "\<forall>as. consistent r as \<longrightarrow> consistent (release x) (as @ [a])" using attempt(3) True by (simp add: x_def a_def)
    moreover have "table w' = dict_set (key_of r) (release x) (table w)" "log w' = dict_append (key_of r) a (log w)"
      by (simp_all add: w' commit w2) (simp_all add: x_def a_def attempt)
    moreover have "key_of (release x) = key_of r" by (simp add: release(1) x_def attempt(1))
    moreover have "run_draws w \<le> run_draws w'" by (simp add: w' commit(3) w2(3))
    ultimately show ?thesis using cur release(2) [of x] by blast
  next
    case False
    have stays: "bindP (finish x a c) (\<lambda>d. ret (case d of Some y \<Rightarrow> y | None \<Rightarrow> x)) w2 = (res, w') \<Longrightarrow>
        (\<And>cur. dict_get (table w) (key_of r) = Some cur \<Longrightarrow> claim_of cur \<noteq> Some c) \<Longrightarrow> w' = w2"
      by (auto simp: bindP_app ret_app finish w2 x_def attempt(1) split: option.splits)
    have "w' \<in> {w, w\<lparr>run_reads := k\<rparr>, w2}"
      using run False stays unfolding eq by (cases "valid a") (simp_all split: if_split_asm)
    then show ?thesis using w2 frame by auto
  qed
qed

lemma settle_notification_fields:
  assumes "settle_notification mx ts result n = (n', outcome)"
  shows "nt_notification_id n' = nt_notification_id n" "nt_attempt_count n' = nt_attempt_count n + 1"
    "notification_status_value (nt_status n') = outcome"
    "nt_status n' \<in> {NDELIVERED, NRETRY_SCHEDULED, NFAILED}"
    "nt_status n' = NRETRY_SCHEDULED \<Longrightarrow> nt_attempt_count n' < mx"
  using assms by (auto simp: settle_notification_def Let_def split: if_splits)

lemma settle_action_fields:
  assumes "settle_action mx ts result a = (a', outcome)"
  shows "ad_action_dispatch_id a' = ad_action_dispatch_id a" "ad_attempt_count a' = ad_attempt_count a + 1"
    "action_status_value (ad_status a') = outcome"
    "ad_status a' \<in> {ADISPATCHED, ARETRY_SCHEDULED, AFAILED}"
    "ad_status a' = ARETRY_SCHEDULED \<Longrightarrow> ad_attempt_count a' < mx"
  using assms by (auto simp: settle_action_def Let_def split: if_splits)

text \<open>The pair of an updated record and its attempt, as the two functions build it.\<close>

definition notification_attempt_of ::
  "(notification_record \<Rightarrow> delivery_result result) \<Rightarrow> int \<Rightarrow> datetime \<Rightarrow> notification_record \<Rightarrow>
    notification_record \<times> (uuid \<Rightarrow> notification_attempt)" where
  "notification_attempt_of send mx ts n =
     (let result = (case send n of Inr r \<Rightarrow> r
            | Inl _ \<Rightarrow> \<lparr>dl_delivered = False, dl_provider_message_reference = None,
                        dl_error_code = Some ''sender_exception''\<rparr>);
          (n1, outcome) = settle_notification mx ts result n
      in (n1, \<lambda>i. \<lparr>na_attempt_id = i, na_notification_id = nt_notification_id n1,
            na_attempt_number = nt_attempt_count n1, na_attempted_at = ts, na_outcome = outcome,
            na_provider_message_reference = dl_provider_message_reference result,
            na_error_code = dl_error_code result\<rparr>))"

definition action_attempt_of ::
  "(action_dispatch_record \<Rightarrow> action_dispatch_result result) \<Rightarrow> int \<Rightarrow> datetime \<Rightarrow> action_dispatch_record \<Rightarrow>
    action_dispatch_record \<times> (uuid \<Rightarrow> action_dispatch_attempt)" where
  "action_attempt_of send mx ts a =
     (let result = (case send a of Inr r \<Rightarrow> r
            | Inl _ \<Rightarrow> \<lparr>ares_dispatched = False, ares_external_reference = None,
                        ares_error_code = Some ''action_sender_exception''\<rparr>);
          (a1, outcome) = settle_action mx ts result a
      in (a1, \<lambda>i. \<lparr>aa_attempt_id = i, aa_action_dispatch_id = ad_action_dispatch_id a1,
            aa_attempt_number = ad_attempt_count a1, aa_attempted_at = ts, aa_outcome = outcome,
            aa_external_reference = ares_external_reference result,
            aa_error_code = ares_error_code result\<rparr>))"

lemma case_check:
  "(case (if b then Inr x else Inl e) of Inl e' \<Rightarrow> f e' | Inr y \<Rightarrow> g y) = (if \<not> b then f e else g x)"
  by simp

lemma deliver_notification_once:
  "deliver_notification h send mx now n =
     deliver_once h (\<lambda>n. nt_status n \<in> {NQUEUED, NRETRY_SCHEDULED}) nt_next_attempt_at nt_dispatch_claim_expires_at
       nt_dispatch_claim_id (notification_attempt_of send mx)
       (\<lambda>a. if valid_notification_attempt a then Inr () else Inl (ValidationError ''NotificationAttempt''))
       complete_notification_delivery
       (\<lambda>n a. thenP (modify (save_notification n)) (thenP (modify (record_notification_attempt a)) (ret n))) now n"
  by (simp add: deliver_notification_def deliver_once_def notification_attempt_of_def Let_def case_prod_beta
      case_check cong: option.case_cong if_cong split del: if_split)

lemma dispatch_approved_action_once:
  "dispatch_approved_action h send mx now a =
     deliver_once h (\<lambda>a. ad_status a \<in> {AQUEUED, ARETRY_SCHEDULED}) ad_next_attempt_at ad_dispatch_claim_expires_at
       ad_dispatch_claim_id (action_attempt_of send mx)
       (\<lambda>a. if valid_action_dispatch_attempt a then Inr () else Inl (ValidationError ''ActionDispatchAttempt''))
       complete_action_dispatch
       (\<lambda>a t. thenP (modify (save_action_dispatch a)) (thenP (modify (record_action_dispatch_attempt t)) (ret a))) now a"
  by (simp add: dispatch_approved_action_def deliver_once_def action_attempt_of_def Let_def case_prod_beta
      case_check cong: option.case_cong if_cong split del: if_split)

lemma notification_agrees_snoc:
  assumes "notification_agrees mx n as" "nt_status n \<in> {NQUEUED, NRETRY_SCHEDULED}" "1 \<le> mx"
    and "nt_status n' \<in> {NDELIVERED, NRETRY_SCHEDULED, NFAILED}" "nt_attempt_count n' = nt_attempt_count n + 1"
    and "nt_status n' = NRETRY_SCHEDULED \<Longrightarrow> nt_attempt_count n' < mx"
    and "na_attempt_number a = nt_attempt_count n'" "na_outcome a = notification_status_value (nt_status n')"
    and "nt_dispatch_claim_id n' = None"
  shows "notification_agrees mx n' (as @ [a])"
proof -
  have "log_agrees mx ''delivered'' (map na_attempt_number as @ [nt_attempt_count n'])
      (map na_outcome as @ [notification_status_value (nt_status n')]) (nt_attempt_count n')
      (notification_status_value (nt_status n'))"
    by (rule log_agrees_snoc [OF assms(1) [unfolded notification_agrees_def, THEN conjunct2]]) (use assms(2-6) in auto)
  with assms(4,7,8,9) show ?thesis by (auto simp: notification_agrees_def)
qed

lemma action_agrees_snoc:
  assumes "action_agrees mx n as" "ad_status n \<in> {AQUEUED, ARETRY_SCHEDULED}" "1 \<le> mx"
    and "ad_status n' \<in> {ADISPATCHED, ARETRY_SCHEDULED, AFAILED}" "ad_attempt_count n' = ad_attempt_count n + 1"
    and "ad_status n' = ARETRY_SCHEDULED \<Longrightarrow> ad_attempt_count n' < mx"
    and "aa_attempt_number a = ad_attempt_count n'" "aa_outcome a = action_status_value (ad_status n')"
    and "ad_dispatch_claim_id n' = None"
  shows "action_agrees mx n' (as @ [a])"
proof -
  have "log_agrees mx ''dispatched'' (map aa_attempt_number as @ [ad_attempt_count n'])
      (map aa_outcome as @ [action_status_value (ad_status n')]) (ad_attempt_count n')
      (action_status_value (ad_status n'))"
    by (rule log_agrees_snoc [OF assms(1) [unfolded action_agrees_def, THEN conjunct2]]) (use assms(2-6) in auto)
  with assms(7,8,9) show ?thesis by (simp add: action_agrees_def)
qed

definition release_notification :: "notification_record \<Rightarrow> notification_record" where
  "release_notification n = n\<lparr>nt_dispatch_claim_id := None, nt_dispatch_claimed_by := None,
     nt_dispatch_claimed_at := None, nt_dispatch_claim_expires_at := None\<rparr>"

definition release_action :: "action_dispatch_record \<Rightarrow> action_dispatch_record" where
  "release_action a = a\<lparr>ad_dispatch_claim_id := None, ad_dispatch_claimed_by := None,
     ad_dispatch_claimed_at := None, ad_dispatch_claim_expires_at := None\<rparr>"

lemma deliver_notification_cases:
  assumes run: "deliver_notification h send mx now n w = (res, w')" and c: "nt_dispatch_claim_id n = Some c"
    and mx: "1 \<le> mx"
  shows "run_draws w \<le> run_draws w' \<and>
    (db_notifications w' = db_notifications w \<and> db_notification_attempts w' = db_notification_attempts w \<or>
     (\<exists>cur n' a. dict_get (db_notifications w) (nt_notification_id n) = Some cur \<and>
        nt_dispatch_claim_id cur = Some c \<and> nt_notification_id n' = nt_notification_id n \<and>
        nt_dispatch_claim_id n' = None \<and>
        db_notifications w' = dict_set (nt_notification_id n) n' (db_notifications w) \<and>
        db_notification_attempts w' = dict_append (nt_notification_id n) a (db_notification_attempts w) \<and>
        (\<forall>as. notification_agrees mx n as \<longrightarrow> notification_agrees mx n' (as @ [a]))))"
proof (rule deliver_once_cases [OF run [unfolded deliver_notification_once] c, where release = release_notification
      and log_key = na_notification_id and commit = "\<lambda>x a w. w\<lparr>
        db_notifications := dict_set (nt_notification_id x) (release_notification x) (db_notifications w),
        db_notification_attempts := dict_append (na_notification_id a) a (db_notification_attempts w)\<rparr>"])
  fix ts i
  obtain n1 outcome where settle: "settle_notification mx ts (case send n of Inr r \<Rightarrow> r
      | Inl _ \<Rightarrow> \<lparr>dl_delivered = False, dl_provider_message_reference = None,
                  dl_error_code = Some ''sender_exception''\<rparr>) n = (n1, outcome)" by fastforce
  note fields = settle_notification_fields [OF settle]
  show "nt_notification_id (fst (notification_attempt_of send mx ts n)) = nt_notification_id n"
    and "na_notification_id (snd (notification_attempt_of send mx ts n) i) = nt_notification_id n"
    using fields by (simp_all add: notification_attempt_of_def Let_def settle)
  show "notification_agrees mx (release_notification (fst (notification_attempt_of send mx ts n)))
      (as @ [snd (notification_attempt_of send mx ts n) i])"
    if "nt_status n \<in> {NQUEUED, NRETRY_SCHEDULED}" "notification_agrees mx n as" for as
    by (rule notification_agrees_snoc [OF that(2,1) mx])
      (use fields in \<open>simp_all add: notification_attempt_of_def Let_def settle release_notification_def\<close>)
qed (simp_all add: complete_notification_delivery_def release_notification_def prog_simps Let_def fun_eq_iff
      split: option.splits)

lemma dispatch_action_cases:
  assumes run: "dispatch_approved_action h send mx now n w = (res, w')" and c: "ad_dispatch_claim_id n = Some c"
    and mx: "1 \<le> mx"
  shows "run_draws w \<le> run_draws w' \<and>
    (db_action_dispatches w' = db_action_dispatches w \<and>
       db_action_dispatch_attempts w' = db_action_dispatch_attempts w \<or>
     (\<exists>cur n' a. dict_get (db_action_dispatches w) (ad_action_dispatch_id n) = Some cur \<and>
        ad_dispatch_claim_id cur = Some c \<and> ad_action_dispatch_id n' = ad_action_dispatch_id n \<and>
        ad_dispatch_claim_id n' = None \<and>
        db_action_dispatches w' = dict_set (ad_action_dispatch_id n) n' (db_action_dispatches w) \<and>
        db_action_dispatch_attempts w' =
          dict_append (ad_action_dispatch_id n) a (db_action_dispatch_attempts w) \<and>
        (\<forall>as. action_agrees mx n as \<longrightarrow> action_agrees mx n' (as @ [a]))))"
proof (rule deliver_once_cases [OF run [unfolded dispatch_approved_action_once] c, where release = release_action
      and log_key = aa_action_dispatch_id and commit = "\<lambda>x a w. w\<lparr>
        db_action_dispatches := dict_set (ad_action_dispatch_id x) (release_action x) (db_action_dispatches w),
        db_action_dispatch_attempts := dict_append (aa_action_dispatch_id a) a (db_action_dispatch_attempts w)\<rparr>"])
  fix ts i
  obtain n1 outcome where settle: "settle_action mx ts (case send n of Inr r \<Rightarrow> r
      | Inl _ \<Rightarrow> \<lparr>ares_dispatched = False, ares_external_reference = None,
                  ares_error_code = Some ''action_sender_exception''\<rparr>) n = (n1, outcome)" by fastforce
  note fields = settle_action_fields [OF settle]
  show "ad_action_dispatch_id (fst (action_attempt_of send mx ts n)) = ad_action_dispatch_id n"
    and "aa_action_dispatch_id (snd (action_attempt_of send mx ts n) i) = ad_action_dispatch_id n"
    using fields by (simp_all add: action_attempt_of_def Let_def settle)
  show "action_agrees mx (release_action (fst (action_attempt_of send mx ts n)))
      (as @ [snd (action_attempt_of send mx ts n) i])"
    if "ad_status n \<in> {AQUEUED, ARETRY_SCHEDULED}" "action_agrees mx n as" for as
    by (rule action_agrees_snoc [OF that(2,1) mx])
      (use fields in \<open>simp_all add: action_attempt_of_def Let_def settle release_action_def\<close>)
qed (simp_all add: complete_action_dispatch_def release_action_def prog_simps Let_def fun_eq_iff
      split: option.splits)

section \<open>Interpretations\<close>

lemma lease_free_due:
  "notification_claimable t now n \<Longrightarrow> lease_free (nt_dispatch_claim_expires_at n) now"
  "action_claimable t now a \<Longrightarrow> lease_free (ad_dispatch_claim_expires_at a) now"
  by (simp_all add: notification_claimable_def action_claimable_def)

interpretation nq: outbox h db_notifications db_notification_attempts put_notification notification_claimable
    lease_notification "claim_due_notifications h"
    "\<lambda>n w w'. 1 \<le> mx \<and> (\<exists>send now res. deliver_notification h send mx now n w = (res, w'))"
    nt_notification_id nt_dispatch_claim_id nt_dispatch_claim_expires_at "notification_agrees mx" for h mx
proof unfold_locales
  fix r w w' c
  assume "1 \<le> mx \<and> (\<exists>send now res. deliver_notification h send mx now r w = (res, w'))" "nt_dispatch_claim_id r = Some c"
  then show "run_draws w \<le> run_draws w' \<and>
        (db_notifications w' = db_notifications w \<and> db_notification_attempts w' = db_notification_attempts w \<or>
         (\<exists>cur r' a. dict_get (db_notifications w) (nt_notification_id r) = Some cur \<and> nt_dispatch_claim_id cur = Some c \<and>
            nt_notification_id r' = nt_notification_id r \<and> nt_dispatch_claim_id r' = None \<and>
            db_notifications w' = dict_set (nt_notification_id r) r' (db_notifications w) \<and>
            db_notification_attempts w' = dict_append (nt_notification_id r) a (db_notification_attempts w) \<and>
            (\<forall>as. notification_agrees mx r as \<longrightarrow> notification_agrees mx r' (as @ [a]))))"
    using deliver_notification_cases by blast
qed (simp_all add: put_notification_def lease_notification_def claim_due_notifications_def lease_free_due
      notification_agrees_def notification_claimable_def)

interpretation aq: outbox h db_action_dispatches db_action_dispatch_attempts put_action action_claimable
    lease_action "claim_due_action_dispatches h"
    "\<lambda>a w w'. 1 \<le> mx \<and> (\<exists>send now res. dispatch_approved_action h send mx now a w = (res, w'))"
    ad_action_dispatch_id ad_dispatch_claim_id ad_dispatch_claim_expires_at "action_agrees mx" for h mx
proof unfold_locales
  fix r w w' c
  assume "1 \<le> mx \<and> (\<exists>send now res. dispatch_approved_action h send mx now r w = (res, w'))" "ad_dispatch_claim_id r = Some c"
  then show "run_draws w \<le> run_draws w' \<and>
        (db_action_dispatches w' = db_action_dispatches w \<and> db_action_dispatch_attempts w' = db_action_dispatch_attempts w \<or>
         (\<exists>cur r' a. dict_get (db_action_dispatches w) (ad_action_dispatch_id r) = Some cur \<and> ad_dispatch_claim_id cur = Some c \<and>
            ad_action_dispatch_id r' = ad_action_dispatch_id r \<and> ad_dispatch_claim_id r' = None \<and>
            db_action_dispatches w' = dict_set (ad_action_dispatch_id r) r' (db_action_dispatches w) \<and>
            db_action_dispatch_attempts w' = dict_append (ad_action_dispatch_id r) a (db_action_dispatch_attempts w) \<and>
            (\<forall>as. action_agrees mx r as \<longrightarrow> action_agrees mx r' (as @ [a]))))"
    using dispatch_action_cases by blast
qed (simp_all add: put_action_def lease_action_def claim_due_action_dispatches_def lease_free_due
      action_agrees_def action_claimable_def)

section \<open>Runs\<close>

text \<open>
  Every history of a queue: enqueueing under a fresh identifier, claims by any worker at any
  instant (the workers' clocks need not agree), deliveries of held copies with any sender,
  acknowledgement of what was delivered, and any step of the service that leaves the queue alone.
\<close>

inductive notification_run :: "'h host_scheme \<Rightarrow> int \<Rightarrow> world \<Rightarrow> notification_record set \<Rightarrow> bool" for h mx where
  start: "db_notifications w = [] \<Longrightarrow> db_notification_attempts w = [] \<Longrightarrow> notification_run h mx w {}"
| enqueue: "notification_run h mx w held \<Longrightarrow> nt_status n = NQUEUED \<Longrightarrow> nt_attempt_count n = 0 \<Longrightarrow>
    nt_dispatch_claim_id n = None \<Longrightarrow> dict_get (db_notifications w) (nt_notification_id n) = None \<Longrightarrow>
    notification_run h mx (save_notification n w) held"
| claim: "notification_run h mx w held \<Longrightarrow> claim_due_notifications h tenant worker ttl now limit w = (Inr ns, w') \<Longrightarrow>
    notification_run h mx w' (held \<union> set ns)"
| deliver: "notification_run h mx w held \<Longrightarrow> n \<in> held \<Longrightarrow>
    deliver_notification h send mx now n w = (res, w') \<Longrightarrow> notification_run h mx w' held"
| acknowledge: "notification_run h mx w held \<Longrightarrow> dict_get (db_notifications w) (nt_notification_id n) = Some n \<Longrightarrow>
    nt_status n = NDELIVERED \<Longrightarrow> notification_run h mx (save_notification (n\<lparr>nt_status := NACKNOWLEDGED,
      nt_acknowledged_at := Some t, nt_acknowledgement_actor_id := Some actor, nt_updated_at := t\<rparr>) w) held"
| elsewhere: "notification_run h mx w held \<Longrightarrow> db_notifications w' = db_notifications w \<Longrightarrow>
    db_notification_attempts w' = db_notification_attempts w \<Longrightarrow> run_draws w \<le> run_draws w' \<Longrightarrow>
    notification_run h mx w' held"

inductive action_run :: "'h host_scheme \<Rightarrow> int \<Rightarrow> world \<Rightarrow> action_dispatch_record set \<Rightarrow> bool" for h mx where
  start: "db_action_dispatches w = [] \<Longrightarrow> db_action_dispatch_attempts w = [] \<Longrightarrow> action_run h mx w {}"
| enqueue: "action_run h mx w held \<Longrightarrow> ad_status a = AQUEUED \<Longrightarrow> ad_attempt_count a = 0 \<Longrightarrow>
    ad_dispatch_claim_id a = None \<Longrightarrow> dict_get (db_action_dispatches w) (ad_action_dispatch_id a) = None \<Longrightarrow>
    action_run h mx (save_action_dispatch a w) held"
| claim: "action_run h mx w held \<Longrightarrow> claim_due_action_dispatches h tenant worker ttl now limit w = (Inr as, w') \<Longrightarrow>
    action_run h mx w' (held \<union> set as)"
| deliver: "action_run h mx w held \<Longrightarrow> a \<in> held \<Longrightarrow>
    dispatch_approved_action h send mx now a w = (res, w') \<Longrightarrow> action_run h mx w' held"
| elsewhere: "action_run h mx w held \<Longrightarrow> db_action_dispatches w' = db_action_dispatches w \<Longrightarrow>
    db_action_dispatch_attempts w' = db_action_dispatch_attempts w \<Longrightarrow> run_draws w \<le> run_draws w' \<Longrightarrow>
    action_run h mx w' held"

lemma log_agrees_fresh: "log_agrees mx s [] [] 0 ''queued''"
  by (simp add: log_agrees_def)

abbreviation notification_inv :: "'h host_scheme \<Rightarrow> int \<Rightarrow> world \<Rightarrow> notification_record set \<Rightarrow> bool" where
  "notification_inv h mx w held \<equiv> lease_inv (host_uuid4 h) nt_notification_id nt_dispatch_claim_id
     (notification_agrees mx) (run_draws w) (db_notifications w) (db_notification_attempts w) held"

abbreviation action_inv :: "'h host_scheme \<Rightarrow> int \<Rightarrow> world \<Rightarrow> action_dispatch_record set \<Rightarrow> bool" where
  "action_inv h mx w held \<equiv> lease_inv (host_uuid4 h) ad_action_dispatch_id ad_dispatch_claim_id
     (action_agrees mx) (run_draws w) (db_action_dispatches w) (db_action_dispatch_attempts w) held"

lemma save_draws [simp]:
  "run_draws (save_notification n w) = run_draws w" "run_draws (save_action_dispatch a w) = run_draws w"
  by (simp_all add: save_notification_def save_action_dispatch_def)

lemma deliver_draws:
  "deliver_notification h send mx now n w = (res, w') \<Longrightarrow> run_draws w \<le> run_draws w'"
  "dispatch_approved_action h send' mx now a w = (res', w') \<Longrightarrow> run_draws w \<le> run_draws w'"
  by (cases now; auto simp: deliver_notification_def dispatch_approved_action_def prog_simps Let_def
      complete_notification_delivery_def complete_action_dispatch_def save_notification_def save_action_dispatch_def
      record_notification_attempt_def record_action_dispatch_attempt_def
      split: if_splits option.splits prod.splits sum.splits)+

lemma notification_run_inv:
  assumes "notification_run h mx w held" "distinct_uuids h (run_draws w)" "1 \<le> mx"
  shows "notification_inv h mx w held"
  using assms(1,2)
proof induction
  case (start w)
  then show ?case by simp
next
  case (enqueue w held n)
  then have "entries (db_notification_attempts w) (nt_notification_id n) = []" and "notification_inv h mx w held"
    by (simp_all add: lease_inv_def)
  with enqueue show ?case
    by (auto simp: save_notification_def notification_agrees_def log_agrees_fresh intro!: lease_inv_save)
next
  case (claim w held tenant worker ttl now limit ns w')
  then have "run_draws w \<le> run_draws w'" by (auto elim: nq.claim_run)
  with claim distinct_uuids_earlier show ?case by (blast intro: nq.claim_keeps_inv)
next
  case (deliver w held n send now res w')
  then have "run_draws w \<le> run_draws w'" by (blast dest: deliver_draws)
  with deliver distinct_uuids_earlier have "notification_inv h mx w held" by blast
  with deliver assms(3) show ?case by (blast intro: nq.deliver_keeps_inv)
next
  case (acknowledge w held n t actor)
  then have "notification_agrees mx n (entries (db_notification_attempts w) (nt_notification_id n))"
    and "notification_inv h mx w held" by (simp_all add: lease_inv_def)
  with acknowledge show ?case
    by (auto simp: save_notification_def notification_agrees_def intro!: lease_inv_save)
next
  case (elsewhere w held w')
  then show ?case using lease_inv_later distinct_uuids_earlier by (metis (no_types))
qed

lemma action_run_inv:
  assumes "action_run h mx w held" "distinct_uuids h (run_draws w)" "1 \<le> mx"
  shows "action_inv h mx w held"
  using assms(1,2)
proof induction
  case (start w)
  then show ?case by simp
next
  case (enqueue w held a)
  then have "entries (db_action_dispatch_attempts w) (ad_action_dispatch_id a) = []" and "action_inv h mx w held"
    by (simp_all add: lease_inv_def)
  with enqueue show ?case
    by (auto simp: save_action_dispatch_def action_agrees_def log_agrees_fresh intro!: lease_inv_save)
next
  case (claim w held tenant worker ttl now limit as w')
  then have "run_draws w \<le> run_draws w'" by (auto elim: aq.claim_run)
  with claim distinct_uuids_earlier show ?case by (blast intro: aq.claim_keeps_inv)
next
  case (deliver w held a send now res w')
  then have "run_draws w \<le> run_draws w'" by (blast dest: deliver_draws)
  with deliver distinct_uuids_earlier have "action_inv h mx w held" by blast
  with deliver assms(3) show ?case by (blast intro: aq.deliver_keeps_inv)
next
  case (elsewhere w held w')
  then show ?case using lease_inv_later distinct_uuids_earlier by (metis (no_types))
qed

lemma log_agrees_summary:
  assumes "log_agrees mx s ns os n e" "1 \<le> mx" "s \<notin> {''queued'', ''retry_scheduled'', ''failed''}"
  shows "n = int (length os) \<and> n \<le> mx \<and> ns = map int [1..<Suc (length os)] \<and> (e = ''queued'' \<longleftrightarrow> os = []) \<and>
    count_list os s = (if e = s then 1 else 0)"
proof (cases os rule: rev_cases)
  case (snoc bs b)
  have "count_list bs s = 0" using assms snoc by (auto simp: log_agrees_def count_list_0_iff)
  with assms snoc show ?thesis by (auto simp: log_agrees_def)
qed (use assms in \<open>auto simp: log_agrees_def\<close>)

section \<open>Properties\<close>

text \<open>
  C21. The attempt log of a notification is exact under every interleaving of workers, clocks and
  sender results: the attempts are numbered 1, 2, ... up to the stored attempt count, there are never
  more than the allowed attempts, and a delivery is logged once for a delivered (or acknowledged)
  notification and never for another.
\<close>

theorem notification_log_is_exact:
  assumes "notification_run h mx w held" "distinct_uuids h (run_draws w)" "1 \<le> mx"
    and "get_notification tenant k w = Some n"
  shows "map na_attempt_number (list_notification_attempts tenant k w) = map int [1..<Suc (nat (nt_attempt_count n))] \<and>
    0 \<le> nt_attempt_count n \<and> nt_attempt_count n \<le> mx \<and>
    (nt_status n = NQUEUED \<longleftrightarrow> list_notification_attempts tenant k w = []) \<and>
    count_list (map na_outcome (list_notification_attempts tenant k w)) ''delivered'' =
      (if nt_status n \<in> {NDELIVERED, NACKNOWLEDGED} then 1 else 0)"
proof -
  have n: "dict_get (db_notifications w) k = Some n" and log: "list_notification_attempts tenant k w = entries (db_notification_attempts w) k"
    using assms(4) by (auto simp: get_notification_def owned_get_def list_notification_attempts_def entries_def
      split: option.splits if_splits)
  have "notification_agrees mx n (entries (db_notification_attempts w) k)"
    using notification_run_inv [OF assms(1-3)] n by (simp add: lease_inv_def)
  from log_agrees_summary [OF this [unfolded notification_agrees_def, THEN conjunct2] assms(3)]
  show ?thesis by (cases "nt_status n") (auto simp: log)
qed

text \<open>
  C7. An approved action is recorded as dispatched at most once, and its attempt log is exact, under
  every interleaving of workers holding leases on it.
\<close>

theorem actions_are_dispatched_at_most_once:
  assumes "action_run h mx w held" "distinct_uuids h (run_draws w)" "1 \<le> mx"
    and "dict_get (db_action_dispatches w) k = Some a" "tenant = ad_tenant_id a"
  shows "map aa_attempt_number (list_action_dispatch_attempts tenant k w) = map int [1..<Suc (nat (ad_attempt_count a))] \<and>
    0 \<le> ad_attempt_count a \<and> ad_attempt_count a \<le> mx \<and>
    count_list (map aa_outcome (list_action_dispatch_attempts tenant k w)) ''dispatched'' =
      (if ad_status a = ADISPATCHED then 1 else 0)"
proof -
  have log: "list_action_dispatch_attempts tenant k w = entries (db_action_dispatch_attempts w) k"
    using assms(4,5) by (auto simp: owned_get_def list_action_dispatch_attempts_def entries_def split: option.splits)
  have "action_agrees mx a (entries (db_action_dispatch_attempts w) k)"
    using action_run_inv [OF assms(1-3)] assms(4) by (simp add: lease_inv_def)
  from log_agrees_summary [OF this [unfolded action_agrees_def, THEN conjunct2] assms(3)]
  show ?thesis by (cases "ad_status a") (auto simp: log)
qed

text \<open>
  C20. Leases exclude: while a worker's lease on a notification has not expired, no claim by any
  worker or tenant hands that notification out again, no claim returns more than its limit, and a
  worker whose lease was superseded changes neither the notification nor its log.
\<close>

theorem leases_are_exclusive:
  assumes "notification_run h mx w held" "distinct_uuids h (run_draws w)" "1 \<le> mx"
    and "claim_due_notifications h tenant worker ttl (Some t) limit w = (Inr ns, w')" "m \<in> held"
  shows "int (length ns) \<le> max 0 limit \<and>
    (dict_get (db_notifications w) (nt_notification_id m) = Some m \<and> nt_dispatch_claim_expires_at m = Some e \<and> t < e \<longrightarrow>
      nt_notification_id m \<notin> nt_notification_id ` set ns) \<and>
    (\<forall>cur send now res w''. dict_get (db_notifications w) (nt_notification_id m) = Some cur \<longrightarrow>
      nt_dispatch_claim_id cur \<noteq> nt_dispatch_claim_id m \<longrightarrow> deliver_notification h send mx now m w = (res, w'') \<longrightarrow>
      db_notifications w'' = db_notifications w \<and> db_notification_attempts w'' = db_notification_attempts w)"
proof (intro conjI impI allI)
  have inv: "notification_inv h mx w held" by (rule notification_run_inv [OF assms(1-3)])
  then have ok: "table_ok nt_notification_id (db_notifications w)" by (simp add: lease_inv_def)
  obtain c where c: "nt_dispatch_claim_id m = Some c" using inv assms(5) by (auto simp: lease_inv_def)
  show "int (length ns) \<le> max 0 limit" by (rule nq.claim_length [OF assms(4)])
  show "nt_notification_id m \<notin> nt_notification_id ` set ns"
    if "dict_get (db_notifications w) (nt_notification_id m) = Some m \<and> nt_dispatch_claim_expires_at m = Some e \<and> t < e"
    using nq.no_double_lease [OF assms(4) ok, of "nt_notification_id m" m e] that by simp
  show "db_notifications w'' = db_notifications w" "db_notification_attempts w'' = db_notification_attempts w"
    if "dict_get (db_notifications w) (nt_notification_id m) = Some cur" "nt_dispatch_claim_id cur \<noteq> nt_dispatch_claim_id m"
      "deliver_notification h send mx now m w = (res, w'')" for cur send now res w''
    using nq.superseded_delivery [of mx h m w w'' c] that c assms(3) by auto
qed

text \<open>Witnesses: one record is enqueued, claimed and delivered.\<close>

definition sample_notification :: notification_record where
  "sample_notification = \<lparr>nt_notification_id = 7, nt_tenant_id = ''t'', nt_incident_id = None,
     nt_traveler_id = ''p'', nt_channel = ''in_app'', nt_recipient_reference = ''r'', nt_subject = ''s'',
     nt_body = ''b'', nt_status = NQUEUED, nt_attempt_count = 0, nt_next_attempt_at = 0,
     nt_delivered_at = None, nt_acknowledged_at = None, nt_acknowledgement_actor_id = None,
     nt_last_error_code = None, nt_dispatch_claim_id = None, nt_dispatch_claimed_by = None,
     nt_dispatch_claimed_at = None, nt_dispatch_claim_expires_at = None, nt_created_at = 0, nt_updated_at = 0\<rparr>"

definition sample_action :: action_dispatch_record where
  "sample_action = \<lparr>ad_action_dispatch_id = 7, ad_tenant_id = ''t'', ad_incident_id = 1, ad_approval_id = 2,
     ad_action_payload = [], ad_idempotency_key = ''k'', ad_status = AQUEUED, ad_attempt_count = 0,
     ad_next_attempt_at = 0, ad_last_error_code = None, ad_dispatch_claim_id = None,
     ad_dispatch_claimed_by = None, ad_dispatch_claimed_at = None, ad_dispatch_claim_expires_at = None,
     ad_dispatched_at = None, ad_created_at = 0, ad_updated_at = 0\<rparr>"

definition sample_sender :: "notification_record \<Rightarrow> delivery_result result" where
  "sample_sender n = Inr \<lparr>dl_delivered = True, dl_provider_message_reference = None, dl_error_code = None\<rparr>"

definition leased_notification :: notification_record where
  "leased_notification = lease_notification ''w'' 0 300 0 sample_notification"

definition leased_world :: world where
  "leased_world = empty_world\<lparr>run_draws := 1, db_notifications := [(7, leased_notification)]\<rparr>"

definition leased_action :: action_dispatch_record where
  "leased_action = lease_action ''w'' 0 300 0 sample_action"

definition leased_action_world :: world where
  "leased_action_world = empty_world\<lparr>run_draws := 1, db_action_dispatches := [(7, leased_action)]\<rparr>"

lemma sample_host_distinct: "n \<le> 16 \<Longrightarrow> distinct_uuids sample_host n"
proof -
  assume n: "n \<le> 16"
  have "unat (of_nat i :: uuid) = i" if "i < n" for i
    using that n by (simp add: unsigned_of_nat take_bit_nat_eq_self)
  then show ?thesis unfolding distinct_uuids_def sample_host_def by (metis host.select_convs(1))
qed

lemma leased_run: "notification_run sample_host 5 leased_world {leased_notification}"
proof -
  have "notification_run sample_host 5 (save_notification sample_notification empty_world) {}"
    by (rule notification_run.enqueue [OF notification_run.start]) (simp_all add: sample_notification_def empty_world_def)
  from notification_run.claim [OF this, of None "''w''" 300 "Some 0" 50 "[leased_notification]" leased_world]
  show ?thesis
    by (simp add: claim_due_notifications_def prog_simps save_notification_def empty_world_def sample_notification_def
      notification_claimable_def tenant_matches_def falsy_def lease_free_def leased_notification_def leased_world_def
      lease_notification_def put_notification_def sample_host_def)
qed

lemma leased_action_run: "action_run sample_host 5 leased_action_world {leased_action}"
proof -
  have "action_run sample_host 5 (save_action_dispatch sample_action empty_world) {}"
    by (rule action_run.enqueue [OF action_run.start]) (simp_all add: sample_action_def empty_world_def)
  from action_run.claim [OF this, of None "''w''" 300 "Some 0" 50 "[leased_action]" leased_action_world]
  show ?thesis
    by (simp add: claim_due_action_dispatches_def prog_simps save_action_dispatch_def empty_world_def sample_action_def
      action_claimable_def tenant_matches_def falsy_def lease_free_def leased_action_def leased_action_world_def
      lease_action_def put_action_def sample_host_def)
qed

theorem notification_log_is_exact_witness:
  "\<exists>w held n. notification_run sample_host 5 w held \<and> get_notification ''t'' 7 w = Some n \<and>
     nt_status n = NDELIVERED \<and> count_list (map na_outcome (list_notification_attempts ''t'' 7 w)) ''delivered'' = 1"
proof -
  let ?run = "deliver_notification sample_host sample_sender 5 (Some 60) leased_notification leased_world"
  obtain res w where run: "?run = (res, w)" by fastforce
  have r: "notification_run sample_host 5 w {leased_notification}"
    by (rule notification_run.deliver [OF leased_run _ run]) simp
  have "run_draws (snd ?run) = 2" "map_option nt_status (get_notification ''t'' 7 (snd ?run)) = Some NDELIVERED"
    by (simp_all add: deliver_notification_def prog_simps Let_def sample_sender_def leased_notification_def
      lease_notification_def sample_notification_def settle_notification_def valid_notification_attempt_def
      opt_len_le_def complete_notification_delivery_def leased_world_def get_notification_def owned_get_def)
  then obtain n where n: "run_draws w = 2" "get_notification ''t'' 7 w = Some n" "nt_status n = NDELIVERED"
    using run by (auto simp del: One_nat_def)
  have "distinct_uuids sample_host (run_draws w)" by (rule sample_host_distinct) (simp add: n)
  then have "count_list (map na_outcome (list_notification_attempts ''t'' 7 w)) ''delivered'' = 1"
    using notification_log_is_exact [OF r _ _ n(2)] n(3) by simp
  with r n(2,3) show ?thesis by blast
qed

theorem actions_are_dispatched_at_most_once_witness:
  "count_list (map aa_outcome (list_action_dispatch_attempts ''t'' 7 leased_action_world)) ''dispatched'' = 0"
proof -
  have d: "distinct_uuids sample_host (run_draws leased_action_world)"
    by (rule sample_host_distinct) (simp add: leased_action_world_def)
  have a: "dict_get (db_action_dispatches leased_action_world) 7 = Some leased_action" "''t'' = ad_tenant_id leased_action"
    "ad_status leased_action = AQUEUED"
    by (simp_all add: leased_action_world_def leased_action_def lease_action_def sample_action_def)
  show ?thesis using actions_are_dispatched_at_most_once [OF leased_action_run d _ a(1,2)] a(3) by simp
qed

theorem leases_are_exclusive_witness:
  "\<exists>ns w'. claim_due_notifications sample_host None ''v'' 300 (Some 299) 50 leased_world = (Inr ns, w') \<and>
     7 \<notin> nt_notification_id ` set ns"
proof -
  obtain res w' where run: "claim_due_notifications sample_host None ''v'' 300 (Some 299) 50 leased_world = (res, w')"
    by fastforce
  with nq.claim_run obtain ns where ns: "res = Inr ns" by metis
  have d: "distinct_uuids sample_host (run_draws leased_world)" by (rule sample_host_distinct) (simp add: leased_world_def)
  have "7 \<notin> nt_notification_id ` set ns"
    using leases_are_exclusive [OF leased_run d _ run [unfolded ns], of leased_notification 300]
    by (simp add: leased_world_def leased_notification_def lease_notification_def sample_notification_def)
  with run ns show ?thesis by blast
qed

end
