(* ===== verification/Privacy.thy ===== *)
theory Privacy
  imports Tenancy
begin

text \<open>
  Erasure, retention and legal holds: \<^verbatim>\<open>erase_traveler_data\<close> and \<^verbatim>\<open>purge_expired\<close> of the
  repository, the workers \<^verbatim>\<open>workers/privacy.py\<close>, \<^verbatim>\<open>workers/retention.py\<close> and
  \<^verbatim>\<open>workers/monitor_due_trips.py\<close>, and the local store of \<^verbatim>\<open>apps/api/uploads.py\<close>.
\<close>

definition count_where :: "('a \<Rightarrow> bool) \<Rightarrow> 'a list \<Rightarrow> int" where
  "count_where p xs = int (length (filter p xs))"

section \<open>Erasure of one traveler\<close>

definition traveler_trip_ids :: "string \<Rightarrow> string \<Rightarrow> world \<Rightarrow> uuid list" where
  "traveler_trip_ids tenant_id traveler_id w = [k. (k, t) \<leftarrow> db_trips w,
     trip_tenant_id t = tenant_id \<and> trip_traveler_id t = traveler_id]"

definition trip_incident_ids :: "string \<Rightarrow> uuid list \<Rightarrow> world \<Rightarrow> uuid list" where
  "trip_incident_ids tenant_id trip_ids w = [k. (k, i) \<leftarrow> db_incidents w,
     inc_tenant_id i = tenant_id \<and> inc_trip_id i \<in> set trip_ids]"

definition erase_counts :: "uuid list \<Rightarrow> uuid list \<Rightarrow> world \<Rightarrow> (string, int) dict" where
  "erase_counts trip_ids incident_ids w =
     [(''trips'', int (length trip_ids)),
      (''evidence'', count_where (\<lambda>k. k \<in> set trip_ids) (dict_keys (db_evidence w))),
      (''assessments'', count_where (\<lambda>k. k \<in> set trip_ids) (dict_keys (db_assessments w))),
      (''incidents'', int (length incident_ids))]"

text \<open>Rows hanging off incidents, which both erasure and retention delete with them.\<close>

definition drop_incident_rows :: "uuid set \<Rightarrow> world \<Rightarrow> world" where
  "drop_incident_rows incident_ids w = w\<lparr>
     db_incidents := dict_pop_all incident_ids (db_incidents w),
     db_approvals := dict_pop_all incident_ids (db_approvals w),
     db_candidate_sets := dict_filter (\<lambda>_ item. cs_incident_id (snd item) \<notin> incident_ids) (db_candidate_sets w),
     db_candidate_outcomes :=
       dict_filter (\<lambda>_ item. out_incident_id (snd item) \<notin> incident_ids) (db_candidate_outcomes w),
     db_manager_feedback := dict_filter (\<lambda>_ f. mf_incident_id f \<notin> incident_ids) (db_manager_feedback w)\<rparr>"

definition drop_action_rows :: "uuid set \<Rightarrow> world \<Rightarrow> world" where
  "drop_action_rows incident_ids w =
     (let actions = dict_filter (\<lambda>_ a. ad_incident_id a \<notin> incident_ids) (db_action_dispatches w)
      in w\<lparr>db_action_dispatches := actions,
           db_action_dispatch_attempts :=
             dict_filter (\<lambda>k _. k \<in> set (dict_keys actions)) (db_action_dispatch_attempts w)\<rparr>)"

definition erase_rows :: "string \<Rightarrow> string \<Rightarrow> uuid set \<Rightarrow> uuid set \<Rightarrow> world \<Rightarrow> world" where
  "erase_rows tenant_id traveler_id trip_ids incident_ids w =
     (let w1 = w\<lparr>db_trips := dict_pop_all trip_ids (db_trips w),
            db_trip_segments := dict_pop_all trip_ids (db_trip_segments w),
            db_evidence := dict_pop_all trip_ids (db_evidence w),
            db_assessments := dict_pop_all trip_ids (db_assessments w)\<rparr>;
          w2 = drop_incident_rows incident_ids w1;
          ns = dict_filter (\<lambda>_ n. \<not> (nt_tenant_id n = tenant_id \<and> nt_traveler_id n = traveler_id))
                 (db_notifications w2);
          w3 = w2\<lparr>db_notifications := ns, db_notification_attempts :=
                 dict_filter (\<lambda>k _. k \<in> set (dict_keys ns)) (db_notification_attempts w2)\<rparr>
      in drop_action_rows incident_ids w3)"

definition erase_traveler_data ::
  "string \<Rightarrow> string \<Rightarrow> deletion_request_scope \<Rightarrow> (string, int) dict act" where
  "erase_traveler_data tenant_id traveler_id scope =
     bindP (repo_delete_traveler_memory tenant_id traveler_id) (\<lambda>counts.
       if scope = PREFERENCE_MEMORY then ret counts
       else bindP (gets (traveler_trip_ids tenant_id traveler_id)) (\<lambda>trip_ids.
         bindP (gets (trip_incident_ids tenant_id trip_ids)) (\<lambda>incident_ids.
         bindP (gets (\<lambda>w. counts @ erase_counts trip_ids incident_ids w)) (\<lambda>counts.
         thenP (modify (erase_rows tenant_id traveler_id (set trip_ids) (set incident_ids)))
           (ret counts)))))"

section \<open>Retention\<close>

text \<open>Every hold's \<^verbatim>\<open>is_active()\<close> reads the clock for itself.\<close>

definition active_holds :: "'h host_scheme \<Rightarrow> legal_hold_record list act" where
  "active_holds h = bindP (gets (\<lambda>w. dict_values (db_legal_holds w))) (\<lambda>holds.
     bindP (for_each holds (\<lambda>x. bindP (now_utc h) (\<lambda>now. ret (x, is_active x now)))) (\<lambda>checked.
       ret [x. (x, active) \<leftarrow> checked, active]))"

definition hold_covers :: "legal_hold_record \<Rightarrow> uuid \<Rightarrow> trip \<Rightarrow> bool" where
  "hold_covers x trip_id t \<longleftrightarrow> lh_tenant_id x = trip_tenant_id t \<and>
     (lh_scope x = HOLD_TENANT \<or>
      lh_scope x = HOLD_TRAVELER \<and> lh_traveler_id x = Some (trip_traveler_id t) \<or>
      lh_scope x = HOLD_TRIP \<and> lh_trip_id x = Some trip_id)"

definition held_traveler :: "legal_hold_record list \<Rightarrow> string \<Rightarrow> string \<Rightarrow> bool" where
  "held_traveler holds tenant_id traveler_id \<longleftrightarrow> (\<exists>x \<in> set holds. lh_scope x = HOLD_TRAVELER \<and>
     truthy (lh_traveler_id x) \<and> lh_tenant_id x = tenant_id \<and> lh_traveler_id x = Some traveler_id)"

definition held_tenant :: "legal_hold_record list \<Rightarrow> string \<Rightarrow> bool" where
  "held_tenant holds tenant_id \<longleftrightarrow> (\<exists>x \<in> set holds. lh_scope x = HOLD_TENANT \<and> lh_tenant_id x = tenant_id)"

definition held :: "legal_hold_record list \<Rightarrow> string \<Rightarrow> string \<Rightarrow> bool" where
  "held holds tenant_id traveler_id \<longleftrightarrow> held_traveler holds tenant_id traveler_id \<or> held_tenant holds tenant_id"

definition expired_trip_ids :: "legal_hold_record list \<Rightarrow> datetime \<Rightarrow> world \<Rightarrow> uuid list" where
  "expired_trip_ids holds before w = [k. (k, t) \<leftarrow> db_trips w,
     trip_created_at t < before \<and> \<not> (\<exists>x \<in> set holds. hold_covers x k t)]"

definition expired_incident_ids :: "uuid list \<Rightarrow> world \<Rightarrow> uuid list" where
  "expired_incident_ids trip_ids w = [k. (k, i) \<leftarrow> db_incidents w, inc_trip_id i \<in> set trip_ids]"

definition purge_counts ::
  "legal_hold_record list \<Rightarrow> datetime \<Rightarrow> datetime \<Rightarrow> datetime \<Rightarrow> uuid list \<Rightarrow> uuid list \<Rightarrow> world \<Rightarrow>
    (string, int) dict" where
  "purge_counts holds before upload_cutoff audit_cutoff trip_ids incident_ids w =
     [(''trips'', int (length trip_ids)),
      (''evidence'', count_where (\<lambda>k. k \<in> set trip_ids) (dict_keys (db_evidence w))),
      (''assessments'', count_where (\<lambda>k. k \<in> set trip_ids) (dict_keys (db_assessments w))),
      (''incidents'', int (length incident_ids)),
      (''profiles'', count_where (\<lambda>p. prof_updated_at p < before \<and>
         \<not> held_traveler holds (prof_tenant_id p) (prof_traveler_id p) \<and> \<not> held_tenant holds (prof_tenant_id p))
         (dict_values (db_profiles w))),
      (''memory_proposals'', count_where (\<lambda>p. mp_created_at p < before \<and>
         \<not> held_traveler holds (mp_tenant_id p) (mp_traveler_id p) \<and> \<not> held_tenant holds (mp_tenant_id p))
         (dict_values (db_memory_proposals w))),
      (''notifications'', count_where (\<lambda>n. nt_created_at n < before) (dict_values (db_notifications w))),
      (''original_uploads'', count_where (\<lambda>u. up_created_at u < upload_cutoff \<and>
         \<not> held_tenant holds (up_tenant_id u)) (dict_values (db_original_uploads w))),
      (''audit_events'', count_where (\<lambda>e. evt_emitted_at e < audit_cutoff) (db_events w)),
      (''memory_audits'', count_where (\<lambda>e. mau_occurred_at e < audit_cutoff) (db_memory_audits w))]"

definition purge_rows ::
  "legal_hold_record list \<Rightarrow> datetime \<Rightarrow> datetime \<Rightarrow> datetime \<Rightarrow> uuid set \<Rightarrow> uuid set \<Rightarrow> world \<Rightarrow> world" where
  "purge_rows holds before upload_cutoff audit_cutoff trip_ids incident_ids w =
     (let w1 = w\<lparr>db_trips := dict_pop_all trip_ids (db_trips w),
            db_evidence := dict_pop_all trip_ids (db_evidence w),
            db_assessments := dict_pop_all trip_ids (db_assessments w)\<rparr>;
          w2 = drop_incident_rows incident_ids w1;
          w3 = w2\<lparr>db_profiles := dict_filter (\<lambda>key p. prof_updated_at p \<ge> before \<or>
                   held_traveler holds (fst key) (snd key) \<or> held_tenant holds (prof_tenant_id p)) (db_profiles w2),
                 db_memory_proposals := dict_filter (\<lambda>_ p. mp_created_at p \<ge> before \<or>
                   held_traveler holds (mp_tenant_id p) (mp_traveler_id p) \<or> held_tenant holds (mp_tenant_id p))
                   (db_memory_proposals w2)\<rparr>;
          gone = {k. \<exists>n. (k, n) \<in> set (db_notifications w3) \<and> nt_created_at n < before};
          w4 = w3\<lparr>db_notifications := dict_pop_all gone (db_notifications w3),
                 db_notification_attempts := dict_pop_all gone (db_notification_attempts w3),
                 db_original_uploads := dict_filter (\<lambda>_ u. up_created_at u \<ge> upload_cutoff \<or>
                   held_tenant holds (up_tenant_id u)) (db_original_uploads w3)\<rparr>;
          w5 = drop_action_rows incident_ids w4
      in w5\<lparr>db_events := filter (\<lambda>e. evt_emitted_at e \<ge> audit_cutoff) (db_events w5),
            db_memory_audits := filter (\<lambda>e. mau_occurred_at e \<ge> audit_cutoff) (db_memory_audits w5),
            db_idempotency_records :=
              dict_filter (\<lambda>_ r. idem_expires_at r \<ge> before) (db_idempotency_records w5)\<rparr>)"

definition purge_expired ::
  "'h host_scheme \<Rightarrow> datetime \<Rightarrow> datetime option \<Rightarrow> datetime option \<Rightarrow> (string, int) dict act" where
  "purge_expired h before original_upload_before audit_before =
     (let upload_cutoff = (case original_upload_before of None \<Rightarrow> before | Some t \<Rightarrow> t);
          audit_cutoff = (case audit_before of None \<Rightarrow> before | Some t \<Rightarrow> t)
      in bindP (active_holds h) (\<lambda>holds.
         bindP (gets (expired_trip_ids holds before)) (\<lambda>trip_ids.
         bindP (gets (expired_incident_ids trip_ids)) (\<lambda>incident_ids.
         bindP (gets (purge_counts holds before upload_cutoff audit_cutoff trip_ids incident_ids)) (\<lambda>counts.
         thenP (modify (purge_rows holds before upload_cutoff audit_cutoff (set trip_ids) (set incident_ids)))
           (ret counts))))))"

definition run_retention ::
  "'h host_scheme \<Rightarrow> int \<Rightarrow> int \<Rightarrow> int \<Rightarrow> datetime option \<Rightarrow> (string, int) dict act" where
  "run_retention h retention_days original_upload_retention_days audit_retention_days now =
     (if min (min retention_days original_upload_retention_days) audit_retention_days < 1
      then throw (ValueError ''retention periods must be at least one day'')
      else bindP (now_or h now) (\<lambda>timestamp.
        purge_expired h (timestamp - td_days retention_days)
          (Some (timestamp - td_days original_upload_retention_days))
          (Some (timestamp - td_days audit_retention_days))))"

section \<open>Deletion requests\<close>

definition process_deletion_request ::
  "datetime \<Rightarrow> deletion_request \<Rightarrow> (deletion_request \<times> (string, int) dict) act" where
  "process_deletion_request timestamp r =
     bindP (gets (active_legal_holds_for_traveler (dr_tenant_id r) (dr_traveler_id r) timestamp)) (\<lambda>holds.
       if holds \<noteq> []
       then let r' = r\<lparr>dr_status := BLOCKED_BY_LEGAL_HOLD, dr_blocked_by_hold_ids := map lh_legal_hold_id holds,
                      dr_failure_code := None\<rparr>
            in thenP (modify (save_deletion_request r')) (ret (r', []))
       else bindP (try_except (bindP (erase_traveler_data (dr_tenant_id r) (dr_traveler_id r) (dr_scope r))
                     (\<lambda>deleted. ret (Some deleted))) (\<lambda>_. ret None)) (\<lambda>outcome. case outcome of
           None \<Rightarrow>
             let r' = r\<lparr>dr_status := DEL_FAILED, dr_failure_code := Some ''deletion_execution_failed''\<rparr>
             in thenP (modify (save_deletion_request r')) (ret (r', []))
         | Some deleted \<Rightarrow>
             let r' = r\<lparr>dr_status := DEL_COMPLETED, dr_completed_at := Some timestamp,
                       dr_blocked_by_hold_ids := [], dr_failure_code := None\<rparr>
             in thenP (modify (save_deletion_request r')) (ret (r', deleted))))"

definition process_due_deletion_requests ::
  "'h host_scheme \<Rightarrow> datetime option \<Rightarrow> (deletion_request \<times> (string, int) dict) list act" where
  "process_due_deletion_requests h now =
     bindP (now_or h now) (\<lambda>timestamp. bindP (gets list_pending_deletion_requests) (\<lambda>requests.
       for_each requests (process_deletion_request timestamp)))"

section \<open>Monitoring windows and the local upload store\<close>

definition MONITORING_WINDOWS_HOURS :: "int list" where
  "MONITORING_WINDOWS_HOURS = [24, 6, 2]"

definition assessment_due_idempotency_key :: "string \<Rightarrow> string \<Rightarrow> string" where
  "assessment_due_idempotency_key trip_id window = ''assessment-due:'' @ trip_id @ '':'' @ window"

text \<open>\<^verbatim>\<open>isoformat\<close> renders the departure, which keeps the offset it was given with.\<close>

definition window_due :: "datetime \<Rightarrow> timedelta \<Rightarrow> datetime \<Rightarrow> int \<Rightarrow> bool" where
  "window_due timestamp grace_period departure hours \<longleftrightarrow>
     0 \<le> timestamp - (departure - td_hours hours) \<and>
     timestamp - (departure - td_hours hours) < grace_period"

definition due_monitoring_windows ::
  "(pydatetime \<Rightarrow> string) \<Rightarrow> trip \<Rightarrow> datetime \<Rightarrow> timedelta \<Rightarrow> string list result" where
  "due_monitoring_windows isoformat t timestamp grace_period = (case trip_segments t of
     [] \<Rightarrow> Inl (OtherException ''IndexError'')
   | s # _ \<Rightarrow>
       let departure = seg_scheduled_departure_at s
       in Inr [''T-'' @ string_of_int hours @ '':'' @ isoformat departure. hours \<leftarrow> MONITORING_WINDOWS_HOURS,
            window_due timestamp grace_period (dt_instant departure) hours])"

definition object_key_for :: "string \<Rightarrow> uuid \<Rightarrow> string \<Rightarrow> string" where
  "object_key_for tenant_id upload_id content_sha256 =
     ''quarantine/'' @ tenant_id @ ''/'' @ str_uuid upload_id @ ''/'' @ content_sha256 @ ''.csv''"

definition upload_put :: "(string \<Rightarrow> string) \<Rightarrow> string \<Rightarrow> uuid \<Rightarrow> string \<Rightarrow> (string \<times> string) act" where
  "upload_put sha256 tenant_id upload_id content =
     (let content_sha256 = sha256 content;
          object_key = object_key_for tenant_id upload_id content_sha256
      in thenP (modify (\<lambda>w. w\<lparr>w_upload_objects := dict_set object_key content (w_upload_objects w)\<rparr>))
           (ret (object_key, content_sha256)))"

section \<open>Erasure and processing, evaluated\<close>

definition forgotten :: "string \<Rightarrow> string \<Rightarrow> world \<Rightarrow> world" where
  "forgotten tenant_id traveler_id w = w\<lparr>db_profiles := dict_pop (tenant_id, traveler_id) (db_profiles w),
     db_memory_proposals := dict_pop_all {k. \<exists>p. (k, p) \<in> set (db_memory_proposals w) \<and>
       mp_tenant_id p = tenant_id \<and> mp_traveler_id p = traveler_id} (db_memory_proposals w)\<rparr>"

definition memory_counts :: "string \<Rightarrow> string \<Rightarrow> world \<Rightarrow> (string, int) dict" where
  "memory_counts tenant_id traveler_id w =
     [(''profiles'', if dict_get (db_profiles w) (tenant_id, traveler_id) \<noteq> None then 1 else 0),
      (''memory_proposals'', int (length [k. (k, p) \<leftarrow> db_memory_proposals w,
         mp_tenant_id p = tenant_id \<and> mp_traveler_id p = traveler_id]))]"

definition erased :: "string \<Rightarrow> string \<Rightarrow> world \<Rightarrow> world" where
  "erased tenant_id traveler_id w =
     (let trip_ids = traveler_trip_ids tenant_id traveler_id w
      in erase_rows tenant_id traveler_id (set trip_ids) (set (trip_incident_ids tenant_id trip_ids w))
           (forgotten tenant_id traveler_id w))"

lemma delete_memory_app:
  "repo_delete_traveler_memory t p w = (Inr (memory_counts t p w), forgotten t p w)"
proof -
  have "set [k. (k, q) \<leftarrow> db_memory_proposals w, mp_tenant_id q = t \<and> mp_traveler_id q = p] =
      {k. \<exists>q. (k, q) \<in> set (db_memory_proposals w) \<and> mp_tenant_id q = t \<and> mp_traveler_id q = p}" by force
  then show ?thesis by (simp add: repo_delete_traveler_memory_def prog_simps memory_counts_def forgotten_def)
qed

lemma trips_forgotten [simp]:
  "traveler_trip_ids t p (forgotten t' p' w) = traveler_trip_ids t p w"
  "trip_incident_ids t ids (forgotten t' p' w) = trip_incident_ids t ids w"
  "erase_counts ids iids (forgotten t' p' w) = erase_counts ids iids w"
  by (simp_all add: forgotten_def traveler_trip_ids_def trip_incident_ids_def erase_counts_def)

lemma erase_app:
  "erase_traveler_data t p TRAVELER_DATA w =
     (Inr (memory_counts t p w @ erase_counts (traveler_trip_ids t p w)
        (trip_incident_ids t (traveler_trip_ids t p w) w) w), erased t p w)"
  by (simp add: erase_traveler_data_def prog_simps delete_memory_app erased_def Let_def)

lemma erase_memory_app:
  "erase_traveler_data t p PREFERENCE_MEMORY w = (Inr (memory_counts t p w), forgotten t p w)"
  by (simp add: erase_traveler_data_def prog_simps delete_memory_app)

lemmas rows_defs = erase_rows_def drop_incident_rows_def drop_action_rows_def Let_def

lemma erased_fields [simp]:
  "db_trips (erased t p w) = dict_pop_all (set (traveler_trip_ids t p w)) (db_trips w)"
  "db_evidence (erased t p w) = dict_pop_all (set (traveler_trip_ids t p w)) (db_evidence w)"
  "db_assessments (erased t p w) = dict_pop_all (set (traveler_trip_ids t p w)) (db_assessments w)"
  "db_trip_segments (erased t p w) = dict_pop_all (set (traveler_trip_ids t p w)) (db_trip_segments w)"
  "db_incidents (erased t p w) =
     dict_pop_all (set (trip_incident_ids t (traveler_trip_ids t p w) w)) (db_incidents w)"
  "db_approvals (erased t p w) =
     dict_pop_all (set (trip_incident_ids t (traveler_trip_ids t p w) w)) (db_approvals w)"
  "db_profiles (erased t p w) = dict_pop (t, p) (db_profiles w)"
  "db_notifications (erased t p w) =
     dict_filter (\<lambda>_ n. \<not> (nt_tenant_id n = t \<and> nt_traveler_id n = p)) (db_notifications w)"
  "db_legal_holds (erased t p w) = db_legal_holds w"
  "db_deletion_requests (erased t p w) = db_deletion_requests w"
  "db_events (erased t p w) = db_events w" "db_memory_audits (erased t p w) = db_memory_audits w"
  "db_memory_proposals (erased t p w) = db_memory_proposals (forgotten t p w)"
  by (simp_all add: erased_def rows_defs forgotten_def)

lemma forgotten_fields [simp]:
  "db_trips (forgotten t p w) = db_trips w" "db_evidence (forgotten t p w) = db_evidence w"
  "db_assessments (forgotten t p w) = db_assessments w" "db_legal_holds (forgotten t p w) = db_legal_holds w"
  "db_deletion_requests (forgotten t p w) = db_deletion_requests w" "db_incidents (forgotten t p w) = db_incidents w"
  by (simp_all add: forgotten_def)

lemma traveler_trip_ids_set:
  "k \<in> set (traveler_trip_ids t p w) \<longleftrightarrow>
     (\<exists>x. (k, x) \<in> set (db_trips w) \<and> trip_tenant_id x = t \<and> trip_traveler_id x = p)"
  by (auto simp: traveler_trip_ids_def)

lemma trip_incident_ids_set:
  "k \<in> set (trip_incident_ids t ids w) \<longleftrightarrow>
     (\<exists>i. (k, i) \<in> set (db_incidents w) \<and> inc_tenant_id i = t \<and> inc_trip_id i \<in> set ids)"
  by (auto simp: trip_incident_ids_def)

lemma set_dict_pop_all: "set (dict_pop_all ks d) = {(k, v) \<in> set d. k \<notin> ks}"
  by (auto simp: dict_pop_all_def)

lemma erased_has_no_trips: "traveler_trip_ids t p (erased t p w) = []"
proof -
  have "k \<notin> set (traveler_trip_ids t p (erased t p w))" for k
    by (auto simp: traveler_trip_ids_set set_dict_pop_all)
  then show ?thesis by (metis list.set_intros(1) neq_Nil_conv)
qed

text \<open>The trips an active hold covers.\<close>

definition trip_held :: "datetime \<Rightarrow> world \<Rightarrow> uuid \<Rightarrow> trip \<Rightarrow> bool" where
  "trip_held now w k t \<longleftrightarrow> (\<exists>x \<in> set (dict_values (db_legal_holds w)). is_active x now \<and> hold_covers x k t)"

lemma held_trip_blocks:
  assumes "trip_held now w k t" "dict_get (db_trips w) k = Some t" "table_ok trip_trip_id (db_trips w)"
  shows "active_legal_holds_for_traveler (trip_tenant_id t) (trip_traveler_id t) now w \<noteq> []"
proof -
  obtain x where x: "x \<in> set (dict_values (db_legal_holds w))" "is_active x now" "hold_covers x k t"
    using assms(1) by (auto simp: trip_held_def)
  have "t \<in> set (dict_values (db_trips w))" "trip_trip_id t = k"
    using assms(2,3) by (auto intro: dict_get_in_values table_ok_get)
  with x have "x \<in> set (active_legal_holds_for_traveler (trip_tenant_id t) (trip_traveler_id t) now w)"
    by (force simp: active_legal_holds_for_traveler_def hold_covers_def repo_list_legal_holds_def owned_values_def Let_def)
  then show ?thesis by (metis list.set(1) empty_iff)
qed

definition keeps_held :: "datetime \<Rightarrow> world \<Rightarrow> world \<Rightarrow> bool" where
  "keeps_held now w w' \<longleftrightarrow> db_legal_holds w' = db_legal_holds w \<and> table_ok trip_trip_id (db_trips w') \<and>
     set (db_trips w') \<subseteq> set (db_trips w) \<and>
     (\<forall>k t. dict_get (db_trips w) k = Some t \<longrightarrow> trip_held now w k t \<longrightarrow> dict_get (db_trips w') k = Some t \<and>
        dict_get (db_evidence w') k = dict_get (db_evidence w) k \<and>
        dict_get (db_assessments w') k = dict_get (db_assessments w) k)"

lemma keeps_held_refl: "table_ok trip_trip_id (db_trips w) \<Longrightarrow> keeps_held now w w"
  by (simp add: keeps_held_def)

lemma keeps_held_trans: "keeps_held now w w' \<Longrightarrow> keeps_held now w' w'' \<Longrightarrow> keeps_held now w w''"
  by (auto simp: keeps_held_def trip_held_def)

lemma keeps_held_save [simp]: "keeps_held now w (save_deletion_request r w') = keeps_held now w w'"
  by (simp add: keeps_held_def save_deletion_request_def)

lemma forgotten_keeps_held: "table_ok trip_trip_id (db_trips w) \<Longrightarrow> keeps_held now w (forgotten t p w)"
  by (simp add: keeps_held_def)

lemma erased_keeps_held:
  assumes ok: "table_ok trip_trip_id (db_trips w)" and none: "active_legal_holds_for_traveler t p now w = []"
  shows "keeps_held now w (erased t p w)"
  unfolding keeps_held_def
proof (intro conjI allI impI)
  fix k u
  assume u: "dict_get (db_trips w) k = Some u" "trip_held now w k u"
  have "k \<notin> set (traveler_trip_ids t p w)"
  proof
    assume "k \<in> set (traveler_trip_ids t p w)"
    then obtain x where "(k, x) \<in> set (db_trips w)" "trip_tenant_id x = t" "trip_traveler_id x = p"
      by (auto simp: traveler_trip_ids_set)
    moreover have "x = u" using u(1) ok calculation(1) by (auto simp: table_ok_def dict_get_in_items)
    ultimately show False using held_trip_blocks [OF u(2,1) ok] none by simp
  qed
  then show "dict_get (db_trips (erased t p w)) k = Some u"
    "dict_get (db_evidence (erased t p w)) k = dict_get (db_evidence w) k"
    "dict_get (db_assessments (erased t p w)) k = dict_get (db_assessments w) k"
    using u(1) by (simp_all add: dict_simps)
qed (use ok in \<open>auto simp: set_dict_pop_all\<close>)

text \<open>What the processor returns for one request.\<close>

definition request_outcome :: "datetime \<Rightarrow> deletion_request \<Rightarrow> deletion_request \<times> (string, int) dict \<Rightarrow> bool" where
  "request_outcome now r out \<longleftrightarrow> dr_deletion_request_id (fst out) = dr_deletion_request_id r \<and>
     dr_tenant_id (fst out) = dr_tenant_id r \<and> dr_traveler_id (fst out) = dr_traveler_id r \<and>
     dr_scope (fst out) = dr_scope r \<and>
     (dr_status (fst out) = BLOCKED_BY_LEGAL_HOLD \<and> dr_blocked_by_hold_ids (fst out) \<noteq> [] \<and> snd out = [] \<or>
      dr_status (fst out) = DEL_COMPLETED \<and> dr_completed_at (fst out) = Some now)"

lemma process_one:
  assumes ok: "table_ok trip_trip_id (db_trips w)"
  obtains out w' where "process_deletion_request now r w = (Inr out, w')" "request_outcome now r out" "keeps_held now w w'"
    "dr_status (fst out) = DEL_COMPLETED \<Longrightarrow> dr_scope r = TRAVELER_DATA \<Longrightarrow>
       traveler_trip_ids (dr_tenant_id r) (dr_traveler_id r) w' = []"
proof (cases "active_legal_holds_for_traveler (dr_tenant_id r) (dr_traveler_id r) now w = []")
  case False
  show ?thesis
    by (rule that) (use False in \<open>auto simp: process_deletion_request_def prog_simps Let_def request_outcome_def
        keeps_held_refl ok\<close>)
next
  case True
  show ?thesis
  proof (cases "dr_scope r")
    case PREFERENCE_MEMORY
    show ?thesis
      by (rule that) (use True PREFERENCE_MEMORY in \<open>auto simp: process_deletion_request_def prog_simps Let_def
        request_outcome_def erase_memory_app try_except_def forgotten_keeps_held ok\<close>)
  next
    case TRAVELER_DATA
    have "traveler_trip_ids t p (save_deletion_request x u) = traveler_trip_ids t p u" for t p x u
      by (simp add: traveler_trip_ids_def save_deletion_request_def)
    then show ?thesis
      by (intro that) (use True TRAVELER_DATA in \<open>auto simp: process_deletion_request_def prog_simps Let_def
        request_outcome_def erase_app try_except_def erased_keeps_held ok erased_has_no_trips\<close>)
  qed
qed

lemma process_requests:
  assumes "table_ok trip_trip_id (db_trips w)"
  shows "\<exists>outs w'. for_each rs (process_deletion_request now) w = (Inr outs, w') \<and> keeps_held now w w' \<and>
    list_all2 (request_outcome now) rs outs \<and>
    (\<forall>out \<in> set outs. dr_status (fst out) = DEL_COMPLETED \<longrightarrow> dr_scope (fst out) = TRAVELER_DATA \<longrightarrow>
       traveler_trip_ids (dr_tenant_id (fst out)) (dr_traveler_id (fst out)) w' = [])"
  using assms
proof (induction rs arbitrary: w)
  case Nil
  then show ?case by (simp add: prog_simps keeps_held_refl)
next
  case (Cons r rs)
  from process_one [OF Cons.prems] obtain out w1 where
    one: "process_deletion_request now r w = (Inr out, w1)" "request_outcome now r out" "keeps_held now w w1"
      "dr_status (fst out) = DEL_COMPLETED \<Longrightarrow> dr_scope r = TRAVELER_DATA \<Longrightarrow>
       traveler_trip_ids (dr_tenant_id r) (dr_traveler_id r) w1 = []" by metis
  then have "table_ok trip_trip_id (db_trips w1)" by (simp add: keeps_held_def)
  from Cons.IH [OF this] obtain outs w2 where
    rest: "for_each rs (process_deletion_request now) w1 = (Inr outs, w2)" "keeps_held now w1 w2"
      "list_all2 (request_outcome now) rs outs"
      "\<forall>out \<in> set outs. dr_status (fst out) = DEL_COMPLETED \<longrightarrow> dr_scope (fst out) = TRAVELER_DATA \<longrightarrow>
         traveler_trip_ids (dr_tenant_id (fst out)) (dr_traveler_id (fst out)) w2 = []" by blast
  have "set (traveler_trip_ids t p w2) \<subseteq> set (traveler_trip_ids t p w1)" for t p
    unfolding subset_iff traveler_trip_ids_set using rest(2) unfolding keeps_held_def by blast
  then have "traveler_trip_ids t p w1 = [] \<Longrightarrow> traveler_trip_ids t p w2 = []" for t p
    by (metis empty_set subset_empty set_empty)
  moreover have "dr_tenant_id (fst out) = dr_tenant_id r" "dr_traveler_id (fst out) = dr_traveler_id r"
    "dr_scope (fst out) = dr_scope r" using one(2) by (simp_all add: request_outcome_def)
  ultimately show ?case using one rest by (auto simp: prog_simps intro: keeps_held_trans)
qed

section \<open>Retention, evaluated\<close>

lemma active_holds_app:
  "\<exists>actives w'. active_holds h w = (Inr actives, w\<lparr>run_reads := w'\<rparr>) \<and>
     set actives \<subseteq> set (dict_values (db_legal_holds w)) \<and>
     (\<forall>x \<in> set (dict_values (db_legal_holds w)). (\<forall>n. is_active x (host_now h n)) \<longrightarrow> x \<in> set actives) \<and>
     (\<forall>x \<in> set actives. \<exists>n. is_active x (host_now h n))"
proof -
  define check :: "legal_hold_record \<Rightarrow> (legal_hold_record \<times> bool) act" where
    "check = (\<lambda>x. bindP (now_utc h) (\<lambda>now. ret (x, is_active x now)))"
  have check: "check x u = (Inr (x, is_active x (host_now h (run_reads u))), u\<lparr>run_reads := Suc (run_reads u)\<rparr>)" for x u
    by (simp add: check_def prog_simps)
  have "\<exists>ps k. for_each holds check u = (Inr ps, u\<lparr>run_reads := k\<rparr>) \<and>
      map fst ps = holds \<and> (\<forall>(x, active) \<in> set ps. \<exists>n. active = is_active x (host_now h n))" for holds and u :: world
  proof (induction holds arbitrary: u)
    case Nil
    show ?case by (intro exI [of _ "[]"] exI [of _ "run_reads u"]) (simp add: prog_simps)
  next
    case (Cons x holds)
    from Cons.IH [of "u\<lparr>run_reads := Suc (run_reads u)\<rparr>"] obtain ps k where
      "for_each holds check (u\<lparr>run_reads := Suc (run_reads u)\<rparr>) = (Inr ps, u\<lparr>run_reads := k\<rparr>)" "map fst ps = holds"
      "\<forall>(x, active) \<in> set ps. \<exists>n. active = is_active x (host_now h n)"
      by auto
    then show ?case
      by (intro exI [of _ "(x, is_active x (host_now h (run_reads u))) # ps"] exI [of _ k])
        (auto simp: bindP_app ret_app check [of x u])
  qed
  then obtain ps k where ps: "for_each (dict_values (db_legal_holds w)) check w = (Inr ps, w\<lparr>run_reads := k\<rparr>)"
    "map fst ps = dict_values (db_legal_holds w)" "\<forall>(x, active) \<in> set ps. \<exists>n. active = is_active x (host_now h n)" by blast
  let ?actives = "[x. (x, active) \<leftarrow> ps, active]"
  have holds: "set (dict_values (db_legal_holds w)) = fst ` set ps" by (simp flip: ps(2))
  have in_actives: "x \<in> set ?actives \<longleftrightarrow> (x, True) \<in> set ps" for x by force
  have "set ?actives \<subseteq> set (dict_values (db_legal_holds w))"
    unfolding holds subset_iff in_actives by force
  moreover have "x \<in> set ?actives" if hx: "x \<in> set (dict_values (db_legal_holds w))" and always: "\<forall>n. is_active x (host_now h n)" for x
  proof -
    obtain active where active: "(x, active) \<in> set ps" using hx unfolding holds by force
    with ps(3) always have "active = True" by fastforce
    with active show ?thesis unfolding in_actives by simp
  qed
  moreover have "\<exists>n. is_active x (host_now h n)" if "x \<in> set ?actives" for x
    using that ps(3) unfolding in_actives by fastforce
  moreover have "active_holds h w = (Inr ?actives, w\<lparr>run_reads := k\<rparr>)"
    using ps(1) by (simp add: active_holds_def bindP_app gets_app ret_app check_def)
  ultimately show ?thesis by (intro exI [of _ ?actives] exI [of _ k]) blast
qed

lemma purge_rows_fields [simp]:
  "db_trips (purge_rows hs b u a ts is w) = dict_pop_all ts (db_trips w)"
  "db_evidence (purge_rows hs b u a ts is w) = dict_pop_all ts (db_evidence w)"
  "db_assessments (purge_rows hs b u a ts is w) = dict_pop_all ts (db_assessments w)"
  "db_incidents (purge_rows hs b u a ts is w) = dict_pop_all is (db_incidents w)"
  "db_notifications (purge_rows hs b u a ts is w) =
     dict_pop_all {k. \<exists>n. (k, n) \<in> set (db_notifications w) \<and> nt_created_at n < b} (db_notifications w)"
  "db_events (purge_rows hs b u a ts is w) = filter (\<lambda>e. evt_emitted_at e \<ge> a) (db_events w)"
  "db_legal_holds (purge_rows hs b u a ts is w) = db_legal_holds w"
  "db_trip_segments (purge_rows hs b u a ts is w) = db_trip_segments w"
  by (simp_all add: purge_rows_def drop_incident_rows_def drop_action_rows_def Let_def)

lemma expired_trip_ids_set:
  "k \<in> set (expired_trip_ids hs b w) \<longleftrightarrow>
     (\<exists>t. (k, t) \<in> set (db_trips w) \<and> trip_created_at t < b \<and> \<not> (\<exists>x \<in> set hs. hold_covers x k t))"
  by (auto simp: expired_trip_ids_def)

lemma retention_app:
  assumes "1 \<le> d" "1 \<le> u" "1 \<le> a"
  obtains actives reads counts where
    "run_retention h d u a (Some now) w = (Inr counts,
       purge_rows actives (now - td_days d) (now - td_days u) (now - td_days a)
         (set (expired_trip_ids actives (now - td_days d) w))
         (set (expired_incident_ids (expired_trip_ids actives (now - td_days d) w) w)) (w\<lparr>run_reads := reads\<rparr>))"
    "set actives \<subseteq> set (dict_values (db_legal_holds w))"
    "\<forall>x \<in> set (dict_values (db_legal_holds w)). (\<forall>n. is_active x (host_now h n)) \<longrightarrow> x \<in> set actives"
    "\<forall>x \<in> set actives. \<exists>n. is_active x (host_now h n)"
proof -
  from active_holds_app [of h w] obtain actives reads where act:
    "active_holds h w = (Inr actives, w\<lparr>run_reads := reads\<rparr>)" "set actives \<subseteq> set (dict_values (db_legal_holds w))"
    "\<forall>x \<in> set (dict_values (db_legal_holds w)). (\<forall>n. is_active x (host_now h n)) \<longrightarrow> x \<in> set actives"
    "\<forall>x \<in> set actives. \<exists>n. is_active x (host_now h n)" by blast
  have same: "expired_trip_ids actives b (w\<lparr>run_reads := reads\<rparr>) = expired_trip_ids actives b w"
    "expired_incident_ids ts (w\<lparr>run_reads := reads\<rparr>) = expired_incident_ids ts w" for b ts
    by (simp_all add: expired_trip_ids_def expired_incident_ids_def)
  show ?thesis
    by (rule that [OF _ act(2-4)]) (use assms in \<open>simp add: run_retention_def purge_expired_def prog_simps act(1) same Let_def min_def\<close>)
qed

section \<open>Properties\<close>



text \<open>
  C34. Retention removes exactly the trips that are old enough and under no active hold: for any
  periods of at least a day it returns, a trip covered by a hold that stays active, or younger than the
  cutoff, keeps its row, evidence, assessments and incidents, and every other trip is gone.
\<close>

theorem retention_is_exact_on_trips:
  assumes "1 \<le> days" "1 \<le> upload_days" "1 \<le> audit_days" "table_ok trip_trip_id (db_trips w)"
    and "dict_get (db_trips w) k = Some t"
    and "\<And>x m n. x \<in> set (dict_values (db_legal_holds w)) \<Longrightarrow> is_active x (host_now h m) = is_active x (host_now h n)"
  shows "\<exists>counts w'. run_retention h days upload_days audit_days (Some now) w = (Inr counts, w') \<and>
    (if trip_created_at t < now - td_days days \<and>
        (\<forall>x \<in> set (dict_values (db_legal_holds w)). hold_covers x k t \<longrightarrow> \<not> is_active x (host_now h 0))
     then dict_get (db_trips w') k = None \<and> dict_get (db_evidence w') k = None \<and> dict_get (db_assessments w') k = None
     else dict_get (db_trips w') k = Some t \<and> dict_get (db_evidence w') k = dict_get (db_evidence w) k \<and>
       dict_get (db_assessments w') k = dict_get (db_assessments w) k \<and>
       (\<forall>i inc. (i, inc) \<in> set (db_incidents w) \<longrightarrow> inc_trip_id inc = k \<longrightarrow> dict_wf (db_incidents w) \<longrightarrow>
          dict_get (db_incidents w') i = Some inc))"
proof -
  obtain actives reads counts where run:
    "run_retention h days upload_days audit_days (Some now) w = (Inr counts,
       purge_rows actives (now - td_days days) (now - td_days upload_days) (now - td_days audit_days)
         (set (expired_trip_ids actives (now - td_days days) w))
         (set (expired_incident_ids (expired_trip_ids actives (now - td_days days) w) w)) (w\<lparr>run_reads := reads\<rparr>))"
    and act: "set actives \<subseteq> set (dict_values (db_legal_holds w))"
    "\<forall>x \<in> set (dict_values (db_legal_holds w)). (\<forall>n. is_active x (host_now h n)) \<longrightarrow> x \<in> set actives"
    "\<forall>x \<in> set actives. \<exists>n. is_active x (host_now h n)"
    by (rule retention_app [OF assms(1-3), of h now w]) blast
  have actives: "x \<in> set actives \<longleftrightarrow> x \<in> set (dict_values (db_legal_holds w)) \<and> is_active x (host_now h 0)" for x
    using act assms(6) by blast
  have uniq: "(k, u) \<in> set (db_trips w) \<longleftrightarrow> u = t" for u
    using assms(4,5) by (auto simp: table_ok_def dict_get_in_items)
  have expired: "k \<in> set (expired_trip_ids actives b w) \<longleftrightarrow> trip_created_at t < b \<and>
      (\<forall>x \<in> set (dict_values (db_legal_holds w)). hold_covers x k t \<longrightarrow> \<not> is_active x (host_now h 0))" for b
    unfolding expired_trip_ids_set uniq by (auto simp: actives)
  have inc: "i \<notin> set (expired_incident_ids (expired_trip_ids actives b w) w)"
    if "k \<notin> set (expired_trip_ids actives b w)" "(i, inc) \<in> set (db_incidents w)" "inc_trip_id inc = k"
      "dict_wf (db_incidents w)" for i inc b
    using that by (auto simp: expired_incident_ids_def dict_get_in_items)
  show ?thesis
    unfolding run using expired [of "now - td_days days"] inc assms(5)
    by (auto simp: dict_simps dict_get_in_items)
qed

text \<open>
  Retention does not consult holds for notifications: whatever holds are active, every
  notification created before the cutoff is deleted.
\<close>

theorem retention_deletes_held_notifications:
  assumes "1 \<le> days" "1 \<le> upload_days" "1 \<le> audit_days"
    and "(k, n) \<in> set (db_notifications w)" "nt_created_at n < now - td_days days"
  shows "\<exists>counts w'. run_retention h days upload_days audit_days (Some now) w = (Inr counts, w') \<and>
    dict_get (db_notifications w') k = None"
  by (rule retention_app [OF assms(1-3), of h now w]) (use assms(4,5) in \<open>auto simp: dict_simps\<close>)

text \<open>Witnesses: one tenant with two trips, an incident, a tenant hold and a notification.\<close>

definition sample_hold :: legal_hold_record where
  "sample_hold = \<lparr>lh_legal_hold_id = 3, lh_tenant_id = ''t'', lh_scope = HOLD_TENANT, lh_reason = ''r'',
     lh_created_by = ''a'', lh_traveler_id = None, lh_trip_id = None, lh_expires_at = None,
     lh_released_at = None, lh_released_by = None, lh_release_reason = None, lh_created_at = 0\<rparr>"

definition sample_inbox :: notification_record where
  "sample_inbox = \<lparr>nt_notification_id = 9, nt_tenant_id = ''t'', nt_incident_id = None,
     nt_traveler_id = ''u'', nt_channel = ''in_app'', nt_recipient_reference = ''r'', nt_subject = ''s'',
     nt_body = ''b'', nt_status = NQUEUED, nt_attempt_count = 0, nt_next_attempt_at = 0,
     nt_delivered_at = None, nt_acknowledged_at = None, nt_acknowledgement_actor_id = None,
     nt_last_error_code = None, nt_dispatch_claim_id = None, nt_dispatch_claimed_by = None,
     nt_dispatch_claimed_at = None, nt_dispatch_claim_expires_at = None, nt_created_at = 0, nt_updated_at = 0\<rparr>"

definition sample_world :: world where
  "sample_world = empty_world\<lparr>db_trips := [(7, sample_trip), (8, sample_trip\<lparr>trip_trip_id := 8, trip_traveler_id := ''v''\<rparr>)],
     db_incidents := [(1, sample_incident ''t'' 1)], db_notifications := [(9, sample_inbox)]\<rparr>"

definition held_world :: world where
  "held_world = sample_world\<lparr>db_legal_holds := [(3, sample_hold)]\<rparr>"

lemma sample_ids:
  "traveler_trip_ids ''t'' ''u'' sample_world = [7]" "trip_incident_ids ''t'' [7] sample_world = [1]"
  by (simp_all add: traveler_trip_ids_def trip_incident_ids_def sample_world_def sample_trip_def sample_incident_def)

lemma held_world_fields:
  "db_legal_holds held_world = [(3, sample_hold)]" "dict_get (db_trips held_world) 7 = Some sample_trip"
  "table_ok trip_trip_id (db_trips held_world)" "(9, sample_inbox) \<in> set (db_notifications held_world)"
  "trip_created_at sample_trip = 0" "nt_created_at sample_inbox = 0" "is_active sample_hold n"
  "hold_covers sample_hold 7 sample_trip"
  by (simp_all add: held_world_def sample_world_def table_ok_def dict_wf_def sample_trip_def sample_inbox_def
      is_active_def sample_hold_def hold_covers_def)



theorem retention_is_exact_on_trips_witness:
  "\<exists>counts w'. run_retention sample_host 1 1 1 (Some (td_days 3)) held_world = (Inr counts, w') \<and>
     dict_get (db_trips w') 7 = Some sample_trip"
proof -
  have same: "is_active x (host_now sample_host m) = is_active x (host_now sample_host n)"
    if "x \<in> set (dict_values (db_legal_holds held_world))" for x m n
    using that by (simp add: held_world_fields dict_values_def)
  have held: "\<not> (trip_created_at sample_trip < b \<and>
      (\<forall>x \<in> set (dict_values (db_legal_holds held_world)). hold_covers x 7 sample_trip \<longrightarrow> \<not> is_active x (host_now sample_host 0)))" for b
    by (simp add: held_world_fields dict_values_def)
  show ?thesis
    using retention_is_exact_on_trips [where h = sample_host and now = "td_days 3", OF _ _ _ held_world_fields(3,2) same, of 1 1 1]
    unfolding if_not_P [OF held] by simp blast
qed

theorem retention_deletes_held_notifications_witness:
  "\<exists>counts w'. run_retention sample_host 1 1 1 (Some (td_days 3)) held_world = (Inr counts, w') \<and>
     dict_get (db_notifications w') 9 = None"
  by (rule retention_deletes_held_notifications [OF _ _ _ held_world_fields(4)]) (simp_all add: held_world_fields td_defs)

end
