(* ===== verification/Api.thy ===== *)
theory Api
  imports Outbox Privacy
begin

text \<open>
  What the handlers of \<^verbatim>\<open>apps/api/main.py\<close> share: the environment they run in, the identity and
  role guards, the effective runtime controls, event emission and the idempotency protocol.

  The environment extends the host by the configuration, \<^verbatim>\<open>os.getenv\<close> and the encoders the code
  calls (SHA-256 of the UTF-8 encoding, HMAC, the canonical JSON text and its parser, ISO dates,
  name-based UUIDs, the iteration order of a set of strings, and pydantic's \<^verbatim>\<open>model_dump\<close> and
  \<^verbatim>\<open>model_validate\<close> with the name of the class); they are parameters.  A handler is a
  computation on the world; a request header that is absent is \<^const>\<open>None\<close>.
\<close>

section \<open>The environment\<close>

text \<open>The models that travel through \<^verbatim>\<open>model_dump(mode="json")\<close>, and come back by \<^verbatim>\<open>model_validate\<close>.\<close>

datatype model =
    MTripCreate trip_create
  | MTrip trip
  | MAssignment string
  | MAssessmentResult assessment_result
  | MApprovalRequest approval_request
  | MApproval approval_record
  | MCandidateSetCreate "recovery_candidate list"
  | MCandidateSet recovery_candidate_set
  | MOutcomeUpdate recovery_candidate_outcome_update
  | MPreferenceUpdate traveler_preference_update
  | MProfile traveler_preference_profile
  | MProposal memory_update_proposal
  | MHold legal_hold_record
  | MHoldRelease string
  | MDeletion deletion_request
  | MNotificationCreate notification_create
  | MNotification notification_record
  | MChange change_record
  | MControlUpdate runtime_control_update
  | MControlChange runtime_control_change
  | MPlatformChange platform_runtime_control_change
  | MPlaybookCreate tenant_playbook_create
  | MPlaybook tenant_playbook
  | MProvider provider_onboarding_record
  | MEvidence evidence_envelope
  | MRiskAssessment risk_assessment
  | MSourceHealth source_health
  | MToolAudit tool_audit_event
  | MModelAudit model_invocation_audit
  | MRecommendation recommendation
  | MWebhook booking_webhook_event

record api_env = host +
  env_controls :: runtime_controls
  env_getenv :: "string \<Rightarrow> string option"
  env_sha256 :: "string \<Rightarrow> string"
  env_dumps :: "json \<Rightarrow> string"
  env_isoformat :: "datetime \<Rightarrow> string"
  env_isodate :: "datetime \<Rightarrow> string"
  env_departure_iso :: "pydatetime \<Rightarrow> string"
  env_uuid5 :: "string \<Rightarrow> uuid"
  env_dump :: "model \<Rightarrow> json_object"
  env_validate :: "string \<Rightarrow> json_object \<Rightarrow> model result"
  env_patch_profile :: "json_object \<Rightarrow> traveler_preference_profile \<Rightarrow> traveler_preference_profile result"
  env_hmac_sha256 :: "string \<Rightarrow> string \<Rightarrow> string"
  env_fromisoformat :: "string \<Rightarrow> pydatetime option"
  env_loads :: "string \<Rightarrow> json option"
  env_decode_webhook :: "json \<Rightarrow> booking_webhook_event option"
  env_core_order :: "string list"

section \<open>Identity and access\<close>

definition require_tenant :: "string option \<Rightarrow> string act" where
  "require_tenant x_tenant_id = (case x_tenant_id of
     None \<Rightarrow> throw (HTTPException 401 ''X-Tenant-Id is required'')
   | Some t \<Rightarrow> if t = [] then throw (HTTPException 401 ''X-Tenant-Id is required'') else ret t)"

definition require_role :: "user_role option \<Rightarrow> user_role list \<Rightarrow> unit act" where
  "require_role x_actor_role allowed =
     raise_when (x_actor_role \<notin> Some ` set allowed) (HTTPException 403 ''insufficient role'')"

definition require_actor_id :: "'e api_env_scheme \<Rightarrow> string option \<Rightarrow> string option act" where
  "require_actor_id e x_actor_id =
     (if ctl_require_oidc (env_controls e) \<and> falsy x_actor_id
      then throw (HTTPException 401 ''authenticated actor identity is required'')
      else ret x_actor_id)"

definition require_actor_matches_payload ::
  "'e api_env_scheme \<Rightarrow> string option \<Rightarrow> string \<Rightarrow> string act" where
  "require_actor_matches_payload e x_actor_id payload_actor_id =
     bindP (require_actor_id e x_actor_id) (\<lambda>actor_id.
       if truthy actor_id \<and> actor_id \<noteq> Some payload_actor_id
       then throw (HTTPException 403 ''actor identity mismatch'')
       else ret (if truthy actor_id then the actor_id else payload_actor_id))"

definition require_trip_access ::
  "'e api_env_scheme \<Rightarrow> trip \<Rightarrow> user_role option \<Rightarrow> string option \<Rightarrow> user_role list \<Rightarrow> unit act" where
  "require_trip_access e t x_actor_role x_actor_id allowed_roles =
     thenP (require_role x_actor_role allowed_roles)
       (bindP (require_actor_id e x_actor_id) (\<lambda>actor_id.
         if x_actor_role = Some TRAVELER \<and> truthy actor_id \<and> actor_id \<noteq> Some (trip_traveler_id t)
         then throw (HTTPException 403 ''trip access denied'')
         else if x_actor_role = Some TRAVEL_MANAGER \<and> truthy actor_id \<and> trip_assigned_manager_id t \<noteq> actor_id
         then throw (HTTPException 403 ''trip access denied'')
         else ret ()))"

definition require_incident_trip_access ::
  "'e api_env_scheme \<Rightarrow> string \<Rightarrow> uuid \<Rightarrow> user_role option \<Rightarrow> string option \<Rightarrow> user_role list \<Rightarrow>
    (incident \<times> trip) act" where
  "require_incident_trip_access e tenant_id incident_id x_actor_role x_actor_id allowed_roles =
     bindP (gets (get_incident tenant_id incident_id)) (\<lambda>found. case found of
       None \<Rightarrow> throw (HTTPException 404 ''incident not found'')
     | Some i \<Rightarrow> bindP (gets (get_trip tenant_id (inc_trip_id i))) (\<lambda>found. case found of
         None \<Rightarrow> throw (HTTPException 404 ''trip not found'')
       | Some t \<Rightarrow> thenP (require_trip_access e t x_actor_role x_actor_id allowed_roles) (ret (i, t))))"

section \<open>Runtime controls\<close>

definition default_control_enabled :: "'e api_env_scheme \<Rightarrow> runtime_control_name \<Rightarrow> bool" where
  "default_control_enabled e name = (case name of
     LLM_ENABLED \<Rightarrow> ctl_llm_enabled (env_controls e)
   | REACT_TOOL_CALLS_ENABLED \<Rightarrow> ctl_react_tool_calls_enabled (env_controls e)
   | NOTIFICATIONS_ENABLED \<Rightarrow> ctl_notifications_enabled (env_controls e)
   | APPROVAL_ACTIONS_ENABLED \<Rightarrow> ctl_approval_actions_enabled (env_controls e)
   | MEMORY_READS_ENABLED \<Rightarrow> ctl_memory_reads_enabled (env_controls e)
   | MEMORY_WRITES_ENABLED \<Rightarrow> ctl_memory_writes_enabled (env_controls e)
   | TENANT_AUTOMATION_ENABLED \<Rightarrow> ctl_tenant_automation_enabled (env_controls e)
   | _ \<Rightarrow> py_lower (py_strip (case env_getenv e (control_name_value name) of None \<Rightarrow> ''false'' | Some s \<Rightarrow> s)) = ''true'')"

definition control_enabled :: "'e api_env_scheme \<Rightarrow> string \<Rightarrow> runtime_control_name \<Rightarrow> bool act" where
  "control_enabled e tenant_id name =
     bindP (get_runtime_control_override e tenant_id name) (\<lambda>override. case override of
       Some r \<Rightarrow> ret (rc_enabled r)
     | None \<Rightarrow> bindP (get_platform_control_override e name) (\<lambda>platform. ret (case platform of
         Some r \<Rightarrow> rc_enabled r
       | None \<Rightarrow> default_control_enabled e name)))"

definition require_memory_reads_enabled :: "'e api_env_scheme \<Rightarrow> string \<Rightarrow> unit act" where
  "require_memory_reads_enabled e tenant_id =
     bindP (control_enabled e tenant_id MEMORY_READS_ENABLED) (\<lambda>enabled.
       raise_when (\<not> enabled) (HTTPException 503 ''memory reads disabled''))"

definition require_memory_writes_enabled :: "'e api_env_scheme \<Rightarrow> string \<Rightarrow> unit act" where
  "require_memory_writes_enabled e tenant_id =
     bindP (control_enabled e tenant_id MEMORY_WRITES_ENABLED) (\<lambda>enabled.
       raise_when (\<not> enabled) (HTTPException 503 ''memory writes disabled''))"

section \<open>Events\<close>

definition json_opt_uuid :: "uuid option \<Rightarrow> json" where
  "json_opt_uuid u = (case u of None \<Rightarrow> JNull | Some v \<Rightarrow> JStr (str_uuid v))"

definition emit_event ::
  "'e api_env_scheme \<Rightarrow> string \<Rightarrow> string \<Rightarrow> uuid option \<Rightarrow> uuid \<Rightarrow> string option \<Rightarrow> json_object \<Rightarrow> unit act" where
  "emit_event e event_type tenant_id trip_id correlation_id actor_id details =
     bindP (uuid4 e) (\<lambda>event_id. bindP (now_utc e) (\<lambda>emitted_at.
       let event = \<lparr>evt_event_id = event_id, evt_event_type = event_type, evt_tenant_id = tenant_id,
             evt_trip_id = trip_id, evt_correlation_id = correlation_id,
             evt_idempotency_key = event_type @ '':'' @ str_uuid correlation_id,
             evt_emitted_at = emitted_at, evt_actor_id = actor_id, evt_details = redact_object details\<rparr>
       in thenP (modify (record_event event))
            (modify (\<lambda>w. w\<lparr>w_stdout := w_stdout w @
               [[(''correlation_id'', JStr (str_uuid correlation_id)), (''emitted_at'', JStr (env_isoformat e emitted_at)),
                 (''event_type'', JStr event_type), (''tenant_id'', JStr tenant_id),
                 (''trip_id'', json_opt_uuid trip_id)]]\<rparr>))))"

definition provider_control :: "'e api_env_scheme \<Rightarrow> string \<Rightarrow> json" where
  "provider_control e name = JBool (py_lower (case env_getenv e name of None \<Rightarrow> ''false'' | Some s \<Rightarrow> s) = ''true'')"

definition audit_runtime_controls :: "'e api_env_scheme \<Rightarrow> unit act" where
  "audit_runtime_controls e =
     bindP (uuid4 e) (\<lambda>correlation_id. bindP (now_utc e) (\<lambda>loaded_at.
     bindP (uuid4 e) (\<lambda>event_id. bindP (now_utc e) (\<lambda>emitted_at.
       let c = env_controls e in
       modify (record_event
         \<lparr>evt_event_id = event_id, evt_event_type = ''runtime_controls.loaded'', evt_tenant_id = ''system'',
          evt_trip_id = None, evt_correlation_id = correlation_id,
          evt_idempotency_key = ''runtime-controls:'' @ env_isoformat e loaded_at,
          evt_emitted_at = emitted_at, evt_actor_id = None,
          evt_details =
            [(''llm_enabled'', JBool (ctl_llm_enabled c)),
             (''react_tool_calls_enabled'', JBool (ctl_react_tool_calls_enabled c)),
             (''notifications_enabled'', JBool (ctl_notifications_enabled c)),
             (''approval_actions_enabled'', JBool (ctl_approval_actions_enabled c)),
             (''memory_reads_enabled'', JBool (ctl_memory_reads_enabled c)),
             (''memory_writes_enabled'', JBool (ctl_memory_writes_enabled c)),
             (''tenant_automation_enabled'', JBool (ctl_tenant_automation_enabled c)),
             (''provider_controls'', JObj
               [(''amadeus'', provider_control e ''PROVIDER_AMADEUS_ENABLED''),
                (''faa'', provider_control e ''PROVIDER_FAA_ENABLED''),
                (''nws'', provider_control e ''PROVIDER_NWS_ENABLED''),
                (''aviation_weather'', provider_control e ''PROVIDER_AVIATION_WEATHER_ENABLED''),
                (''google_routes'', provider_control e ''PROVIDER_GOOGLE_ROUTES_ENABLED''),
                (''destination_advisory'', provider_control e ''PROVIDER_DESTINATION_ADVISORY_ENABLED'')])]\<rparr>)))))"

section \<open>The idempotency protocol\<close>

definition request_fingerprint :: "'e api_env_scheme \<Rightarrow> string \<Rightarrow> json \<Rightarrow> string" where
  "request_fingerprint e scope payload =
     env_sha256 e (env_dumps e (JObj [(''payload'', payload), (''scope'', JStr scope)]))"

definition claim_mutation ::
  "'e api_env_scheme \<Rightarrow> string \<Rightarrow> string \<Rightarrow> string \<Rightarrow> json \<Rightarrow> (string \<times> idempotency_record option) act" where
  "claim_mutation e tenant_id key scope payload =
     (let fingerprint = request_fingerprint e scope payload in
      bindP (now_utc e) (\<lambda>now.
      bindP (claim_idempotency e tenant_id key scope fingerprint
               (now + td_seconds (ctl_idempotency_ttl_seconds (env_controls e)))) (\<lambda>(disposition, r).
        case disposition of
          EXECUTE \<Rightarrow> ret (fingerprint, None)
        | REPLAY \<Rightarrow> ret (fingerprint, Some r)
        | CONFLICT \<Rightarrow> throw (HTTPException 409 ''Idempotency-Key was already used for a different request'')
        | STILL_IN_PROGRESS \<Rightarrow>
            throw (HTTPException 409 ''A request with this Idempotency-Key is still in progress''))))"

definition complete_mutation ::
  "'e api_env_scheme \<Rightarrow> string \<Rightarrow> string \<Rightarrow> string \<Rightarrow> int \<Rightarrow> json_object \<Rightarrow> unit act" where
  "complete_mutation e tenant_id key request_hash status_code payload =
     bindP (complete_idempotency e tenant_id key request_hash status_code payload) (\<lambda>_. ret ())"

definition claim_optional_mutation ::
  "'e api_env_scheme \<Rightarrow> string \<Rightarrow> string option \<Rightarrow> string \<Rightarrow> json \<Rightarrow>
    (string option \<times> idempotency_record option) act" where
  "claim_optional_mutation e tenant_id key scope payload =
     (if falsy key
      then if ctl_require_idempotency (env_controls e)
           then throw (HTTPException 400 ''Idempotency-Key is required'')
           else ret (None, None)
      else bindP (claim_mutation e tenant_id (the key) scope payload) (\<lambda>(fingerprint, replay).
             ret (Some fingerprint, replay)))"

definition complete_optional_mutation ::
  "'e api_env_scheme \<Rightarrow> string \<Rightarrow> string option \<Rightarrow> string option \<Rightarrow> int \<Rightarrow> json_object \<Rightarrow> unit act" where
  "complete_optional_mutation e tenant_id key request_hash status_code payload =
     (if truthy key \<and> truthy request_hash
      then complete_mutation e tenant_id (the key) (the request_hash) status_code payload
      else ret ())"

text \<open>
  Every mutating handler has this frame: claim, answer a replay from the stored response, otherwise
  do the work, store its response and return it.  An exception in the work leaves the claim behind.
\<close>

definition idempotent ::
  "'e api_env_scheme \<Rightarrow> string \<Rightarrow> string option \<Rightarrow> string \<Rightarrow> json \<Rightarrow> int \<Rightarrow> ('a \<Rightarrow> json_object) \<Rightarrow>
    (idempotency_record \<Rightarrow> 'a act) \<Rightarrow> 'a act \<Rightarrow> 'a act" where
  "idempotent e tenant_id key scope payload status_code dump replayed work =
     bindP (claim_optional_mutation e tenant_id key scope payload) (\<lambda>(request_hash, replay).
       case replay of
         Some r \<Rightarrow> replayed r
       | None \<Rightarrow> bindP work (\<lambda>x.
           thenP (complete_optional_mutation e tenant_id key request_hash status_code (dump x)) (ret x)))"

text \<open>\<^verbatim>\<open>Model.model_validate(replay.response_payload)\<close> for the class named.\<close>

definition validate_as :: "'e api_env_scheme \<Rightarrow> string \<Rightarrow> (model \<Rightarrow> 'a option) \<Rightarrow> json_object \<Rightarrow> 'a result" where
  "validate_as e name pick payload = result_bind (env_validate e name payload) (\<lambda>m. case pick m of
     None \<Rightarrow> Inl (ValidationError name) | Some x \<Rightarrow> Inr x)"

definition replay_as :: "'e api_env_scheme \<Rightarrow> string \<Rightarrow> (model \<Rightarrow> 'a option) \<Rightarrow> idempotency_record \<Rightarrow> 'a act" where
  "replay_as e name pick r = (case idem_response_payload r of
     None \<Rightarrow> throw (ValidationError name)
   | Some payload \<Rightarrow> lift_result (validate_as e name pick payload))"

end
