(* ===== verification/Idempotency.thy ===== *)
theory Idempotency
  imports Api
begin

text \<open>
  What the idempotency protocol of \<^verbatim>\<open>claim_mutation\<close> and \<^verbatim>\<open>complete_mutation\<close> guarantees to every
  handler built on \<^const>\<open>idempotent\<close>.
\<close>

abbreviation idem_record :: "string \<Rightarrow> string \<Rightarrow> world \<Rightarrow> idempotency_record option" where
  "idem_record t k w \<equiv> dict_get (db_idempotency_records w) (t, k)"

abbreviation read_clock :: "nat \<Rightarrow> world \<Rightarrow> world" where
  "read_clock n w \<equiv> w\<lparr>run_reads := run_reads w + n\<rparr>"

definition fresh_claim ::
  "'e api_env_scheme \<Rightarrow> string \<Rightarrow> string \<Rightarrow> string \<Rightarrow> json \<Rightarrow> nat \<Rightarrow> idempotency_record" where
  "fresh_claim e t k scope p n =
     \<lparr>idem_tenant_id = t, idem_idempotency_key = k, idem_scope = scope,
      idem_request_hash = request_fingerprint e scope p, idem_state = IN_PROGRESS,
      idem_response_status_code = None, idem_response_payload = None,
      idem_created_at = host_now e (n + 2),
      idem_expires_at = host_now e n + td_seconds (ctl_idempotency_ttl_seconds (env_controls e)),
      idem_completed_at = None\<rparr>"

lemma claim_live:
  assumes "idem_record t k w = Some r" "host_now e (Suc (run_reads w)) < idem_expires_at r"
  shows "claim_mutation e t k scope p w =
    (if idem_scope r \<noteq> scope \<or> idem_request_hash r \<noteq> request_fingerprint e scope p
     then Inl (HTTPException 409 ''Idempotency-Key was already used for a different request'')
     else if idem_state r = COMPLETED then Inr (request_fingerprint e scope p, Some r)
     else Inl (HTTPException 409 ''A request with this Idempotency-Key is still in progress''), read_clock 2 w)"
  using assms by (auto simp: claim_mutation_def claim_idempotency_def prog_simps Let_def)

lemma claim_new:
  assumes "case idem_record t k w of None \<Rightarrow> True | Some r \<Rightarrow> idem_expires_at r \<le> host_now e (Suc (run_reads w))"
  shows "\<exists>w'. claim_mutation e t k scope p w =
      (if valid_idempotency_record (fresh_claim e t k scope p (run_reads w))
       then Inr (request_fingerprint e scope p, None) else Inl (ValidationError ''IdempotencyRecord''), w') \<and>
    (valid_idempotency_record (fresh_claim e t k scope p (run_reads w)) \<longrightarrow>
       idem_record t k w' = Some (fresh_claim e t k scope p (run_reads w)))"
proof (cases "idem_record t k w")
  case None
  then show ?thesis
    by (simp add: claim_mutation_def claim_idempotency_def prog_simps Let_def fresh_claim_def dict_simps)
next
  case (Some r)
  with assms show ?thesis
    by (simp add: claim_mutation_def claim_idempotency_def prog_simps Let_def fresh_claim_def dict_simps)
qed

lemma complete_claimed:
  assumes "idem_record t k w = Some r" "idem_request_hash r = fp"
  shows "complete_mutation e t k fp sc payload w = (Inr (),
    w\<lparr>run_reads := Suc (run_reads w), db_idempotency_records := dict_set (t, k)
      (r\<lparr>idem_state := COMPLETED, idem_response_status_code := Some sc, idem_response_payload := Some payload,
         idem_completed_at := Some (host_now e (run_reads w))\<rparr>) (db_idempotency_records w)\<rparr>)"
  using assms by (simp add: complete_mutation_def complete_idempotency_def prog_simps Let_def)

lemma valid_claim_hash: "valid_idempotency_record (fresh_claim e t k scope p n) \<Longrightarrow> request_fingerprint e scope p \<noteq> []"
  by (auto simp: valid_idempotency_record_def fresh_claim_def is_sha256_hex_def pattern_class_def len_between_def)

text \<open>The first successful execution stores its response under the claim.\<close>

lemma idempotent_first:
  assumes run: "idempotent e t (Some k) scope p sc dump replayed work w = (Inr x, w1)" and k: "k \<noteq> []"
    and new: "case idem_record t k w of None \<Rightarrow> True | Some r \<Rightarrow> idem_expires_at r \<le> host_now e (Suc (run_reads w))"
    and frame: "\<And>u. idem_record t k (snd (work u)) = idem_record t k u"
  obtains r where "idem_record t k w1 = Some r" "idem_state r = COMPLETED" "idem_response_payload r = Some (dump x)"
    "idem_response_status_code r = Some sc" "idem_scope r = scope" "idem_request_hash r = request_fingerprint e scope p"
    "idem_expires_at r = host_now e (run_reads w) + td_seconds (ctl_idempotency_ttl_seconds (env_controls e))"
proof -
  let ?c = "fresh_claim e t k scope p (run_reads w)"
  obtain w' where claim: "claim_mutation e t k scope p w = (if valid_idempotency_record ?c
       then Inr (request_fingerprint e scope p, None) else Inl (ValidationError ''IdempotencyRecord''), w')"
    "valid_idempotency_record ?c \<longrightarrow> idem_record t k w' = Some ?c"
    using claim_new [OF new] by blast
  have valid: "valid_idempotency_record ?c"
    using run k claim(1) by (auto simp: idempotent_def claim_optional_mutation_def prog_simps falsy_def split: if_splits)
  obtain res w2 where work: "work w' = (res, w2)" by fastforce
  have "res = Inr x" "complete_optional_mutation e t (Some k) (Some (request_fingerprint e scope p)) sc (dump x) w2 = (Inr (), w1)"
    using run k claim(1) valid work
    by (auto simp: idempotent_def claim_optional_mutation_def prog_simps falsy_def split: sum.splits prod.splits)
  moreover have "idem_record t k w2 = Some ?c" using frame [of w'] work claim(2) valid by simp
  ultimately show ?thesis
    using complete_claimed [of w2 t k ?c "request_fingerprint e scope p" e sc "dump x"] k valid_claim_hash [OF valid]
    by (intro that) (auto simp: complete_optional_mutation_def falsy_def fresh_claim_def dict_simps)
qed

lemma idempotent_again:
  assumes "idem_record t k w = Some r" "host_now e (Suc (run_reads w)) < idem_expires_at r" "k \<noteq> []"
  shows "idempotent e t (Some k) scope p sc dump replayed work w =
    (if idem_scope r \<noteq> scope \<or> idem_request_hash r \<noteq> request_fingerprint e scope p
     then (Inl (HTTPException 409 ''Idempotency-Key was already used for a different request''), read_clock 2 w)
     else if idem_state r = COMPLETED then replayed r (read_clock 2 w)
     else (Inl (HTTPException 409 ''A request with this Idempotency-Key is still in progress''), read_clock 2 w))"
  using assms claim_live [OF assms(1,2), of scope p]
  by (simp add: idempotent_def claim_optional_mutation_def prog_simps falsy_def)

section \<open>Properties\<close>

text \<open>
  C10. Execute once: after a request with an idempotency key has succeeded, every later request with
  the key inside its lifetime leaves the handler's work undone - the same request is answered from
  the stored response, a different one is refused with 409 - whatever happened to the rest of the
  world in between.
\<close>

theorem completed_requests_execute_once:
  assumes "idempotent e t (Some k) scope p sc dump replayed work w = (Inr x, w1)" "k \<noteq> []"
    and "case idem_record t k w of None \<Rightarrow> True | Some r \<Rightarrow> idem_expires_at r \<le> host_now e (Suc (run_reads w))"
    and "\<And>u. idem_record t k (snd (work u)) = idem_record t k u"
    and "idem_record t k w2 = idem_record t k w1"
    and "host_now e (Suc (run_reads w2)) <
      host_now e (run_reads w) + td_seconds (ctl_idempotency_ttl_seconds (env_controls e))"
  shows "\<exists>r. idem_response_payload r = Some (dump x) \<and> idem_response_status_code r = Some sc \<and>
    (\<forall>work' p' scope'. idempotent e t (Some k) scope' p' sc dump replayed work' w2 =
      (if scope' = scope \<and> request_fingerprint e scope' p' = request_fingerprint e scope p
       then replayed r (read_clock 2 w2)
       else (Inl (HTTPException 409 ''Idempotency-Key was already used for a different request''), read_clock 2 w2)))"
proof -
  obtain r where r: "idem_record t k w1 = Some r" "idem_state r = COMPLETED" "idem_response_payload r = Some (dump x)"
    "idem_response_status_code r = Some sc" "idem_scope r = scope" "idem_request_hash r = request_fingerprint e scope p"
    "idem_expires_at r = host_now e (run_reads w) + td_seconds (ctl_idempotency_ttl_seconds (env_controls e))"
    using idempotent_first [OF assms(1-4)] by blast
  have "idem_record t k w2 = Some r" using r(1) assms(5) by simp
  note again = idempotent_again [OF this _ assms(2), unfolded r(5-7), OF assms(6)]
  show ?thesis by (rule exI [of _ r]) (auto simp: r(2-4) again)
qed

text \<open>
  C40. A request whose work failed after the claim holds its key: until the claim expires, every
  retry of the same request is refused with 409 as still in progress and its work is never run.
\<close>

theorem failed_work_blocks_retries:
  assumes "claim_optional_mutation e t (Some k) scope p w = (Inr (fp, None), w')" "work w' = (Inl x, w1)" "k \<noteq> []"
    and "case idem_record t k w of None \<Rightarrow> True | Some r \<Rightarrow> idem_expires_at r \<le> host_now e (Suc (run_reads w))"
    and "\<And>u. idem_record t k (snd (work u)) = idem_record t k u"
    and "idem_record t k w2 = idem_record t k w1"
    and "host_now e (Suc (run_reads w2)) <
      host_now e (run_reads w) + td_seconds (ctl_idempotency_ttl_seconds (env_controls e))"
  shows "idempotent e t (Some k) scope p sc dump replayed work w = (Inl x, w1) \<and>
    (\<forall>work'. idempotent e t (Some k) scope p sc dump replayed work' w2 =
      (Inl (HTTPException 409 ''A request with this Idempotency-Key is still in progress''), read_clock 2 w2))"
proof -
  let ?c = "fresh_claim e t k scope p (run_reads w)"
  obtain u where claim: "claim_mutation e t k scope p w = (if valid_idempotency_record ?c
       then Inr (request_fingerprint e scope p, None) else Inl (ValidationError ''IdempotencyRecord''), u)"
    "valid_idempotency_record ?c \<longrightarrow> idem_record t k u = Some ?c"
    using claim_new [OF assms(4)] by blast
  have u: "u = w'" and valid: "valid_idempotency_record ?c"
    using assms(1,3) claim(1) by (auto simp: claim_optional_mutation_def prog_simps falsy_def split: if_splits)
  have "idem_record t k w2 = Some ?c" using assms(2,5,6) claim(2) valid u by (metis snd_conv)
  then have "idempotent e t (Some k) scope p sc dump replayed work' w2 =
      (Inl (HTTPException 409 ''A request with this Idempotency-Key is still in progress''), read_clock 2 w2)" for work'
    using assms(7) idempotent_again [OF _ _ assms(3), where w = w2 and r = ?c and e = e and scope = scope and p = p
      and sc = sc and dump = dump and replayed = replayed and work = work']
    by (simp add: fresh_claim_def)
  moreover have "idempotent e t (Some k) scope p sc dump replayed work w = (Inl x, w1)"
    using assms(1,2) by (simp add: idempotent_def prog_simps)
  ultimately show ?thesis by blast
qed

text \<open>Witnesses: an environment with a constant hash, and a request that succeeds or fails.\<close>

definition sample_controls :: runtime_controls where
  "sample_controls = \<lparr>ctl_llm_enabled = False, ctl_react_tool_calls_enabled = True,
     ctl_notifications_enabled = True, ctl_approval_actions_enabled = True, ctl_memory_reads_enabled = True,
     ctl_memory_writes_enabled = True, ctl_require_oidc = False, ctl_api_rate_limit = 60,
     ctl_api_rate_limit_window_seconds = 60, ctl_rate_limit_redis_required = False,
     ctl_idempotency_ttl_seconds = 86400, ctl_require_idempotency = False,
     ctl_tenant_automation_enabled = True, ctl_demo_evidence_enabled = True, ctl_retention_days = 90\<rparr>"

definition sample_api :: api_env where
  "sample_api = \<lparr>host_uuid4 = of_nat, host_now = int, env_controls = sample_controls, env_getenv = (\<lambda>_. None),
     env_sha256 = (\<lambda>_. replicate 64 CHR ''0''), env_dumps = (\<lambda>_. []), env_isoformat = string_of_int,
     env_isodate = string_of_int, env_departure_iso = (\<lambda>_. ''d''), env_uuid5 = (\<lambda>s. of_nat (length s)),
     env_dump = (\<lambda>_. []), env_validate = (\<lambda>_ _. Inl (ValidationError ''model'')),
     env_patch_profile = (\<lambda>_ p. Inr p), env_hmac_sha256 = (\<lambda>_ _. []), env_fromisoformat = (\<lambda>_. None),
     env_loads = (\<lambda>_. None), env_decode_webhook = (\<lambda>_. None),
     env_core_order = [''flight_status'', ''airport_weather'', ''ground_route'']\<rparr>"

lemma sample_api_fields:
  "host_now sample_api n = int n" "host_uuid4 sample_api n = of_nat n" "env_controls sample_api = sample_controls"
  "request_fingerprint sample_api scope p = replicate 64 CHR ''0''"
  by (simp_all add: sample_api_def request_fingerprint_def)

lemma sample_claim:
  "claim_optional_mutation sample_api ''t'' (Some ''k'') ''s'' JNull empty_world =
     (Inr (Some (replicate 64 CHR ''0''), None), snd (claim_mutation sample_api ''t'' ''k'' ''s'' JNull empty_world))"
proof -
  have new: "case idem_record ''t'' ''k'' empty_world of None \<Rightarrow> True
      | Some r \<Rightarrow> idem_expires_at r \<le> host_now sample_api (Suc (run_reads empty_world))"
    by (simp add: empty_world_def)
  have "pattern_class (\<lambda>c. digit09 c \<or> char_between CHR ''a'' CHR ''f'' c) 64 64 (replicate 64 CHR ''0'')"
    by code_simp
  then have "valid_idempotency_record (fresh_claim sample_api ''t'' ''k'' ''s'' JNull (run_reads empty_world))"
    by (simp add: valid_idempotency_record_def fresh_claim_def is_sha256_hex_def len_between_def sample_api_fields)
  with claim_new [OF new, of "''s''" JNull] show ?thesis
    by (auto simp: claim_optional_mutation_def falsy_def prog_simps sample_api_fields split: prod.splits)
qed

lemma sample_claim_reads: "run_reads (snd (claim_mutation sample_api ''t'' ''k'' ''s'' JNull empty_world)) = 3"
  by (simp add: claim_mutation_def claim_idempotency_def prog_simps Let_def empty_world_def)

theorem completed_requests_execute_once_witness:
  "\<exists>w1. idempotent sample_api ''t'' (Some ''k'') ''s'' JNull 200 (\<lambda>_. []) (\<lambda>_. ret 1) (ret (0 :: int)) empty_world
       = (Inr 0, w1) \<and>
     fst (idempotent sample_api ''t'' (Some ''k'') ''s'' JNull 200 (\<lambda>_. []) (\<lambda>_. ret 1) (ret (7 :: int)) w1) = Inr 1"
proof -
  let ?run = "idempotent sample_api ''t'' (Some ''k'') ''s'' JNull 200 (\<lambda>_. []) (\<lambda>_. ret 1) (ret (0 :: int)) empty_world"
  let ?c = "fresh_claim sample_api ''t'' ''k'' ''s'' JNull (run_reads empty_world)"
  have new: "case idem_record ''t'' ''k'' empty_world of None \<Rightarrow> True
      | Some r \<Rightarrow> idem_expires_at r \<le> host_now sample_api (Suc (run_reads empty_world))"
    by (simp add: empty_world_def)
  define u where "u = snd (claim_mutation sample_api ''t'' ''k'' ''s'' JNull empty_world)"
  have "fst (claim_mutation sample_api ''t'' ''k'' ''s'' JNull empty_world) = Inr (replicate 64 CHR ''0'', None)"
    using sample_claim by (auto simp: claim_optional_mutation_def falsy_def prog_simps split: prod.splits sum.splits)
  with claim_new [OF new, of "''s''" JNull] have rec: "idem_record ''t'' ''k'' u = Some ?c"
    by (auto simp: u_def split: if_splits)
  have "complete_mutation sample_api ''t'' ''k'' (replicate 64 CHR ''0'') 200 [] u = (Inr (), snd (complete_mutation
      sample_api ''t'' ''k'' (replicate 64 CHR ''0'') 200 [] u))"
    using complete_claimed [OF rec, of "replicate 64 CHR ''0''" sample_api 200 "[]"]
    by (simp add: fresh_claim_def sample_api_fields)
  then obtain w1 where run: "?run = (Inr 0, w1)" and reads: "run_reads w1 = Suc (run_reads u)"
    using sample_claim complete_claimed [OF rec, of "replicate 64 CHR ''0''" sample_api 200 "[]"]
    by (auto simp: idempotent_def prog_simps complete_optional_mutation_def falsy_def u_def [symmetric]
      fresh_claim_def sample_api_fields)
  have "run_reads u = 3" by (simp add: u_def sample_claim_reads)
  then have time: "host_now sample_api (Suc (run_reads w1)) < host_now sample_api (run_reads empty_world) +
      td_seconds (ctl_idempotency_ttl_seconds (env_controls sample_api))"
    by (simp add: reads sample_api_fields sample_controls_def td_defs)
  have frame: "idem_record ''t'' ''k'' (snd (ret (0 :: int) v)) = idem_record ''t'' ''k'' v" for v
    by (simp add: ret_app)
  have "fst (idempotent sample_api ''t'' (Some ''k'') ''s'' JNull 200 (\<lambda>_. []) (\<lambda>_. ret 1) (ret (7 :: int)) w1) = Inr 1"
    using completed_requests_execute_once [OF run _ new frame refl time] by (auto simp: ret_app)
  with run show ?thesis by blast
qed

theorem failed_work_blocks_retries_witness:
  "\<exists>w1. idempotent sample_api ''t'' (Some ''k'') ''s'' JNull 200 (\<lambda>_. []) (\<lambda>_. ret (1 :: int)) (throw OverflowError) empty_world
       = (Inl OverflowError, w1) \<and>
     fst (idempotent sample_api ''t'' (Some ''k'') ''s'' JNull 200 (\<lambda>_. []) (\<lambda>_. ret 1) (ret (7 :: int)) w1) =
       Inl (HTTPException 409 ''A request with this Idempotency-Key is still in progress'')"
proof -
  define w1 where "w1 = snd (claim_mutation sample_api ''t'' ''k'' ''s'' JNull empty_world)"
  have reads: "run_reads w1 = 3" by (simp add: w1_def sample_claim_reads)
  have "idempotent sample_api ''t'' (Some ''k'') ''s'' JNull 200 (\<lambda>_. []) (\<lambda>_. ret (1 :: int)) (throw OverflowError) empty_world
       = (Inl OverflowError, w1) \<and>
    (\<forall>work'. idempotent sample_api ''t'' (Some ''k'') ''s'' JNull 200 (\<lambda>_. []) (\<lambda>_. ret (1 :: int)) work' w1 =
      (Inl (HTTPException 409 ''A request with this Idempotency-Key is still in progress''), read_clock 2 w1))"
    by (rule failed_work_blocks_retries [OF sample_claim [folded w1_def], where work = "throw OverflowError"])
      (simp_all add: reads throw_app sample_api_fields sample_controls_def td_defs empty_world_def)
  then show ?thesis by auto
qed

end
