(* ===== verification/Trips.thy ===== *)
theory Trips
  imports Api
begin

text \<open>
  The trip, evidence and incident endpoints of \<^verbatim>\<open>apps/api/main.py\<close> that do not assess: creation and
  assignment, the evidence snapshot, the alternatives, and the scoped reads of incidents and audit
  events.  A request carries the four headers the handlers declare.
\<close>

record request =
  rq_tenant_id :: "string option"
  rq_actor_role :: "user_role option"
  rq_actor_id :: "string option"
  rq_idempotency_key :: "string option"

text \<open>The identity of a request, checked against a trip or an incident's trip.\<close>

abbreviation trip_access :: "'e api_env_scheme \<Rightarrow> request \<Rightarrow> trip \<Rightarrow> user_role list \<Rightarrow> unit act" where
  "trip_access e rq t roles \<equiv> require_trip_access e t (rq_actor_role rq) (rq_actor_id rq) roles"

abbreviation incident_trip_access ::
  "'e api_env_scheme \<Rightarrow> request \<Rightarrow> string \<Rightarrow> uuid \<Rightarrow> user_role list \<Rightarrow> (incident \<times> trip) act" where
  "incident_trip_access e rq tenant_id incident_id roles \<equiv>
     require_incident_trip_access e tenant_id incident_id (rq_actor_role rq) (rq_actor_id rq) roles"

abbreviation all_trip_roles :: "user_role list" where
  "all_trip_roles \<equiv> [TRAVELER, TRAVEL_MANAGER, DUTY_OF_CARE, TENANT_ADMIN]"

abbreviation staff_roles :: "user_role list" where
  "staff_roles \<equiv> [TRAVEL_MANAGER, DUTY_OF_CARE, TENANT_ADMIN]"

abbreviation found :: "'a option \<Rightarrow> string \<Rightarrow> ('a \<Rightarrow> 'b act) \<Rightarrow> 'b act" where
  "found x detail f \<equiv> (case x of None \<Rightarrow> throw (HTTPException 404 detail) | Some v \<Rightarrow> f v)"

section \<open>Trips\<close>

definition api_create_trip :: "'e api_env_scheme \<Rightarrow> request \<Rightarrow> trip_create \<Rightarrow> trip act" where
  "api_create_trip e rq payload =
     thenP (require_role (rq_actor_role rq) [TRAVEL_MANAGER, TENANT_ADMIN])
     (bindP (require_tenant (rq_tenant_id rq)) (\<lambda>tenant_id.
     thenP (raise_when (trip_tenant_id payload \<noteq> tenant_id) (HTTPException 403 ''tenant mismatch''))
     (bindP (require_actor_id e (rq_actor_id rq)) (\<lambda>actor_id.
     let own = rq_actor_role rq = Some TRAVEL_MANAGER \<and> truthy actor_id in
     thenP (raise_when (own \<and> truthy (trip_assigned_manager_id payload) \<and>
              trip_assigned_manager_id payload \<noteq> actor_id)
              (HTTPException 403 ''assignment mismatch''))
     (let trip_payload = (if own then payload\<lparr>trip_assigned_manager_id := actor_id\<rparr> else payload) in
      idempotent e tenant_id (rq_idempotency_key rq) ''POST:/v1/trips'' (JObj (env_dump e (MTripCreate payload)))
        201 (\<lambda>t. env_dump e (MTrip t)) (replay_as e ''Trip'' (\<lambda>m. case m of MTrip t \<Rightarrow> Some t | _ \<Rightarrow> None))
        (bindP (uuid4 e) (\<lambda>trip_id. bindP (now_utc e) (\<lambda>created_at.
          let t = trip_create.extend trip_payload
                \<lparr>trip_trip_id = trip_id, trip_status = TRIP_ACTIVE, trip_created_at = created_at\<rparr> in
          thenP (raise_when (\<not> valid_trip_create t) (ValidationError ''Trip''))
          (thenP (modify (repo_create_trip t))
          (bindP (uuid4 e) (\<lambda>correlation_id.
          thenP (emit_event e ''trip.created'' tenant_id (Some trip_id) correlation_id None [])
            (ret t))))))))))))"

definition api_get_trip :: "'e api_env_scheme \<Rightarrow> request \<Rightarrow> uuid \<Rightarrow> trip act" where
  "api_get_trip e rq trip_id =
     bindP (require_tenant (rq_tenant_id rq)) (\<lambda>tenant_id.
     bindP (gets (get_trip tenant_id trip_id)) (\<lambda>t. found t ''trip not found'' (\<lambda>t.
     thenP (trip_access e rq t all_trip_roles) (ret t))))"

definition assign_trip_manager :: "'e api_env_scheme \<Rightarrow> request \<Rightarrow> uuid \<Rightarrow> string \<Rightarrow> trip act" where
  "assign_trip_manager e rq trip_id manager_id =
     thenP (require_role (rq_actor_role rq) [TENANT_ADMIN])
     (bindP (require_actor_id e (rq_actor_id rq)) (\<lambda>assignment_actor_id.
     bindP (require_tenant (rq_tenant_id rq)) (\<lambda>tenant_id.
     bindP (gets (get_trip tenant_id trip_id)) (\<lambda>t. found t ''trip not found'' (\<lambda>t.
     idempotent e tenant_id (rq_idempotency_key rq) (''PUT:/v1/trips/'' @ str_uuid trip_id @ ''/assignment'')
       (JObj (env_dump e (MAssignment manager_id))) 200 (\<lambda>t. env_dump e (MTrip t))
       (replay_as e ''Trip'' (\<lambda>m. case m of MTrip t \<Rightarrow> Some t | _ \<Rightarrow> None))
       (let t' = t\<lparr>trip_assigned_manager_id := Some manager_id\<rparr> in
        thenP (modify (save_trip t'))
        (bindP (uuid4 e) (\<lambda>correlation_id.
        thenP (emit_event e ''trip.manager_assigned'' tenant_id (Some (trip_trip_id t')) correlation_id
                assignment_actor_id [(''assigned_manager_id'', JStr manager_id)])
          (ret t')))))))))"

definition put_evidence :: "'e api_env_scheme \<Rightarrow> request \<Rightarrow> uuid \<Rightarrow> evidence_envelope list \<Rightarrow> int act" where
  "put_evidence e rq trip_id payload =
     bindP (require_tenant (rq_tenant_id rq)) (\<lambda>tenant_id.
     bindP (gets (get_trip tenant_id trip_id)) (\<lambda>t. found t ''trip not found'' (\<lambda>t.
     thenP (trip_access e rq t staff_roles)
     (idempotent e tenant_id (rq_idempotency_key rq) (''PUT:/v1/trips/'' @ str_uuid trip_id @ ''/evidence'')
       (JList (map (\<lambda>item. JObj (env_dump e (MEvidence item))) payload)) 204 (\<lambda>_. [])
       (\<lambda>r. ret (case idem_response_status_code r of None \<Rightarrow> 204 | Some c \<Rightarrow> if c = 0 then 204 else c))
       (thenP (save_evidence tenant_id trip_id payload) (ret 204))))))"

definition alternatives_for_trip :: "'e api_env_scheme \<Rightarrow> request \<Rightarrow> uuid \<Rightarrow> evaluated_candidate list act" where
  "alternatives_for_trip e rq trip_id =
     bindP (require_tenant (rq_tenant_id rq)) (\<lambda>tenant_id.
     bindP (gets (get_trip tenant_id trip_id)) (\<lambda>t. found t ''trip not found'' (\<lambda>t.
     thenP (trip_access e rq t all_trip_roles)
     (bindP (lift_result (result_map (\<lambda>c. evaluate_policy_eligible_candidate c default_policy) fixture_alternatives))
       (\<lambda>evaluated. ret (rank_eligible evaluated))))))"

section \<open>Incidents and audit events\<close>

definition elevated :: "incident \<Rightarrow> bool" where
  "elevated i \<longleftrightarrow> severity_value (inc_severity i) \<in> {''high'', ''critical''}"

text \<open>\<^verbatim>\<open>events[-limit:]\<close> for a positive limit.\<close>

definition last_n :: "nat \<Rightarrow> 'a list \<Rightarrow> 'a list" where
  "last_n n xs = drop (length xs - n) xs"

definition run_events :: "'e api_env_scheme \<Rightarrow> request \<Rightarrow> string \<Rightarrow> nat \<Rightarrow> event_record list act" where
  "run_events e rq run_id limit =
     thenP (require_role (rq_actor_role rq) staff_roles)
     (bindP (require_tenant (rq_tenant_id rq)) (\<lambda>tenant_id.
     bindP (require_actor_id e (rq_actor_id rq)) (\<lambda>actor_id.
     bindP (gets (list_incidents tenant_id)) (\<lambda>incidents.
     case filter (\<lambda>i. str_uuid (inc_correlation_id i) = run_id) incidents of
       [] \<Rightarrow> ret []
     | i # _ \<Rightarrow> bindP (gets (get_trip tenant_id (inc_trip_id i))) (\<lambda>t. case t of
         None \<Rightarrow> ret []
       | Some t \<Rightarrow>
           thenP (require_trip_access e t (rq_actor_role rq) actor_id staff_roles)
           (thenP (raise_when (rq_actor_role rq = Some DUTY_OF_CARE \<and> \<not> elevated i)
                    (HTTPException 403 ''incident access denied''))
           (bindP (gets (list_events tenant_id)) (\<lambda>events.
             ret (last_n limit (filter (\<lambda>ev. str_uuid (evt_correlation_id ev) = run_id) events))))))))))"

fun severity_order :: "severity \<Rightarrow> nat" where
  "severity_order CRITICAL = 4"
| "severity_order HIGH = 3"
| "severity_order WATCH = 2"
| "severity_order LOW = 1"

definition manages :: "string \<Rightarrow> string option \<Rightarrow> world \<Rightarrow> uuid \<Rightarrow> bool" where
  "manages tenant_id actor_id w trip_id = (case get_trip tenant_id trip_id w of
     None \<Rightarrow> False | Some t \<Rightarrow> trip_assigned_manager_id t = actor_id)"

definition api_list_incidents :: "'e api_env_scheme \<Rightarrow> request \<Rightarrow> nat \<Rightarrow> nat \<Rightarrow> incident list act" where
  "api_list_incidents e rq limit offset =
     thenP (require_role (rq_actor_role rq) staff_roles)
     (bindP (require_tenant (rq_tenant_id rq)) (\<lambda>tenant_id.
     bindP (require_actor_id e (rq_actor_id rq)) (\<lambda>actor_id.
     bindP (gets (\<lambda>w. let incidents = list_incidents tenant_id w in
         if rq_actor_role rq = Some TRAVEL_MANAGER \<and> truthy actor_id
         then filter (\<lambda>i. manages tenant_id actor_id w (inc_trip_id i)) incidents else incidents)) (\<lambda>assigned.
     let incidents = (if rq_actor_role rq = Some DUTY_OF_CARE then filter elevated assigned else assigned) in
     ret (take limit (drop offset
       (py_sorted_desc (\<lambda>i. (severity_order (inc_severity i), inc_created_at i)) incidents)))))))"

definition api_get_incident :: "'e api_env_scheme \<Rightarrow> request \<Rightarrow> uuid \<Rightarrow> incident act" where
  "api_get_incident e rq incident_id =
     thenP (require_role (rq_actor_role rq) staff_roles)
     (bindP (require_tenant (rq_tenant_id rq)) (\<lambda>tenant_id.
     bindP (gets (get_incident tenant_id incident_id)) (\<lambda>i. found i ''incident not found'' (\<lambda>i.
     bindP (gets (get_trip tenant_id (inc_trip_id i))) (\<lambda>t. found t ''trip not found'' (\<lambda>t.
     thenP (trip_access e rq t staff_roles)
     (thenP (raise_when (rq_actor_role rq = Some DUTY_OF_CARE \<and> \<not> elevated i)
              (HTTPException 403 ''incident access denied''))
       (ret i))))))))"

definition traveler_incident_view :: "incident \<Rightarrow> traveler_incident_view" where
  "traveler_incident_view i = \<lparr>tiv_incident_id = inc_incident_id i, tiv_trip_id = inc_trip_id i,
     tiv_severity = inc_severity i, tiv_status = inc_status i, tiv_created_at = inc_created_at i,
     tiv_updated_at = inc_updated_at i,
     tiv_approved_guidance =
       (if inc_status i = APPROVED then map_option rec_traveler_message (inc_recommendation i) else None)\<rparr>"

definition list_traveler_incidents ::
  "'e api_env_scheme \<Rightarrow> request \<Rightarrow> string \<Rightarrow> traveler_incident_view list act" where
  "list_traveler_incidents e rq traveler_id =
     thenP (require_role (rq_actor_role rq) [TRAVELER])
     (bindP (require_actor_id e (rq_actor_id rq)) (\<lambda>actor_id.
     thenP (raise_when (truthy actor_id \<and> actor_id \<noteq> Some traveler_id)
              (HTTPException 403 ''incident access denied''))
     (bindP (require_tenant (rq_tenant_id rq)) (\<lambda>tenant_id.
     gets (\<lambda>w. map traveler_incident_view (filter
       (\<lambda>i. case get_trip tenant_id (inc_trip_id i) w of
          None \<Rightarrow> False | Some t \<Rightarrow> trip_traveler_id t = traveler_id)
       (list_incidents tenant_id w)))))))"

end
