(* ===== verification/Graph.thy ===== *)
theory Graph
  imports Api
begin

text \<open>
  \<^verbatim>\<open>agent/graph.py\<close> and \<^verbatim>\<open>tools/openai_provider.py\<close>: the nodes of the investigation graph, the edges
  between them, and the run of the graph until the approval interrupt, the end, or LangGraph's
  recursion limit.  The chat model is a parameter: what it answers to a request may depend on how
  many identifiers have been drawn, so two calls may differ; either call may raise.
\<close>

section \<open>The model provider\<close>

text \<open>Every schema asks for a trip identifier and nothing else.\<close>

definition tool_schema :: "string \<Rightarrow> string \<Rightarrow> json_object" where
  "tool_schema name description =
     [(''type'', JStr ''function''),
      (''function'', JObj
        [(''name'', JStr name), (''description'', JStr description),
         (''parameters'', JObj
           [(''type'', JStr ''object''),
            (''properties'', JObj [(''trip_id'', JObj [(''type'', JStr ''string'')])]),
            (''required'', JList [JStr ''trip_id'']), (''additionalProperties'', JBool False)])])]"

definition READ_ONLY_TOOL_SCHEMAS :: "json_object list" where
  "READ_ONLY_TOOL_SCHEMAS =
     [tool_schema ''get_trip_context'' ''Retrieve the already scoped itinerary context for a trip.'',
      tool_schema ''get_flight_status'' ''Retrieve the normalized current flight status for a trip.'',
      tool_schema ''get_connection_feasibility'' ''Recalculate connection feasibility for a trip.'',
      tool_schema ''get_airport_weather'' ''Retrieve normalized airport weather risk for a trip.'',
      tool_schema ''get_ground_route_risk'' ''Retrieve normalized ground-route risk for a trip.'',
      tool_schema ''get_destination_advisory'' ''Retrieve normalized destination advisory context for a trip.'',
      tool_schema ''find_alternative_flights'' ''Retrieve available alternative flights for a trip.'',
      tool_schema ''get_corporate_travel_policy'' ''Retrieve the applicable corporate travel policy for a trip.'']"

definition schema_name :: "json_object \<Rightarrow> string list" where
  "schema_name schema = (case dict_get schema ''function'' of
     Some (JObj f) \<Rightarrow> (case dict_get f ''name'' of Some (JStr name) \<Rightarrow> [name] | _ \<Rightarrow> []) | _ \<Rightarrow> [])"

definition READ_ONLY_TOOL_NAMES :: "string list" where
  "READ_ONLY_TOOL_NAMES = concat (map schema_name READ_ONLY_TOOL_SCHEMAS)"

record recommendation_output =
  ro_severity_explanation :: string
  ro_evidence_ids :: "uuid list"
  ro_uncertainty :: string
  ro_recommended_action :: string
  ro_ranked_alternative_ids :: "string list"
  ro_traveler_message :: string
  ro_manager_message :: string
  ro_requires_human_approval :: bool
  ro_missing_information :: "string list"

record tool_selection =
  ts_name :: string
  ts_arguments :: json_object

text \<open>
  \<open>env_chat\<close> and \<open>env_structured\<close> are the two invocations of the chat model, \<open>env_str\<close> is \<^verbatim>\<open>str\<close> on
  a value that is not a string, and \<open>env_idle_resume\<close> what LangGraph does with a resume command for
  a thread that is not waiting.
\<close>

record graph_env = api_env +
  env_openai_model :: string
  env_openai_api_key :: "string option"
  env_chat :: "nat \<Rightarrow> json \<Rightarrow> json result"
  env_structured :: "nat \<Rightarrow> json \<Rightarrow> recommendation_output result"
  env_str :: "json \<Rightarrow> string"
  env_dump_candidate :: "evaluated_candidate \<Rightarrow> json_object"
  env_idle_resume :: "graph_checkpoint option \<Rightarrow> exn option"

definition available_for :: "'e graph_env_scheme \<Rightarrow> bool \<Rightarrow> bool" where
  "available_for e enabled \<longleftrightarrow> enabled \<and> truthy (env_openai_api_key e)"

definition audit_metadata :: "'e graph_env_scheme \<Rightarrow> string \<Rightarrow> string \<Rightarrow> json_object" where
  "audit_metadata e invocation_type outcome =
     [(''provider'', JStr ''openai''), (''model'', JStr (env_openai_model e)),
      (''prompt_version'', JStr (if invocation_type = ''tool_selection'' then ''tool-selection-2026-08-09''
         else ''recommendation-2026-08-09'')),
      (''invocation_type'', JStr invocation_type), (''outcome'', JStr outcome),
      (''token_usage'', JNull), (''estimated_cost_usd'', JNull)]"

definition checked_selection :: "string \<Rightarrow> json \<Rightarrow> tool_selection option" where
  "checked_selection trip_id tool_calls = (case tool_calls of
     JList [JObj call] \<Rightarrow> (case (dict_get call ''name'', dict_get call ''args'') of
       (Some (JStr name), Some (JObj arguments)) \<Rightarrow>
         if name \<notin> set READ_ONLY_TOOL_NAMES then None
         else if dict_get arguments ''trip_id'' \<noteq> Some (JStr trip_id) \<or> set (dict_keys arguments) \<noteq> {''trip_id''}
         then None
         else Some \<lparr>ts_name = name, ts_arguments = arguments\<rparr>
     | _ \<Rightarrow> None)
   | _ \<Rightarrow> None)"

definition select_tool ::
  "'e graph_env_scheme \<Rightarrow> string \<Rightarrow> json_object \<Rightarrow> json_object list \<Rightarrow> json_object \<Rightarrow> bool \<Rightarrow>
    tool_selection option act" where
  "select_tool e trip_id risk_assessment evidence source_health enabled =
     (if \<not> available_for e enabled
      then throw (RuntimeError ''OpenAI tool selection is disabled or OPENAI_API_KEY is unavailable'')
      else bindP (gets run_draws) (\<lambda>n.
        bindP (lift_result (env_chat e n (JObj
            [(''trip_id'', JStr trip_id), (''risk_assessment'', JObj risk_assessment),
             (''evidence'', JList (map JObj evidence)), (''source_health'', JObj source_health),
             (''instruction'', JStr ''Request at most one follow-up tool, or none.'')])))
          (\<lambda>tool_calls. ret (checked_selection trip_id tool_calls))))"

definition recommend ::
  "'e graph_env_scheme \<Rightarrow> uuid \<Rightarrow> json_object \<Rightarrow> json_object list \<Rightarrow> bool \<Rightarrow> recommendation act" where
  "recommend e incident_id risk_assessment evidence enabled =
     (if \<not> available_for e enabled
      then throw (RuntimeError ''OpenAI recommendations are disabled or OPENAI_API_KEY is unavailable'')
      else bindP (gets run_draws) (\<lambda>n.
        bindP (lift_result (env_structured e n (JObj
            [(''risk_assessment'', JObj risk_assessment), (''evidence'', JList (map JObj evidence)),
             (''instruction'', JStr ''Produce a manager-review recommendation only.'')]))) (\<lambda>out.
        bindP (uuid4 e) (\<lambda>rid. bindP (now_utc e) (\<lambda>generated_at.
          let r = \<lparr>rec_recommendation_id = rid, rec_incident_id = incident_id,
                rec_severity_explanation = ro_severity_explanation out, rec_evidence_ids = ro_evidence_ids out,
                rec_uncertainty = ro_uncertainty out, rec_recommended_action = ro_recommended_action out,
                rec_ranked_alternative_ids = ro_ranked_alternative_ids out,
                rec_traveler_message = ro_traveler_message out, rec_manager_message = ro_manager_message out,
                rec_requires_human_approval = ro_requires_human_approval out,
                rec_missing_information = ro_missing_information out, rec_generated_at = generated_at\<rparr>
          in if valid_recommendation r then ret r else throw (ValidationError ''Recommendation''))))))"

section \<open>Helpers of the nodes\<close>

definition MAX_REACT_ITERATIONS :: int where
  "MAX_REACT_ITERATIONS = 3"

definition py_str :: "'e graph_env_scheme \<Rightarrow> json \<Rightarrow> string" where
  "py_str e v = (case v of JStr s \<Rightarrow> s | _ \<Rightarrow> env_str e v)"

definition severity_text :: "'e graph_env_scheme \<Rightarrow> route_risk_state \<Rightarrow> string" where
  "severity_text e st = py_str e (get_or (gs_risk_assessment st) ''severity'' (JStr ''low''))"

definition unavailable_sources :: "route_risk_state \<Rightarrow> json" where
  "unavailable_sources st = get_or (gs_source_health st) ''core_sources_unavailable'' (JList [])"

definition known_evidence_ids :: "'e graph_env_scheme \<Rightarrow> route_risk_state \<Rightarrow> string list" where
  "known_evidence_ids e st = [py_str e v. item \<leftarrow> gs_evidence st,
     v \<leftarrow> (case dict_get item ''evidence_id'' of None \<Rightarrow> [] | Some v \<Rightarrow> [v])]"

definition elevated_text :: "string \<Rightarrow> bool" where
  "elevated_text s \<longleftrightarrow> s \<in> {''high'', ''critical''}"

definition next_tool :: "'e graph_env_scheme \<Rightarrow> route_risk_state \<Rightarrow> string option" where
  "next_tool e st =
     (if gs_react_iterations st \<ge> MAX_REACT_ITERATIONS then None
      else let evidence_types = map (\<lambda>item. py_str e (get_or item ''source_type'' JNull)) (gs_evidence st);
               already_called = map (\<lambda>item. py_str e (get_or item ''tool_name'' JNull)) (gs_tool_audit st)
           in map_option snd (List.find (\<lambda>(source_type, tool_name).
                source_type \<in> set evidence_types \<and> tool_name \<notin> set already_called)
                [(''flight_status'', ''get_flight_status''),
                 (''connection_feasibility'', ''get_connection_feasibility''),
                 (''airport_weather'', ''get_airport_weather'')]))"

definition base_recommendation :: "'e graph_env_scheme \<Rightarrow> route_risk_state \<Rightarrow> json_object" where
  "base_recommendation e st =
     [(''severity_explanation'', JStr (''Deterministic assessment severity is '' @ severity_text e st @ ''.'')),
      (''evidence_ids'', JList (map JStr (known_evidence_ids e st))),
      (''uncertainty'', JStr (if json_truthy (unavailable_sources st) then ''high'' else ''medium'')),
      (''recommended_action'', JStr ''Have a travel manager review before any itinerary action.''),
      (''traveler_message'', JStr (''Your travel manager is reviewing a possible disruption. '' @
         ''No itinerary change has been made.'')),
      (''manager_message'', JStr ''Review the cited evidence before approving any itinerary action.''),
      (''requires_human_approval'', JBool True),
      (''missing_information'', case unavailable_sources st of JList xs \<Rightarrow> JList xs | _ \<Rightarrow> JList [])]"

definition or_base :: "'e graph_env_scheme \<Rightarrow> route_risk_state \<Rightarrow> json_object" where
  "or_base e st = (case gs_recommendation st of
     None \<Rightarrow> base_recommendation e st
   | Some r \<Rightarrow> if r = [] then base_recommendation e st else r)"

definition tool_record :: "string \<Rightarrow> json_object \<Rightarrow> string list \<Rightarrow> string \<Rightarrow> json_object" where
  "tool_record tool_name arguments evidence_ids outcome =
     [(''tool_name'', JStr tool_name), (''arguments'', JObj arguments),
      (''evidence_ids'', JList (map JStr evidence_ids)), (''outcome'', JStr outcome)]"

text \<open>
  \<^verbatim>\<open>UUID(text)\<close>; of the spellings Python accepts only the canonical one is read, which is the only
  one the API passes.
\<close>

definition hex_value :: "char \<Rightarrow> nat" where
  "hex_value c = (let n = of_char c in if n < 97 then n - 48 else n - 87)"

definition is_hex :: "char \<Rightarrow> bool" where
  "is_hex c \<longleftrightarrow> digit09 c \<or> char_between (CHR ''a'') (CHR ''f'') c"

definition hex_number :: "string \<Rightarrow> nat" where
  "hex_number s = fold (\<lambda>c n. 16 * n + hex_value c) s 0"

definition py_uuid :: "string \<Rightarrow> uuid result" where
  "py_uuid s = (let digits = filter (\<lambda>c. c \<noteq> CHR ''-'') s in
     if length digits = 32 \<and> list_all is_hex digits then Inr (of_nat (hex_number digits))
     else Inl (ValueError ''badly formed hexadecimal UUID string''))"

section \<open>Nodes\<close>

definition allowed_memory_fields :: "string list" where
  "allowed_memory_fields =
     [''preferred_airports'', ''preferred_carriers'', ''minimum_connection_minutes'', ''avoid_overnight_connections'',
      ''approved_ground_transport_preferences'', ''approved_accessibility_accommodations'', ''version'']"

definition supplied_memory :: "json \<Rightarrow> json_object option" where
  "supplied_memory supplied = (case supplied of
     JObj d \<Rightarrow> Some (filter (\<lambda>(k, v). k \<in> set allowed_memory_fields) d) | _ \<Rightarrow> None)"

definition string_field :: "json_object \<Rightarrow> string \<Rightarrow> bool" where
  "string_field d k \<longleftrightarrow> (case dict_get d k of Some (JStr s) \<Rightarrow> True | _ \<Rightarrow> False)"

definition approved_playbook :: "json \<Rightarrow> json_object list" where
  "approved_playbook item = (case item of
     JObj d \<Rightarrow> if list_all (string_field d) [''playbook_id'', ''name'', ''version'', ''guidance'']
       then [map (\<lambda>k. (k, get_or d k JNull)) [''playbook_id'', ''name'', ''version'', ''guidance'']] else []
   | _ \<Rightarrow> [])"

definition is_int :: "json \<Rightarrow> bool" where
  "is_int v \<longleftrightarrow> (case v of JInt n \<Rightarrow> True | JBool b \<Rightarrow> True | _ \<Rightarrow> False)"

definition load_memory_context :: "route_risk_state \<Rightarrow> route_risk_state" where
  "load_memory_context st =
     (let memory_context = supplied_memory (gs_traveler_context st);
          playbooks = concat (map approved_playbook (gs_playbook_context st));
          version = (if opt_object_truthy memory_context then get_or (the memory_context) ''version'' JNull else JNull);
          outcome = (if opt_object_truthy memory_context \<and> playbooks \<noteq> [] then ''profile_and_playbooks_loaded''
            else if opt_object_truthy memory_context then ''profile_loaded''
            else if playbooks \<noteq> [] then ''playbooks_loaded'' else ''no_confirmed_profile_or_playbook'')
      in st\<lparr>gs_memory_context := memory_context,
            gs_memory_context_version := (if is_int version then version else JNull),
            gs_approved_playbooks := playbooks,
            gs_tool_audit := gs_tool_audit st @
              [tool_record ''load_memory_context'' [(''scope'', JStr ''tenant_traveler_profile'')] [] outcome]\<rparr>)"

definition selection_summary :: "'e graph_env_scheme \<Rightarrow> route_risk_state \<Rightarrow> json" where
  "selection_summary e st = JObj [(''severity'', JStr (severity_text e st)),
     (''evidence_count'', JInt (int (length (gs_evidence st)))),
     (''core_sources_unavailable'', unavailable_sources st)]"

definition react_assistant :: "'e graph_env_scheme \<Rightarrow> route_risk_state \<Rightarrow> route_risk_state act" where
  "react_assistant e st =
     (if \<not> gs_tool_selection_attempted st \<and> available_for e (gs_llm_enabled st)
      then bindP (try_except
             (bindP (select_tool e (gs_trip_id st) (gs_risk_assessment st) (gs_evidence st) (gs_source_health st) True)
               (\<lambda>s. ret (Some s)))
             (\<lambda>_. ret None)) (\<lambda>attempt.
        let audited = (\<lambda>arguments tool_outcome model_outcome.
              st\<lparr>gs_tool_selection_attempted := True,
                 gs_tool_audit := gs_tool_audit st @ [tool_record ''model_tool_selection'' arguments [] tool_outcome],
                 gs_model_audit := gs_model_audit st @ [audit_metadata e ''tool_selection'' model_outcome @
                   [(''input_summary'', selection_summary e st)]]\<rparr>)
        in ret (case attempt of
             None \<Rightarrow> (audited [] ''model_selection_failed_fallback_used'' ''failed_fallback_used'')
                \<lparr>gs_tool_selection_mode := Some ''deterministic_fallback''\<rparr>
           | Some (Some selection) \<Rightarrow>
               (audited [(''tool_requested'', JStr (ts_name selection))] ''model_selected_tool'' ''tool_selected'')
                \<lparr>gs_tool_selection_mode := Some ''model_selected'',
                 gs_pending_tool_call := Some [(''name'', JStr (ts_name selection)),
                   (''arguments'', JObj (ts_arguments selection))]\<rparr>
           | Some None \<Rightarrow>
               (audited [(''tool_requested'', JNull)] ''model_selected_no_tool'' ''no_tool_selected'')
                \<lparr>gs_tool_selection_mode := Some ''model_selected_no_tool'', gs_pending_tool_call := None,
                 gs_recommendation := Some (base_recommendation e st)\<rparr>))
      else ret (case next_tool e st of
        None \<Rightarrow> st\<lparr>gs_pending_tool_call := None, gs_recommendation := Some (base_recommendation e st)\<rparr>
      | Some tool_name \<Rightarrow> st\<lparr>gs_tool_selection_mode := Some ''deterministic_follow_up'',
          gs_pending_tool_call := Some [(''name'', JStr tool_name),
            (''arguments'', JObj [(''trip_id'', JStr (gs_trip_id st))])]\<rparr>))"

definition run_read_only_tool :: "'e graph_env_scheme \<Rightarrow> route_risk_state \<Rightarrow> route_risk_state" where
  "run_read_only_tool e st =
     (let refused = st\<lparr>gs_pending_tool_call := None, gs_recommendation := Some (base_recommendation e st)\<rparr> in
      case gs_pending_tool_call st of None \<Rightarrow> refused
      | Some call \<Rightarrow> (case (dict_get call ''name'', dict_get call ''arguments'') of
          (Some (JStr name), Some (JObj arguments)) \<Rightarrow>
            if name \<notin> set READ_ONLY_TOOL_NAMES \<or> dict_get arguments ''trip_id'' \<noteq> Some (JStr (gs_trip_id st))
            then refused
            else st\<lparr>gs_react_iterations := gs_react_iterations st + 1,
              gs_tool_audit := gs_tool_audit st @ [tool_record name arguments (known_evidence_ids e st)
                (if gs_tool_selection_mode st = Some ''model_selected'' then ''model_selected_evidence_snapshot''
                 else ''deterministic_evidence_snapshot'')],
              gs_pending_tool_call := None\<rparr>
        | _ \<Rightarrow> refused))"

definition hashable :: "json \<Rightarrow> bool" where
  "hashable v \<longleftrightarrow> (case v of JList xs \<Rightarrow> False | JObj d \<Rightarrow> False | _ \<Rightarrow> True)"

definition validate_recommendation :: "'e graph_env_scheme \<Rightarrow> route_risk_state \<Rightarrow> route_risk_state act" where
  "validate_recommendation e st =
     (let summary = JObj [(''severity'', JStr (severity_text e st)),
            (''evidence_count'', JInt (int (length (gs_evidence st))))];
          cautious = dict_set ''uncertainty'' (JStr ''high'') (base_recommendation e st);
          audited = (\<lambda>outcome. gs_model_audit st @
            [audit_metadata e ''recommendation'' outcome @ [(''input_summary'', summary)]])
      in bindP (if available_for e (gs_llm_enabled st) \<and> elevated_text (severity_text e st)
           then try_except
             (bindP (lift_result (py_uuid (gs_incident_id st))) (\<lambda>incident_id.
              bindP (recommend e incident_id (gs_risk_assessment st) (gs_evidence st) True) (\<lambda>r.
                ret (env_dump e (MRecommendation r), audited ''succeeded''))))
             (\<lambda>_. ret (cautious, audited ''failed_fallback_used''))
           else ret (or_base e st, gs_model_audit st)) (\<lambda>(recommendation, model_audit).
         case get_or recommendation ''evidence_ids'' (JList []) of
           JList cited \<Rightarrow>
             if \<not> list_all hashable cited then throw (TypeError ''unhashable type'')
             else ret (st\<lparr>gs_recommendation := Some (if set cited \<subseteq> JStr ` set (known_evidence_ids e st)
                    then recommendation else cautious), gs_model_audit := model_audit\<rparr>)
         | _ \<Rightarrow> ret (st\<lparr>gs_recommendation := Some cautious, gs_model_audit := model_audit\<rparr>)))"

definition traveler_minimum :: "route_risk_state \<Rightarrow> int option" where
  "traveler_minimum st = (case gs_memory_context st of None \<Rightarrow> None
     | Some d \<Rightarrow> (case dict_get d ''minimum_connection_minutes'' of Some (JInt n) \<Rightarrow> Some n | _ \<Rightarrow> None))"

definition verify_alternative_eligibility :: "'e graph_env_scheme \<Rightarrow> route_risk_state \<Rightarrow> route_risk_state act" where
  "verify_alternative_eligibility e st =
     bindP (lift_result (result_map (\<lambda>c. evaluate_policy_eligible_candidate c default_policy) fixture_alternatives))
       (\<lambda>checked.
         let evaluated = map (\<lambda>c. apply_traveler_minimum_connection c (traveler_minimum st)) checked
         in ret (st\<lparr>gs_alternative_candidates := Some evaluated, gs_eligible_alternatives := [],
              gs_policy_decision := Some
                \<lparr>gpd_policy_version = pol_version default_policy,
                 gpd_eligible_candidate_ids = map cd_candidate_id (filter cd_eligible evaluated),
                 gpd_traveler_minimum_connection_minutes = traveler_minimum st,
                 gpd_memory_context_version = gs_memory_context_version st,
                 gpd_approved_playbooks = gs_approved_playbooks st\<rparr>,
              gs_tool_audit := gs_tool_audit st @
                [tool_record ''find_alternative_flights'' [(''trip_id'', JStr (gs_trip_id st))]
                  (known_evidence_ids e st) ''policy_eligibility_evaluated'']\<rparr>))"

definition with_positions :: "evaluated_candidate list \<Rightarrow> evaluated_candidate list \<Rightarrow> evaluated_candidate list" where
  "with_positions evaluated ranked =
     (let positions = fold (\<lambda>c d. dict_set (cd_candidate_id c) (cd_displayed_position c) d) ranked []
      in map (\<lambda>c. c\<lparr>cd_displayed_position := (case dict_get positions (cd_candidate_id c) of
           None \<Rightarrow> None | Some p \<Rightarrow> p)\<rparr>) evaluated)"

definition rank_eligible_recovery_options :: "route_risk_state \<Rightarrow> route_risk_state" where
  "rank_eligible_recovery_options st =
     (let candidates = (case gs_alternative_candidates st of None \<Rightarrow> [] | Some cs \<Rightarrow> cs);
          ranked = rank_eligible candidates
      in st\<lparr>gs_alternative_candidates := Some (with_positions candidates ranked),
            gs_eligible_alternatives := ranked,
            gs_recovery_ranking := Some \<lparr>rr_ranking_method = ''deterministic'', rr_score_version = ''deterministic-v1'',
              rr_ranked_candidate_ids = map cd_candidate_id ranked,
              rr_fallback_reason = ''learned_ranker_not_enabled''\<rparr>\<rparr>)"

definition ranked_ids :: "route_risk_state \<Rightarrow> string list" where
  "ranked_ids st = (case gs_recovery_ranking st of None \<Rightarrow> [] | Some r \<Rightarrow> rr_ranked_candidate_ids r)"

definition attach_recovery_ranking :: "'e graph_env_scheme \<Rightarrow> route_risk_state \<Rightarrow> route_risk_state act" where
  "attach_recovery_ranking e st =
     (let recommendation = dict_set ''ranked_alternative_ids'' (JList (map JStr (ranked_ids st))) (or_base e st)
      in case dict_get recommendation ''manager_message'' of
           None \<Rightarrow> throw (KeyError ''manager_message'')
         | Some message \<Rightarrow> ret (st\<lparr>gs_recommendation := Some (dict_set ''manager_message''
             (JStr (py_str e message @ '' '' @ string_of_nat (length (ranked_ids st)) @
               '' policy-eligible alternatives were ranked by the deterministic '' @ ''recovery score.''))
             recommendation)\<rparr>))"

definition policy_gate :: "route_risk_state \<Rightarrow> route_risk_state" where
  "policy_gate st = st\<lparr>gs_policy_gate := Some
     \<lparr>pg_status = ''human_approval_required'',
      pg_eligible_candidate_ids = (case gs_policy_decision st of None \<Rightarrow> [] | Some p \<Rightarrow> gpd_eligible_candidate_ids p),
      pg_policy_version = map_option gpd_policy_version (gs_policy_decision st)\<rparr>\<rparr>"

text \<open>The approval node after the interrupt, given what the thread was resumed with.\<close>

definition approval_gate :: "json_object \<Rightarrow> route_risk_state \<Rightarrow> route_risk_state" where
  "approval_gate decision st = st\<lparr>gs_approval := Some
     (if dict_get decision ''decision'' \<in> {Some (JStr ''approve''), Some (JStr ''reject'')} then decision
      else [(''decision'', JStr ''reject''), (''reason'', JStr ''invalid approval payload'')])\<rparr>"

definition queue_approved_action :: "route_risk_state \<Rightarrow> route_risk_state" where
  "queue_approved_action st =
     (let approval = (case gs_approval st of None \<Rightarrow> [] | Some a \<Rightarrow> a);
          action_dispatch_id = get_or approval ''action_dispatch_id'' JNull;
          idempotency_key = get_or approval ''action_idempotency_key'' JNull
      in st\<lparr>gs_dispatched_actions :=
        (if dict_get approval ''decision'' \<noteq> Some (JStr ''approve'') \<or> \<not> json_truthy action_dispatch_id \<or>
            \<not> json_truthy idempotency_key
         then []
         else [[(''action_dispatch_id'', action_dispatch_id), (''idempotency_key'', idempotency_key),
                (''status'', JStr ''queued'')]])\<rparr>)"

definition finalize :: "'e graph_env_scheme \<Rightarrow> route_risk_state \<Rightarrow> route_risk_state" where
  "finalize e st = st\<lparr>gs_final_status := Some (case gs_approval st of
     None \<Rightarrow> ''assessed'' | Some a \<Rightarrow> py_str e (get_or a ''decision'' (JStr ''rejected'')))\<rparr>"

section \<open>The compiled graph\<close>

datatype graph_node =
    LOAD_MEMORY_CONTEXT | REACT_ASSISTANT | TOOLS | RECOMMENDATION | VERIFY_ALTERNATIVE_ELIGIBILITY
  | RANK_ELIGIBLE_RECOVERY_OPTIONS | ATTACH_RECOVERY_RANKING | POLICY_GATE | APPROVAL_GATE
  | QUEUE_APPROVED_ACTION | FINALIZE

definition route_by_severity :: "'e graph_env_scheme \<Rightarrow> route_risk_state \<Rightarrow> graph_node" where
  "route_by_severity e st =
     (if (case unavailable_sources st of JList xs \<Rightarrow> length xs \<ge> 2 | _ \<Rightarrow> False) then APPROVAL_GATE
      else if elevated_text (severity_text e st) \<and>
        (case unavailable_sources st of JList xs \<Rightarrow> JStr ''flight_status'' \<in> set xs | _ \<Rightarrow> False) then APPROVAL_GATE
      else if elevated_text (severity_text e st) then LOAD_MEMORY_CONTEXT
      else FINALIZE)"

definition route_after_assistant :: "route_risk_state \<Rightarrow> graph_node" where
  "route_after_assistant st = (if opt_object_truthy (gs_pending_tool_call st) then TOOLS else RECOMMENDATION)"

fun next_node :: "graph_node \<Rightarrow> route_risk_state \<Rightarrow> graph_node option" where
  "next_node LOAD_MEMORY_CONTEXT st = Some REACT_ASSISTANT"
| "next_node REACT_ASSISTANT st = Some (route_after_assistant st)"
| "next_node TOOLS st = Some REACT_ASSISTANT"
| "next_node RECOMMENDATION st = Some VERIFY_ALTERNATIVE_ELIGIBILITY"
| "next_node VERIFY_ALTERNATIVE_ELIGIBILITY st = Some RANK_ELIGIBLE_RECOVERY_OPTIONS"
| "next_node RANK_ELIGIBLE_RECOVERY_OPTIONS st = Some ATTACH_RECOVERY_RANKING"
| "next_node ATTACH_RECOVERY_RANKING st = Some POLICY_GATE"
| "next_node POLICY_GATE st = Some APPROVAL_GATE"
| "next_node APPROVAL_GATE st = Some QUEUE_APPROVED_ACTION"
| "next_node QUEUE_APPROVED_ACTION st = Some FINALIZE"
| "next_node FINALIZE st = None"

fun run_node :: "'e graph_env_scheme \<Rightarrow> graph_node \<Rightarrow> route_risk_state \<Rightarrow> route_risk_state act" where
  "run_node e LOAD_MEMORY_CONTEXT st = ret (load_memory_context st)"
| "run_node e REACT_ASSISTANT st = react_assistant e st"
| "run_node e TOOLS st = ret (run_read_only_tool e st)"
| "run_node e RECOMMENDATION st = validate_recommendation e st"
| "run_node e VERIFY_ALTERNATIVE_ELIGIBILITY st = verify_alternative_eligibility e st"
| "run_node e RANK_ELIGIBLE_RECOVERY_OPTIONS st = ret (rank_eligible_recovery_options st)"
| "run_node e ATTACH_RECOVERY_RANKING st = attach_recovery_ranking e st"
| "run_node e POLICY_GATE st = ret (policy_gate st)"
| "run_node e APPROVAL_GATE st = ret st"
| "run_node e QUEUE_APPROVED_ACTION st = ret (queue_approved_action st)"
| "run_node e FINALIZE st = ret (finalize e st)"

text \<open>
  One node per superstep, from a node to the interrupt of the approval gate or to the end; the
  first argument counts the supersteps LangGraph still allows.
\<close>

fun run_graph :: "'e graph_env_scheme \<Rightarrow> nat \<Rightarrow> graph_node \<Rightarrow> route_risk_state \<Rightarrow> graph_checkpoint act" where
  "run_graph e 0 node st = throw (OtherException ''GraphRecursionError'')"
| "run_graph e (Suc limit) node st =
     (if node = APPROVAL_GATE then ret (Paused st)
      else bindP (run_node e node st) (\<lambda>st'. case next_node node st' of
        None \<Rightarrow> ret (Finished st')
      | Some node' \<Rightarrow> run_graph e limit node' st'))"

definition recursion_limit :: nat where
  "recursion_limit = 25"

definition save_checkpoint :: "string \<Rightarrow> graph_checkpoint \<Rightarrow> unit act" where
  "save_checkpoint thread_id c = modify (\<lambda>w. w\<lparr>w_graph_threads := dict_set thread_id c (w_graph_threads w)\<rparr>)"

text \<open>\<^verbatim>\<open>ainvoke(state, thread)\<close> for a new thread and \<^verbatim>\<open>ainvoke(Command(resume=...), thread)\<close>.\<close>

definition invoke_graph :: "'e graph_env_scheme \<Rightarrow> string \<Rightarrow> route_risk_state \<Rightarrow> graph_checkpoint act" where
  "invoke_graph e thread_id st =
     bindP (run_graph e recursion_limit (route_by_severity e st) st) (\<lambda>c.
     thenP (save_checkpoint thread_id c) (ret c))"

definition resume_graph :: "'e graph_env_scheme \<Rightarrow> string \<Rightarrow> json_object \<Rightarrow> unit act" where
  "resume_graph e thread_id decision =
     bindP (gets (\<lambda>w. dict_get (w_graph_threads w) thread_id)) (\<lambda>c. case c of
       Some (Paused st) \<Rightarrow>
         bindP (run_graph e recursion_limit QUEUE_APPROVED_ACTION (approval_gate decision st)) (\<lambda>c.
           save_checkpoint thread_id c)
     | _ \<Rightarrow> (case env_idle_resume e c of None \<Rightarrow> ret () | Some x \<Rightarrow> throw x))"

text \<open>What the interrupt hands to the reviewer.\<close>

definition policy_result_json :: "graph_policy_decision option \<Rightarrow> json" where
  "policy_result_json p = (case p of None \<Rightarrow> JNull | Some p \<Rightarrow> JObj
     [(''policy_version'', JStr (gpd_policy_version p)),
      (''eligible_candidate_ids'', JList (map JStr (gpd_eligible_candidate_ids p))),
      (''traveler_minimum_connection_minutes'', json_opt_int (gpd_traveler_minimum_connection_minutes p)),
      (''memory_context_version'', gpd_memory_context_version p),
      (''approved_playbooks'', JList (map JObj (gpd_approved_playbooks p)))])"

definition policy_gate_json :: "policy_gate_record option \<Rightarrow> json" where
  "policy_gate_json g = (case g of None \<Rightarrow> JNull | Some g \<Rightarrow> JObj
     [(''status'', JStr (pg_status g)),
      (''eligible_candidate_ids'', JList (map JStr (pg_eligible_candidate_ids g))),
      (''policy_version'', json_opt_str (pg_policy_version g))])"

definition ranking_json :: "recovery_ranking option \<Rightarrow> json" where
  "ranking_json r = (case r of None \<Rightarrow> JNull | Some r \<Rightarrow> JObj
     [(''ranking_method'', JStr (rr_ranking_method r)), (''score_version'', JStr (rr_score_version r)),
      (''ranked_candidate_ids'', JList (map JStr (rr_ranked_candidate_ids r))),
      (''fallback_reason'', JStr (rr_fallback_reason r))])"

definition interrupt_payload :: "'e graph_env_scheme \<Rightarrow> route_risk_state \<Rightarrow> json_object" where
  "interrupt_payload e st =
     [(''incident_id'', JStr (gs_incident_id st)), (''original_itinerary'', gs_trip_context st),
      (''risk_assessment'', JObj (gs_risk_assessment st)), (''evidence'', JList (map JObj (gs_evidence st))),
      (''policy_result'', policy_result_json (gs_policy_decision st)),
      (''policy_gate'', policy_gate_json (gs_policy_gate st)),
      (''eligible_alternatives'', JList (map (\<lambda>c. JObj (env_dump_candidate e c)) (gs_eligible_alternatives st))),
      (''recovery_ranking'', ranking_json (gs_recovery_ranking st)),
      (''memory_context_version'', gs_memory_context_version st),
      (''approved_playbooks'', JList (map JObj (gs_approved_playbooks st))),
      (''recommendation'', JObj (or_base e st)), (''tool_audit'', JList (map JObj (gs_tool_audit st))),
      (''proposed_external_action_payload'', JObj [])]"

end
