(* ===== verification/RecoveryApi.thy ===== *)
theory RecoveryApi
  imports Trips Idempotency Graph
begin

text \<open>
  The recovery endpoints of \<^verbatim>\<open>apps/api/main.py\<close>: a manager submits raw candidates, the server
  evaluates and ranks them, and outcomes are appended to the immutable set under the candidate
  lifecycle.
\<close>

section \<open>Candidate sets\<close>

text \<open>The constructor, with its defaults.\<close>

definition new_candidate_set ::
  "'h host_scheme \<Rightarrow> uuid \<Rightarrow> string \<Rightarrow> string \<Rightarrow> evaluated_candidate list \<Rightarrow> recovery_candidate_set act" where
  "new_candidate_set h incident_id score_version policy_version candidates =
     bindP (uuid4 h) (\<lambda>set_id. bindP (now_utc h) (\<lambda>created_at. ret
       \<lparr>cs_candidate_set_id = set_id, cs_incident_id = incident_id, cs_score_version = score_version,
        cs_policy_version = policy_version, cs_candidates = candidates, cs_created_at = created_at,
        cs_outcomes = [], cs_selected_candidate_id = None, cs_manager_override_reason = None\<rparr>))"

definition create_candidate_set ::
  "'e api_env_scheme \<Rightarrow> request \<Rightarrow> uuid \<Rightarrow> recovery_candidate list \<Rightarrow> recovery_candidate_set act" where
  "create_candidate_set e rq incident_id payload =
     thenP (require_role (rq_actor_role rq) [TRAVEL_MANAGER, TENANT_ADMIN])
     (bindP (require_tenant (rq_tenant_id rq)) (\<lambda>tenant_id.
     bindP (incident_trip_access e rq tenant_id incident_id [TRAVEL_MANAGER, TENANT_ADMIN]) (\<lambda>(i, _).
     idempotent e tenant_id (rq_idempotency_key rq)
       (''POST:/v1/incidents/'' @ str_uuid incident_id @ ''/candidate-sets'')
       (JObj (env_dump e (MCandidateSetCreate payload))) 200 (\<lambda>cs. env_dump e (MCandidateSet cs))
       (replay_as e ''RecoveryCandidateSet'' (\<lambda>m. case m of MCandidateSet cs \<Rightarrow> Some cs | _ \<Rightarrow> None))
       (bindP (lift_result (result_map (\<lambda>c. evaluate_policy_eligible_candidate c default_policy) payload)) (\<lambda>evaluated.
        let ranked = rank_eligible evaluated in
        bindP (new_candidate_set e incident_id ''deterministic-v1'' (pol_version default_policy)
                 (with_positions evaluated ranked)) (\<lambda>cs.
        thenP (modify (save_candidate_set tenant_id cs))
        (bindP (require_actor_id e (rq_actor_id rq)) (\<lambda>actor_id.
        thenP (emit_event e ''recovery.candidate_set_created'' tenant_id (Some (inc_trip_id i))
                 (inc_correlation_id i) actor_id
                 [(''candidate_set_id'', JStr (str_uuid (cs_candidate_set_id cs))),
                  (''candidate_count'', JInt (int (length (cs_candidates cs)))),
                  (''eligible_candidate_count'', JInt (int (length ranked))),
                  (''policy_version'', JStr (cs_policy_version cs)),
                  (''score_version'', JStr (cs_score_version cs))])
        (thenP (emit_event e ''recovery.ranking_completed'' tenant_id (Some (inc_trip_id i))
                 (inc_correlation_id i) actor_id
                 [(''candidate_set_id'', JStr (str_uuid (cs_candidate_set_id cs))),
                  (''ranked_candidate_ids'', JList (map (\<lambda>c. JStr (cd_candidate_id c)) ranked)),
                  (''ranking_method'', JStr ''deterministic'')])
          (ret cs))))))))))"

definition api_list_candidate_sets ::
  "'e api_env_scheme \<Rightarrow> request \<Rightarrow> uuid \<Rightarrow> recovery_candidate_set list act" where
  "api_list_candidate_sets e rq incident_id =
     thenP (require_role (rq_actor_role rq) staff_roles)
     (bindP (require_tenant (rq_tenant_id rq)) (\<lambda>tenant_id.
     thenP (incident_trip_access e rq tenant_id incident_id staff_roles)
     (gets (\<lambda>w. map (\<lambda>cs. project_candidate_set_outcomes cs
         (list_candidate_outcomes tenant_id (cs_candidate_set_id cs) w))
       (list_candidate_sets tenant_id incident_id w)))))"

section \<open>Outcomes\<close>

fun candidate_state_value :: "recovery_candidate_state \<Rightarrow> string" where
  "candidate_state_value CUNAVAILABLE = ''unavailable''"
| "candidate_state_value CPOLICY_INELIGIBLE = ''policy_ineligible''"
| "candidate_state_value CINELIGIBLE = ''ineligible''"
| "candidate_state_value CELIGIBLE = ''eligible''"
| "candidate_state_value COFFERED = ''offered''"
| "candidate_state_value CVIEWED = ''viewed''"
| "candidate_state_value CSELECTED = ''selected''"
| "candidate_state_value CREJECTED = ''rejected''"
| "candidate_state_value CCOMPLETED = ''completed''"

text \<open>The guards between the lookup of the candidate and the claim, in the order of the code.\<close>

definition outcome_refusal ::
  "user_role option \<Rightarrow> recovery_candidate_set \<Rightarrow> evaluated_candidate \<Rightarrow> recovery_candidate_outcome_update \<Rightarrow>
    exn option" where
  "outcome_refusal role view c payload =
     (if role = Some TRAVELER \<and> out_state payload \<notin> {VIEWED, SELECTED, OREJECTED}
      then Some (HTTPException 403 ''travelers may only view, select, or reject a candidate'')
      else if truthy (out_manager_override_reason payload) \<and> role \<notin> {Some TRAVEL_MANAGER, Some TENANT_ADMIN}
      then Some (HTTPException 403 ''only a manager can record an override'')
      else if out_state payload = SELECTED \<and> truthy (cs_selected_candidate_id view) \<and>
              cs_selected_candidate_id view \<noteq> Some (cd_candidate_id c)
      then Some (HTTPException 409 ''a different candidate has already been selected'')
      else if out_state payload = SELECTED \<and> cd_displayed_position c \<notin> {None, Some 1} \<and>
              role \<in> {Some TRAVEL_MANAGER, Some TENANT_ADMIN} \<and> falsy (out_manager_override_reason payload)
      then Some (HTTPException 422 ''selecting a non-top candidate requires a manager override reason'')
      else if \<not> transition_allowed (cd_lifecycle_state c) (out_state payload)
      then Some (HTTPException 409 (''cannot transition candidate from '' @
             candidate_state_value (cd_lifecycle_state c) @ '' to '' @ outcome_state_value (out_state payload)))
      else None)"

definition new_manager_feedback ::
  "'h host_scheme \<Rightarrow> string \<Rightarrow> recovery_candidate_outcome \<Rightarrow> manager_feedback_type \<Rightarrow> string option \<Rightarrow>
    json_object \<Rightarrow> manager_feedback act" where
  "new_manager_feedback h tenant_id oc feedback_type reason details =
     bindP (uuid4 h) (\<lambda>fid. bindP (now_utc h) (\<lambda>created_at.
       let f = \<lparr>mf_feedback_id = fid, mf_tenant_id = tenant_id, mf_incident_id = out_incident_id oc,
             mf_candidate_set_id = out_candidate_set_id oc, mf_candidate_id = out_candidate_id oc,
             mf_feedback_type = feedback_type, mf_outcome_id = Some (out_outcome_id oc),
             mf_actor_id = out_actor_id oc, mf_reason = reason, mf_details = details,
             mf_created_at = created_at\<rparr>
       in if validate_feedback f \<and> len_between 1 128 tenant_id \<and> out_candidate_id oc \<noteq> [] \<and>
             opt_len_le 128 (out_actor_id oc) \<and> opt_len_le 1000 reason
          then ret f else throw (ValidationError ''ManagerFeedback'')))"

definition or_empty :: "json_object option \<Rightarrow> json_object" where
  "or_empty d = (case d of None \<Rightarrow> [] | Some kvs \<Rightarrow> kvs)"

definition outcome_feedback ::
  "'h host_scheme \<Rightarrow> string \<Rightarrow> evaluated_candidate \<Rightarrow> recovery_candidate_outcome \<Rightarrow> manager_feedback list act" where
  "outcome_feedback h tenant_id c oc =
     bindP (if truthy (out_manager_override_reason oc)
       then bindP (new_manager_feedback h tenant_id oc MANAGER_OVERRIDE (out_manager_override_reason oc)
              [(''displayed_position'', json_opt_int (cd_displayed_position c))]) (\<lambda>f. ret [f])
       else ret []) (\<lambda>overrides.
     bindP (if out_state oc = OCOMPLETED
       then bindP (new_manager_feedback h tenant_id oc RECOVERY_OUTCOME (out_reason oc)
              [(''final_itinerary'', JObj (or_empty (out_final_itinerary oc))),
               (''material_outcome'', JObj (or_empty (out_material_outcome oc)))]) (\<lambda>f. ret [f])
       else ret []) (\<lambda>outcomes. ret (overrides @ outcomes)))"

definition new_outcome ::
  "'h host_scheme \<Rightarrow> recovery_candidate_outcome_update \<Rightarrow> uuid \<Rightarrow> uuid \<Rightarrow> string \<Rightarrow> string option \<Rightarrow>
    recovery_candidate_outcome act" where
  "new_outcome h payload set_id incident_id candidate_id actor_id =
     bindP (uuid4 h) (\<lambda>oid. bindP (now_utc h) (\<lambda>occurred_at.
       let oc = recovery_candidate_outcome_update.extend payload
             \<lparr>out_outcome_id = oid, out_candidate_set_id = set_id, out_incident_id = incident_id,
              out_candidate_id = candidate_id, out_actor_id = actor_id, out_occurred_at = occurred_at\<rparr>
       in if validate_required_outcome_details oc \<and> opt_len_le 1000 (out_reason oc) \<and>
             opt_len_le 1000 (out_manager_override_reason oc) \<and> candidate_id \<noteq> [] \<and> opt_len_le 128 actor_id
          then ret oc else throw (ValidationError ''RecoveryCandidateOutcome'')))"

definition record_outcome_work ::
  "'e api_env_scheme \<Rightarrow> request \<Rightarrow> string \<Rightarrow> uuid \<Rightarrow> uuid \<Rightarrow> incident \<Rightarrow> recovery_candidate_set \<Rightarrow>
    recovery_candidate_outcome list \<Rightarrow> evaluated_candidate \<Rightarrow> recovery_candidate_outcome_update \<Rightarrow>
    recovery_candidate_set act" where
  "record_outcome_work e rq tenant_id incident_id candidate_set_id i cs outcomes c payload =
     bindP (require_actor_id e (rq_actor_id rq)) (\<lambda>actor_id.
     bindP (new_outcome e payload candidate_set_id incident_id (cd_candidate_id c) actor_id) (\<lambda>oc.
     thenP (modify (repo_record_candidate_outcome tenant_id oc))
     (bindP (outcome_feedback e tenant_id c oc) (\<lambda>feedback.
     thenP (modify (fold save_manager_feedback feedback))
     (let view = project_candidate_set_outcomes cs (outcomes @ [oc]) in
      thenP (emit_event e ''recovery.outcome_recorded'' tenant_id (Some (inc_trip_id i)) (inc_correlation_id i)
               (out_actor_id oc)
               [(''candidate_set_id'', JStr (str_uuid candidate_set_id)),
                (''candidate_id'', JStr (cd_candidate_id c)),
                (''outcome_id'', JStr (str_uuid (out_outcome_id oc))),
                (''state'', JStr (outcome_state_value (out_state oc))),
                (''has_manager_override'', JBool (truthy (out_manager_override_reason oc))),
                (''has_material_outcome'', JBool (opt_object_truthy (out_material_outcome oc))),
                (''manager_feedback_ids'', JList (map (\<lambda>f. JStr (str_uuid (mf_feedback_id f))) feedback))])
        (ret view))))))"

definition outcome_roles :: "user_role list" where
  "outcome_roles = [TRAVELER, TRAVEL_MANAGER, TENANT_ADMIN]"

definition record_candidate_outcome ::
  "'e api_env_scheme \<Rightarrow> request \<Rightarrow> uuid \<Rightarrow> uuid \<Rightarrow> string \<Rightarrow> recovery_candidate_outcome_update \<Rightarrow>
    recovery_candidate_set act" where
  "record_candidate_outcome e rq incident_id candidate_set_id candidate_id payload =
     thenP (require_role (rq_actor_role rq) outcome_roles)
     (bindP (require_tenant (rq_tenant_id rq)) (\<lambda>tenant_id.
     bindP (incident_trip_access e rq tenant_id incident_id outcome_roles) (\<lambda>(i, _).
     bindP (gets (get_candidate_set tenant_id incident_id candidate_set_id)) (\<lambda>cs.
     found cs ''candidate set not found'' (\<lambda>cs.
     bindP (gets (list_candidate_outcomes tenant_id candidate_set_id)) (\<lambda>outcomes.
     let view = project_candidate_set_outcomes cs outcomes in
     case filter (\<lambda>c. cd_candidate_id c = candidate_id) (cs_candidates view) of
       [] \<Rightarrow> throw (HTTPException 404 ''candidate not found'')
     | c # _ \<Rightarrow> (case outcome_refusal (rq_actor_role rq) view c payload of
         Some refusal \<Rightarrow> throw refusal
       | None \<Rightarrow> idempotent e tenant_id (rq_idempotency_key rq)
           (''POST:/v1/incidents/'' @ str_uuid incident_id @ ''/candidate-sets/'' @ str_uuid candidate_set_id @
            ''/candidates/'' @ candidate_id @ ''/outcomes'')
           (JObj (env_dump e (MOutcomeUpdate payload))) 200 (\<lambda>cs. env_dump e (MCandidateSet cs))
           (replay_as e ''RecoveryCandidateSet'' (\<lambda>m. case m of MCandidateSet cs \<Rightarrow> Some cs | _ \<Rightarrow> None))
           (record_outcome_work e rq tenant_id incident_id candidate_set_id i cs outcomes c payload))))))))"

definition api_list_manager_feedback ::
  "'e api_env_scheme \<Rightarrow> request \<Rightarrow> uuid \<Rightarrow> manager_feedback list act" where
  "api_list_manager_feedback e rq incident_id =
     thenP (require_role (rq_actor_role rq) [TRAVEL_MANAGER, TENANT_ADMIN])
     (bindP (require_tenant (rq_tenant_id rq)) (\<lambda>tenant_id.
     thenP (incident_trip_access e rq tenant_id incident_id [TRAVEL_MANAGER, TENANT_ADMIN])
       (gets (list_manager_feedback tenant_id incident_id))))"

definition list_incident_action_dispatches ::
  "'e api_env_scheme \<Rightarrow> request \<Rightarrow> uuid \<Rightarrow> action_dispatch_record list act" where
  "list_incident_action_dispatches e rq incident_id =
     thenP (require_role (rq_actor_role rq) [TRAVEL_MANAGER, TENANT_ADMIN])
     (bindP (require_tenant (rq_tenant_id rq)) (\<lambda>tenant_id.
     thenP (incident_trip_access e rq tenant_id incident_id [TRAVEL_MANAGER, TENANT_ADMIN])
       (gets (list_action_dispatches tenant_id incident_id))))"

end
