(* ===== verification/Assess.thy ===== *)
theory Assess
  imports RecoveryApi Evaluation
begin

text \<open>
  An assessment end to end: \<^verbatim>\<open>assess_trip\<close> of \<^verbatim>\<open>apps/api/main.py\<close> and what it calls (the evidence
  collection, \<^verbatim>\<open>run_graph_investigation\<close>), the refresh endpoint and the job over due windows.
\<close>

text \<open>The answers of the live providers and the order they arrive in, for one collection.\<close>

record assess_env = graph_env +
  env_replies :: "nat \<Rightarrow> string \<Rightarrow> nat \<Rightarrow> http_reply"
  env_completion :: "nat \<Rightarrow> nat list"

section \<open>Evidence\<close>

definition all_controls :: "runtime_control_name list" where
  "all_controls = [LLM_ENABLED, REACT_TOOL_CALLS_ENABLED, NOTIFICATIONS_ENABLED, APPROVAL_ACTIONS_ENABLED,
     MEMORY_READS_ENABLED, MEMORY_WRITES_ENABLED, PROVIDER_AMADEUS_ENABLED, PROVIDER_FAA_ENABLED,
     PROVIDER_NWS_ENABLED, PROVIDER_AVIATION_WEATHER_ENABLED, PROVIDER_GOOGLE_ROUTES_ENABLED,
     PROVIDER_DESTINATION_ADVISORY_ENABLED, TENANT_AUTOMATION_ENABLED]"

definition provider_enabled :: "'e api_env_scheme \<Rightarrow> string \<Rightarrow> string \<Rightarrow> bool act" where
  "provider_enabled e tenant_id flag =
     (case List.find (\<lambda>name. control_name_value name = flag) all_controls of
        None \<Rightarrow> throw (ValueError flag) | Some name \<Rightarrow> control_enabled e tenant_id name)"

definition collect_assessment_evidence ::
  "'e assess_env_scheme \<Rightarrow> trip \<Rightarrow> demo_scenario option \<Rightarrow> string \<Rightarrow> evidence_envelope list act" where
  "collect_assessment_evidence e t scenario correlation_id =
     (if scenario \<noteq> None \<or> ctl_demo_evidence_enabled (env_controls e)
      then collect_baseline e (case scenario of None \<Rightarrow> NORMAL | Some s \<Rightarrow> s) correlation_id
      else bindP (gets run_draws) (\<lambda>n.
        collect e (env_getenv e) (env_replies e n) (env_completion e n) t correlation_id
          (provider_enabled e (trip_tenant_id t))))"

section \<open>Reading the graph state back\<close>

fun json_strings :: "string \<Rightarrow> json \<Rightarrow> string list result" where
  "json_strings name (JList xs) = result_map (\<lambda>x. case x of JStr s \<Rightarrow> Inr s | _ \<Rightarrow> Inl (ValidationError name)) xs"
| "json_strings name _ = Inl (ValidationError name)"

definition json_uuid :: "string \<Rightarrow> string \<Rightarrow> uuid result" where
  "json_uuid name s = (case py_uuid s of Inl _ \<Rightarrow> Inl (ValidationError name) | Inr u \<Rightarrow> Inr u)"

definition json_uuids :: "string \<Rightarrow> json \<Rightarrow> uuid list result" where
  "json_uuids name v = result_bind (json_strings name v) (result_map (json_uuid name))"

definition tool_audit_of :: "'h host_scheme \<Rightarrow> json_object \<Rightarrow> tool_audit_event act" where
  "tool_audit_of h item =
     bindP (now_utc h) (\<lambda>occurred_at.
     case (get_or item ''tool_name'' JNull, get_or item ''arguments'' (JObj []), get_or item ''outcome'' (JStr ''completed'')) of
       (JStr tool_name, JObj arguments, JStr outcome) \<Rightarrow>
         bindP (lift_result (json_uuids ''ToolAuditEvent'' (get_or item ''evidence_ids'' (JList [])))) (\<lambda>ids. ret
           \<lparr>ta_tool_name = tool_name, ta_arguments = arguments, ta_evidence_ids = ids,
            ta_occurred_at = occurred_at, ta_outcome = outcome\<rparr>)
     | _ \<Rightarrow> throw (ValidationError ''ToolAuditEvent''))"

definition token_usage_of :: "json \<Rightarrow> (string, int) dict option result" where
  "token_usage_of v = (case v of
     JNull \<Rightarrow> Inr None
   | JObj d \<Rightarrow> result_bind (result_map (\<lambda>(k, x). case x of
       JInt n \<Rightarrow> Inr (k, n) | _ \<Rightarrow> Inl (ValidationError ''ModelInvocationAudit'')) d) (\<lambda>u. Inr (Some u))
   | _ \<Rightarrow> Inl (ValidationError ''ModelInvocationAudit''))"

definition cost_of :: "json \<Rightarrow> pyfloat option result" where
  "cost_of v = (if v = JNull then Inr None
     else if \<not> is_number v then Inl (ValidationError ''ModelInvocationAudit'')
     else result_bind (float_of_number v) (\<lambda>x.
       if 0 \<le> x then Inr (Some x) else Inl (ValidationError ''ModelInvocationAudit'')))"

definition text_field :: "json_object \<Rightarrow> nat \<Rightarrow> string \<Rightarrow> string result" where
  "text_field item hi k = (case dict_get item k of
     Some (JStr s) \<Rightarrow> if len_between 1 hi s then Inr s else Inl (ValidationError k)
   | _ \<Rightarrow> Inl (ValidationError k))"

definition model_audit_of :: "'h host_scheme \<Rightarrow> json_object \<Rightarrow> model_invocation_audit act" where
  "model_audit_of h item =
     bindP (now_utc h) (\<lambda>occurred_at. lift_result
       (result_bind (text_field item 128 ''provider'') (\<lambda>provider_name.
        result_bind (text_field item 256 ''model'') (\<lambda>model_name.
        result_bind (text_field item 128 ''prompt_version'') (\<lambda>prompt_version.
        result_bind (text_field item 128 ''invocation_type'') (\<lambda>invocation_type.
        result_bind (text_field item 128 ''outcome'') (\<lambda>outcome.
        result_bind (token_usage_of (get_or item ''token_usage'' JNull)) (\<lambda>token_usage.
        result_bind (cost_of (get_or item ''estimated_cost_usd'' JNull)) (\<lambda>cost.
          case get_or item ''input_summary'' (JObj []) of
            JObj summary \<Rightarrow> Inr
              \<lparr>ma_provider = provider_name, ma_model = model_name, ma_prompt_version = prompt_version,
               ma_invocation_type = invocation_type, ma_outcome = outcome, ma_input_summary = summary,
               ma_token_usage = token_usage, ma_estimated_cost_usd = cost, ma_occurred_at = occurred_at\<rparr>
          | _ \<Rightarrow> Inl (ValidationError ''ModelInvocationAudit''))))))))))"

text \<open>
  \<^verbatim>\<open>Recommendation.model_validate\<close> on what the graph leaves; the identifier and the time are drawn
  when they are absent.
\<close>

definition recommendation_of :: "'e api_env_scheme \<Rightarrow> uuid \<Rightarrow> json_object \<Rightarrow> recommendation act" where
  "recommendation_of e incident_id payload =
     bindP (case dict_get payload ''recommendation_id'' of
         None \<Rightarrow> uuid4 e
       | Some (JStr s) \<Rightarrow> lift_result (json_uuid ''Recommendation'' s)
       | _ \<Rightarrow> throw (ValidationError ''Recommendation'')) (\<lambda>rid.
     bindP (case dict_get payload ''generated_at'' of
         None \<Rightarrow> now_utc e
       | Some (JStr s) \<Rightarrow> (case env_fromisoformat e s of
           None \<Rightarrow> throw (ValidationError ''Recommendation'') | Some t \<Rightarrow> ret (dt_instant t))
       | _ \<Rightarrow> throw (ValidationError ''Recommendation'')) (\<lambda>generated_at.
     lift_result
       (result_bind (text_field payload 1000 ''severity_explanation'') (\<lambda>explanation.
        result_bind (json_uuids ''Recommendation'' (get_or payload ''evidence_ids'' JNull)) (\<lambda>ids.
        result_bind (text_field payload 1000 ''recommended_action'') (\<lambda>action.
        result_bind (json_strings ''Recommendation'' (get_or payload ''ranked_alternative_ids'' (JList []))) (\<lambda>ranked.
        result_bind (text_field payload 1000 ''traveler_message'') (\<lambda>traveler_message.
        result_bind (text_field payload 2000 ''manager_message'') (\<lambda>manager_message.
        result_bind (json_strings ''Recommendation'' (get_or payload ''missing_information'' (JList []))) (\<lambda>missing.
          case (get_or payload ''uncertainty'' (JStr ''high''), get_or payload ''requires_human_approval'' (JBool True)) of
            (JStr uncertainty, JBool approval) \<Rightarrow>
              if ids = [] then Inl (ValidationError ''Recommendation'')
              else Inr \<lparr>rec_recommendation_id = rid, rec_incident_id = incident_id,
                rec_severity_explanation = explanation, rec_evidence_ids = ids, rec_uncertainty = uncertainty,
                rec_recommended_action = action, rec_ranked_alternative_ids = ranked,
                rec_traveler_message = traveler_message, rec_manager_message = manager_message,
                rec_requires_human_approval = approval, rec_missing_information = missing,
                rec_generated_at = generated_at\<rparr>
          | _ \<Rightarrow> Inl (ValidationError ''Recommendation'')))))))))))"

section \<open>The investigation\<close>

definition initial_state ::
  "'e api_env_scheme \<Rightarrow> incident \<Rightarrow> risk_assessment \<Rightarrow> evidence_envelope list \<Rightarrow> trip \<Rightarrow> source_health \<Rightarrow>
    traveler_preference_profile option \<Rightarrow> tenant_playbook list \<Rightarrow> bool \<Rightarrow> route_risk_state" where
  "initial_state e i a evidence t health profile playbooks llm_enabled =
     \<lparr>gs_tenant_id = inc_tenant_id i, gs_trip_id = str_uuid (inc_trip_id i),
      gs_incident_id = str_uuid (inc_incident_id i), gs_trip_context = JObj (env_dump e (MTrip t)),
      gs_traveler_context = (case graph_traveler_context profile of None \<Rightarrow> JNull | Some d \<Rightarrow> JObj d),
      gs_memory_context = None, gs_memory_context_version = JNull,
      gs_playbook_context = map (\<lambda>p. JObj
        [(''playbook_id'', JStr (str_uuid (pb_playbook_id p))), (''name'', JStr (pb_name p)),
         (''version'', JStr (pb_version p)), (''guidance'', JStr (pb_guidance p))]) playbooks,
      gs_approved_playbooks = [], gs_risk_assessment = env_dump e (MRiskAssessment a),
      gs_evidence = map (\<lambda>item. env_dump e (MEvidence item)) evidence,
      gs_source_health = env_dump e (MSourceHealth health), gs_react_iterations = 0, gs_tool_audit = [],
      gs_model_audit = [], gs_llm_enabled = llm_enabled, gs_tool_selection_attempted = False,
      gs_tool_selection_mode = None, gs_pending_tool_call = None, gs_alternative_candidates = None,
      gs_eligible_alternatives = [], gs_recovery_ranking = None, gs_policy_decision = None,
      gs_policy_gate = None, gs_recommendation = None, gs_approval = None, gs_dispatched_actions = [],
      gs_final_status = None\<rparr>"

fun checkpoint_state :: "graph_checkpoint \<Rightarrow> route_risk_state" where
  "checkpoint_state (Paused st) = st"
| "checkpoint_state (Finished st) = st"

definition incident_event ::
  "'e api_env_scheme \<Rightarrow> incident \<Rightarrow> string \<Rightarrow> json_object \<Rightarrow> unit act" where
  "incident_event e i event_type details =
     emit_event e event_type (inc_tenant_id i) (Some (inc_trip_id i)) (inc_correlation_id i) None details"

definition log_tool :: "'e api_env_scheme \<Rightarrow> incident \<Rightarrow> string \<Rightarrow> tool_audit_event \<Rightarrow> unit act" where
  "log_tool e i thread_id ev = incident_event e i ''tool.completed''
     [(''graph_thread_id'', JStr thread_id), (''tool_name'', JStr (ta_tool_name ev)),
      (''outcome'', JStr (ta_outcome ev)), (''evidence_count'', JInt (int (length (ta_evidence_ids ev))))]"

definition log_model :: "'e api_env_scheme \<Rightarrow> incident \<Rightarrow> model_invocation_audit \<Rightarrow> unit act" where
  "log_model e i ev = incident_event e i ''model.invocation''
     [(''provider'', JStr (ma_provider ev)), (''model'', JStr (ma_model ev)),
      (''prompt_version'', JStr (ma_prompt_version ev)), (''invocation_type'', JStr (ma_invocation_type ev)),
      (''outcome'', JStr (ma_outcome ev)), (''token_usage_recorded'', JBool (ma_token_usage ev \<noteq> None)),
      (''cost_recorded'', JBool (ma_estimated_cost_usd ev \<noteq> None))]"

text \<open>A recommendation that does not validate is dropped; one that is absent leaves the incident's own.\<close>

definition adopt_recommendation :: "'e api_env_scheme \<Rightarrow> incident \<Rightarrow> json_object option \<Rightarrow> incident act" where
  "adopt_recommendation e i raw = (case raw of
     None \<Rightarrow> ret i
   | Some payload \<Rightarrow> bindP (try_except
       (bindP (recommendation_of e (inc_incident_id i) payload) (\<lambda>r. ret (Some r))) (\<lambda>_. ret None))
       (\<lambda>r. ret (i\<lparr>inc_recommendation := r\<rparr>)))"

definition log_recommendation :: "'e api_env_scheme \<Rightarrow> incident \<Rightarrow> string \<Rightarrow> unit act" where
  "log_recommendation e i thread_id = (case inc_recommendation i of
     None \<Rightarrow> ret ()
   | Some r \<Rightarrow> incident_event e i ''recommendation.generated''
       [(''graph_thread_id'', JStr thread_id), (''evidence_count'', JInt (int (length (rec_evidence_ids r)))),
        (''uncertainty'', JStr (rec_uncertainty r)),
        (''requires_human_approval'', JBool (rec_requires_human_approval r))])"

definition store_candidates :: "'e api_env_scheme \<Rightarrow> incident \<Rightarrow> route_risk_state \<Rightarrow> unit act" where
  "store_candidates e i st = (case gs_alternative_candidates st of
     None \<Rightarrow> ret ()
   | Some candidates \<Rightarrow>
       if \<not> list_all valid_evaluated_candidate candidates then ret ()
       else bindP (new_candidate_set e (inc_incident_id i)
           (case gs_recovery_ranking st of None \<Rightarrow> ''deterministic-v1'' | Some r \<Rightarrow> rr_score_version r)
           (case gs_policy_decision st of None \<Rightarrow> pol_version default_policy | Some p \<Rightarrow> gpd_policy_version p)
           candidates) (\<lambda>cs.
         thenP (modify (save_candidate_set (inc_tenant_id i) cs))
         (thenP (incident_event e i ''recovery.candidate_set_created''
            [(''candidate_set_id'', JStr (str_uuid (cs_candidate_set_id cs))),
             (''candidate_count'', JInt (int (length (cs_candidates cs)))), (''source'', JStr ''graph'')])
         (incident_event e i ''recovery.ranking_completed''
            [(''candidate_set_id'', JStr (str_uuid (cs_candidate_set_id cs))),
             (''ranking_method'', JStr ''deterministic''),
             (''ranked_candidate_ids'', JList (map JStr (ranked_ids st)))]))))"

definition run_graph_investigation ::
  "'e assess_env_scheme \<Rightarrow> incident \<Rightarrow> risk_assessment \<Rightarrow> evidence_envelope list \<Rightarrow> trip \<Rightarrow> source_health \<Rightarrow>
    incident act" where
  "run_graph_investigation e i a evidence t health =
     (let tenant_id = inc_tenant_id i;
          thread_id = thread_id_for tenant_id (str_uuid (inc_trip_id i)) (str_uuid (inc_incident_id i)) in
      bindP (control_enabled e tenant_id MEMORY_READS_ENABLED) (\<lambda>reads.
      bindP (gets (\<lambda>w. if reads then get_profile tenant_id (trip_traveler_id t) w else None)) (\<lambda>profile.
      bindP (gets (list_approved_playbooks tenant_id)) (\<lambda>playbooks.
      bindP (control_enabled e tenant_id LLM_ENABLED) (\<lambda>llm_enabled.
      bindP (invoke_graph e thread_id (initial_state e i a evidence t health profile playbooks llm_enabled)) (\<lambda>c.
      let st = checkpoint_state c in
      bindP (for_each (gs_tool_audit st) (tool_audit_of e)) (\<lambda>tool_audit.
      bindP (for_each (gs_model_audit st) (model_audit_of e)) (\<lambda>model_audit.
      let i1 = i\<lparr>inc_tool_audit := tool_audit, inc_model_audit := model_audit\<rparr> in
      thenP (incident_event e i1 ''memory_context.loaded''
        [(''graph_thread_id'', JStr thread_id), (''profile_loaded'', JBool (profile \<noteq> None)),
         (''memory_context_version'', json_opt_int (map_option prof_version profile)),
         (''playbook_count'', JInt (int (length playbooks))), (''llm_enabled'', JBool llm_enabled)])
      (thenP (for_each tool_audit (log_tool e i1 thread_id))
      (thenP (for_each model_audit (log_model e i1))
      (bindP (adopt_recommendation e i1 (gs_recommendation st)) (\<lambda>i2.
      thenP (log_recommendation e i2 thread_id)
      (thenP (store_candidates e i2 st)
        (ret (case c of
           Paused _ \<Rightarrow> i2\<lparr>inc_graph_thread_id := Some thread_id, inc_approval_payload := Some (interrupt_payload e st)\<rparr>
         | Finished _ \<Rightarrow> i2\<lparr>inc_graph_thread_id := Some thread_id\<rparr>)))))))))))))))"

end
