(* ===== verification/Investigation.thy ===== *)
theory Investigation
  imports Assess
begin

text \<open>
  The run of the investigation graph as a whole: the invariant of each node, the measure that bounds
  the number of supersteps, and what a reviewer is shown when the run pauses.
\<close>

section \<open>Runs of the graph\<close>

text \<open>
  The contract of a run: under \<open>inv\<close> a node returns, hands an invariant state to its successor, and
  the measure goes down.
\<close>

locale supervised_run =
  fixes e :: "'e graph_env_scheme"
    and inv :: "graph_node \<Rightarrow> route_risk_state \<Rightarrow> bool"
    and steps :: "graph_node \<Rightarrow> route_risk_state \<Rightarrow> nat"
  assumes progress: "inv node st \<Longrightarrow> node \<noteq> APPROVAL_GATE \<Longrightarrow>
    \<exists>st' w'. run_node e node st w = (Inr st', w') \<and>
      (\<forall>node'. next_node node st' = Some node' \<longrightarrow> inv node' st' \<and> steps node' st' < steps node st)"
begin

lemma run_returns:
  assumes "inv node st" "steps node st < limit"
  shows "\<exists>c w'. run_graph e limit node st w = (Inr c, w') \<and> 
    (case c of Paused s \<Rightarrow> inv APPROVAL_GATE s | Finished s \<Rightarrow> \<exists>st'. inv FINALIZE st')"
  using assms
proof (induction limit arbitrary: node st w)
  case (Suc limit)
  show ?case
  proof (cases "node = APPROVAL_GATE")
    case True
    with Suc.prems show ?thesis by (auto simp: ret_app)
  next
    case False
    obtain st' w' where st': "run_node e node st w = (Inr st', w')"
      and goes_on: "\<And>node'. next_node node st' = Some node' \<Longrightarrow> inv node' st' \<and> steps node' st' < steps node st"
      using progress [OF Suc.prems(1) False] by blast
    show ?thesis
    proof (cases "next_node node st'")
      case None
      then have "node = FINALIZE" by (cases node) simp_all
      with None st' False Suc.prems(1) show ?thesis by (auto simp: prog_simps)
    next
      case (Some node')
      then have "inv node' st'" "steps node' st' < limit" using goes_on [OF Some] Suc.prems(2) by auto
      from Suc.IH [OF this] st' False Some show ?thesis by (simp add: prog_simps)
    qed
  qed
qed simp

end

lemma run_graph_more_fuel:
  assumes "run_graph e limit node st w = (Inr c, w')" "limit \<le> limit'"
  shows "run_graph e limit' node st w = (Inr c, w')"
  using assms
proof (induction limit arbitrary: limit' node st w)
  case (Suc limit)
  then obtain k where k: "limit' = Suc k" "limit \<le> k" by (cases limit') auto
  show ?case
    using Suc.prems(1) Suc.IH [OF _ k(2)] k(1)
    by (auto simp: prog_simps split: prod.splits sum.splits option.splits if_splits)
qed (simp add: throw_app)

section \<open>The invariant\<close>

text \<open>
  What \<^verbatim>\<open>Recommendation.model_dump(mode="json")\<close> is documented to give: the fields under their
  names, identifiers as strings.
\<close>

definition dumps_recommendations :: "'e api_env_scheme \<Rightarrow> bool" where
  "dumps_recommendations e \<longleftrightarrow> (\<forall>r.
     dict_get (env_dump e (MRecommendation r)) ''manager_message'' = Some (JStr (rec_manager_message r)) \<and>
     dict_get (env_dump e (MRecommendation r)) ''evidence_ids'' =
       Some (JList (map (\<lambda>u. JStr (str_uuid u)) (rec_evidence_ids r))))"

definition same_case :: "route_risk_state \<Rightarrow> route_risk_state \<Rightarrow> bool" where
  "same_case st0 st \<longleftrightarrow> gs_tenant_id st = gs_tenant_id st0 \<and> gs_trip_id st = gs_trip_id st0 \<and>
     gs_incident_id st = gs_incident_id st0 \<and> gs_evidence st = gs_evidence st0 \<and>
     gs_risk_assessment st = gs_risk_assessment st0 \<and> gs_source_health st = gs_source_health st0 \<and>
     gs_llm_enabled st = gs_llm_enabled st0"

definition cites_known :: "'e graph_env_scheme \<Rightarrow> route_risk_state \<Rightarrow> json_object \<Rightarrow> bool" where
  "cites_known e st r \<longleftrightarrow> (\<exists>ids. dict_get r ''evidence_ids'' = Some (JList (map JStr ids)) \<and>
     set ids \<subseteq> set (known_evidence_ids e st))"

definition usable :: "'e graph_env_scheme \<Rightarrow> route_risk_state \<Rightarrow> json_object \<Rightarrow> bool" where
  "usable e st r \<longleftrightarrow> cites_known e st r \<and> (\<exists>message. dict_get r ''manager_message'' = Some message)"

text \<open>What the node starts from: citations that are a list of strings, and a message.\<close>

definition well_formed :: "json_object \<Rightarrow> bool" where
  "well_formed r \<longleftrightarrow> (\<exists>ids. dict_get r ''evidence_ids'' = Some (JList (map JStr ids))) \<and>
     (\<exists>message. dict_get r ''manager_message'' = Some message)"

definition fallback_ready :: "route_risk_state \<Rightarrow> bool" where
  "fallback_ready st \<longleftrightarrow> (case gs_recommendation st of None \<Rightarrow> True | Some r \<Rightarrow> well_formed r)"

definition usable_recommendation :: "'e graph_env_scheme \<Rightarrow> route_risk_state \<Rightarrow> bool" where
  "usable_recommendation e st \<longleftrightarrow> (\<exists>r. gs_recommendation st = Some r \<and> usable e st r)"

definition runnable_call :: "route_risk_state \<Rightarrow> bool" where
  "runnable_call st \<longleftrightarrow> (\<exists>name arguments.
     gs_pending_tool_call st = Some [(''name'', JStr name), (''arguments'', JObj arguments)] \<and>
     name \<in> set READ_ONLY_TOOL_NAMES \<and> dict_get arguments ''trip_id'' = Some (JStr (gs_trip_id st)))"

text \<open>At most three lookups, and one completion for choosing a tool.\<close>

definition react_bounds :: "'e graph_env_scheme \<Rightarrow> route_risk_state \<Rightarrow> bool" where
  "react_bounds e st \<longleftrightarrow> 0 \<le> gs_react_iterations st \<and> gs_react_iterations st \<le> MAX_REACT_ITERATIONS \<and>
     (if gs_tool_selection_attempted st then length (gs_model_audit st) \<le> 1
      else gs_model_audit st = [] \<and> (available_for e (gs_llm_enabled st) \<longrightarrow> gs_react_iterations st = 0))"

definition run_bounds :: "route_risk_state \<Rightarrow> bool" where
  "run_bounds st \<longleftrightarrow> gs_react_iterations st \<le> MAX_REACT_ITERATIONS \<and> length (gs_model_audit st) \<le> 2"

definition decided :: "route_risk_state \<Rightarrow> evaluated_candidate list \<Rightarrow> bool" where
  "decided st cs \<longleftrightarrow> map_option gpd_eligible_candidate_ids (gs_policy_decision st) =
     Some (map cd_candidate_id (filter cd_eligible cs))"

definition ranked :: "route_risk_state \<Rightarrow> evaluated_candidate list \<Rightarrow> bool" where
  "ranked st cs \<longleftrightarrow> decided st cs \<and> gs_eligible_alternatives st = rank_eligible cs \<and>
     ranked_ids st = map cd_candidate_id (rank_eligible cs)"

definition attached :: "route_risk_state \<Rightarrow> bool" where
  "attached st \<longleftrightarrow> (\<exists>r cs. gs_recommendation st = Some r \<and> r \<noteq> [] \<and> ranked st cs \<and>
     dict_get r ''ranked_alternative_ids'' = Some (JList (map JStr (map cd_candidate_id (rank_eligible cs)))))"

definition untouched :: "route_risk_state \<Rightarrow> bool" where
  "untouched st \<longleftrightarrow> gs_recommendation st = None \<and> gs_eligible_alternatives st = [] \<and> gs_recovery_ranking st = None"

fun node_invariant :: "'e graph_env_scheme \<Rightarrow> graph_node \<Rightarrow> route_risk_state \<Rightarrow> bool" where
  "node_invariant e LOAD_MEMORY_CONTEXT st = (react_bounds e st \<and> fallback_ready st \<and> gs_pending_tool_call st = None)"
| "node_invariant e REACT_ASSISTANT st = (react_bounds e st \<and> fallback_ready st \<and> gs_pending_tool_call st = None)"
| "node_invariant e TOOLS st =
     (react_bounds e (st\<lparr>gs_react_iterations := gs_react_iterations st + 1\<rparr>) \<and> 0 \<le> gs_react_iterations st \<and>
      fallback_ready st \<and> runnable_call st)"
| "node_invariant e RECOMMENDATION st = (react_bounds e st \<and> fallback_ready st)"
| "node_invariant e VERIFY_ALTERNATIVE_ELIGIBILITY st = (run_bounds st \<and> usable_recommendation e st)"
| "node_invariant e RANK_ELIGIBLE_RECOVERY_OPTIONS st =
     (run_bounds st \<and> usable_recommendation e st \<and> (\<exists>cs. gs_alternative_candidates st = Some cs \<and> decided st cs))"
| "node_invariant e ATTACH_RECOVERY_RANKING st =
     (run_bounds st \<and> usable_recommendation e st \<and> (\<exists>cs. ranked st cs))"
| "node_invariant e POLICY_GATE st = (run_bounds st \<and> usable_recommendation e st \<and> attached st)"
| "node_invariant e APPROVAL_GATE st = (run_bounds st \<and> cites_known e st (or_base e st) \<and> (untouched st \<or> attached st))"
| "node_invariant e QUEUE_APPROVED_ACTION st = False"
| "node_invariant e FINALIZE st = False"

definition investigating :: "'e graph_env_scheme \<Rightarrow> route_risk_state \<Rightarrow> graph_node \<Rightarrow> route_risk_state \<Rightarrow> bool" where
  "investigating e st0 node st \<longleftrightarrow> dumps_recommendations e \<and> same_case st0 st \<and> node_invariant e node st"

definition lookups_left :: "route_risk_state \<Rightarrow> nat" where
  "lookups_left st = nat (MAX_REACT_ITERATIONS - gs_react_iterations st)"

fun steps_left :: "graph_node \<Rightarrow> route_risk_state \<Rightarrow> nat" where
  "steps_left LOAD_MEMORY_CONTEXT st = 8 + 2 * lookups_left st"
| "steps_left REACT_ASSISTANT st = 7 + 2 * lookups_left st"
| "steps_left TOOLS st = 6 + 2 * lookups_left st"
| "steps_left RECOMMENDATION st = 6"
| "steps_left VERIFY_ALTERNATIVE_ELIGIBILITY st = 5"
| "steps_left RANK_ELIGIBLE_RECOVERY_OPTIONS st = 4"
| "steps_left ATTACH_RECOVERY_RANKING st = 3"
| "steps_left POLICY_GATE st = 2"
| "steps_left APPROVAL_GATE st = 1"
| "steps_left QUEUE_APPROVED_ACTION st = 1"
| "steps_left FINALIZE st = 0"


section \<open>Every node keeps the invariant\<close>

lemma or_base_Some: "gs_recommendation st = Some r \<Longrightarrow> r \<noteq> [] \<Longrightarrow> or_base e st = r"
  by (simp add: or_base_def)

lemma base_cites_known: "cites_known e st (base_recommendation e st)"
  by (auto simp: cites_known_def base_recommendation_def)

lemma base_message: "\<exists>message. dict_get (base_recommendation e st) ''manager_message'' = Some message"
  by (simp add: base_recommendation_def)

lemma same_case_known: "same_case st0 st \<Longrightarrow> known_evidence_ids e st = known_evidence_ids e st0"
  by (simp add: same_case_def known_evidence_ids_def)

lemma cites_known_cong: "known_evidence_ids e st' = known_evidence_ids e st \<Longrightarrow> cites_known e st' r = cites_known e st r"
  by (simp add: cites_known_def)

lemma checked_selection_runnable:
  assumes "checked_selection trip_id calls = Some s"
  shows "ts_name s \<in> set READ_ONLY_TOOL_NAMES" "dict_get (ts_arguments s) ''trip_id'' = Some (JStr trip_id)"
proof -
  obtain xs where xs: "calls = JList xs" using assms by (cases calls) (simp_all add: checked_selection_def)
  obtain c ys where ys: "xs = c # ys" using assms xs by (cases xs) (simp_all add: checked_selection_def)
  obtain call where call: "c = JObj call" using assms xs ys by (cases c) (simp_all add: checked_selection_def)
  have c: "calls = JList [c]" using assms xs ys call by (cases ys) (simp_all add: checked_selection_def)
  obtain v where v: "dict_get call ''name'' = Some v"
    using assms c call by (cases "dict_get call ''name''") (simp_all add: checked_selection_def)
  obtain name where name: "v = JStr name" using assms c call v by (cases v) (simp_all add: checked_selection_def)
  obtain a where a: "dict_get call ''args'' = Some a"
    using assms c call v name by (cases "dict_get call ''args''") (simp_all add: checked_selection_def)
  obtain arguments where "a = JObj arguments"
    using assms c call v name a by (cases a) (simp_all add: checked_selection_def)
  with c call v name a have "checked_selection trip_id calls =
      (if name \<notin> set READ_ONLY_TOOL_NAMES then None
       else if dict_get arguments ''trip_id'' \<noteq> Some (JStr trip_id) \<or> set (dict_keys arguments) \<noteq> {''trip_id''} then None
       else Some \<lparr>ts_name = name, ts_arguments = arguments\<rparr>)"
    by (simp only: checked_selection_def json.case list.case option.case prod.case)
  with assms have "name \<in> set READ_ONLY_TOOL_NAMES \<and> dict_get arguments ''trip_id'' = Some (JStr trip_id) \<and>
      s = \<lparr>ts_name = name, ts_arguments = arguments\<rparr>"
    by (metis (no_types, lifting) option.distinct(1) option.inject)
  then show "ts_name s \<in> set READ_ONLY_TOOL_NAMES"
    "dict_get (ts_arguments s) ''trip_id'' = Some (JStr trip_id)" by simp_all
qed

lemma tool_names: "set [''get_flight_status'', ''get_connection_feasibility'', ''get_airport_weather''] \<subseteq> set READ_ONLY_TOOL_NAMES"
  by code_simp

lemma find_in: "List.find P xs = Some x \<Longrightarrow> x \<in> set xs"
  by (auto simp: find_Some_iff)

lemma next_tool_name:
  assumes "next_tool e st = Some name"
  shows "name \<in> set READ_ONLY_TOOL_NAMES" "gs_react_iterations st < MAX_REACT_ITERATIONS"
proof -
  show low: "gs_react_iterations st < MAX_REACT_ITERATIONS"
    using assms by (rule contrapos_pp) (simp add: next_tool_def)
  then obtain source_type where "(source_type, name) \<in> set [(''flight_status'', ''get_flight_status''),
      (''connection_feasibility'', ''get_connection_feasibility''), (''airport_weather'', ''get_airport_weather'')]"
    using assms by (auto simp: next_tool_def Let_def simp del: set_simps find.simps dest!: find_in)
  then have "name \<in> set [''get_flight_status'', ''get_connection_feasibility'', ''get_airport_weather'']"
    by (force simp del: char.inject)
  with tool_names show "name \<in> set READ_ONLY_TOOL_NAMES" by blast
qed

lemma base_well_formed: "well_formed (base_recommendation e st)"
  using base_cites_known [of e st] base_message [of e st] by (auto simp: well_formed_def cites_known_def)

lemma fallback_ready_or_base: "fallback_ready st \<Longrightarrow> well_formed (or_base e st)"
  using base_well_formed [of e st] by (auto simp: fallback_ready_def or_base_def split: option.splits)

lemma react_step:
  assumes "react_bounds e st" "gs_pending_tool_call st = None"
  shows "\<exists>st' w'. react_assistant e st w = (Inr st', w') \<and> same_case st st' \<and>
    gs_react_iterations st' = gs_react_iterations st \<and>
    (fallback_ready st \<longrightarrow> fallback_ready st') \<and>
    (if opt_object_truthy (gs_pending_tool_call st')
     then gs_react_iterations st < MAX_REACT_ITERATIONS \<and> runnable_call st' \<and>
       react_bounds e (st'\<lparr>gs_react_iterations := gs_react_iterations st + 1\<rparr>)
     else react_bounds e st')"
proof (cases "\<not> gs_tool_selection_attempted st \<and> available_for e (gs_llm_enabled st)")
  case True
  let ?select = "try_except (bindP (select_tool e (gs_trip_id st) (gs_risk_assessment st) (gs_evidence st)
    (gs_source_health st) True) (\<lambda>s. ret (Some s))) (\<lambda>_. ret None)"
  have "\<exists>attempt w'. ?select w = (Inr attempt, w') \<and> (\<forall>s. attempt = Some (Some s) \<longrightarrow>
      ts_name s \<in> set READ_ONLY_TOOL_NAMES \<and> dict_get (ts_arguments s) ''trip_id'' = Some (JStr (gs_trip_id st)))"
    by (auto simp: select_tool_def prog_simps try_except_def checked_selection_runnable split: sum.splits)
  then obtain attempt w' where select: "?select w = (Inr attempt, w')" and runnable: "\<And>s. attempt = Some (Some s) \<Longrightarrow>
      ts_name s \<in> set READ_ONLY_TOOL_NAMES \<and> dict_get (ts_arguments s) ''trip_id'' = Some (JStr (gs_trip_id st))" by blast
  from True assms(1) have zero: "gs_react_iterations st = 0" "gs_model_audit st = []" by (auto simp: react_bounds_def)
  show ?thesis
    unfolding react_assistant_def if_P [OF True] bindP_app select
    using zero assms runnable
    by (cases attempt; cases "the attempt")
      (simp_all add: prog_simps fallback_ready_def base_well_formed Let_def same_case_def opt_object_truthy_def react_bounds_def runnable_call_def
        MAX_REACT_ITERATIONS_def)
next
  case False
  show ?thesis
  proof (cases "next_tool e st")
    case None
    then show ?thesis unfolding react_assistant_def if_not_P [OF False]
      using assms by (auto simp: ret_app fallback_ready_def base_well_formed same_case_def opt_object_truthy_def react_bounds_def)
  next
    case (Some name)
    note next_tool_name [OF Some]
    then have "gs_react_iterations st + 1 \<le> MAX_REACT_ITERATIONS" by simp
    with next_tool_name [OF Some] Some False assms show ?thesis unfolding react_assistant_def if_not_P [OF False]
      by (auto simp: ret_app fallback_ready_def base_well_formed same_case_def opt_object_truthy_def react_bounds_def runnable_call_def)
  qed
qed

lemma tools_step:
  assumes "react_bounds e (st\<lparr>gs_react_iterations := gs_react_iterations st + 1\<rparr>)" "runnable_call st"
  shows "react_bounds e (run_read_only_tool e st)" "gs_pending_tool_call (run_read_only_tool e st) = None"
    "same_case st (run_read_only_tool e st)"
    "gs_react_iterations (run_read_only_tool e st) = gs_react_iterations st + 1"
    "gs_recommendation (run_read_only_tool e st) = gs_recommendation st"
  using assms by (auto simp: run_read_only_tool_def runnable_call_def react_bounds_def same_case_def Let_def)

lemma cautious_usable:
  fixes e :: "'e graph_env_scheme" and st :: route_risk_state
  defines "cautious \<equiv> dict_set ''uncertainty'' (JStr ''high'') (base_recommendation e st)"
  shows "cites_known e st cautious" "\<exists>message. dict_get cautious ''manager_message'' = Some message"
  using base_cites_known [of e st] base_message [of e st]
  by (simp_all add: cautious_def cites_known_def dict_get_set)

lemma set_map_JStr_subset: "set (map JStr ids) \<subseteq> JStr ` S \<longleftrightarrow> set ids \<subseteq> S"
  by auto

lemma all_strings_hashable: "list_all hashable (map JStr ids)"
  by (simp add: list_all_iff hashable_def)

lemma well_formed_checked:
  assumes "well_formed r"
  shows "\<exists>r'. (case get_or r ''evidence_ids'' (JList []) of
      JList cited \<Rightarrow>
        if \<not> list_all hashable cited then throw (TypeError ''unhashable type'')
        else ret (st\<lparr>gs_recommendation := Some (if set cited \<subseteq> JStr ` set (known_evidence_ids e st)
               then r else dict_set ''uncertainty'' (JStr ''high'') (base_recommendation e st)), gs_model_audit := m\<rparr>)
    | _ \<Rightarrow> ret (st\<lparr>gs_recommendation := Some (dict_set ''uncertainty'' (JStr ''high'') (base_recommendation e st)),
        gs_model_audit := m\<rparr>)) =
    (ret (st\<lparr>gs_recommendation := Some r', gs_model_audit := m\<rparr>) :: route_risk_state act) \<and> usable e st r'"
proof -
  obtain ids message where r: "dict_get r ''evidence_ids'' = Some (JList (map JStr ids))"
    "dict_get r ''manager_message'' = Some message" using assms by (auto simp: well_formed_def)
  show ?thesis
  proof (cases "set ids \<subseteq> set (known_evidence_ids e st)")
    case True
    have "usable e st r" using r True by (auto simp: usable_def cites_known_def)
    with r True show ?thesis
      by (intro exI [of _ r]) (simp add: get_or_def all_strings_hashable set_map_JStr_subset del: set_map)
  next
    case False
    then show ?thesis using cautious_usable [of e st] r
      by (intro exI [of _ "dict_set ''uncertainty'' (JStr ''high'') (base_recommendation e st)"])
        (simp add: usable_def get_or_def all_strings_hashable set_map_JStr_subset del: set_map)
  qed
qed

lemma react_bounds_run: "react_bounds e st \<Longrightarrow> gs_react_iterations st \<le> MAX_REACT_ITERATIONS \<and> length (gs_model_audit st) \<le> 1"
  by (auto simp: react_bounds_def split: if_splits)

lemma cautious_well_formed: "well_formed (dict_set ''uncertainty'' (JStr ''high'') (base_recommendation e st))"
  using cautious_usable [of e st] by (auto simp: well_formed_def cites_known_def)

lemma dumped_well_formed: "dumps_recommendations e \<Longrightarrow> well_formed (env_dump e (MRecommendation r))"
  unfolding well_formed_def dumps_recommendations_def
  by (metis (no_types, lifting) list.map_comp comp_def map_eq_conv)

text \<open>The node's own choice, before its citations are checked.\<close>

lemma validate_step:
  assumes "dumps_recommendations e" "well_formed (or_base e st)" "length (gs_model_audit st) \<le> 1"
  shows "\<exists>r m w'. validate_recommendation e st w =
    (Inr (st\<lparr>gs_recommendation := Some r, gs_model_audit := m\<rparr>), w') \<and> usable e st r \<and> length m \<le> 2"
proof -
  define audited where "audited outcome = gs_model_audit st @ [audit_metadata e ''recommendation'' outcome @
    [(''input_summary'', JObj [(''severity'', JStr (severity_text e st)),
       (''evidence_count'', JInt (int (length (gs_evidence st))))])]]" for outcome
  define choice where "choice = (if available_for e (gs_llm_enabled st) \<and> elevated_text (severity_text e st)
     then try_except
       (bindP (lift_result (py_uuid (gs_incident_id st))) (\<lambda>incident_id.
        bindP (recommend e incident_id (gs_risk_assessment st) (gs_evidence st) True) (\<lambda>r.
          ret (env_dump e (MRecommendation r), audited ''succeeded''))))
       (\<lambda>_. ret (dict_set ''uncertainty'' (JStr ''high'') (base_recommendation e st), audited ''failed_fallback_used''))
     else ret (or_base e st, gs_model_audit st))"
  have "\<exists>r m w'. choice w = (Inr (r, m), w') \<and> well_formed r \<and> length m \<le> 2"
    using assms by (auto simp: choice_def try_except_def prog_simps dumped_well_formed cautious_well_formed audited_def
      split: sum.splits prod.splits)
  then obtain r m w' where c: "choice w = (Inr (r, m), w')" "well_formed r" "length m \<le> 2" by blast
  have "validate_recommendation e st = bindP choice (\<lambda>(r, m). case get_or r ''evidence_ids'' (JList []) of
      JList cited \<Rightarrow>
        if \<not> list_all hashable cited then throw (TypeError ''unhashable type'')
        else ret (st\<lparr>gs_recommendation := Some (if set cited \<subseteq> JStr ` set (known_evidence_ids e st)
               then r else dict_set ''uncertainty'' (JStr ''high'') (base_recommendation e st)), gs_model_audit := m\<rparr>)
    | _ \<Rightarrow> ret (st\<lparr>gs_recommendation := Some (dict_set ''uncertainty'' (JStr ''high'') (base_recommendation e st)),
        gs_model_audit := m\<rparr>))"
    by (simp only: validate_recommendation_def Let_def choice_def audited_def)
  with c well_formed_checked [OF c(2), where st = st and e = e and m = m] show ?thesis
    by (fastforce simp: bindP_app ret_app)
qed

lemma verify_step:
  "\<exists>cs w'. verify_alternative_eligibility e st w = (Inr (st\<lparr>gs_alternative_candidates := Some cs,
      gs_eligible_alternatives := [], gs_policy_decision := Some
        \<lparr>gpd_policy_version = pol_version default_policy,
         gpd_eligible_candidate_ids = map cd_candidate_id (filter cd_eligible cs),
         gpd_traveler_minimum_connection_minutes = traveler_minimum st,
         gpd_memory_context_version = gs_memory_context_version st,
         gpd_approved_playbooks = gs_approved_playbooks st\<rparr>,
      gs_tool_audit := gs_tool_audit st @
        [tool_record ''find_alternative_flights'' [(''trip_id'', JStr (gs_trip_id st))]
          (known_evidence_ids e st) ''policy_eligibility_evaluated'']\<rparr>), w')"
proof -
  have "\<exists>ys. result_map (\<lambda>c. evaluate_policy_eligible_candidate c default_policy) fixture_alternatives = Inr ys"
    by (intro result_map_ok evaluate_policy_total) (auto simp: fixture_alternatives_def valid_recovery_candidate_def)
  then show ?thesis by (auto simp: verify_alternative_eligibility_def prog_simps Let_def)
qed

lemma same_case_trans: "same_case a b \<Longrightarrow> same_case b c \<Longrightarrow> same_case a c"
  by (simp add: same_case_def)

lemmas usable_defs = usable_recommendation_def usable_def cites_known_def known_evidence_ids_def

lemma attach_step:
  assumes "usable_recommendation e st"
  shows "\<exists>r w'. attach_recovery_ranking e st w = (Inr (st\<lparr>gs_recommendation := Some r\<rparr>), w') \<and> usable e st r \<and> r \<noteq> [] \<and>
    dict_get r ''ranked_alternative_ids'' = Some (JList (map JStr (ranked_ids st)))"
proof -
  obtain r message where r: "gs_recommendation st = Some r" "usable e st r" "dict_get r ''manager_message'' = Some message"
    using assms by (auto simp: usable_recommendation_def usable_def)
  then have "r \<noteq> []" by auto
  with r have base: "or_base e st = r" by (simp add: or_base_def)
  let ?text = "JStr (py_str e message @ '' '' @ string_of_nat (length (ranked_ids st)) @
    '' policy-eligible alternatives were ranked by the deterministic '' @ ''recovery score.'')"
  let ?r = "dict_set ''manager_message'' ?text (dict_set ''ranked_alternative_ids'' (JList (map JStr (ranked_ids st))) r)"
  have "attach_recovery_ranking e st w = (Inr (st\<lparr>gs_recommendation := Some ?r\<rparr>), w)"
    using r(3) by (simp add: attach_recovery_ranking_def Let_def base dict_get_set ret_app)
  moreover have "usable e st ?r"
    using r(2) by (simp add: usable_def cites_known_def dict_get_set)
  moreover have "?r \<noteq> []" by simp
  moreover have "dict_get ?r ''ranked_alternative_ids'' = Some (JList (map JStr (ranked_ids st)))"
    by (simp add: dict_get_set)
  ultimately show ?thesis by blast
qed

lemma node_progress:
  assumes "investigating e st0 node st" "node \<noteq> APPROVAL_GATE"
  shows "\<exists>st' w'. run_node e node st w = (Inr st', w') \<and>
    (\<forall>node'. next_node node st' = Some node' \<longrightarrow>
      investigating e st0 node' st' \<and> steps_left node' st' < steps_left node st)"
proof -
  have case0: "same_case st0 st" and dumps: "dumps_recommendations e" and inv: "node_invariant e node st"
    using assms(1) by (simp_all add: investigating_def)
  note goal_simps = investigating_def dumps case0 ret_app
  show ?thesis
  proof (cases node)
    case LOAD_MEMORY_CONTEXT
    with inv case0 show ?thesis
      by (auto simp: goal_simps load_memory_context_def Let_def same_case_def react_bounds_def fallback_ready_def
        lookups_left_def)
  next
    case REACT_ASSISTANT
    with inv have "react_bounds e st" "gs_pending_tool_call st = None" "fallback_ready st" by simp_all
    with react_step [OF this(1,2), of w] obtain st' w' where st': "react_assistant e st w = (Inr st', w')"
      "same_case st st'" "gs_react_iterations st' = gs_react_iterations st" "fallback_ready st'"
      "if opt_object_truthy (gs_pending_tool_call st')
       then gs_react_iterations st < MAX_REACT_ITERATIONS \<and> runnable_call st' \<and>
         react_bounds e (st'\<lparr>gs_react_iterations := gs_react_iterations st + 1\<rparr>)
       else react_bounds e st'" by blast
    with REACT_ASSISTANT same_case_trans [OF case0 st'(2)] \<open>react_bounds e st\<close> show ?thesis
      by (auto simp: investigating_def dumps route_after_assistant_def lookups_left_def react_bounds_def)
  next
    case TOOLS
    with inv have "react_bounds e (st\<lparr>gs_react_iterations := gs_react_iterations st + 1\<rparr>)" "runnable_call st"
      "fallback_ready st" "0 \<le> gs_react_iterations st" by simp_all
    with tools_step [OF this(1,2)] TOOLS same_case_trans [OF case0] show ?thesis
      by (auto simp: investigating_def dumps ret_app lookups_left_def fallback_ready_def react_bounds_def)
  next
    case RECOMMENDATION
    with inv have "react_bounds e st" "well_formed (or_base e st)" by (simp_all add: fallback_ready_or_base)
    with validate_step [OF dumps this(2), of w] react_bounds_run [OF this(1)] obtain r m w' where
      "validate_recommendation e st w = (Inr (st\<lparr>gs_recommendation := Some r, gs_model_audit := m\<rparr>), w')"
      "usable e st r" "length m \<le> 2" "gs_react_iterations st \<le> MAX_REACT_ITERATIONS" by blast
    with RECOMMENDATION case0 show ?thesis
      by (simp add: goal_simps same_case_def run_bounds_def usable_defs)
  next
    case VERIFY_ALTERNATIVE_ELIGIBILITY
    with inv case0 verify_step [of e st w] show ?thesis
      by (auto simp: goal_simps same_case_def run_bounds_def usable_defs decided_def)
  next
    case RANK_ELIGIBLE_RECOVERY_OPTIONS
    with inv case0 show ?thesis
      by (auto simp: goal_simps same_case_def run_bounds_def usable_defs decided_def
        ranked_def ranked_ids_def rank_eligible_recovery_options_def Let_def)
  next
    case ATTACH_RECOVERY_RANKING
    with inv obtain cs where "run_bounds st" "usable_recommendation e st" "ranked st cs" by auto
    with attach_step [OF this(2), of w] ATTACH_RECOVERY_RANKING case0 show ?thesis
      by (auto simp: goal_simps same_case_def run_bounds_def usable_defs attached_def
        ranked_def decided_def ranked_ids_def)
  next
    case POLICY_GATE
    with inv case0 show ?thesis
      by (auto simp: goal_simps same_case_def run_bounds_def usable_defs attached_def ranked_def decided_def ranked_ids_def policy_gate_def or_base_def)
  qed (use assms(2) inv in simp_all)
qed

interpretation run: supervised_run e "investigating e st0" steps_left for e st0
  by unfold_locales (rule node_progress)

lemma initial_investigating:
  assumes "dumps_recommendations e" "node = APPROVAL_GATE \<or> node = LOAD_MEMORY_CONTEXT"
  shows "investigating e (initial_state e i a evidence t health profile playbooks llm) node
    (initial_state e i a evidence t health profile playbooks llm)"
  using assms base_cites_known
  by (auto simp: investigating_def same_case_def initial_state_def react_bounds_def fallback_ready_def run_bounds_def
    untouched_def or_base_def MAX_REACT_ITERATIONS_def)

lemma route_cases: "route_by_severity e st \<in> {APPROVAL_GATE, LOAD_MEMORY_CONTEXT, FINALIZE}"
  by (simp add: route_by_severity_def)

lemma initial_steps:
  assumes "node = APPROVAL_GATE \<or> node = LOAD_MEMORY_CONTEXT"
  shows "steps_left node (initial_state e i a evidence t health profile playbooks llm) < 15"
  using assms by (auto simp: lookups_left_def initial_state_def MAX_REACT_ITERATIONS_def)

text \<open>A run that starts at the interrupt or with the memory pauses, and what holds there.\<close>

lemma investigation_pauses:
  fixes e :: "'e graph_env_scheme"
  assumes "dumps_recommendations e" "node = APPROVAL_GATE \<or> node = LOAD_MEMORY_CONTEXT"
    and "st0 = initial_state e i a evidence t health profile playbooks llm"
  obtains s w' where "run_graph e 15 node st0 w = (Inr (Paused s), w')"
    "run_graph e recursion_limit node st0 w = (Inr (Paused s), w')" "investigating e st0 APPROVAL_GATE s"
proof -
  obtain c w' where run: "run_graph e 15 node st0 w = (Inr c, w')"
    and inv: "case c of Paused s \<Rightarrow> investigating e st0 APPROVAL_GATE s | Finished s \<Rightarrow> \<exists>st'. investigating e st0 FINALIZE st'"
    using run.run_returns [OF initial_investigating [OF assms(1,2)] initial_steps [OF assms(2)]] unfolding assms(3) by blast
  from inv obtain s where c: "c = Paused s" by (cases c) (auto simp: investigating_def)
  have "run_graph e recursion_limit node st0 w = (Inr c, w')"
    by (rule run_graph_more_fuel [OF run]) (simp add: recursion_limit_def)
  with run inv c show ?thesis by (intro that [of s w']) simp_all
qed

lemma run_finalize: "0 < limit \<Longrightarrow> run_graph e limit FINALIZE st w = (Inr (Finished (finalize e st)), w)"
  by (cases limit) (simp_all add: prog_simps)

section \<open>Properties\<close>



text \<open>Witnesses: a model that fails at every call, on a critical trip with one report.\<close>

fun sample_dump :: "model \<Rightarrow> json_object" where
  "sample_dump (MRecommendation r) = [(''manager_message'', JStr (rec_manager_message r)),
     (''evidence_ids'', JList (map (\<lambda>u. JStr (str_uuid u)) (rec_evidence_ids r)))]"
| "sample_dump (MEvidence item) = [(''evidence_id'', JStr (str_uuid (ev_evidence_id item))),
     (''source_type'', JStr (ev_source_type item))]"
| "sample_dump (MRiskAssessment a) = [(''severity'', JStr ''critical'')]"
| "sample_dump m = []"

definition sample_graph :: graph_env where
  "sample_graph = api_env.extend (sample_api\<lparr>env_dump := sample_dump\<rparr>)
     \<lparr>env_openai_model = ''m'', env_openai_api_key = Some ''k'',
      env_chat = (\<lambda>_ _. Inl (RuntimeError ''model'')), env_structured = (\<lambda>_ _. Inl (RuntimeError ''model'')),
      env_str = (\<lambda>_. ''None''), env_dump_candidate = (\<lambda>c. [(''candidate_id'', JStr (cd_candidate_id c))]),
      env_idle_resume = (\<lambda>_. None)\<rparr>"

definition sample_assessment :: risk_assessment where
  "sample_assessment = \<lparr>ra_assessment_id = 8, ra_trip_id = 7, ra_policy_version = ''v'', ra_risk_score = 90,
     ra_severity = CRITICAL, ra_factor_contributions = [], ra_assessment_time = 0, ra_evidence_ids = [1],
     ra_unknown_factors = [], ra_uncertainty = ''low''\<rparr>"

definition sample_investigation :: route_risk_state where
  "sample_investigation = initial_state sample_graph (sample_incident ''a'' 1) sample_assessment
     [sample_report ''flight_status'' FRESH 90] sample_trip
     \<lparr>sh_core_sources_unavailable = [], sh_limited_visibility = False\<rparr> None [] True"

lemma sample_graph_dumps: "dumps_recommendations sample_graph"
  by (simp add: dumps_recommendations_def sample_graph_def api_env.defs sample_api_def)

lemma sample_route: "route_by_severity sample_graph sample_investigation = LOAD_MEMORY_CONTEXT"
  by (simp add: route_by_severity_def unavailable_sources_def severity_text_def elevated_text_def py_str_def get_or_def
    sample_investigation_def initial_state_def sample_graph_def api_env.defs sample_api_def)



end
