(* ===== verification/Identifiers.thy ===== *)
theory Identifiers
  imports Graph
begin

text \<open>
  Identifiers as text: \<^verbatim>\<open>str(uuid)\<close> and \<^verbatim>\<open>UUID(text)\<close> are inverse, and the thread identifiers built
  from them tell investigations apart.
\<close>

lemma hex_digit_ok:
  assumes "d < 16"
  shows "hex_value (hex_digit d) = d" "is_hex (hex_digit d)" "hex_digit d \<noteq> CHR ''-''"
proof -
  show "hex_value (hex_digit d) = d" using assms by (auto simp: hex_value_def hex_digit_def Let_def)
  have code: "of_char (hex_digit d) = (if d < 10 then 48 + d else 87 + d)"
    using assms by (simp add: hex_digit_def)
  show "is_hex (hex_digit d)" using assms code
    by (auto simp: is_hex_def char_between_def less_eq_char_def)
  have "of_char (CHR ''-'') = (45 :: nat)" by simp
  with assms code show "hex_digit d \<noteq> CHR ''-''" by (auto split: if_splits)
qed

definition nibble :: "uuid \<Rightarrow> nat \<Rightarrow> nat" where
  "nibble u i = unat (drop_bit (4 * (31 - i)) u AND 15)"

lemma nibble_less: "nibble u i < 16"
proof -
  have "nibble u i = unat (take_bit 4 (drop_bit (4 * (31 - i)) u))"
    by (simp add: nibble_def take_bit_eq_mask mask_numeral)
  also have "\<dots> < 2 ^ 4" by (simp only: unsigned_take_bit_eq take_bit_nat_less_exp)
  finally show ?thesis by simp
qed

lemma uuid_hex_nibbles: "uuid_hex u = map (\<lambda>i. hex_digit (nibble u i)) [0..<32]"
  by (simp add: uuid_hex_def nibble_def)

lemma length_uuid_hex: "length (uuid_hex u) = 32"
  by (simp add: uuid_hex_def)

lemma hex_digits: "c \<in> set (uuid_hex u) \<Longrightarrow> is_hex c \<and> c \<noteq> CHR ''-''"
  by (auto simp: uuid_hex_nibbles hex_digit_ok nibble_less)

lemma nibble_value:
  assumes "k < 32"
  shows "16 * unat (drop_bit (4 * (32 - k)) u) + nibble u k = unat (drop_bit (4 * (32 - Suc k)) u)"
proof -
  let ?v = "drop_bit (4 * (31 - k)) u"
  have "drop_bit (4 * (32 - k)) u = drop_bit 4 ?v"
    using assms by (simp add: drop_bit_drop_bit algebra_simps)
  then have high: "unat (drop_bit (4 * (32 - k)) u) = unat ?v div 16"
    by (simp only: unat_drop_bit_eq) (simp add: drop_bit_eq_div [where ?'a = nat])
  have "nibble u k = unat (take_bit 4 ?v)" by (simp add: nibble_def take_bit_eq_mask mask_numeral)
  then have "nibble u k = unat ?v mod 16" 
    by (simp only: unsigned_take_bit_eq) (simp add: take_bit_eq_mod [where ?'a = nat])
  with high show ?thesis by simp
qed

lemma hex_number_prefix:
  assumes "k \<le> 32"
  shows "hex_number (map (\<lambda>i. hex_digit (nibble u i)) [0..<k]) = unat (drop_bit (4 * (32 - k)) u)"
  using assms
proof (induction k)
  case 0
  have "unat u < 2 ^ 128" using unsigned_less [of u, where ?'a = nat] by simp
  then have "unat (drop_bit 128 u) = 0"
    by (simp only: unat_drop_bit_eq) (simp add: drop_bit_eq_div [where ?'a = nat])
  then show ?case by (simp add: hex_number_def)
next
  case (Suc k)
  then show ?case using nibble_value [of k u]
    by (simp add: hex_number_def hex_digit_ok nibble_less)
qed

lemma hex_number_uuid: "hex_number (uuid_hex u) = unat u"
  using hex_number_prefix [of 32 u] by (simp add: uuid_hex_nibbles)

lemma take_drop_join:
  "take 8 h @ take 4 (drop 8 h) @ take 4 (drop 12 h) @ take 4 (drop 16 h) @ drop 20 h = h"
proof -
  have join: "take 4 (drop n h) @ drop (4 + n) h = drop n h" for n
    using append_take_drop_id [of 4 "drop n h"] by (simp only: drop_drop)
  show ?thesis using join [of 8] join [of 12] join [of 16] by simp
qed

lemma str_uuid_digits: "filter (\<lambda>c. c \<noteq> CHR ''-'') (str_uuid u) = uuid_hex u"
proof -
  let ?h = "uuid_hex u"
  have no_dash: "filter (\<lambda>c. c \<noteq> CHR ''-'') xs = xs" if "set xs \<subseteq> set ?h" for xs
    using that hex_digits by (auto simp: filter_id_conv)
  have parts: "set (take n (drop m ?h)) \<subseteq> set ?h" "set (drop m ?h) \<subseteq> set ?h" "set (take n ?h) \<subseteq> set ?h" for m n
    by (meson order_trans set_take_subset set_drop_subset)+
  show ?thesis using take_drop_join [of ?h] by (simp add: str_uuid_def Let_def no_dash parts)
qed

lemma length_str_uuid: "length (str_uuid u) = 36"
  by (simp add: str_uuid_def Let_def length_uuid_hex)

lemma py_uuid_str: "py_uuid (str_uuid u) = Inr u"
  using hex_digits [of _ u]
  by (simp add: py_uuid_def str_uuid_digits length_uuid_hex hex_number_uuid list_all_iff)

lemma str_uuid_inj: "str_uuid u = str_uuid v \<longleftrightarrow> u = v"
  by (metis py_uuid_str sum.inject(2))

section \<open>Properties\<close>

text \<open>
  C37. Identifiers survive their textual form, which is 36 characters long, and the thread of an
  investigation determines its tenant, trip and incident, whatever characters the tenant's
  identifier contains.
\<close>

theorem identifiers_round_trip:
  "py_uuid (str_uuid u) = Inr u \<and> length (str_uuid u) = 36 \<and>
   (thread_id_for t (str_uuid trip) (str_uuid i) = thread_id_for t' (str_uuid trip') (str_uuid i')
     \<longleftrightarrow> t = t' \<and> trip = trip' \<and> i = i')"
proof -
  have "thread_id_for t (str_uuid trip) (str_uuid i) = thread_id_for t' (str_uuid trip') (str_uuid i') \<longleftrightarrow>
      t @ ('':trip:'' @ str_uuid trip @ '':incident:'') @ str_uuid i =
      t' @ ('':trip:'' @ str_uuid trip' @ '':incident:'') @ str_uuid i'"
    by (simp add: thread_id_for_def)
  also have "\<dots> \<longleftrightarrow> t = t' \<and> trip = trip' \<and> i = i'"
    by (auto simp: append_eq_append_conv length_str_uuid str_uuid_inj simp flip: append_assoc)
  finally show ?thesis by (simp add: py_uuid_str length_str_uuid)
qed

end
