(* ===== verification/Frames.thy ===== *)
theory Frames
  imports Idempotency Trips
begin

text \<open>
  What the protocol around a handler may change: identifiers and clock readings are drawn, the
  idempotency records, the event log and the log stream grow.  A handler's effect on the rest of
  the world is its own; the locale below carries a relation between worlds through the protocol.
\<close>

definition bookkeeping :: "world \<Rightarrow> world \<Rightarrow> bool" where
  "bookkeeping w w' \<longleftrightarrow> (\<exists>draws reads records events stdout. w' = w\<lparr>run_draws := draws, run_reads := reads,
     db_idempotency_records := records, db_events := events, w_stdout := stdout\<rparr>)"

lemma bookkeeping_same:
  assumes "bookkeeping w w'"
  shows "db_candidate_sets w' = db_candidate_sets w" "db_candidate_outcomes w' = db_candidate_outcomes w"
    "db_trips w' = db_trips w" "db_incidents w' = db_incidents w" "db_approvals w' = db_approvals w"
    "db_action_dispatches w' = db_action_dispatches w" "db_control_overrides w' = db_control_overrides w"
    "db_platform_overrides w' = db_platform_overrides w" "w_graph_threads w' = w_graph_threads w"
    "db_evidence w' = db_evidence w" "db_notifications w' = db_notifications w"
  using assms by (auto simp: bookkeeping_def)

lemma bookkeepingI:
  "w\<lparr>run_draws := draws, run_reads := reads, db_idempotency_records := records, db_events := events,
     w_stdout := stdout\<rparr> = w' \<Longrightarrow> bookkeeping w w'"
  unfolding bookkeeping_def by blast

lemma bookkeeping_steps:
  "bookkeeping w (w\<lparr>run_draws := draws\<rparr>)" "bookkeeping w (w\<lparr>run_reads := reads\<rparr>)"
  "bookkeeping w (w\<lparr>db_idempotency_records := records\<rparr>)" "bookkeeping w (w\<lparr>db_events := events\<rparr>)"
  "bookkeeping w (w\<lparr>w_stdout := stdout\<rparr>)"
  by (rule bookkeepingI [where draws = draws and reads = "run_reads w" and records = "db_idempotency_records w"
        and events = "db_events w" and stdout = "w_stdout w"], simp)
    (rule bookkeepingI [where draws = "run_draws w" and reads = reads and records = "db_idempotency_records w"
        and events = "db_events w" and stdout = "w_stdout w"], simp,
     rule bookkeepingI [where draws = "run_draws w" and reads = "run_reads w" and records = records
        and events = "db_events w" and stdout = "w_stdout w"], simp,
     rule bookkeepingI [where draws = "run_draws w" and reads = "run_reads w" and records = "db_idempotency_records w"
        and events = events and stdout = "w_stdout w"], simp,
     rule bookkeepingI [where draws = "run_draws w" and reads = "run_reads w" and records = "db_idempotency_records w"
        and events = "db_events w" and stdout = stdout], simp)

section \<open>Values of computations\<close>

definition yields :: "('a \<Rightarrow> bool) \<Rightarrow> ('s, 'a) prog \<Rightarrow> bool" where
  "yields Q m \<longleftrightarrow> (\<forall>s x s'. m s = (Inr x, s') \<longrightarrow> Q x)"

lemma yields_ret: "Q x \<Longrightarrow> yields Q (ret x)"
  by (simp add: yields_def ret_app)

lemma yields_throw: "yields Q (throw e)"
  by (simp add: yields_def throw_app)

lemma yields_bind: "yields P m \<Longrightarrow> (\<And>x. P x \<Longrightarrow> yields Q (f x)) \<Longrightarrow> yields Q (bindP m f)"
  unfolding yields_def by (blast elim: bindP_Inr)

lemma yields_after: "(\<And>x. yields Q (f x)) \<Longrightarrow> yields Q (bindP m f)"
  by (rule yields_bind [where P = "\<lambda>_. True"]) (simp_all add: yields_def)

lemma yields_then: "yields Q k \<Longrightarrow> yields Q (thenP m k)"
  unfolding thenP_def by (rule yields_after)

lemma moves_bind_yields:
  assumes "transp R" "moves R m" "yields P m" "\<And>x. P x \<Longrightarrow> moves R (f x)"
  shows "moves R (bindP m f)"
  unfolding moves_def
proof
  fix s
  obtain r s' where m: "m s = (r, s')" by fastforce
  show "R s (snd (bindP m f s))"
  proof (cases r)
    case (Inr x)
    then have "R s' (snd (f x s'))" using assms(4) [of x] assms(3) m by (auto simp: moves_def yields_def)
    with assms(1) movesD [OF assms(2) m] Inr m show ?thesis by (auto simp: bindP_app dest: transpD)
  qed (use movesD [OF assms(2) m] m in \<open>simp add: bindP_app\<close>)
qed

section \<open>The contract\<close>

text \<open>Branches.\<close>

lemma moves_branches:
  "moves R a \<Longrightarrow> moves R b \<Longrightarrow> moves R (if c then a else b)"
  "moves R a \<Longrightarrow> (\<And>x. moves R (f x)) \<Longrightarrow> moves R (case y of None \<Rightarrow> a | Some x \<Rightarrow> f x)"
  "(\<And>x. moves R (g x)) \<Longrightarrow> (\<And>x. moves R (h x)) \<Longrightarrow> moves R (case z of Inl x \<Rightarrow> g x | Inr x \<Rightarrow> h x)"
  "(\<And>x y. moves R (k x y)) \<Longrightarrow> moves R (case p of (x, y) \<Rightarrow> k x y)"
  "moves R a \<Longrightarrow> (\<And>x xs. moves R (l x xs)) \<Longrightarrow> moves R (case q of [] \<Rightarrow> a | x # xs \<Rightarrow> l x xs)"
  by (cases y; cases z; cases p; cases q; simp)+

lemma moves_json:
  "moves R n \<Longrightarrow> (\<And>x. moves R (b x)) \<Longrightarrow> (\<And>x. moves R (i x)) \<Longrightarrow> (\<And>x. moves R (f x)) \<Longrightarrow> (\<And>x. moves R (s x)) \<Longrightarrow>
    (\<And>x. moves R (l x)) \<Longrightarrow> (\<And>x. moves R (d x)) \<Longrightarrow>
    moves R (case v of JNull \<Rightarrow> n | JBool x \<Rightarrow> b x | JInt x \<Rightarrow> i x | JFloat x \<Rightarrow> f x | JStr x \<Rightarrow> s x | JList x \<Rightarrow> l x | JObj x \<Rightarrow> d x)"
  by (cases v) simp_all

text \<open>A computation that uses the value another one returned.\<close>

lemma moves_bind_value:
  assumes "transp R" "\<And>w. R w (snd (m w))" "\<And>w x w'. m w = (Inr x, w') \<Longrightarrow> moves R (f x)"
  shows "moves R (bindP m f)"
  unfolding moves_def
proof
  fix s
  obtain r s' where m: "m s = (r, s')" by fastforce
  show "R s (snd (bindP m f s))"
  proof (cases r)
    case (Inr x)
    have "R s' (snd (f x s'))" using assms(3) m Inr by (simp add: moves_def)
    moreover have "R s s'" using assms(2) [of s] m by simp
    ultimately show ?thesis using assms(1) Inr m by (auto simp: bindP_app dest: transpD)
  qed (use assms(2) [of s] m in \<open>simp add: bindP_app\<close>)
qed

locale protocol_frame =
  fixes R :: "world \<Rightarrow> world \<Rightarrow> bool"
  assumes refl: "reflp R" and trans: "transp R" and quiet: "bookkeeping w w' \<Longrightarrow> R w w'"
begin

lemmas stays = moves_stay [OF refl]
lemmas binds = moves_bind [OF trans]
lemmas thens = moves_then [OF trans]
lemmas loops = moves_for_each [OF refl trans]
lemmas tries = moves_try_except [OF trans]

lemma draws: "moves R (uuid4 h)"
  unfolding moves_def uuid4_app by (simp add: quiet bookkeeping_steps)

lemma reads: "moves R (now_utc h)"
  unfolding moves_def now_utc_app by (simp add: quiet bookkeeping_steps)

lemma records: "moves R (modify (\<lambda>w. w\<lparr>db_idempotency_records := f w\<rparr>))"
  by (rule moves_modify) (simp add: quiet bookkeeping_steps)

lemma logs: "moves R (modify (\<lambda>w. w\<lparr>w_stdout := f w\<rparr>))"
  by (rule moves_modify) (simp add: quiet bookkeeping_steps)

lemma events: "moves R (modify (record_event ev))"
  by (rule moves_modify) (simp add: quiet bookkeeping_steps record_event_def)

lemmas basic = stays binds thens draws reads records logs events

lemma claim_mutations: "moves R (claim_mutation e t key scope p)"
  unfolding claim_mutation_def claim_idempotency_def Let_def
  by (auto intro!: basic split: option.split prod.split idempotency_disposition.split)

lemma complete_mutations: "moves R (complete_mutation e t key fp sc payload)"
  unfolding complete_mutation_def complete_idempotency_def Let_def
  by (auto intro!: basic split: option.split)

lemma claims: "moves R (claim_optional_mutation e t key scope p)"
  unfolding claim_optional_mutation_def claim_mutation_def claim_idempotency_def Let_def
  by (auto intro!: basic split: option.split prod.split idempotency_disposition.split)

lemma completes: "moves R (complete_optional_mutation e t key fp sc payload)"
  unfolding complete_optional_mutation_def complete_mutation_def complete_idempotency_def Let_def
  by (auto intro!: basic split: option.split)

lemma handlers:
  assumes "\<And>r. moves R (replayed r)" "moves R work"
  shows "moves R (idempotent e t key scope p sc dump replayed work)"
  unfolding idempotent_def
  by (auto intro!: basic claims completes assms split: option.split prod.split)

lemma replays: "moves R (replay_as e name pick r)"
  unfolding replay_as_def by (auto intro!: basic split: option.split)

lemma emits: "moves R (emit_event e ty t trip c a d)"
  unfolding emit_event_def Let_def by (intro basic)

lemma controls: "moves R (control_enabled e t name)"
  unfolding control_enabled_def get_runtime_control_override_def get_platform_control_override_def unexpired_def
  by (auto intro!: basic split: option.split)

lemma tenants: "moves R (require_tenant t)"
  unfolding require_tenant_def by (auto intro!: basic split: option.split)

lemma roles: "moves R (require_role r allowed)"
  unfolding require_role_def by (intro basic)

lemma actors: "moves R (require_actor_id e a)"
  unfolding require_actor_id_def by (auto intro!: basic)

lemma matching_actors: "moves R (require_actor_matches_payload e a b)"
  unfolding require_actor_matches_payload_def by (auto intro!: basic actors)

lemma accesses: "moves R (require_trip_access e t r a allowed)"
  unfolding require_trip_access_def by (auto intro!: basic roles actors)

lemma incident_accesses: "moves R (require_incident_trip_access e t i r a allowed)"
  unfolding require_incident_trip_access_def by (auto intro!: basic accesses split: option.split)

lemmas calm = basic handlers replays emits controls tenants roles actors matching_actors accesses incident_accesses

end

end
