(* ===== verification/Selections.thy ===== *)
theory Selections
  imports Frames RecoveryApi
begin

text \<open>
  The recovery outcomes over the life of the service: each request may add one outcome to one set,
  under guards evaluated on what is stored, and a set never has two selected candidates.
\<close>

section \<open>What a request may add\<close>

abbreviation stored_outcomes :: "world \<Rightarrow> (string \<times> recovery_candidate_outcome) set" where
  "stored_outcomes w \<equiv> set (dict_values (db_candidate_outcomes w))"

definition grows_by :: "(string \<times> recovery_candidate_outcome) set \<Rightarrow> world \<Rightarrow> world \<Rightarrow> bool" where
  "grows_by A w w' \<longleftrightarrow> stored_outcomes w' \<subseteq> stored_outcomes w \<union> A \<and> db_candidate_sets w' = db_candidate_sets w"

interpretation growth: protocol_frame "grows_by A" for A
  by unfold_locales (auto simp: grows_by_def reflp_def transp_def bookkeeping_same)

lemma values_dict_set: "set (dict_values (dict_set k v d)) \<subseteq> insert v (set (dict_values d))"
  by (induction d) (auto simp: dict_values_def)

lemma record_grows: "(t, oc) \<in> A \<Longrightarrow> moves (grows_by A) (modify (repo_record_candidate_outcome t oc))"
  by (rule moves_modify) (use values_dict_set in \<open>fastforce simp: grows_by_def repo_record_candidate_outcome_def\<close>)

lemma fold_keeps: "(\<And>x w. f (g x w) = f w) \<Longrightarrow> f (fold g xs w) = f w"
  by (induction xs arbitrary: w) auto

lemma feedback_quiet: "moves (grows_by A) (modify (fold save_manager_feedback fs))"
proof (rule moves_modify)
  fix w
  have "db_candidate_outcomes (fold save_manager_feedback fs w) = db_candidate_outcomes w"
    "db_candidate_sets (fold save_manager_feedback fs w) = db_candidate_sets w"
    by (rule fold_keeps, simp add: save_manager_feedback_def)+
  then show "grows_by A w (fold save_manager_feedback fs w)" by (simp add: grows_by_def)
qed

text \<open>The one outcome a request describes.\<close>

definition described :: "string \<Rightarrow> uuid \<Rightarrow> string \<Rightarrow> recovery_candidate_outcome_update \<Rightarrow>
    (string \<times> recovery_candidate_outcome) set" where
  "described t set_id cid payload = {(t', oc). t' = t \<and> out_candidate_set_id oc = set_id \<and>
     out_candidate_id oc = cid \<and> out_state oc = out_state payload \<and> cid \<noteq> []}"

lemma new_outcome_value:
  assumes "new_outcome h payload set_id i cid actor w = (Inr oc, w')"
  shows "out_candidate_set_id oc = set_id \<and> out_candidate_id oc = cid \<and> out_state oc = out_state payload \<and> cid \<noteq> []"
  using assms by (auto simp: new_outcome_def prog_simps Let_def recovery_candidate_outcome_update.defs
    split: if_splits)

lemma work_grows:
  "moves (grows_by (described t set_id (cd_candidate_id c) payload))
     (record_outcome_work e rq t i set_id inc cs outs c payload)"
proof -
  let ?R = "grows_by (described t set_id (cd_candidate_id c) payload)"
  have new: "moves ?R (new_outcome e payload set_id i (cd_candidate_id c) actor)" for actor
    unfolding new_outcome_def Let_def by (auto intro!: growth.calm)
  have feedback: "moves ?R (outcome_feedback e t c oc)" for oc
    unfolding outcome_feedback_def new_manager_feedback_def Let_def by (auto intro!: growth.calm)
  show ?thesis
    unfolding record_outcome_work_def
  proof (rule growth.binds [OF growth.actors], rule moves_bind_value [OF growth.trans])
    fix actor w oc w'
    show "?R w (snd (new_outcome e payload set_id i (cd_candidate_id c) actor w))"
      using new [of actor] by (simp add: moves_def)
    assume "new_outcome e payload set_id i (cd_candidate_id c) actor w = (Inr oc, w')"
    then have "(t, oc) \<in> described t set_id (cd_candidate_id c) payload"
      by (simp add: described_def new_outcome_value)
    note [intro] = record_grows [OF this]
    show "moves ?R (thenP (modify (repo_record_candidate_outcome t oc)) (bindP (outcome_feedback e t c oc)
      (\<lambda>feedback. thenP (modify (fold save_manager_feedback feedback))
       (let view = project_candidate_set_outcomes cs (outs @ [oc]) in
        thenP (emit_event e ''recovery.outcome_recorded'' t (Some (inc_trip_id inc)) (inc_correlation_id inc)
               (out_actor_id oc)
               [(''candidate_set_id'', JStr (str_uuid set_id)),
                (''candidate_id'', JStr (cd_candidate_id c)),
                (''outcome_id'', JStr (str_uuid (out_outcome_id oc))),
                (''state'', JStr (outcome_state_value (out_state oc))),
                (''has_manager_override'', JBool (truthy (out_manager_override_reason oc))),
                (''has_material_outcome'', JBool (opt_object_truthy (out_material_outcome oc))),
                (''manager_feedback_ids'', JList (map (\<lambda>f. JStr (str_uuid (mf_feedback_id f))) feedback))])
        (ret view)))))"
      unfolding Let_def by (intro growth.calm feedback feedback_quiet record_grows)
        (simp add: \<open>(t, oc) \<in> described t set_id (cd_candidate_id c) payload\<close>)
  qed
qed

section \<open>The step of a request\<close>

lemma require_role_unchanged: "snd (require_role r allowed w) = w"
  by (simp add: require_role_def prog_simps)

lemma require_tenant_unchanged: "snd (require_tenant t w) = w"
  by (simp add: require_tenant_def prog_simps split: option.split)

lemma access_unchanged: "snd (require_incident_trip_access e t i r a allowed w) = w"
  by (auto simp: require_incident_trip_access_def require_trip_access_def require_role_def require_actor_id_def
    prog_simps split: option.split)

lemma bind_unchanged:
  assumes "snd (m w) = w"
  shows "bindP m f w = (case fst (m w) of Inl x \<Rightarrow> (Inl x, w) | Inr x \<Rightarrow> f x w)"
    and "thenP m k w = (case fst (m w) of Inl x \<Rightarrow> (Inl x, w) | Inr x \<Rightarrow> k w)"
  using assms by (auto simp: bindP_app thenP_app split: prod.splits sum.splits)

text \<open>Under which guards a request gets as far as the claim, on the world it finds.\<close>

definition admitted ::
  "request \<Rightarrow> string \<Rightarrow> uuid \<Rightarrow> uuid \<Rightarrow> string \<Rightarrow> recovery_candidate_outcome_update \<Rightarrow> world \<Rightarrow> bool" where
  "admitted rq t i set_id cid payload w \<longleftrightarrow> (\<exists>cs c view.
     get_candidate_set t i set_id w = Some cs \<and>
     view = project_candidate_set_outcomes cs (list_candidate_outcomes t set_id w) \<and>
     c \<in> set (cs_candidates view) \<and> cd_candidate_id c = cid \<and>
     outcome_refusal (rq_actor_role rq) view c payload = None)"

lemma refl_step: "grows_by A w w"
  by (simp add: grows_by_def)

lemma record_step:
  "grows_by {} w (snd (record_candidate_outcome e rq i set_id cid payload w)) \<or>
   (\<exists>t. admitted rq t i set_id cid payload w \<and>
     grows_by (described t set_id cid payload) w (snd (record_candidate_outcome e rq i set_id cid payload w)))"
  (is "grows_by {} w (snd ?run) \<or> _")
proof (cases "fst (require_role (rq_actor_role rq) outcome_roles w)")
  case (Inl x)
  then show ?thesis
    by (simp add: record_candidate_outcome_def bind_unchanged require_role_unchanged refl_step)
next
  case role: (Inr u)
  show ?thesis
  proof (cases "fst (require_tenant (rq_tenant_id rq) w)")
    case (Inl x)
    with role show ?thesis
      by (simp add: record_candidate_outcome_def bind_unchanged require_role_unchanged require_tenant_unchanged refl_step)
  next
    case tenant: (Inr t)
    show ?thesis
    proof (cases "fst (incident_trip_access e rq t i outcome_roles w)")
      case (Inl x)
      with role tenant show ?thesis
        by (simp add: record_candidate_outcome_def bind_unchanged require_role_unchanged require_tenant_unchanged
          access_unchanged refl_step)
    next
      case it: (Inr it)
      then obtain inc tr where access: "fst (incident_trip_access e rq t i outcome_roles w) = Inr (inc, tr)"
        by (metis surj_pair)
      let ?outs = "list_candidate_outcomes t set_id w"
      have run: "?run = found (get_candidate_set t i set_id w) ''candidate set not found'' (\<lambda>cs.
        let view = project_candidate_set_outcomes cs ?outs in
        case filter (\<lambda>c. cd_candidate_id c = cid) (cs_candidates view) of
          [] \<Rightarrow> throw (HTTPException 404 ''candidate not found'')
        | c # _ \<Rightarrow> (case outcome_refusal (rq_actor_role rq) view c payload of
            Some refusal \<Rightarrow> throw refusal
          | None \<Rightarrow> idempotent e t (rq_idempotency_key rq)
              (''POST:/v1/incidents/'' @ str_uuid i @ ''/candidate-sets/'' @ str_uuid set_id @
               ''/candidates/'' @ cid @ ''/outcomes'')
              (JObj (env_dump e (MOutcomeUpdate payload))) 200 (\<lambda>cs. env_dump e (MCandidateSet cs))
              (replay_as e ''RecoveryCandidateSet'' (\<lambda>m. case m of MCandidateSet cs \<Rightarrow> Some cs | _ \<Rightarrow> None))
              (record_outcome_work e rq t i set_id inc cs ?outs c payload))) w"
      proof -
        have "require_role (rq_actor_role rq) outcome_roles w = (Inr u, w)"
          "require_tenant (rq_tenant_id rq) w = (Inr t, w)"
          "incident_trip_access e rq t i outcome_roles w = (Inr (inc, tr), w)"
          using role tenant access require_role_unchanged require_tenant_unchanged access_unchanged
          by (metis prod.collapse)+
        then show ?thesis
          unfolding record_candidate_outcome_def thenP_app bindP_app gets_app
          by (cases "get_candidate_set t i set_id w") (simp_all add: throw_app bindP_app gets_app Let_def)
      qed
      show ?thesis
      proof (cases "get_candidate_set t i set_id w")
        case None
        then show ?thesis unfolding run by (simp add: throw_app refl_step)
      next
        case (Some cs)
        let ?view = "project_candidate_set_outcomes cs ?outs"
        show ?thesis
        proof (cases "filter (\<lambda>c. cd_candidate_id c = cid) (cs_candidates ?view)")
          case Nil
          then show ?thesis unfolding run Some by (simp add: throw_app refl_step)
        next
          case (Cons c rest)
          then have "c \<in> set (filter (\<lambda>c. cd_candidate_id c = cid) (cs_candidates ?view))" by simp
          then have c: "c \<in> set (cs_candidates ?view)" "cd_candidate_id c = cid" by auto
          show ?thesis
          proof (cases "outcome_refusal (rq_actor_role rq) ?view c payload")
            case refused: (Some x)
            with Some Cons show ?thesis unfolding run by (simp add: throw_app refl_step)
          next
            case None
            with Some c have "admitted rq t i set_id cid payload w" unfolding admitted_def by blast
            moreover have "moves (grows_by (described t set_id cid payload)) (idempotent e t (rq_idempotency_key rq)
              (''POST:/v1/incidents/'' @ str_uuid i @ ''/candidate-sets/'' @ str_uuid set_id @
               ''/candidates/'' @ cid @ ''/outcomes'')
              (JObj (env_dump e (MOutcomeUpdate payload))) 200 (\<lambda>cs. env_dump e (MCandidateSet cs))
              (replay_as e ''RecoveryCandidateSet'' (\<lambda>m. case m of MCandidateSet cs \<Rightarrow> Some cs | _ \<Rightarrow> None))
              (record_outcome_work e rq t i set_id inc cs ?outs c payload))"
              by (intro growth.handlers growth.replays work_grows [of t set_id c payload, unfolded c(2)])
            ultimately show ?thesis unfolding run using Some Cons None by (auto simp: moves_def)
          qed
        qed
      qed
    qed
  qed
qed

section \<open>One selection per set\<close>

definition one_selection :: "world \<Rightarrow> bool" where
  "one_selection w \<longleftrightarrow> (\<forall>t oc. (t, oc) \<in> stored_outcomes w \<and> out_state oc = SELECTED \<longrightarrow> out_candidate_id oc \<noteq> [] \<and>
     (\<forall>oc'. (t, oc') \<in> stored_outcomes w \<and> out_state oc' = SELECTED \<and>
        out_candidate_set_id oc' = out_candidate_set_id oc \<longrightarrow> out_candidate_id oc' = out_candidate_id oc))"

lemma one_selectionD:
  assumes "one_selection w" "(t, oc) \<in> stored_outcomes w" "out_state oc = SELECTED"
  shows "out_candidate_id oc \<noteq> []"
    and "(t, oc') \<in> stored_outcomes w \<Longrightarrow> out_state oc' = SELECTED \<Longrightarrow>
      out_candidate_set_id oc' = out_candidate_set_id oc \<Longrightarrow> out_candidate_id oc' = out_candidate_id oc"
proof -
  have "(t, oc) \<in> stored_outcomes w \<and> out_state oc = SELECTED" using assms(2,3) by simp
  note all = assms(1) [unfolded one_selection_def, THEN spec, THEN spec, THEN mp, OF this]
  from all show "out_candidate_id oc \<noteq> []" by (rule conjunct1)
  show "out_candidate_id oc' = out_candidate_id oc" if "(t, oc') \<in> stored_outcomes w" "out_state oc' = SELECTED"
    "out_candidate_set_id oc' = out_candidate_set_id oc"
    using all [THEN conjunct2, THEN spec, of oc'] that by simp
qed

lemma listed_outcomes:
  "oc \<in> set (list_candidate_outcomes t set_id w) \<longleftrightarrow> (t, oc) \<in> stored_outcomes w \<and> out_candidate_set_id oc = set_id"
  by (auto simp: list_candidate_outcomes_def)

lemma one_selection_shown:
  assumes "one_selection w" "(t, oc) \<in> stored_outcomes w" "out_state oc = SELECTED"
  shows "cs_selected_candidate_id (project_candidate_set_outcomes cs
    (list_candidate_outcomes t (out_candidate_set_id oc) w)) = Some (out_candidate_id oc)"
proof -
  let ?outs = "list_candidate_outcomes t (out_candidate_set_id oc) w"
  have "oc \<in> set ?outs" using assms(2) by (simp add: listed_outcomes)
  then have "latest_selection ?outs \<noteq> None" using assms(3) by (auto simp: latest_selection_None)
  then obtain s where s: "latest_selection ?outs = Some s" by blast
  from latest_selection_Some [OF s] have "(t, s) \<in> stored_outcomes w" "out_state s = SELECTED"
    "out_candidate_set_id s = out_candidate_set_id oc" by (simp_all add: listed_outcomes)
  with assms have "out_candidate_id s = out_candidate_id oc" by (intro one_selectionD(2))
  with s show ?thesis by (simp add: project_candidate_set_outcomes_def)
qed

lemma admitted_selection:
  assumes "one_selection w" "admitted rq t i set_id cid payload w" "out_state payload = SELECTED"
    and "(t, oc) \<in> stored_outcomes w" "out_state oc = SELECTED" "out_candidate_set_id oc = set_id"
  shows "out_candidate_id oc = cid"
proof -
  obtain cs c where "outcome_refusal (rq_actor_role rq) (project_candidate_set_outcomes cs
      (list_candidate_outcomes t set_id w)) c payload = None" "cd_candidate_id c = cid"
    using assms(2) by (auto simp: admitted_def)
  moreover have "cs_selected_candidate_id (project_candidate_set_outcomes cs (list_candidate_outcomes t set_id w))
      = Some (out_candidate_id oc)" using one_selection_shown [OF assms(1,4,5)] assms(6) by simp
  moreover have "out_candidate_id oc \<noteq> []" by (rule one_selectionD(1) [OF assms(1,4,5)])
  ultimately show ?thesis using assms(3) by (auto simp: outcome_refusal_def falsy_def split: if_splits)
qed

lemma one_selection_grows:
  assumes "one_selection w" "admitted rq t i set_id cid payload w" "grows_by (described t set_id cid payload) w w'"
  shows "one_selection w'"
proof -
  have new: "(t', oc) \<in> stored_outcomes w \<or>
      t' = t \<and> out_candidate_set_id oc = set_id \<and> out_candidate_id oc = cid \<and> out_state oc = out_state payload \<and> cid \<noteq> []"
    if "(t', oc) \<in> stored_outcomes w'" for t' oc
    using assms(3) that by (auto simp: grows_by_def described_def)
  note old = one_selectionD(2) [OF assms(1)]
  note named = one_selectionD(1) [OF assms(1)]
  have chosen: "out_candidate_id oc = cid" if "out_state payload = SELECTED" "(t, oc) \<in> stored_outcomes w"
    "out_state oc = SELECTED" "out_candidate_set_id oc = set_id" for oc
    by (rule admitted_selection [OF assms(1,2) that])
  show ?thesis
    unfolding one_selection_def
  proof (intro allI impI conjI; elim conjE)
    fix t' oc
    assume oc: "(t', oc) \<in> stored_outcomes w'" "out_state oc = SELECTED"
    from new [OF oc(1)] named oc(2) show "out_candidate_id oc \<noteq> []" by blast
    fix oc'
    assume oc': "(t', oc') \<in> stored_outcomes w'" "out_state oc' = SELECTED"
      "out_candidate_set_id oc' = out_candidate_set_id oc"
    from new [OF oc(1)] new [OF oc'(1)] show "out_candidate_id oc' = out_candidate_id oc"
    proof (elim disjE)
      assume "(t', oc) \<in> stored_outcomes w" "(t', oc') \<in> stored_outcomes w"
      with oc oc' show ?thesis by (intro old)
    qed (use chosen [of oc] chosen [of oc'] oc oc' in auto)
  qed
qed

text \<open>
  The worlds the service reaches: requests that record outcomes, interleaved with anything that adds
  none - the only other writers of this table are deletion and retention, which filter it.
\<close>

inductive outcome_history :: "'e api_env_scheme \<Rightarrow> world \<Rightarrow> bool" for e where
  nothing_recorded: "db_candidate_outcomes w = [] \<Longrightarrow> outcome_history e w"
| recorded: "outcome_history e w \<Longrightarrow>
    outcome_history e (snd (record_candidate_outcome e rq i set_id cid payload w))"
| elsewhere: "outcome_history e w \<Longrightarrow> stored_outcomes w' \<subseteq> stored_outcomes w \<Longrightarrow> outcome_history e w'"

lemma one_selection_fewer: "one_selection w \<Longrightarrow> stored_outcomes w' \<subseteq> stored_outcomes w \<Longrightarrow> one_selection w'"
  unfolding one_selection_def by blast

lemma history_one_selection: "outcome_history e w \<Longrightarrow> one_selection w"
proof (induction rule: outcome_history.induct)
  case (nothing_recorded w)
  then show ?case by (simp add: one_selection_def dict_values_def)
next
  case (recorded w rq i set_id cid payload)
  from record_step [of w e rq i set_id cid payload] show ?case
  proof (elim disjE exE conjE)
    assume "grows_by {} w (snd (record_candidate_outcome e rq i set_id cid payload w))"
    then show ?thesis using one_selection_fewer [OF recorded.IH] by (simp add: grows_by_def)
  qed (rule one_selection_grows [OF recorded.IH])
qed (rule one_selection_fewer)

section \<open>Properties\<close>

text \<open>
  C9. A recovery set has one selection: in every world the service reaches, whatever requests were
  made, retried, refused or failed half-way, and by whom, a stored selection of a candidate is the
  selection every projection of its set shows, so no two candidates of a set are ever both selected.
\<close>

theorem one_candidate_is_selected:
  assumes "outcome_history e w" "(t, oc) \<in> set (dict_values (db_candidate_outcomes w))" "out_state oc = SELECTED"
  shows "cs_selected_candidate_id (project_candidate_set_outcomes cs
    (list_candidate_outcomes t (out_candidate_set_id oc) w)) = Some (out_candidate_id oc)"
  by (rule one_selection_shown [OF history_one_selection [OF assms(1)] assms(2,3)])

text \<open>Witness: a traveler selects a candidate that has been offered.\<close>

definition offered_candidate :: evaluated_candidate where
  "offered_candidate = recovery_candidate.extend sample_candidate
     \<lparr>cd_eligible = True, cd_exclusion_reasons = [], cd_deterministic_recovery_score = Some 50,
      cd_normalized_candidate_features = [], cd_feature_schema_version = ''v1'', cd_displayed_position = Some 1,
      cd_ranker_score = None, cd_ranker_model_version = None, cd_lifecycle_state = COFFERED\<rparr>"

definition offered_set :: recovery_candidate_set where
  "offered_set = sample_candidate_set\<lparr>cs_incident_id := 1, cs_candidates := [offered_candidate]\<rparr>"

definition offered_world :: world where
  "offered_world = save_candidate_set ''t'' offered_set
     (empty_world\<lparr>db_trips := [(7, sample_trip)], db_incidents := [(1, sample_incident ''t'' 1)]\<rparr>)"

definition traveler_request :: request where
  "traveler_request = \<lparr>rq_tenant_id = Some ''t'', rq_actor_role = Some TRAVELER, rq_actor_id = Some ''u'',
     rq_idempotency_key = None\<rparr>"

definition selection_update :: recovery_candidate_outcome_update where
  "selection_update = \<lparr>out_state = SELECTED, out_reason = None, out_manager_override_reason = None,
     out_final_itinerary = None, out_material_outcome = None\<rparr>"

lemma offered_fields:
  "cs_candidates offered_set = [offered_candidate]" "cs_candidate_set_id offered_set = 1" "cs_incident_id offered_set = 1"
  "cd_candidate_id offered_candidate = ''alt-1''" "cd_lifecycle_state offered_candidate = COFFERED"
  by (simp_all add: offered_set_def offered_candidate_def recovery_candidate.defs sample_candidate_def sample_candidate_set_def)

lemma offered_outcomes: "list_candidate_outcomes t k offered_world = []"
  by (simp add: list_candidate_outcomes_def offered_world_def save_candidate_set_def empty_world_def dict_values_def
    py_sorted_def)

lemma unprojected: "project_candidate [] c = c"
  by (simp add: project_candidate_def by_candidate_def py_sorted_def)

lemma offered_refusal: "outcome_refusal (Some TRAVELER) (project_candidate_set_outcomes offered_set []) offered_candidate
  selection_update = None"
  by (simp add: outcome_refusal_def selection_update_def project_candidate_set_outcomes_def latest_selection_def
    falsy_def offered_fields transition_allowed_def)

lemma selection_recorded:
  "\<exists>oid oc. db_candidate_outcomes (snd (record_candidate_outcome sample_api traveler_request 1
      (cs_candidate_set_id offered_set) ''alt-1'' selection_update offered_world)) = [(oid, ''t'', oc)] \<and>
    out_state oc = SELECTED"
proof -
  have access: "incident_trip_access sample_api traveler_request ''t'' 1 outcome_roles offered_world =
      (Inr (sample_incident ''t'' 1, sample_trip), offered_world)"
    by (simp add: prog_simps traveler_request_def require_role_def outcome_roles_def require_incident_trip_access_def
      require_trip_access_def require_actor_id_def offered_world_def get_incident_def get_trip_def owned_get_def
      save_candidate_set_def sample_incident_def sample_trip_def sample_api_fields sample_controls_def falsy_def)
  have set: "get_candidate_set ''t'' 1 1 offered_world = Some offered_set"
    by (simp add: get_candidate_set_def offered_world_def save_candidate_set_def offered_fields dict_get_set)
  have view: "filter (\<lambda>c. cd_candidate_id c = ''alt-1'') (cs_candidates (project_candidate_set_outcomes offered_set [])) =
      [offered_candidate]"
    by (simp add: project_candidate_set_outcomes_def offered_fields unprojected)
  have "record_candidate_outcome sample_api traveler_request 1 (cs_candidate_set_id offered_set) ''alt-1''
      selection_update offered_world =
    idempotent sample_api ''t'' None (''POST:/v1/incidents/'' @ str_uuid 1 @ ''/candidate-sets/'' @ str_uuid 1 @
        ''/candidates/'' @ ''alt-1'' @ ''/outcomes'')
      (JObj (env_dump sample_api (MOutcomeUpdate selection_update))) 200 (\<lambda>cs. env_dump sample_api (MCandidateSet cs))
      (replay_as sample_api ''RecoveryCandidateSet'' (\<lambda>m. case m of MCandidateSet cs \<Rightarrow> Some cs | _ \<Rightarrow> None))
      (record_outcome_work sample_api traveler_request ''t'' 1 1 (sample_incident ''t'' 1) offered_set [] offered_candidate
        selection_update) offered_world"
  proof -
    have guards: "require_role (rq_actor_role traveler_request) outcome_roles offered_world = (Inr (), offered_world)"
      "require_tenant (rq_tenant_id traveler_request) offered_world = (Inr ''t'', offered_world)"
      by (simp_all add: require_role_def require_tenant_def prog_simps traveler_request_def outcome_roles_def)
    have role: "rq_actor_role traveler_request = Some TRAVELER" "rq_idempotency_key traveler_request = None"
      by (simp_all add: traveler_request_def)
    show ?thesis
      unfolding record_candidate_outcome_def thenP_app bindP_app gets_app
      by (simp add: guards [unfolded role] access [unfolded role] set view offered_refusal offered_outcomes role offered_fields
        bindP_app gets_app Let_def)
  qed
  moreover have actor: "require_actor_id sample_api (rq_actor_id traveler_request) offered_world = (Inr (Some ''u''), offered_world)"
    by (simp add: require_actor_id_def sample_api_fields sample_controls_def traveler_request_def prog_simps)
  define oc where "oc = recovery_candidate_outcome_update.extend selection_update
      \<lparr>out_outcome_id = host_uuid4 sample_api (run_draws offered_world), out_candidate_set_id = 1, out_incident_id = 1,
       out_candidate_id = ''alt-1'', out_actor_id = Some ''u'', out_occurred_at = host_now sample_api (run_reads offered_world)\<rparr>"
  have oc: "out_state oc = SELECTED" "out_manager_override_reason oc = None" "out_reason oc = None" "out_candidate_id oc = ''alt-1''"
    "out_actor_id oc = Some ''u''"
    by (simp_all add: oc_def selection_update_def recovery_candidate_outcome_update.defs)
  have outcome: "\<exists>w1. new_outcome sample_api selection_update 1 1 ''alt-1'' (Some ''u'') offered_world = (Inr oc, w1) \<and>
      db_candidate_outcomes w1 = []"
    by (simp add: new_outcome_def prog_simps Let_def oc_def [symmetric] oc validate_required_outcome_details_def
        opt_len_le_def)
      (simp add: offered_world_def save_candidate_set_def empty_world_def)
  have none: "outcome_feedback sample_api ''t'' offered_candidate oc = ret []"
    by (rule ext) (simp add: outcome_feedback_def oc falsy_def prog_simps)
  have "\<exists>x w1. record_outcome_work sample_api traveler_request ''t'' 1 1 (sample_incident ''t'' 1) offered_set []
      offered_candidate selection_update offered_world = (Inr x, w1) \<and>
      db_candidate_outcomes w1 = [(out_outcome_id oc, ''t'', oc)]"
    using outcome
    by (auto simp: record_outcome_work_def thenP_app bindP_app actor offered_fields none prog_simps emit_event_def Let_def
      record_event_def repo_record_candidate_outcome_def)
  ultimately show ?thesis using oc(1)
    by (auto simp: idempotent_def claim_optional_mutation_def complete_optional_mutation_def falsy_def sample_api_fields
      sample_controls_def prog_simps)
qed

theorem one_candidate_is_selected_witness:
  "\<exists>w oc. outcome_history sample_api w \<and> (''t'', oc) \<in> set (dict_values (db_candidate_outcomes w)) \<and>
     cs_selected_candidate_id (project_candidate_set_outcomes offered_set
       (list_candidate_outcomes ''t'' (out_candidate_set_id oc) w)) = Some (out_candidate_id oc)"
proof -
  let ?w = "snd (record_candidate_outcome sample_api traveler_request 1 (cs_candidate_set_id offered_set) ''alt-1''
    selection_update offered_world)"
  obtain oid oc where oc: "db_candidate_outcomes ?w = [(oid, ''t'', oc)]" "out_state oc = SELECTED"
    using selection_recorded by blast
  have start: "outcome_history sample_api offered_world"
    by (rule nothing_recorded) (simp add: offered_world_def save_candidate_set_def empty_world_def)
  have "(''t'', oc) \<in> set (dict_values (db_candidate_outcomes ?w))" by (simp add: oc dict_values_def)
  with one_candidate_is_selected [OF recorded [OF start] this oc(2), where cs = offered_set] recorded [OF start]
  show ?thesis by blast
qed

end
