(* ===== verification/AssessTrip.thy ===== *)
theory AssessTrip
  imports Assess
begin

text \<open>
  \<^verbatim>\<open>assess_trip\<close> of \<^verbatim>\<open>apps/api/main.py\<close> and its three callers: the refresh of an incident, the job
  over the due monitoring windows, and the booking webhook.
\<close>

section \<open>The assessment of a trip\<close>

fun scenario_value :: "demo_scenario \<Rightarrow> string" where
  "scenario_value NORMAL = ''normal''"
| "scenario_value DISRUPTION = ''disruption''"
| "scenario_value SOURCE_OUTAGE = ''source_outage''"

definition log_evidence :: "'e api_env_scheme \<Rightarrow> string \<Rightarrow> uuid \<Rightarrow> uuid \<Rightarrow> evidence_envelope \<Rightarrow> unit act" where
  "log_evidence e tenant_id trip_id correlation_id item =
     emit_event e (if degraded item then ''provider.unavailable'' else ''provider.evidence_observed'')
       tenant_id (Some trip_id) correlation_id None
       [(''source_name'', JStr (ev_source_name item)), (''source_type'', JStr (ev_source_type item)),
        (''freshness_status'', JStr (freshness_value (ev_freshness_status item))),
        (''provider_latency_ms'', json_opt_int (ev_provider_latency_ms item)),
        (''error_code'', json_opt_str (ev_error_code item))]"

text \<open>The evidence snapshot: what is stored, or a new collection that is then stored.\<close>

definition evidence_snapshot ::
  "'e assess_env_scheme \<Rightarrow> string \<Rightarrow> trip \<Rightarrow> uuid \<Rightarrow> demo_scenario option \<Rightarrow> uuid \<Rightarrow> evidence_envelope list act" where
  "evidence_snapshot e tenant_id t trip_id scenario correlation_id =
     bindP (gets (get_evidence tenant_id trip_id)) (\<lambda>stored.
       if stored \<noteq> [] then ret stored
       else bindP (collect_assessment_evidence e t scenario (str_uuid correlation_id)) (\<lambda>evidence.
         thenP (save_evidence tenant_id trip_id evidence) (ret evidence)))"

definition new_incident ::
  "'h host_scheme \<Rightarrow> string \<Rightarrow> uuid \<Rightarrow> risk_assessment \<Rightarrow> uuid \<Rightarrow> incident act" where
  "new_incident h tenant_id trip_id a correlation_id =
     bindP (uuid4 h) (\<lambda>incident_id. bindP (now_utc h) (\<lambda>created_at. bindP (now_utc h) (\<lambda>updated_at. ret
       \<lparr>inc_incident_id = incident_id, inc_tenant_id = tenant_id, inc_trip_id = trip_id,
        inc_assessment_id = ra_assessment_id a, inc_severity = ra_severity a, inc_status = INC_OPEN,
        inc_correlation_id = correlation_id, inc_created_at = created_at, inc_updated_at = updated_at,
        inc_tool_audit = [], inc_model_audit = [], inc_recommendation = None, inc_graph_thread_id = None,
        inc_approval_payload = None\<rparr>)))"

definition open_incident ::
  "'e assess_env_scheme \<Rightarrow> string \<Rightarrow> trip \<Rightarrow> uuid \<Rightarrow> risk_assessment \<Rightarrow> evidence_envelope list \<Rightarrow> source_health \<Rightarrow>
    assessment_disposition \<Rightarrow> uuid \<Rightarrow> incident act" where
  "open_incident e tenant_id t trip_id a evidence health disposition correlation_id =
     bindP (new_incident e tenant_id trip_id a correlation_id) (\<lambda>i.
     bindP (if disposition = INVESTIGATE then control_enabled e tenant_id REACT_TOOL_CALLS_ENABLED else ret False)
       (\<lambda>use_react.
     bindP (if use_react then investigate e i evidence else create_limited_visibility_incident e i evidence) (\<lambda>i.
     bindP (if use_react then run_graph_investigation e i a evidence t health else ret i) (\<lambda>i.
     thenP (modify (save_incident i))
     (thenP (emit_event e ''incident.created'' tenant_id (Some trip_id) (inc_correlation_id i) None [])
     (thenP (emit_event e ''approval.requested'' tenant_id (Some trip_id) (inc_correlation_id i) None [])
       (ret i)))))))"

definition assess_work ::
  "'e assess_env_scheme \<Rightarrow> string \<Rightarrow> trip \<Rightarrow> uuid \<Rightarrow> demo_scenario option \<Rightarrow> assessment_result act" where
  "assess_work e tenant_id t trip_id scenario =
     bindP (uuid4 e) (\<lambda>correlation_id.
     bindP (evidence_snapshot e tenant_id t trip_id scenario correlation_id) (\<lambda>evidence.
     thenP (for_each evidence (log_evidence e tenant_id trip_id correlation_id))
     (bindP (lift_result (get_scoring_input evidence t)) (\<lambda>(factors, unknown).
     bindP (calculate_risk e trip_id factors (map ev_evidence_id evidence) unknown) (\<lambda>a.
     thenP (save_assessment tenant_id a)
     (let health = source_health_for (env_core_order e) evidence;
          disposition = disposition_for (ra_severity a) health in
      bindP (if disposition \<in> {INVESTIGATE, NEEDS_HUMAN_REVIEW}
        then bindP (open_incident e tenant_id t trip_id a evidence health disposition correlation_id) (\<lambda>i.
          ret (Some (inc_incident_id i)))
        else ret None) (\<lambda>incident_id.
      thenP (emit_event e ''assessment.completed'' tenant_id (Some trip_id) correlation_id None
        [(''assessment_id'', JStr (str_uuid (ra_assessment_id a))), (''risk_score'', JFloat (ra_risk_score a)),
         (''severity'', JStr (severity_value (ra_severity a))),
         (''disposition'', JStr (disposition_value disposition)),
         (''unknown_factor_count'', JInt (int (length (ra_unknown_factors a))))])
        (ret \<lparr>ar_assessment = a, ar_evidence = evidence, ar_source_health = health,
           ar_disposition = disposition, ar_incident_id = incident_id\<rparr>))))))))"

definition assess_trip ::
  "'e assess_env_scheme \<Rightarrow> request \<Rightarrow> uuid \<Rightarrow> demo_scenario option \<Rightarrow> assessment_result act" where
  "assess_trip e rq trip_id scenario =
     bindP (require_tenant (rq_tenant_id rq)) (\<lambda>tenant_id.
     bindP (gets (get_trip tenant_id trip_id)) (\<lambda>t. found t ''trip not found'' (\<lambda>t.
     thenP (trip_access e rq t staff_roles)
     (idempotent e tenant_id (rq_idempotency_key rq) (''POST:/v1/trips/'' @ str_uuid trip_id @ ''/assess'')
       (JObj [(''scenario'', json_opt_str (map_option scenario_value scenario))]) 200
       (\<lambda>r. env_dump e (MAssessmentResult r))
       (replay_as e ''AssessmentResult'' (\<lambda>m. case m of MAssessmentResult r \<Rightarrow> Some r | _ \<Rightarrow> None))
       (assess_work e tenant_id t trip_id scenario)))))"

section \<open>Its callers\<close>

definition refresh_incident :: "'e assess_env_scheme \<Rightarrow> request \<Rightarrow> uuid \<Rightarrow> assessment_result act" where
  "refresh_incident e rq incident_id =
     thenP (require_role (rq_actor_role rq) staff_roles)
     (bindP (require_tenant (rq_tenant_id rq)) (\<lambda>tenant_id.
     bindP (gets (get_incident tenant_id incident_id)) (\<lambda>i. found i ''incident not found'' (\<lambda>i.
     idempotent e tenant_id (rq_idempotency_key rq) (''POST:/v1/incidents/'' @ str_uuid incident_id @ ''/refresh'')
       (JObj [(''incident_id'', JStr (str_uuid incident_id))]) 200 (\<lambda>r. env_dump e (MAssessmentResult r))
       (replay_as e ''AssessmentResult'' (\<lambda>m. case m of MAssessmentResult r \<Rightarrow> Some r | _ \<Rightarrow> None))
       (assess_trip e
         \<lparr>rq_tenant_id = Some tenant_id, rq_actor_role = rq_actor_role rq, rq_actor_id = rq_actor_id rq,
          rq_idempotency_key = (if falsy (rq_idempotency_key rq) then None
            else Some (the (rq_idempotency_key rq) @ '':assessment''))\<rparr>
         (inc_trip_id i) None)))))"

definition system_request :: "string \<Rightarrow> string \<Rightarrow> string \<Rightarrow> request" where
  "system_request tenant_id actor_id key = \<lparr>rq_tenant_id = Some tenant_id, rq_actor_role = Some TENANT_ADMIN,
     rq_actor_id = Some actor_id, rq_idempotency_key = Some key\<rparr>"

text \<open>One window of one trip: \<^const>\<open>True\<close> when it was assessed now, \<^const>\<open>False\<close> for a replay.\<close>

definition process_window :: "'e assess_env_scheme \<Rightarrow> trip \<Rightarrow> string \<Rightarrow> bool act" where
  "process_window e t window =
     (let trip_text = str_uuid (trip_trip_id t);
          tenant_id = trip_tenant_id t;
          key = assessment_due_idempotency_key trip_text window in
      bindP (claim_mutation e tenant_id key ''internal:assessment-due''
          (JObj [(''trip_id'', JStr trip_text), (''window'', JStr window)])) (\<lambda>(request_hash, replay).
      if replay \<noteq> None then ret False
      else bindP (assess_trip e (system_request tenant_id ''system-monitor'' (key @ '':assessment'')) (trip_trip_id t) None) (\<lambda>r.
        thenP (complete_mutation e tenant_id key request_hash 200
          [(''trip_id'', JStr trip_text), (''window'', JStr window),
           (''assessment_id'', JStr (str_uuid (ra_assessment_id (ar_assessment r))))])
        (bindP (uuid4 e) (\<lambda>correlation_id.
        thenP (emit_event e ''assessment.due.completed'' tenant_id (Some (trip_trip_id t)) correlation_id
                 (Some ''system-monitor'') [(''window'', JStr window)])
          (ret True))))))"

definition process_trip :: "'e assess_env_scheme \<Rightarrow> datetime option \<Rightarrow> trip \<Rightarrow> bool list option act" where
  "process_trip e now t =
     bindP (control_enabled e (trip_tenant_id t) TENANT_AUTOMATION_ENABLED) (\<lambda>enabled.
     if \<not> enabled then ret None
     else bindP (now_or e now) (\<lambda>timestamp.
       bindP (lift_result (due_monitoring_windows (env_departure_iso e) t timestamp (td_minutes 20))) (\<lambda>windows.
       bindP (for_each windows (process_window e t)) (\<lambda>results. ret (Some results)))))"

definition process_due_assessments :: "'e assess_env_scheme \<Rightarrow> datetime option \<Rightarrow> (string, int) dict act" where
  "process_due_assessments e now =
     bindP (gets list_trips) (\<lambda>trips.
     bindP (for_each trips (process_trip e now)) (\<lambda>outcomes.
       let results = concat (List.map_filter id outcomes) in
       ret [(''assessed'', int (length (filter id results))),
            (''replayed'', int (length (filter (\<lambda>r. \<not> r) results))),
            (''skipped'', int (length (filter (\<lambda>r. r = None) outcomes)))]))"

end
