(* ===== verification/Autonomy.thy ===== *)
theory Autonomy
  imports Frames AssessTrip
begin

text \<open>
  What an assessment may write.  The relation of \<open>protocol_frame\<close> is carried through the
  evidence collection, the risk engine, the investigation graph with its model calls and the
  callers of \<^const>\<open>assess_trip\<close>.
\<close>

section \<open>Incidents awaiting approval\<close>

text \<open>Whatever opens an incident leaves it awaiting approval.\<close>

abbreviation pending :: "incident \<Rightarrow> bool" where
  "pending i \<equiv> inc_status i = PENDING_APPROVAL"

lemma investigate_pending: "yields pending (investigate h i evidence)"
  unfolding investigate_def Let_def by (intro yields_after yields_ret) simp

lemma limited_pending: "yields pending (create_limited_visibility_incident h i evidence)"
  unfolding create_limited_visibility_incident_def by (intro yields_after yields_ret) simp

lemma adopted_status: "yields (\<lambda>j. inc_status j = inc_status i) (adopt_recommendation e i raw)"
  unfolding adopt_recommendation_def by (cases raw) (auto intro!: yields_ret yields_after)

lemma graph_pending: "pending i \<Longrightarrow> yields pending (run_graph_investigation e i a evidence t health)"
  unfolding run_graph_investigation_def Let_def
  by (intro yields_after yields_then yields_bind [OF adopted_status] yields_ret) (auto split: graph_checkpoint.split)

section \<open>The contract of a graph run and of an assessment\<close>

locale graph_frame = protocol_frame +
  assumes threads: "R w (w\<lparr>w_graph_threads := threads'\<rparr>)"
begin

lemma model_calls:
  "moves R (select_tool e trip risk evidence health on)" "moves R (recommend e i risk evidence on)"
  unfolding select_tool_def recommend_def Let_def by (intro calm moves_branches moves_json)+

lemma nodes: "moves R (run_node e node st)"
  by (cases node) (auto simp: react_assistant_def validate_recommendation_def verify_alternative_eligibility_def
    attach_recovery_ranking_def Let_def intro!: calm tries model_calls moves_branches moves_json)

lemma runs: "moves R (run_graph e limit node st)"
proof (induction limit arbitrary: node st)
  case (Suc limit)
  show ?case unfolding run_graph.simps by (intro calm nodes Suc.IH moves_branches)
qed (simp add: stays)

lemma invocations: "moves R (invoke_graph e thread st)"
  unfolding invoke_graph_def save_checkpoint_def by (intro calm runs moves_modify threads)

lemma resumptions: "moves R (resume_graph e thread decision)"
  unfolding resume_graph_def save_checkpoint_def
proof (rule binds [OF stays(3)])
  fix c
  have run: "moves R (bindP (run_graph e recursion_limit QUEUE_APPROVED_ACTION (approval_gate decision st))
      (\<lambda>c. modify (\<lambda>w. w\<lparr>w_graph_threads := dict_set thread c (w_graph_threads w)\<rparr>)))" for st
    by (intro calm runs moves_modify threads)
  have idle: "moves R (case env_idle_resume e c of None \<Rightarrow> ret () | Some x \<Rightarrow> throw x)"
    by (intro calm moves_branches)
  show "moves R (case c of
       Some (Paused st) \<Rightarrow> bindP (run_graph e recursion_limit QUEUE_APPROVED_ACTION (approval_gate decision st))
         (\<lambda>c. modify (\<lambda>w. w\<lparr>w_graph_threads := dict_set thread c (w_graph_threads w)\<rparr>))
     | _ \<Rightarrow> (case env_idle_resume e c of None \<Rightarrow> ret () | Some x \<Rightarrow> throw x))"
    using run idle by (auto split: option.split graph_checkpoint.split)
qed

end

locale assessment_frame = graph_frame +
  assumes collected: "R w (w\<lparr>pw_cache := cache\<rparr>)" "R w (w\<lparr>pw_failures := failures\<rparr>)"
    and stored: "R w (w\<lparr>db_evidence := ev\<rparr>)" "R w (w\<lparr>db_assessments := as\<rparr>)"
      "R w (save_candidate_set tn cs w)"
    and opened: "inc_status i = PENDING_APPROVAL \<Longrightarrow> R w (save_incident i w)"
begin

lemma unavailables: "moves R (unavailable h p cid code)"
  unfolding unavailable_def by (intro calm)

lemma failings: "moves R (fetch_failed h p cid name)"
  unfolding fetch_failed_def record_failure_def by (intro calm unavailables moves_modify collected)

lemma starts: "moves R (fetch_start h getenv p tenant key cid on)"
  unfolding fetch_start_def cache_get_def by (intro calm unavailables moves_branches moves_json)

lemma failures: "moves R (case f of Caught name \<Rightarrow> fetch_failed h p cid name | Escapes e \<Rightarrow> throw e)"
  by (cases f) (simp_all add: failings stays)

lemma finishes: "moves R (fetch_finish h http p tenant key cid url begun)"
  unfolding fetch_finish_def Let_def cache_put_def record_success_def
  by (intro calm failings failures moves_modify collected moves_branches moves_json)

lemma collections:
  assumes "\<And>flag. moves R (enabled flag)"
  shows "moves R (collect h getenv replies completion t cid enabled)"
  unfolding collect_def connection_feasibility_def Let_def
  by (intro calm loops starts finishes assms moves_branches moves_json)

lemma baselines: "moves R (collect_baseline h scenario cid)"
  unfolding collect_baseline_def fixture_envelope_def by (intro calm loops moves_branches moves_json)

lemma provider_flags: "moves R (provider_enabled e t flag)"
  unfolding provider_enabled_def by (intro calm moves_branches moves_json)

lemma snapshots: "moves R (evidence_snapshot e tenant_id t trip_id scenario cid)"
  unfolding evidence_snapshot_def collect_assessment_evidence_def save_evidence_def
  by (intro calm collections baselines provider_flags moves_modify stored moves_branches moves_json)

lemma audits: "moves R (tool_audit_of h item)" "moves R (model_audit_of h item)"
  unfolding tool_audit_of_def model_audit_of_def by (intro calm moves_branches moves_json)+

lemma adoptions: "moves R (adopt_recommendation e i raw)"
  unfolding adopt_recommendation_def recommendation_of_def
  by (intro calm tries moves_branches moves_json)

lemma candidate_stores: "moves R (store_candidates e i st)"
  unfolding store_candidates_def new_candidate_set_def incident_event_def
  by (intro calm moves_modify stored moves_branches moves_json)

lemma investigations: "moves R (run_graph_investigation e i a evidence t health)"
  unfolding run_graph_investigation_def Let_def incident_event_def log_tool_def log_model_def log_recommendation_def
  by (intro calm loops invocations audits adoptions candidate_stores moves_branches moves_json)

lemma incident_builders:
  "moves R (investigate h i evidence)" "moves R (create_limited_visibility_incident h i evidence)"
  "moves R (new_incident h tenant_id trip_id a cid)"
  unfolding investigate_def create_limited_visibility_incident_def new_recommendation_def new_incident_def Let_def
  by (intro calm loops moves_branches moves_json)+

lemma openings: "moves R (open_incident e tenant_id t trip_id a evidence health disposition cid)"
proof -
  have rest: "moves R (bindP (if use_react then run_graph_investigation e i a evidence t health else ret i) (\<lambda>i.
     thenP (modify (save_incident i))
     (thenP (emit_event e ''incident.created'' tenant_id (Some trip_id) (inc_correlation_id i) None [])
     (thenP (emit_event e ''approval.requested'' tenant_id (Some trip_id) (inc_correlation_id i) None [])
       (ret i)))))" if "pending i" for use_react i
    by (rule moves_bind_yields [OF trans, where P = pending])
      (auto intro!: calm investigations moves_modify opened yields_ret graph_pending [OF that] that)
  have built: "yields pending (if use_react then investigate e i evidence else create_limited_visibility_incident e i evidence)"
    for use_react i
    by (simp add: investigate_pending limited_pending)
  show ?thesis
    unfolding open_incident_def
    by (intro calm incident_builders moves_branches moves_bind_yields [OF trans _ built rest])
qed

lemma works: "moves R (assess_work e tenant_id t trip_id scenario)"
  unfolding assess_work_def Let_def log_evidence_def calculate_risk_def save_assessment_def
  by (intro calm loops snapshots openings moves_modify stored moves_branches)

lemma assessments: "moves R (assess_trip e rq trip_id scenario)"
  unfolding assess_trip_def by (intro calm works moves_branches)

lemma refreshes: "moves R (refresh_incident e rq incident_id)"
  unfolding refresh_incident_def by (intro calm assessments moves_branches)

lemma windows: "moves R (process_window e t window)"
  unfolding process_window_def Let_def by (intro calm claim_mutations complete_mutations assessments moves_branches)

lemma due_jobs: "moves R (process_due_assessments e now)"
  unfolding process_due_assessments_def process_trip_def Let_def now_or_def
  by (intro calm loops windows moves_branches)

end

section \<open>What stays in human hands\<close>

definition opens_pending :: "world \<Rightarrow> world \<Rightarrow> bool" where
  "opens_pending w w' \<longleftrightarrow> (\<forall>i \<in> set (dict_values (db_incidents w')).
     i \<in> set (dict_values (db_incidents w)) \<or> inc_status i = PENDING_APPROVAL)"

definition leaves_decisions :: "world \<Rightarrow> world \<Rightarrow> bool" where
  "leaves_decisions w w' \<longleftrightarrow>
     db_approvals w' = db_approvals w \<and> db_action_dispatches w' = db_action_dispatches w \<and>
     db_action_dispatch_attempts w' = db_action_dispatch_attempts w \<and>
     db_candidate_outcomes w' = db_candidate_outcomes w \<and> db_manager_feedback w' = db_manager_feedback w \<and>
     db_notifications w' = db_notifications w \<and> db_trips w' = db_trips w \<and> db_profiles w' = db_profiles w \<and>
     db_memory_proposals w' = db_memory_proposals w \<and> db_tenant_playbooks w' = db_tenant_playbooks w \<and>
     db_control_overrides w' = db_control_overrides w \<and> db_platform_overrides w' = db_platform_overrides w \<and>
     db_legal_holds w' = db_legal_holds w \<and> db_deletion_requests w' = db_deletion_requests w \<and>
     opens_pending w w'"

lemma opens_pending_trans: "opens_pending u v \<Longrightarrow> opens_pending v w \<Longrightarrow> opens_pending u w"
  unfolding opens_pending_def by blast

lemma opens_pending_same: "db_incidents w' = db_incidents w \<Longrightarrow> opens_pending w w'"
  by (simp add: opens_pending_def)

lemma values_after_set: "set (dict_values (dict_set k v d)) \<subseteq> insert v (set (dict_values d))"
  by (induction d) (auto simp: dict_values_def)

lemma leaves_decisions_refl: "reflp leaves_decisions"
  by (simp add: reflp_def leaves_decisions_def opens_pending_same)

lemma leaves_decisions_trans: "transp leaves_decisions"
  by (rule transpI) (auto simp: leaves_decisions_def intro: opens_pending_trans)

lemma leaves_decisions_save:
  "inc_status i = PENDING_APPROVAL \<Longrightarrow> leaves_decisions w (save_incident i w)"
  using values_after_set [of "inc_incident_id i" i "db_incidents w"]
  by (auto simp: leaves_decisions_def save_incident_def opens_pending_def)

lemma leaves_decisions_quiet: "bookkeeping w w' \<Longrightarrow> leaves_decisions w w'"
  by (auto simp: leaves_decisions_def bookkeeping_def opens_pending_same)

interpretation assessing: assessment_frame leaves_decisions
  by unfold_locales
    (simp_all add: leaves_decisions_refl leaves_decisions_trans leaves_decisions_quiet leaves_decisions_save,
     simp_all add: leaves_decisions_def opens_pending_same save_candidate_set_def)

section \<open>Properties\<close>

text \<open>
  C3. Assessments decide nothing: whatever the providers and the model answer, and whether the
  request returns or fails half-way, an assessment, the refresh of an incident and the job over due
  windows leave approvals, actions, notifications, recovery outcomes, trips, memory, controls and
  holds exactly as they were, and every incident they write awaits a human approval.
\<close>

theorem assessments_decide_nothing:
  "leaves_decisions w (snd (assess_trip e rq trip_id scenario w)) \<and>
   leaves_decisions w (snd (refresh_incident e rq incident_id w)) \<and>
   leaves_decisions w (snd (process_due_assessments e now w))"
  using assessing.assessments [of e rq trip_id scenario] assessing.refreshes [of e rq incident_id]
    assessing.due_jobs [of e now] by (simp add: moves_def)

end
