(* ===== verification/Approvals.thy ===== *)
theory Approvals
  imports Trips Idempotency Graph
begin

text \<open>
  The human decision on an incident: \<^verbatim>\<open>decide_incident\<close> of \<^verbatim>\<open>apps/api/main.py\<close>, its two endpoints
  and the outbox job that dispatches approved actions.
\<close>

section \<open>The decision\<close>

definition new_approval ::
  "'h host_scheme \<Rightarrow> uuid \<Rightarrow> approval_request \<Rightarrow> string \<Rightarrow> approval_record act" where
  "new_approval h incident_id payload action_dispatch_status =
     bindP (uuid4 h) (\<lambda>approval_id. bindP (now_utc h) (\<lambda>decided_at.
       let a = approval_request.extend payload
             \<lparr>apr_approval_id = approval_id, apr_incident_id = incident_id, apr_decided_at = decided_at,
              apr_action_dispatch_status = action_dispatch_status\<rparr>
       in if valid_approval_record a then ret a else throw (ValidationError ''ApprovalRecord'')))"

definition new_action_dispatch ::
  "'e api_env_scheme \<Rightarrow> string \<Rightarrow> approval_record \<Rightarrow> action_dispatch_record act" where
  "new_action_dispatch e tenant_id a =
     bindP (now_utc e) (\<lambda>next_attempt_at. bindP (now_utc e) (\<lambda>created_at. bindP (now_utc e) (\<lambda>updated_at. ret
       \<lparr>ad_action_dispatch_id = env_uuid5 e (''routeshield:approved-action:'' @ str_uuid (apr_approval_id a)),
        ad_tenant_id = tenant_id, ad_incident_id = apr_incident_id a, ad_approval_id = apr_approval_id a,
        ad_action_payload = apr_final_action_payload a,
        ad_idempotency_key = ''approved-action:'' @ str_uuid (apr_approval_id a), ad_status = AQUEUED,
        ad_attempt_count = 0, ad_next_attempt_at = next_attempt_at, ad_last_error_code = None,
        ad_dispatch_claim_id = None, ad_dispatch_claimed_by = None, ad_dispatch_claimed_at = None,
        ad_dispatch_claim_expires_at = None, ad_dispatched_at = None, ad_created_at = created_at,
        ad_updated_at = updated_at\<rparr>)))"

definition action_status_for :: "'e api_env_scheme \<Rightarrow> string \<Rightarrow> approval_request \<Rightarrow> string act" where
  "action_status_for e tenant_id payload =
     (if apr_final_action_payload payload = [] then ret ''not_requested''
      else bindP (control_enabled e tenant_id APPROVAL_ACTIONS_ENABLED) (\<lambda>enabled.
        ret (if enabled then ''pending'' else ''suppressed'')))"

definition queue_action ::
  "'e api_env_scheme \<Rightarrow> string \<Rightarrow> incident \<Rightarrow> approval_record \<Rightarrow> action_dispatch_record option act" where
  "queue_action e tenant_id i a =
     (if apr_final_action_payload a \<noteq> [] \<and> apr_action_dispatch_status a = ''pending''
      then bindP (new_action_dispatch e tenant_id a) (\<lambda>action.
        thenP (modify (save_action_dispatch action))
        (thenP (emit_event e ''action.queued'' tenant_id (Some (inc_trip_id i)) (inc_correlation_id i)
                 (Some (apr_actor_id a))
                 [(''action_dispatch_id'', JStr (str_uuid (ad_action_dispatch_id action))),
                  (''idempotency_key'', JStr (ad_idempotency_key action))])
          (ret (Some action))))
      else ret None)"

definition resume_payload :: "approval_request \<Rightarrow> action_dispatch_record option \<Rightarrow> json_object" where
  "resume_payload payload action =
     [(''decision'', JStr (decision_value (apr_decision payload))), (''reason'', JStr (apr_reason payload))] @
     (case action of None \<Rightarrow> []
      | Some a \<Rightarrow> [(''action_dispatch_id'', JStr (str_uuid (ad_action_dispatch_id a))),
                   (''action_idempotency_key'', JStr (ad_idempotency_key a))])"

definition decide_incident ::
  "'e graph_env_scheme \<Rightarrow> uuid \<Rightarrow> approval_request \<Rightarrow> string \<Rightarrow> approval_record act" where
  "decide_incident e incident_id payload tenant_id =
     bindP (gets (get_incident tenant_id incident_id)) (\<lambda>i. found i ''incident not found'' (\<lambda>i.
     thenP (raise_when (inc_status i \<noteq> PENDING_APPROVAL) (HTTPException 409 ''incident is not awaiting approval''))
     (bindP (action_status_for e tenant_id payload) (\<lambda>action_dispatch_status.
     bindP (new_approval e incident_id payload action_dispatch_status) (\<lambda>a.
     thenP (modify (save_approval a))
     (bindP (queue_action e tenant_id i a) (\<lambda>action.
     thenP (modify (save_incident (i\<lparr>inc_status := (if apr_decision payload = APPROVE then APPROVED else REJECTED),
              inc_updated_at := apr_decided_at a\<rparr>)))
     (thenP (case inc_graph_thread_id i of
         None \<Rightarrow> ret ()
       | Some thread_id \<Rightarrow> if thread_id = [] then ret () else resume_graph e thread_id (resume_payload payload action))
     (thenP (emit_event e ''approval.completed'' tenant_id (Some (inc_trip_id i)) (inc_correlation_id i)
              (Some (apr_actor_id payload))
              [(''decision'', JStr (decision_value (apr_decision payload))),
               (''final_action_payload'', JObj (apr_final_action_payload payload)),
               (''action_dispatch_status'', JStr action_dispatch_status)])
       (ret a))))))))))"

section \<open>The endpoints\<close>

definition approve_incident ::
  "'e graph_env_scheme \<Rightarrow> request \<Rightarrow> uuid \<Rightarrow> approval_request \<Rightarrow> approval_record act" where
  "approve_incident e rq incident_id payload =
     thenP (require_role (rq_actor_role rq) [TRAVEL_MANAGER, TENANT_ADMIN])
     (thenP (require_actor_matches_payload e (rq_actor_id rq) (apr_actor_id payload))
     (thenP (raise_when (falsy (rq_idempotency_key rq)) (HTTPException 400 ''Idempotency-Key is required''))
     (thenP (raise_when (apr_decision payload \<noteq> APPROVE) (HTTPException 422 ''decision must be approve''))
     (bindP (require_tenant (rq_tenant_id rq)) (\<lambda>tenant_id.
     thenP (incident_trip_access e rq tenant_id incident_id [TRAVEL_MANAGER, TENANT_ADMIN])
     (idempotent e tenant_id (rq_idempotency_key rq) (''POST:/v1/incidents/'' @ str_uuid incident_id @ ''/approve'')
       (JObj (env_dump e (MApprovalRequest payload))) 200 (\<lambda>a. env_dump e (MApproval a))
       (replay_as e ''ApprovalRecord'' (\<lambda>m. case m of MApproval a \<Rightarrow> Some a | _ \<Rightarrow> None))
       (decide_incident e incident_id payload tenant_id)))))))"

definition reject_incident ::
  "'e graph_env_scheme \<Rightarrow> request \<Rightarrow> uuid \<Rightarrow> approval_request \<Rightarrow> approval_record act" where
  "reject_incident e rq incident_id payload =
     thenP (require_role (rq_actor_role rq) [TRAVEL_MANAGER, TENANT_ADMIN])
     (thenP (require_actor_matches_payload e (rq_actor_id rq) (apr_actor_id payload))
     (thenP (raise_when (falsy (rq_idempotency_key rq)) (HTTPException 400 ''Idempotency-Key is required''))
     (thenP (raise_when (apr_decision payload \<noteq> REJECT) (HTTPException 422 ''decision must be reject''))
     (bindP (require_tenant (rq_tenant_id rq)) (\<lambda>tenant_id.
     thenP (incident_trip_access e rq tenant_id incident_id [TRAVEL_MANAGER, TENANT_ADMIN])
     (idempotent e tenant_id (rq_idempotency_key rq) (''POST:/v1/incidents/'' @ str_uuid incident_id @ ''/reject'')
       (JObj (env_dump e (MApprovalRequest payload))) 200 (\<lambda>a. env_dump e (MApproval a))
       (replay_as e ''ApprovalRecord'' (\<lambda>m. case m of MApproval a \<Rightarrow> Some a | _ \<Rightarrow> None))
       (decide_incident e incident_id payload tenant_id)))))))"

section \<open>The dispatch job\<close>

text \<open>The trip and the correlation identifier of an outbox event: the incident's, or a fresh one.\<close>

definition event_scope ::
  "'h host_scheme \<Rightarrow> incident option \<Rightarrow> (uuid option \<times> uuid) act" where
  "event_scope h i = (case i of
     Some i \<Rightarrow> ret (Some (inc_trip_id i), inc_correlation_id i)
   | None \<Rightarrow> bindP (uuid4 h) (\<lambda>correlation_id. ret (None, correlation_id)))"

definition both_controls ::
  "'e api_env_scheme \<Rightarrow> string \<Rightarrow> runtime_control_name \<Rightarrow> runtime_control_name \<Rightarrow> bool act" where
  "both_controls e tenant_id a b = bindP (control_enabled e tenant_id a) (\<lambda>enabled.
     if enabled then control_enabled e tenant_id b else ret False)"

definition dispatch_one_action ::
  "'e api_env_scheme \<Rightarrow> action_dispatch_record \<Rightarrow> action_dispatch_record option act" where
  "dispatch_one_action e a =
     bindP (both_controls e (ad_tenant_id a) APPROVAL_ACTIONS_ENABLED TENANT_AUTOMATION_ENABLED) (\<lambda>enabled.
     if \<not> enabled then ret None
     else bindP (dispatch_approved_action e unconfigured_dispatch 5 None a) (\<lambda>outcome.
       bindP (gets (get_incident (ad_tenant_id a) (ad_incident_id a))) (\<lambda>i.
       bindP (event_scope e i) (\<lambda>(trip_id, correlation_id).
       thenP (emit_event e (''action.'' @ action_status_value (ad_status outcome)) (ad_tenant_id a) trip_id
                correlation_id (Some ''internal-approved-action-dispatcher'')
                [(''action_dispatch_id'', JStr (str_uuid (ad_action_dispatch_id outcome))),
                 (''attempt_count'', JInt (ad_attempt_count outcome)),
                 (''error_code'', json_opt_str (ad_last_error_code outcome))])
         (ret (Some outcome))))))"

definition dispatch_approved_actions_job :: "'e api_env_scheme \<Rightarrow> action_dispatch_record list act" where
  "dispatch_approved_actions_job e =
     bindP (claim_due_action_dispatches e None ''internal-approved-action-dispatcher'' (td_minutes 5) None 100) (\<lambda>claimed.
     bindP (for_each claimed (dispatch_one_action e)) (\<lambda>outcomes. ret (List.map_filter id outcomes)))"

end
