(* ===== verification/Decisions.thy ===== *)
theory Decisions
  imports Autonomy Approvals Investigation
begin

text \<open>
  The effect of \<^verbatim>\<open>decide_incident\<close>: what one decision stores, what it queues, and that there is no
  second one.
\<close>

section \<open>What the parts of a decision change\<close>

definition same_decisions :: "world \<Rightarrow> world \<Rightarrow> bool" where
  "same_decisions w w' \<longleftrightarrow> db_approvals w' = db_approvals w \<and> db_action_dispatches w' = db_action_dispatches w \<and>
     db_incidents w' = db_incidents w"

interpretation deciding: graph_frame same_decisions
  by unfold_locales (auto simp: same_decisions_def reflp_def transp_def bookkeeping_same)

lemma same_decisionsI:
  "moves same_decisions m \<Longrightarrow> m w = (r, w') \<Longrightarrow> db_approvals w' = db_approvals w \<and>
     db_action_dispatches w' = db_action_dispatches w \<and> db_incidents w' = db_incidents w"
  by (drule movesD) (simp_all add: same_decisions_def)

definition dispatch_status :: "'e api_env_scheme \<Rightarrow> string \<Rightarrow> approval_request \<Rightarrow> world \<Rightarrow> string" where
  "dispatch_status e t payload w =
     (if apr_final_action_payload payload = [] then ''not_requested''
      else if fst (control_enabled e t APPROVAL_ACTIONS_ENABLED w) = Inr True then ''pending'' else ''suppressed'')"

lemma status_step:
  assumes "action_status_for e t payload w = (Inr s, w')"
  shows "s = dispatch_status e t payload w \<and> same_decisions w w'"
proof -
  have "moves same_decisions (action_status_for e t payload)"
    unfolding action_status_for_def by (intro deciding.calm moves_branches)
  from movesD [OF this assms] show ?thesis
    using assms by (auto simp: action_status_for_def dispatch_status_def prog_simps split: if_splits prod.splits sum.splits)
qed

lemma approval_step:
  assumes "new_approval h iid payload s w = (Inr a, w')"
  shows "approval_request.truncate a = payload \<and> apr_incident_id a = iid \<and> apr_action_dispatch_status a = s \<and>
    same_decisions w w'"
proof -
  have "moves same_decisions (new_approval h iid payload s)"
    unfolding new_approval_def Let_def by (intro deciding.calm moves_branches)
  from movesD [OF this assms] show ?thesis
    using assms by (auto simp: new_approval_def Let_def prog_simps approval_request.defs split: if_splits)
qed

definition queued_for :: "string \<Rightarrow> approval_record \<Rightarrow> action_dispatch_record \<Rightarrow> bool" where
  "queued_for t a action \<longleftrightarrow> ad_tenant_id action = t \<and> ad_approval_id action = apr_approval_id a \<and>
     ad_incident_id action = apr_incident_id a \<and> ad_action_payload action = apr_final_action_payload a \<and>
     ad_status action = AQUEUED \<and> ad_attempt_count action = 0 \<and>
     ad_idempotency_key action = ''approved-action:'' @ str_uuid (apr_approval_id a)"

lemma queue_step:
  assumes "queue_action e t i a w = (Inr q, w')"
  shows "db_approvals w' = db_approvals w \<and> db_incidents w' = db_incidents w \<and>
    (if apr_final_action_payload a \<noteq> [] \<and> apr_action_dispatch_status a = ''pending''
     then \<exists>action. queued_for t a action \<and>
       db_action_dispatches w' = dict_set (ad_action_dispatch_id action) action (db_action_dispatches w)
     else db_action_dispatches w' = db_action_dispatches w)"
proof (cases "apr_final_action_payload a \<noteq> [] \<and> apr_action_dispatch_status a = ''pending''")
  case True
  obtain action w1 where action: "new_action_dispatch e t a w = (Inr action, w1)" "queued_for t a action"
    by (simp add: new_action_dispatch_def prog_simps queued_for_def)
  have "moves same_decisions (new_action_dispatch e t a)"
    unfolding new_action_dispatch_def by (intro deciding.calm)
  note before = same_decisionsI [OF this action(1)]
  let ?event = "emit_event e ''action.queued'' t (Some (inc_trip_id i)) (inc_correlation_id i) (Some (apr_actor_id a))
    [(''action_dispatch_id'', JStr (str_uuid (ad_action_dispatch_id action))),
     (''idempotency_key'', JStr (ad_idempotency_key action))]"
  from assms True action(1) obtain w2 where "?event (save_action_dispatch action w1) = (Inr (), w')"
    by (auto simp: queue_action_def prog_simps split: prod.splits sum.splits)
  from same_decisionsI [OF deciding.emits this] before action(2) True show ?thesis
    by (auto simp: save_action_dispatch_def)
qed (use assms in \<open>auto simp: queue_action_def prog_simps\<close>)

lemma saved_incident:
  assumes "get_incident t iid w = Some inc" "inc_incident_id j = iid" "inc_tenant_id j = inc_tenant_id inc"
  shows "db_incidents w' = db_incidents (save_incident j w2) \<Longrightarrow> get_incident t iid w' = Some j"
  using assms by (auto simp: get_incident_def owned_get_def save_incident_def dict_get_set split: option.splits if_splits)

lemma decided_once:
  assumes "get_incident t iid w = Some inc" "inc_status inc \<noteq> PENDING_APPROVAL"
  shows "decide_incident e iid payload t w = (Inl (HTTPException 409 ''incident is not awaiting approval''), w)"
  using assms by (simp add: decide_incident_def prog_simps)

lemma decision_steps:
  assumes "get_incident t iid w = Some inc" "decide_incident e iid payload t w = (Inr a, w')"
  shows "inc_status inc = PENDING_APPROVAL \<and> approval_request.truncate a = payload \<and> apr_incident_id a = iid \<and>
    apr_action_dispatch_status a = dispatch_status e t payload w \<and>
    db_approvals w' = dict_set iid a (db_approvals w) \<and>
    (\<exists>w2. db_incidents w' = db_incidents (save_incident (inc\<lparr>inc_status :=
        (if apr_decision payload = APPROVE then APPROVED else REJECTED), inc_updated_at := apr_decided_at a\<rparr>) w2)) \<and>
    (if apr_final_action_payload a \<noteq> [] \<and> apr_action_dispatch_status a = ''pending''
     then \<exists>action. queued_for t a action \<and>
       db_action_dispatches w' = dict_set (ad_action_dispatch_id action) action (db_action_dispatches w)
     else db_action_dispatches w' = db_action_dispatches w)"
proof -
  let ?j = "inc\<lparr>inc_status := (if apr_decision payload = APPROVE then APPROVED else REJECTED),
    inc_updated_at := apr_decided_at a\<rparr>"
  have pending: "inc_status inc = PENDING_APPROVAL"
    using assms decided_once [OF assms(1), of e payload] by (cases "inc_status inc = PENDING_APPROVAL") auto
  obtain s w1 w2 q w3 w4 w5 r where s: "action_status_for e t payload w = (Inr s, w1)"
    and a: "new_approval e iid payload s w1 = (Inr a, w2)"
    and q: "queue_action e t inc a (save_approval a w2) = (Inr q, w3)"
    and resume: "(case inc_graph_thread_id inc of None \<Rightarrow> ret ()
       | Some thread_id \<Rightarrow> if thread_id = [] then ret () else resume_graph e thread_id (resume_payload payload q))
      (save_incident ?j w3) = (Inr r, w4)"
    and event: "emit_event e ''approval.completed'' t (Some (inc_trip_id inc)) (inc_correlation_id inc)
              (Some (apr_actor_id payload))
              [(''decision'', JStr (decision_value (apr_decision payload))),
               (''final_action_payload'', JObj (apr_final_action_payload payload)),
               (''action_dispatch_status'', JStr s)] w4 = (Inr (), w5)" and "w' = w5"
    using assms pending
    unfolding decide_incident_def bindP_app gets_app thenP_app raise_when_app modify_app ret_app
    by (auto split: prod.splits sum.splits)
  have "moves same_decisions (case inc_graph_thread_id inc of None \<Rightarrow> ret ()
       | Some thread_id \<Rightarrow> if thread_id = [] then ret () else resume_graph e thread_id (resume_payload payload q))"
    by (intro deciding.calm deciding.resumptions moves_branches)
  note after = same_decisionsI [OF this resume] same_decisionsI [OF deciding.emits event]
  have "db_incidents w' = db_incidents (save_incident ?j w3)" using after \<open>w' = w5\<close> by simp
  with pending status_step [OF s] approval_step [OF a] queue_step [OF q] after \<open>w' = w5\<close> show ?thesis
    by (auto simp: same_decisions_def save_approval_def save_incident_def split: if_splits)
qed

section \<open>Properties\<close>


text \<open>Witness: a manager rejects with an action payload, and the action is queued all the same.\<close>

definition pending_world :: world where
  "pending_world = empty_world\<lparr>db_incidents := [(1, sample_incident ''a'' 1\<lparr>inc_status := PENDING_APPROVAL\<rparr>)]\<rparr>"

definition rejection :: approval_request where
  "rejection = \<lparr>apr_decision = REJECT, apr_actor_id = ''m'', apr_reason = ''no'',
     apr_final_action_payload = [(''rebook'', JStr ''alt-1'')]\<rparr>"

lemma emit_returns: "\<exists>w'. emit_event e ty t trip c actor d w = (Inr (), w')"
  by (simp add: emit_event_def prog_simps Let_def)

lemma status_returns: "\<exists>s w'. action_status_for e t payload w = (Inr s, w') \<and> s \<in> {''not_requested'', ''suppressed'', ''pending''}"
  by (auto simp: action_status_for_def control_enabled_def get_runtime_control_override_def
    get_platform_control_override_def unexpired_def prog_simps split: option.splits)

lemma queue_returns: "\<exists>q w'. queue_action e t i a w = (Inr q, w')"
proof -
  obtain action w1 where "new_action_dispatch e t a w = (Inr action, w1)"
    by (simp add: new_action_dispatch_def prog_simps)
  moreover obtain w2 where "emit_event e ''action.queued'' t (Some (inc_trip_id i)) (inc_correlation_id i) (Some (apr_actor_id a))
      [(''action_dispatch_id'', JStr (str_uuid (ad_action_dispatch_id action))),
       (''idempotency_key'', JStr (ad_idempotency_key action))] (save_action_dispatch action w1) = (Inr (), w2)"
    using emit_returns by blast
  ultimately show ?thesis by (simp add: queue_action_def thenP_app bindP_app modify_app ret_app)
qed

text \<open>A valid decision on a pending incident that has no graph to resume returns.\<close>

lemma decide_returns:
  assumes "get_incident t iid w = Some i" "inc_status i = PENDING_APPROVAL" "inc_graph_thread_id i = None"
    and "valid_approval_request payload"
  shows "\<exists>a w'. decide_incident e iid payload t w = (Inr a, w')"
proof -
  obtain s w0 where s: "action_status_for e t payload w = (Inr s, w0)" "s \<in> {''not_requested'', ''suppressed'', ''pending''}"
    using status_returns by blast
  obtain a w1 where a: "new_approval e iid payload s w0 = (Inr a, w1)"
    using s(2) assms(4)
    by (auto simp: new_approval_def Let_def prog_simps valid_approval_record_def valid_approval_request_def
      approval_request.defs)
  obtain q w2 where q: "queue_action e t i a (save_approval a w1) = (Inr q, w2)"
    using queue_returns by blast
  obtain w3 where "emit_event e ''approval.completed'' t (Some (inc_trip_id i)) (inc_correlation_id i)
      (Some (apr_actor_id payload)) [(''decision'', JStr (decision_value (apr_decision payload))),
       (''final_action_payload'', JObj (apr_final_action_payload payload)), (''action_dispatch_status'', JStr s)]
      (save_incident (i\<lparr>inc_status := (if apr_decision payload = APPROVE then APPROVED else REJECTED),
         inc_updated_at := apr_decided_at a\<rparr>) w2) = (Inr (), w3)"
    using emit_returns by blast
  with assms a q s(1) show ?thesis
    unfolding decide_incident_def bindP_app gets_app thenP_app raise_when_app modify_app ret_app by simp
qed

lemma rejection_decided: "\<exists>a w'. decide_incident sample_graph 1 rejection ''a'' pending_world = (Inr a, w')"
  by (rule decide_returns [where i = "sample_incident ''a'' 1\<lparr>inc_status := PENDING_APPROVAL\<rparr>"])
    (simp_all add: pending_world_def get_incident_def owned_get_def sample_incident_def
    valid_approval_request_def rejection_def len_between_def)


end
