(* ===== verification/Gateway.thy ===== *)
theory Gateway
  imports Trips
begin

text \<open>
  The middleware \<^verbatim>\<open>enforce_rate_limit\<close> of \<^verbatim>\<open>apps/api/main.py\<close>: bearer authentication, replacement
  of the identity headers by the token's claims, and the rate limit.  PyJWT and
  the shared Redis limiter are parameters; header names are in lower case, as ASGI delivers them.
\<close>

record authenticated_actor =
  au_actor_id :: string
  au_tenant_id :: string
  au_role :: user_role

fun role_value :: "user_role \<Rightarrow> string" where
  "role_value TRAVELER = ''traveler''"
| "role_value TRAVEL_MANAGER = ''travel_manager''"
| "role_value DUTY_OF_CARE = ''duty_of_care''"
| "role_value TENANT_ADMIN = ''tenant_admin''"
| "role_value PLATFORM_ADMIN = ''platform_admin''"

definition all_roles :: "user_role list" where
  "all_roles = [TRAVELER, TRAVEL_MANAGER, DUTY_OF_CARE, TENANT_ADMIN, PLATFORM_ADMIN]"

text \<open>\<^verbatim>\<open>UserRole(claim)\<close>\<close>

definition role_of_claim :: "json \<Rightarrow> user_role option" where
  "role_of_claim v = (case v of JStr s \<Rightarrow> List.find (\<lambda>r. role_value r = s) all_roles | _ \<Rightarrow> None)"

definition or_default :: "string option \<Rightarrow> string \<Rightarrow> string" where
  "or_default s d = (case s of None \<Rightarrow> d | Some t \<Rightarrow> t)"

text \<open>
  \<^verbatim>\<open>validate_bearer_token\<close> of \<^verbatim>\<open>apps/api/auth.py\<close>.  \<open>decode\<close> is PyJWT with the key of the JWKS
  document: from its URL, the issuer, the audience and the token, the verified claims or an
  exception; \<open>text\<close> is \<^verbatim>\<open>str\<close> of a claim.
\<close>

definition validate_bearer_token ::
  "(string \<Rightarrow> string option) \<Rightarrow> (string \<Rightarrow> string \<Rightarrow> string \<Rightarrow> string \<Rightarrow> json_object result) \<Rightarrow> (json \<Rightarrow> string) \<Rightarrow>
    string \<Rightarrow> authenticated_actor result" where
  "validate_bearer_token getenv decode text token =
     (if falsy (getenv ''OIDC_ISSUER'') \<or> falsy (getenv ''OIDC_AUDIENCE'') \<or> falsy (getenv ''OIDC_JWKS_URL'')
      then Inl (ValueError ''OIDC is not configured'')
      else result_bind (decode (the (getenv ''OIDC_JWKS_URL'')) (the (getenv ''OIDC_ISSUER''))
             (the (getenv ''OIDC_AUDIENCE'')) token) (\<lambda>claims.
        case (dict_get claims (or_default (getenv ''OIDC_ACTOR_ID_CLAIM'') ''sub''),
              dict_get claims (or_default (getenv ''OIDC_TENANT_ID_CLAIM'') ''tenant_id''),
              map_option role_of_claim (dict_get claims (or_default (getenv ''OIDC_ROLE_CLAIM'') ''role''))) of
          (Some actor, Some tenant, Some (Some role)) \<Rightarrow>
            Inr \<lparr>au_actor_id = text actor, au_tenant_id = text tenant, au_role = role\<rparr>
        | _ \<Rightarrow> Inl (ValueError ''token is missing RouteShield authorization claims'')))"

record http_request =
  hr_path :: string
  hr_headers :: "(string \<times> string) list"
  hr_client_host :: "string option"

datatype gateway_result =
    Answer int string "(string \<times> string) list"
  | Forward "(string \<times> string) list" "authenticated_actor option" "(string \<times> string) list"

definition header :: "http_request \<Rightarrow> string \<Rightarrow> string option" where
  "header r name = map_of (hr_headers r) name"

definition starts_with :: "string \<Rightarrow> string \<Rightarrow> bool" where
  "starts_with p s \<longleftrightarrow> take (length p) s = p"

definition is_health_check :: "http_request \<Rightarrow> bool" where
  "is_health_check r \<longleftrightarrow> hr_path r = ''/health''"

definition is_signed_webhook :: "http_request \<Rightarrow> bool" where
  "is_signed_webhook r \<longleftrightarrow> hr_path r = ''/v1/webhooks/booking''"

definition is_internal_job :: "http_request \<Rightarrow> bool" where
  "is_internal_job r \<longleftrightarrow> starts_with ''/v1/internal/'' (hr_path r)"

text \<open>\<^verbatim>\<open>authorization.partition(" ")\<close>\<close>

definition partition_space :: "string \<Rightarrow> string \<times> string" where
  "partition_space s = (takeWhile (\<lambda>c. c \<noteq> CHR '' '') s, tl (dropWhile (\<lambda>c. c \<noteq> CHR '' '') s))"

definition identity_headers :: "string list" where
  "identity_headers = [''x-tenant-id'', ''x-actor-id'', ''x-actor-role'']"

definition trusted_headers :: "authenticated_actor \<Rightarrow> (string \<times> string) list \<Rightarrow> (string \<times> string) list" where
  "trusted_headers a headers = filter (\<lambda>(k, v). py_lower k \<notin> set identity_headers) headers @
     [(''x-tenant-id'', au_tenant_id a), (''x-actor-id'', au_actor_id a), (''x-actor-role'', role_value (au_role a))]"

text \<open>The left side answers the request; the right side is the identity, if any, and the headers.\<close>

definition authenticate ::
  "(string \<Rightarrow> authenticated_actor result) \<Rightarrow> bool \<Rightarrow> http_request \<Rightarrow>
    gateway_result + authenticated_actor option \<times> (string \<times> string) list" where
  "authenticate validate require_oidc r =
     (if truthy (header r ''authorization'')
      then let (scheme, token) = partition_space (the (header r ''authorization''))
           in if py_lower scheme \<noteq> ''bearer'' \<or> token = [] then Inl (Answer 401 ''invalid bearer token'' [])
              else (case validate token of
                Inl _ \<Rightarrow> Inl (Answer 401 ''invalid bearer token'' [])
              | Inr a \<Rightarrow>
                  if truthy (header r ''x-tenant-id'') \<and> header r ''x-tenant-id'' \<noteq> Some (au_tenant_id a)
                  then Inl (Answer 403 ''tenant claim mismatch'' [])
                  else Inr (Some a, trusted_headers a (hr_headers r)))
      else if require_oidc \<and> \<not> (is_health_check r \<or> is_signed_webhook r \<or> is_internal_job r)
      then Inl (Answer 401 ''bearer token is required'' [])
      else Inr (None, hr_headers r))"

definition rate_limit_key :: "authenticated_actor option \<Rightarrow> http_request \<Rightarrow> string" where
  "rate_limit_key actor r =
     (let tenant = (case actor of Some a \<Rightarrow> au_tenant_id a
            | None \<Rightarrow> (case header r ''x-tenant-id'' of None \<Rightarrow> ''anonymous'' | Some t \<Rightarrow> t));
          who = (case actor of Some a \<Rightarrow> Some (au_actor_id a) | None \<Rightarrow> header r ''x-actor-id'');
          client = (case hr_client_host r of None \<Rightarrow> ''unknown'' | Some h \<Rightarrow> h)
      in tenant @ '':'' @ (if falsy who then client else the who) @ '':'' @ hr_path r)"

text \<open>
  The decision of the shared limiter, when there is one; the local limiter stands in for a failing
  one unless Redis is required.
\<close>

definition limit_decision ::
  "runtime_controls \<Rightarrow> (string \<Rightarrow> rate_limit_result result) option \<Rightarrow> datetime \<Rightarrow> string \<Rightarrow>
    (string, datetime list) dict \<Rightarrow> rate_limit_result option \<times> (string, datetime list) dict" where
  "limit_decision c shared now key requests =
     (let local_check = (let (d, requests') = limiter_check (ctl_api_rate_limit c)
            (td_seconds (ctl_api_rate_limit_window_seconds c)) now key requests in (Some d, requests'))
      in case shared of
           None \<Rightarrow> local_check
         | Some check \<Rightarrow> (case check key of
             Inr d \<Rightarrow> (Some d, requests)
           | Inl _ \<Rightarrow> if ctl_rate_limit_redis_required c then (None, requests) else local_check))"

definition enforce_rate_limit ::
  "(string \<Rightarrow> authenticated_actor result) \<Rightarrow> runtime_controls \<Rightarrow> (string \<Rightarrow> rate_limit_result result) option \<Rightarrow>
    datetime \<Rightarrow> http_request \<Rightarrow> (string, datetime list) dict \<Rightarrow>
    gateway_result \<times> (string, datetime list) dict" where
  "enforce_rate_limit validate c shared now r requests =
     (case authenticate validate (ctl_require_oidc c) r of
        Inl answer \<Rightarrow> (answer, requests)
      | Inr (actor, headers) \<Rightarrow>
          let (decision, requests') = limit_decision c shared now (rate_limit_key actor r) requests
          in case decision of
               None \<Rightarrow> (Answer 503 ''rate limit service unavailable'' [], requests')
             | Some d \<Rightarrow>
                 if \<not> is_health_check r \<and> \<not> rl_allowed d
                 then (Answer 429 ''rate limit exceeded''
                   [(''Retry-After'', string_of_int (rl_retry_after_seconds d)),
                    (''X-RateLimit-Limit'', string_of_int (rl_limit d)), (''X-RateLimit-Remaining'', ''0'')], requests')
                 else (Forward headers actor (if is_health_check r then [] else
                   [(''X-RateLimit-Limit'', string_of_int (rl_limit d)),
                    (''X-RateLimit-Remaining'', string_of_int (rl_remaining d))]), requests'))"

section \<open>Lemmas\<close>

lemma validated_claims:
  assumes "validate_bearer_token getenv decode text token = Inr a"
  shows "\<exists>url issuer audience claims actor tenant role.
    getenv ''OIDC_JWKS_URL'' = Some url \<and> getenv ''OIDC_ISSUER'' = Some issuer \<and>
    getenv ''OIDC_AUDIENCE'' = Some audience \<and> decode url issuer audience token = Inr claims \<and>
    dict_get claims (or_default (getenv ''OIDC_ACTOR_ID_CLAIM'') ''sub'') = Some actor \<and> au_actor_id a = text actor \<and>
    dict_get claims (or_default (getenv ''OIDC_TENANT_ID_CLAIM'') ''tenant_id'') = Some tenant \<and> au_tenant_id a = text tenant \<and>
    dict_get claims (or_default (getenv ''OIDC_ROLE_CLAIM'') ''role'') = Some role \<and> role_of_claim role = Some (au_role a)"
  using assms
  by (auto simp: validate_bearer_token_def falsy_def result_bind_Inr split: if_splits option.splits)

definition values_named :: "string \<Rightarrow> (string \<times> string) list \<Rightarrow> string list" where
  "values_named name headers = map snd (filter (\<lambda>(k, v). py_lower k = name) headers)"

lemma values_named_trusted:
  "values_named ''x-tenant-id'' (trusted_headers a headers) = [au_tenant_id a]"
  "values_named ''x-actor-id'' (trusted_headers a headers) = [au_actor_id a]"
  "values_named ''x-actor-role'' (trusted_headers a headers) = [role_value (au_role a)]"
proof -
  have lower: "py_lower ''x-tenant-id'' = ''x-tenant-id''" "py_lower ''x-actor-id'' = ''x-actor-id''"
    "py_lower ''x-actor-role'' = ''x-actor-role''" by code_simp+
  have none: "filter (\<lambda>(k, v). py_lower k = name) (filter (\<lambda>(k, v). py_lower k \<notin> set identity_headers) headers) = []"
    if "name \<in> set identity_headers" for name using that by (auto simp: filter_empty_conv)
  show "values_named ''x-tenant-id'' (trusted_headers a headers) = [au_tenant_id a]"
    "values_named ''x-actor-id'' (trusted_headers a headers) = [au_actor_id a]"
    "values_named ''x-actor-role'' (trusted_headers a headers) = [role_value (au_role a)]"
    by (simp_all add: values_named_def trusted_headers_def none [of "''x-tenant-id''"] none [of "''x-actor-id''"]
      none [of "''x-actor-role''"] lower identity_headers_def del: filter_filter)
qed

lemma authenticate_answers: "authenticate validate oidc r \<noteq> Inl (Forward headers actor extra)"
  by (auto simp: authenticate_def Let_def split: sum.splits prod.splits if_splits)

lemma authenticated:
  assumes "authenticate validate True r = Inr (actor, headers)"
    and "\<not> (is_health_check r \<or> is_signed_webhook r \<or> is_internal_job r)"
  shows "\<exists>authorization token a. header r ''authorization'' = Some authorization \<and>
    py_lower (fst (partition_space authorization)) = ''bearer'' \<and> snd (partition_space authorization) = token \<and>
    validate token = Inr a \<and> actor = Some a \<and> headers = trusted_headers a (hr_headers r)"
  using assms
  by (auto simp: authenticate_def falsy_def Let_def split: if_splits option.splits sum.splits prod.splits)

section \<open>Properties\<close>


text \<open>Witness: a traveler's token, and a client that also claims to be an administrator.\<close>

definition oidc_settings :: "string \<Rightarrow> string option" where
  "oidc_settings name = (if name \<in> {''OIDC_ISSUER'', ''OIDC_AUDIENCE'', ''OIDC_JWKS_URL''} then Some ''x'' else None)"

definition one_token :: "string \<Rightarrow> string \<Rightarrow> string \<Rightarrow> string \<Rightarrow> json_object result" where
  "one_token url issuer audience token = (if token = ''good'' then Inr
     [(''sub'', JStr ''u''), (''tenant_id'', JStr ''t''), (''role'', JStr ''traveler'')] else Inl (ValueError ''signature''))"

definition claim_text :: "json \<Rightarrow> string" where
  "claim_text v = (case v of JStr s \<Rightarrow> s | _ \<Rightarrow> [])"

definition oidc_controls :: runtime_controls where
  "oidc_controls = \<lparr>ctl_llm_enabled = False, ctl_react_tool_calls_enabled = True,
     ctl_notifications_enabled = True, ctl_approval_actions_enabled = True, ctl_memory_reads_enabled = True,
     ctl_memory_writes_enabled = True, ctl_require_oidc = True, ctl_api_rate_limit = 60,
     ctl_api_rate_limit_window_seconds = 60, ctl_rate_limit_redis_required = False,
     ctl_idempotency_ttl_seconds = 86400, ctl_require_idempotency = False,
     ctl_tenant_automation_enabled = True, ctl_demo_evidence_enabled = True, ctl_retention_days = 90\<rparr>"

definition spoofed_request :: http_request where
  "spoofed_request = \<lparr>hr_path = ''/v1/trips'', hr_headers = [(''x-actor-role'', ''tenant_admin''),
     (''authorization'', ''Bearer good'')], hr_client_host = None\<rparr>"

lemma spoofed_forwarded:
  "case fst (enforce_rate_limit (validate_bearer_token oidc_settings one_token claim_text) oidc_controls None 0
     spoofed_request []) of Forward headers actor extra \<Rightarrow> True | _ \<Rightarrow> False"
  by code_simp


end
