(* ===== verification/NotificationsApi.thy ===== *)
theory NotificationsApi
  imports Approvals
begin

text \<open>
  The notification endpoints of \<^verbatim>\<open>apps/api/main.py\<close>: preview, queue, the scoped lists, the two
  dispatchers, the attempt history and the acknowledgement.
\<close>

definition preview_incident_notification ::
  "'e api_env_scheme \<Rightarrow> request \<Rightarrow> uuid \<Rightarrow> string \<Rightarrow> notification_create act" where
  "preview_incident_notification e rq incident_id channel =
     bindP (require_tenant (rq_tenant_id rq)) (\<lambda>tenant_id.
     bindP (gets (get_incident tenant_id incident_id)) (\<lambda>i. found i ''incident not found'' (\<lambda>i.
     bindP (gets (get_trip tenant_id (inc_trip_id i))) (\<lambda>t. found t ''trip not found'' (\<lambda>t.
     thenP (trip_access e rq t all_trip_roles)
     (let n = \<lparr>nc_incident_id = Some incident_id, nc_traveler_id = trip_traveler_id t, nc_channel = channel,
            nc_recipient_reference = ''traveler:'' @ trip_traveler_id t,
            nc_subject = ''RouteShield travel update: '' @ severity_value (inc_severity i) @ '' risk'',
            nc_body = (case inc_recommendation i of Some r \<Rightarrow> rec_traveler_message r
              | None \<Rightarrow> ''Your travel manager is reviewing a possible disruption. '' @
                  ''No itinerary change has been made.'')\<rparr>
      in if valid_notification_create n then ret n else throw (ValidationError ''NotificationCreate'')))))))"

definition new_notification ::
  "'h host_scheme \<Rightarrow> string \<Rightarrow> notification_create \<Rightarrow> notification_record act" where
  "new_notification h tenant_id p =
     bindP (uuid4 h) (\<lambda>nid. bindP (now_utc h) (\<lambda>next_attempt_at.
     bindP (now_utc h) (\<lambda>created_at. bindP (now_utc h) (\<lambda>updated_at.
       let n = \<lparr>nt_notification_id = nid, nt_tenant_id = tenant_id, nt_incident_id = nc_incident_id p,
             nt_traveler_id = nc_traveler_id p, nt_channel = nc_channel p,
             nt_recipient_reference = nc_recipient_reference p, nt_subject = nc_subject p, nt_body = nc_body p,
             nt_status = NQUEUED, nt_attempt_count = 0, nt_next_attempt_at = next_attempt_at,
             nt_delivered_at = None, nt_acknowledged_at = None, nt_acknowledgement_actor_id = None,
             nt_last_error_code = None, nt_dispatch_claim_id = None, nt_dispatch_claimed_by = None,
             nt_dispatch_claimed_at = None, nt_dispatch_claim_expires_at = None, nt_created_at = created_at,
             nt_updated_at = updated_at\<rparr>
       in if len_between 1 128 tenant_id \<and> valid_notification_create p then ret n
          else throw (ValidationError ''NotificationRecord'')))))"

definition incident_of_notification :: "string \<Rightarrow> uuid option \<Rightarrow> world \<Rightarrow> incident option" where
  "incident_of_notification tenant_id incident_id w = (case incident_id of
     None \<Rightarrow> None | Some iid \<Rightarrow> get_incident tenant_id iid w)"

definition queue_notification ::
  "'e api_env_scheme \<Rightarrow> request \<Rightarrow> notification_create \<Rightarrow> notification_record act" where
  "queue_notification e rq payload =
     thenP (require_role (rq_actor_role rq) [TRAVEL_MANAGER, TENANT_ADMIN])
     (bindP (require_tenant (rq_tenant_id rq)) (\<lambda>tenant_id.
     thenP (case nc_incident_id payload of
         None \<Rightarrow> ret ()
       | Some iid \<Rightarrow> bindP (incident_trip_access e rq tenant_id iid [TRAVEL_MANAGER, TENANT_ADMIN]) (\<lambda>(_, t).
           raise_when (nc_traveler_id payload \<noteq> trip_traveler_id t)
             (HTTPException 422 ''notification traveler does not match incident trip'')))
     (idempotent e tenant_id (rq_idempotency_key rq) ''POST:/v1/notifications''
       (JObj (env_dump e (MNotificationCreate payload))) 201 (\<lambda>n. env_dump e (MNotification n))
       (replay_as e ''NotificationRecord'' (\<lambda>m. case m of MNotification n \<Rightarrow> Some n | _ \<Rightarrow> None))
       (bindP (new_notification e tenant_id payload) (\<lambda>n.
        thenP (modify (save_notification n))
        (bindP (gets (incident_of_notification tenant_id (nt_incident_id n))) (\<lambda>i.
        bindP (event_scope e i) (\<lambda>(trip_id, correlation_id).
        thenP (emit_event e ''notification.queued'' tenant_id trip_id correlation_id (rq_actor_id rq)
                 [(''notification_id'', JStr (str_uuid (nt_notification_id n))),
                  (''channel'', JStr (nt_channel n))])
          (ret n)))))))))"

definition manages_incident_of :: "string \<Rightarrow> string option \<Rightarrow> world \<Rightarrow> notification_record \<Rightarrow> bool" where
  "manages_incident_of tenant_id actor_id w n =
     (case incident_of_notification tenant_id (nt_incident_id n) w of
        None \<Rightarrow> False | Some i \<Rightarrow> manages tenant_id actor_id w (inc_trip_id i))"

definition api_list_notifications ::
  "'e api_env_scheme \<Rightarrow> request \<Rightarrow> notification_status option \<Rightarrow> notification_record list act" where
  "api_list_notifications e rq wanted =
     thenP (require_role (rq_actor_role rq) [TRAVELER, TRAVEL_MANAGER, TENANT_ADMIN])
     (bindP (require_actor_id e (rq_actor_id rq)) (\<lambda>actor_id.
     bindP (require_tenant (rq_tenant_id rq)) (\<lambda>tenant_id.
     bindP (gets (list_notifications tenant_id (map_option (\<lambda>s. {s}) wanted))) (\<lambda>ns.
     if rq_actor_role rq = Some TRAVELER \<and> truthy actor_id
     then ret (filter (\<lambda>n. Some (nt_traveler_id n) = actor_id) ns)
     else if rq_actor_role rq = Some TRAVEL_MANAGER \<and> truthy actor_id
     then gets (\<lambda>w. filter (manages_incident_of tenant_id actor_id w) ns)
     else ret ns))))"

section \<open>Dispatch\<close>

definition deliver_and_log ::
  "'e api_env_scheme \<Rightarrow> string \<Rightarrow> string \<Rightarrow> notification_record \<Rightarrow> notification_record act" where
  "deliver_and_log e tenant_id worker_id n =
     bindP (deliver_notification e in_app_send 5 None n) (\<lambda>outcome.
     bindP (gets (incident_of_notification tenant_id (nt_incident_id outcome))) (\<lambda>i.
     bindP (event_scope e i) (\<lambda>(trip_id, correlation_id).
     thenP (emit_event e (''notification.'' @ notification_status_value (nt_status outcome)) tenant_id trip_id
              correlation_id (Some worker_id)
              [(''notification_id'', JStr (str_uuid (nt_notification_id outcome))),
               (''channel'', JStr (nt_channel outcome)), (''attempt_count'', JInt (nt_attempt_count outcome)),
               (''error_code'', json_opt_str (nt_last_error_code outcome))])
       (ret outcome))))"

definition dispatch_notifications :: "'e api_env_scheme \<Rightarrow> request \<Rightarrow> notification_record list act" where
  "dispatch_notifications e rq =
     thenP (require_role (rq_actor_role rq) [TENANT_ADMIN])
     (bindP (require_tenant (rq_tenant_id rq)) (\<lambda>tenant_id.
     bindP (both_controls e tenant_id NOTIFICATIONS_ENABLED TENANT_AUTOMATION_ENABLED) (\<lambda>enabled.
     thenP (raise_when (\<not> enabled) (HTTPException 503 ''notification delivery automation is disabled''))
     (bindP (require_actor_id e (rq_actor_id rq)) (\<lambda>actor_id.
     let worker_id = (if falsy actor_id then ''tenant-admin-notification-dispatcher'' else the actor_id) in
     bindP (claim_due_notifications e (Some tenant_id) worker_id (td_minutes 5) None 100) (\<lambda>pending.
       for_each pending (deliver_and_log e tenant_id worker_id)))))))"

definition dispatch_one_notification ::
  "'e api_env_scheme \<Rightarrow> notification_record \<Rightarrow> notification_record option act" where
  "dispatch_one_notification e n =
     bindP (both_controls e (nt_tenant_id n) NOTIFICATIONS_ENABLED TENANT_AUTOMATION_ENABLED) (\<lambda>enabled.
     if \<not> enabled then ret None
     else bindP (deliver_and_log e (nt_tenant_id n) ''internal-notification-dispatcher'' n) (\<lambda>outcome. ret (Some outcome)))"

definition dispatch_due_notifications_job :: "'e api_env_scheme \<Rightarrow> notification_record list act" where
  "dispatch_due_notifications_job e =
     bindP (claim_due_notifications e None ''internal-notification-dispatcher'' (td_minutes 5) None 100) (\<lambda>claimed.
     bindP (for_each claimed (dispatch_one_notification e)) (\<lambda>outcomes. ret (List.map_filter id outcomes)))"

section \<open>History and acknowledgement\<close>

definition manager_scope ::
  "'e api_env_scheme \<Rightarrow> request \<Rightarrow> string \<Rightarrow> notification_record \<Rightarrow> unit act" where
  "manager_scope e rq tenant_id n =
     (if rq_actor_role rq = Some TRAVEL_MANAGER
      then case nt_incident_id n of
          None \<Rightarrow> throw (HTTPException 403 ''notification access denied'')
        | Some iid \<Rightarrow> thenP (incident_trip_access e rq tenant_id iid [TRAVEL_MANAGER]) (ret ())
      else ret ())"

definition notification_attempt_history ::
  "'e api_env_scheme \<Rightarrow> request \<Rightarrow> uuid \<Rightarrow> notification_attempt list act" where
  "notification_attempt_history e rq nid =
     thenP (require_role (rq_actor_role rq) [TRAVEL_MANAGER, TENANT_ADMIN])
     (bindP (require_tenant (rq_tenant_id rq)) (\<lambda>tenant_id.
     bindP (gets (get_notification tenant_id nid)) (\<lambda>n. found n ''notification not found'' (\<lambda>n.
     thenP (manager_scope e rq tenant_id n) (gets (list_notification_attempts tenant_id nid))))))"

definition acknowledge_notification ::
  "'e api_env_scheme \<Rightarrow> request \<Rightarrow> uuid \<Rightarrow> string \<Rightarrow> notification_record act" where
  "acknowledge_notification e rq nid actor_id =
     thenP (require_role (rq_actor_role rq) [TRAVELER, TRAVEL_MANAGER, TENANT_ADMIN])
     (bindP (require_actor_matches_payload e (rq_actor_id rq) actor_id) (\<lambda>ack_actor.
     bindP (require_tenant (rq_tenant_id rq)) (\<lambda>tenant_id.
     bindP (gets (get_notification tenant_id nid)) (\<lambda>n. found n ''notification not found'' (\<lambda>n.
     thenP (raise_when (rq_actor_role rq = Some TRAVELER \<and> ack_actor \<noteq> nt_traveler_id n)
              (HTTPException 403 ''notification access denied''))
     (thenP (manager_scope e rq tenant_id n)
     (idempotent e tenant_id (rq_idempotency_key rq) (''POST:/v1/notifications/'' @ str_uuid nid @ ''/acknowledge'')
       (JObj [(''actor_id'', JStr actor_id)]) 200 (\<lambda>n. env_dump e (MNotification n))
       (replay_as e ''NotificationRecord'' (\<lambda>m. case m of MNotification n \<Rightarrow> Some n | _ \<Rightarrow> None))
       (thenP (raise_when (nt_status n \<notin> {NDELIVERED, NACKNOWLEDGED})
                (HTTPException 409 ''notification has not been delivered''))
        (if nt_status n = NDELIVERED
         then bindP (now_utc e) (\<lambda>acknowledged_at.
           let n' = n\<lparr>nt_status := NACKNOWLEDGED, nt_acknowledged_at := Some acknowledged_at,
                 nt_acknowledgement_actor_id := Some ack_actor, nt_updated_at := acknowledged_at\<rparr>
           in thenP (modify (save_notification n')) (ret n'))
         else ret n)))))))))"

end
