(* ===== verification/MemoryApi.thy ===== *)
theory MemoryApi
  imports Trips Idempotency
begin

text \<open>
  Traveler preference memory in \<^verbatim>\<open>apps/api/main.py\<close>: the explicit settings endpoint, the proposal
  that only its traveler can confirm, deletion under legal holds, and the audit trail.
\<close>

definition new_memory_audit ::
  "'h host_scheme \<Rightarrow> string \<Rightarrow> string \<Rightarrow> string \<Rightarrow> uuid option \<Rightarrow> string \<Rightarrow> json_object \<Rightarrow> unit act" where
  "new_memory_audit h tenant_id traveler_id action proposal_id actor_id details =
     bindP (uuid4 h) (\<lambda>aid. bindP (now_utc h) (\<lambda>occurred_at.
       if len_between 1 128 tenant_id \<and> len_between 1 128 traveler_id \<and> length actor_id \<le> 128
       then modify (record_memory_audit
         \<lparr>mau_audit_id = aid, mau_tenant_id = tenant_id, mau_traveler_id = traveler_id, mau_action = action,
          mau_proposal_id = proposal_id, mau_actor_id = Some actor_id, mau_details = details,
          mau_occurred_at = occurred_at\<rparr>)
       else throw (ValidationError ''MemoryAuditEvent'')))"

definition sorted_keys :: "string list \<Rightarrow> json" where
  "sorted_keys ks = JList (map JStr (py_sorted id ks))"

section \<open>Settings\<close>

definition get_preferences ::
  "'e api_env_scheme \<Rightarrow> request \<Rightarrow> string \<Rightarrow> traveler_preference_profile option act" where
  "get_preferences e rq traveler_id =
     bindP (require_tenant (rq_tenant_id rq)) (\<lambda>tenant_id.
     thenP (require_memory_reads_enabled e tenant_id)
     (thenP (require_role (rq_actor_role rq) [TRAVELER, TRAVEL_MANAGER, TENANT_ADMIN])
     (bindP (require_actor_id e (rq_actor_id rq)) (\<lambda>actor_id.
     thenP (raise_when (rq_actor_role rq = Some TRAVELER \<and> truthy actor_id \<and> actor_id \<noteq> Some traveler_id)
              (HTTPException 403 ''preference access denied''))
       (gets (get_profile tenant_id traveler_id))))))"

text \<open>The profile a constructor call with the identity and the consent version alone builds.\<close>

definition default_profile :: "string \<Rightarrow> string \<Rightarrow> string \<Rightarrow> int \<Rightarrow> datetime \<Rightarrow> traveler_preference_profile" where
  "default_profile tenant_id traveler_id consent_version version updated_at =
     \<lparr>prof_tenant_id = tenant_id, prof_traveler_id = traveler_id, prof_preferred_airports = [],
      prof_preferred_carriers = [], prof_cabin_or_seat_preference = None, prof_minimum_connection_minutes = None,
      prof_avoid_overnight_connections = None, prof_approved_ground_transport_preferences = [],
      prof_notification_channel = None, prof_language = ''en'', prof_approved_accessibility_accommodations = [],
      prof_consent_version = consent_version, prof_version = version, prof_updated_at = updated_at\<rparr>"

definition keep :: "'a option \<Rightarrow> 'a \<Rightarrow> 'a" where
  "keep change current = (case change of None \<Rightarrow> current | Some x \<Rightarrow> x)"

definition keep_opt :: "'a option \<Rightarrow> 'a option \<Rightarrow> 'a option" where
  "keep_opt change current = (case change of None \<Rightarrow> current | Some x \<Rightarrow> Some x)"

text \<open>\<^verbatim>\<open>{**baseline, **changed}\<close>, where \<^verbatim>\<open>changed\<close> holds the fields that are not \<^verbatim>\<open>None\<close>.\<close>

definition apply_update ::
  "traveler_preference_update \<Rightarrow> traveler_preference_profile \<Rightarrow> traveler_preference_profile" where
  "apply_update u p = p\<lparr>
     prof_preferred_airports := keep (upd_preferred_airports u) (prof_preferred_airports p),
     prof_preferred_carriers := keep (upd_preferred_carriers u) (prof_preferred_carriers p),
     prof_cabin_or_seat_preference := keep_opt (upd_cabin_or_seat_preference u) (prof_cabin_or_seat_preference p),
     prof_minimum_connection_minutes := keep_opt (upd_minimum_connection_minutes u) (prof_minimum_connection_minutes p),
     prof_avoid_overnight_connections :=
       keep_opt (upd_avoid_overnight_connections u) (prof_avoid_overnight_connections p),
     prof_approved_ground_transport_preferences :=
       keep (upd_approved_ground_transport_preferences u) (prof_approved_ground_transport_preferences p),
     prof_notification_channel := keep_opt (upd_notification_channel u) (prof_notification_channel p),
     prof_language := keep (upd_language u) (prof_language p),
     prof_approved_accessibility_accommodations :=
       keep (upd_approved_accessibility_accommodations u) (prof_approved_accessibility_accommodations p),
     prof_consent_version := upd_consent_version u\<rparr>"

definition changed_fields :: "traveler_preference_update \<Rightarrow> string list" where
  "changed_fields u =
     (if upd_preferred_airports u \<noteq> None then [''preferred_airports''] else []) @
     (if upd_preferred_carriers u \<noteq> None then [''preferred_carriers''] else []) @
     (if upd_cabin_or_seat_preference u \<noteq> None then [''cabin_or_seat_preference''] else []) @
     (if upd_minimum_connection_minutes u \<noteq> None then [''minimum_connection_minutes''] else []) @
     (if upd_avoid_overnight_connections u \<noteq> None then [''avoid_overnight_connections''] else []) @
     (if upd_approved_ground_transport_preferences u \<noteq> None
      then [''approved_ground_transport_preferences''] else []) @
     (if upd_notification_channel u \<noteq> None then [''notification_channel''] else []) @
     (if upd_language u \<noteq> None then [''language''] else []) @
     (if upd_approved_accessibility_accommodations u \<noteq> None
      then [''approved_accessibility_accommodations''] else []) @
     [''consent_version'']"

definition update_preferences ::
  "'e api_env_scheme \<Rightarrow> request \<Rightarrow> string \<Rightarrow> traveler_preference_update \<Rightarrow> traveler_preference_profile act" where
  "update_preferences e rq traveler_id payload =
     thenP (require_role (rq_actor_role rq) [TRAVELER, TENANT_ADMIN])
     (bindP (require_tenant (rq_tenant_id rq)) (\<lambda>tenant_id.
     bindP (require_actor_id e (rq_actor_id rq)) (\<lambda>actor_id.
     thenP (raise_when (rq_actor_role rq = Some TRAVELER \<and> truthy actor_id \<and> actor_id \<noteq> Some traveler_id)
              (HTTPException 403 ''preference access denied''))
     (thenP (require_memory_writes_enabled e tenant_id)
     (idempotent e tenant_id (rq_idempotency_key rq) (''PUT:/v1/travelers/'' @ traveler_id @ ''/preferences'')
       (JObj (env_dump e (MPreferenceUpdate payload))) 200 (\<lambda>p. env_dump e (MProfile p))
       (replay_as e ''TravelerPreferenceProfile'' (\<lambda>m. case m of MProfile p \<Rightarrow> Some p | _ \<Rightarrow> None))
       (bindP (gets (get_profile tenant_id traveler_id)) (\<lambda>existing.
        bindP (now_utc e) (\<lambda>updated_at.
        let version = (case existing of None \<Rightarrow> 1 | Some p \<Rightarrow> prof_version p + 1);
            baseline = (case existing of
              None \<Rightarrow> default_profile tenant_id traveler_id (upd_consent_version payload) version updated_at
            | Some p \<Rightarrow> p\<lparr>prof_version := version, prof_updated_at := updated_at\<rparr>);
            p = apply_update payload baseline in
        thenP (raise_when (\<not> valid_traveler_preference_profile p) (ValidationError ''TravelerPreferenceProfile''))
        (thenP (modify (save_profile p))
        (thenP (new_memory_audit e tenant_id traveler_id ''updated'' None
                 (if falsy actor_id then ''local-compat-settings'' else the actor_id)
                 [(''changed_fields'', sorted_keys (changed_fields payload)),
                  (''previous_version'', json_opt_int (map_option prof_version existing)),
                  (''profile_version'', JInt (prof_version p)), (''source'', JStr ''explicit_settings_api'')])
        (bindP (uuid4 e) (\<lambda>correlation_id.
        thenP (emit_event e ''memory_update.explicit'' tenant_id None correlation_id actor_id
                 [(''traveler_id'', JStr traveler_id), (''profile_version'', JInt (prof_version p))])
          (ret p)))))))))))))"

section \<open>Proposals\<close>

definition create_memory_proposal ::
  "'e api_env_scheme \<Rightarrow> request \<Rightarrow> memory_update_proposal \<Rightarrow> memory_update_proposal act" where
  "create_memory_proposal e rq payload =
     thenP (require_role (rq_actor_role rq) [TRAVEL_MANAGER, TENANT_ADMIN])
     (thenP (require_actor_matches_payload e (rq_actor_id rq) (mp_actor_id payload))
     (bindP (require_tenant (rq_tenant_id rq)) (\<lambda>tenant_id.
     thenP (require_memory_writes_enabled e tenant_id)
     (thenP (raise_when (mp_tenant_id payload \<noteq> tenant_id) (HTTPException 403 ''tenant mismatch''))
     (idempotent e tenant_id (rq_idempotency_key rq) ''POST:/v1/memory/proposals''
       (JObj (env_dump e (MProposal payload))) 201 (\<lambda>p. env_dump e (MProposal p))
       (replay_as e ''MemoryUpdateProposal'' (\<lambda>m. case m of MProposal p \<Rightarrow> Some p | _ \<Rightarrow> None))
       (thenP (modify (save_memory_proposal payload))
       (thenP (new_memory_audit e tenant_id (mp_traveler_id payload) ''proposed'' (Some (mp_proposal_id payload))
                (mp_actor_id payload)
                [(''changed_fields'', sorted_keys (dict_keys (mp_patch payload))),
                 (''consent_required'', JBool (mp_consent_required payload))])
         (ret payload))))))))"

definition patchable_fields :: "string list" where
  "patchable_fields =
     [''preferred_airports'', ''preferred_carriers'', ''cabin_or_seat_preference'', ''minimum_connection_minutes'',
      ''avoid_overnight_connections'', ''approved_ground_transport_preferences'', ''notification_channel'',
      ''language'', ''approved_accessibility_accommodations'', ''consent_version'']"

text \<open>
  The clock is read only for a first profile; an existing one keeps its \<^verbatim>\<open>updated_at\<close>.  The patch is
  validated by pydantic, over the fields of the baseline.
\<close>

definition patched_profile ::
  "'e api_env_scheme \<Rightarrow> string \<Rightarrow> memory_update_proposal \<Rightarrow> traveler_preference_profile option \<Rightarrow>
    traveler_preference_profile act" where
  "patched_profile e tenant_id proposal existing =
     bindP (case existing of
         Some p \<Rightarrow> ret (p\<lparr>prof_version := prof_version p + 1\<rparr>)
       | None \<Rightarrow> bindP (now_utc e) (\<lambda>updated_at.
           ret (default_profile tenant_id (mp_traveler_id proposal) ''pending'' 1 updated_at))) (\<lambda>baseline.
     bindP (lift_result (env_patch_profile e (mp_patch proposal) baseline)) (\<lambda>p.
       if valid_traveler_preference_profile p then ret p
       else throw (ValidationError ''TravelerPreferenceProfile'')))"

definition confirm_memory_proposal ::
  "'e api_env_scheme \<Rightarrow> request \<Rightarrow> uuid \<Rightarrow> string \<Rightarrow> traveler_preference_profile act" where
  "confirm_memory_proposal e rq proposal_id actor_id =
     thenP (require_role (rq_actor_role rq) [TRAVELER])
     (bindP (require_actor_matches_payload e (rq_actor_id rq) actor_id) (\<lambda>confirmed_actor_id.
     bindP (require_tenant (rq_tenant_id rq)) (\<lambda>tenant_id.
     thenP (require_memory_writes_enabled e tenant_id)
     (bindP (gets (get_memory_proposal tenant_id proposal_id)) (\<lambda>pr. found pr ''memory proposal not found'' (\<lambda>pr.
     thenP (raise_when (confirmed_actor_id \<noteq> mp_traveler_id pr) (HTTPException 403 ''consent actor mismatch''))
     (idempotent e tenant_id (rq_idempotency_key rq)
       (''POST:/v1/memory/proposals/'' @ str_uuid proposal_id @ ''/confirm'')
       (JObj [(''actor_id'', JStr actor_id)]) 200 (\<lambda>p. env_dump e (MProfile p))
       (replay_as e ''TravelerPreferenceProfile'' (\<lambda>m. case m of MProfile p \<Rightarrow> Some p | _ \<Rightarrow> None))
       (thenP (raise_when (mp_status pr \<noteq> PENDING_CONFIRMATION) (HTTPException 409 ''proposal is already resolved''))
       (bindP (gets (get_profile tenant_id (mp_traveler_id pr))) (\<lambda>existing.
       thenP (raise_when (\<not> set (dict_keys (mp_patch pr)) \<subseteq> set patchable_fields)
                (HTTPException 422 ''proposal contains restricted fields''))
       (bindP (patched_profile e tenant_id pr existing) (\<lambda>p.
       bindP (now_utc e) (\<lambda>resolved_at.
       thenP (modify (save_profile p))
       (thenP (modify (save_memory_proposal (pr\<lparr>mp_status := PROPOSAL_CONFIRMED, mp_resolved_at := Some resolved_at\<rparr>)))
       (thenP (new_memory_audit e tenant_id (mp_traveler_id pr) ''confirmed'' (Some (mp_proposal_id pr))
                confirmed_actor_id
                [(''changed_fields'', sorted_keys (dict_keys (mp_patch pr))),
                 (''profile_version'', JInt (prof_version p))])
       (bindP (uuid4 e) (\<lambda>trip_id. bindP (uuid4 e) (\<lambda>correlation_id.
       thenP (emit_event e ''memory_update.confirmed'' tenant_id (Some trip_id) correlation_id
                (Some confirmed_actor_id) [])
         (ret p)))))))))))))))))))"

section \<open>Deletion and audit\<close>

definition delete_traveler_memory :: "'e api_env_scheme \<Rightarrow> request \<Rightarrow> string \<Rightarrow> string \<Rightarrow> int act" where
  "delete_traveler_memory e rq traveler_id actor_id =
     thenP (require_role (rq_actor_role rq) [TRAVELER, TENANT_ADMIN])
     (bindP (require_actor_matches_payload e (rq_actor_id rq) actor_id) (\<lambda>deletion_actor_id.
     thenP (raise_when (rq_actor_role rq = Some TRAVELER \<and> deletion_actor_id \<noteq> traveler_id)
              (HTTPException 403 ''memory deletion denied''))
     (bindP (require_tenant (rq_tenant_id rq)) (\<lambda>tenant_id.
     bindP (now_utc e) (\<lambda>timestamp.
     bindP (gets (active_legal_holds_for_traveler tenant_id traveler_id timestamp)) (\<lambda>holds.
     thenP (raise_when (holds \<noteq> []) (HTTPException 423 ''memory deletion is blocked by an active legal hold''))
     (idempotent e tenant_id (rq_idempotency_key rq) (''DELETE:/v1/travelers/'' @ traveler_id @ ''/preferences'')
       (JObj [(''actor_id'', JStr actor_id)]) 204 (\<lambda>_. [])
       (\<lambda>r. ret (case idem_response_status_code r of None \<Rightarrow> 204 | Some c \<Rightarrow> if c = 0 then 204 else c))
       (bindP (repo_delete_traveler_memory tenant_id traveler_id) (\<lambda>deleted.
        thenP (new_memory_audit e tenant_id traveler_id ''deleted'' None deletion_actor_id
                 [(''deleted_record_counts'', JObj (map (\<lambda>(k, n). (k, JInt n)) deleted))])
          (ret 204))))))))))"

definition list_memory_audit ::
  "'e api_env_scheme \<Rightarrow> request \<Rightarrow> string \<Rightarrow> memory_audit_event list act" where
  "list_memory_audit e rq traveler_id =
     bindP (require_tenant (rq_tenant_id rq)) (\<lambda>tenant_id.
     thenP (require_memory_reads_enabled e tenant_id)
     (thenP (require_role (rq_actor_role rq) [TRAVEL_MANAGER, TENANT_ADMIN])
       (gets (repo_list_memory_audit tenant_id (Some traveler_id)))))"

end
