(* ===== verification/PrivacyApi.thy ===== *)
theory PrivacyApi
  imports Trips Idempotency
begin

text \<open>
  The privacy endpoints and jobs of \<^verbatim>\<open>apps/api/main.py\<close>: legal holds, deletion requests and the two
  internal jobs over them.
\<close>

fun hold_scope_value :: "legal_hold_scope \<Rightarrow> string" where
  "hold_scope_value HOLD_TENANT = ''tenant''"
| "hold_scope_value HOLD_TRAVELER = ''traveler''"
| "hold_scope_value HOLD_TRIP = ''trip''"

fun deletion_scope_value :: "deletion_request_scope \<Rightarrow> string" where
  "deletion_scope_value PREFERENCE_MEMORY = ''preference_memory''"
| "deletion_scope_value TRAVELER_DATA = ''traveler_data''"

section \<open>Legal holds\<close>

definition create_legal_hold :: "'e api_env_scheme \<Rightarrow> request \<Rightarrow> legal_hold_record \<Rightarrow> legal_hold_record act" where
  "create_legal_hold e rq payload =
     thenP (require_role (rq_actor_role rq) [TENANT_ADMIN])
     (bindP (require_tenant (rq_tenant_id rq)) (\<lambda>tenant_id.
     thenP (require_actor_matches_payload e (rq_actor_id rq) (lh_created_by payload))
     (thenP (raise_when (lh_tenant_id payload \<noteq> tenant_id) (HTTPException 403 ''tenant mismatch''))
     (idempotent e tenant_id (rq_idempotency_key rq) ''POST:/v1/privacy/legal-holds''
       (JObj (env_dump e (MHold payload))) 201 (\<lambda>h. env_dump e (MHold h))
       (replay_as e ''LegalHoldRecord'' (\<lambda>m. case m of MHold h \<Rightarrow> Some h | _ \<Rightarrow> None))
       (thenP (modify (save_legal_hold payload))
       (bindP (uuid4 e) (\<lambda>correlation_id.
       thenP (emit_event e ''privacy.legal_hold_created'' tenant_id (lh_trip_id payload) correlation_id
                (Some (lh_created_by payload))
                [(''legal_hold_id'', JStr (str_uuid (lh_legal_hold_id payload))),
                 (''scope'', JStr (hold_scope_value (lh_scope payload)))])
         (ret payload))))))))"

definition release_legal_hold :: "'e api_env_scheme \<Rightarrow> request \<Rightarrow> uuid \<Rightarrow> string \<Rightarrow> legal_hold_record act" where
  "release_legal_hold e rq hold_id reason =
     thenP (require_role (rq_actor_role rq) [TENANT_ADMIN])
     (bindP (require_tenant (rq_tenant_id rq)) (\<lambda>tenant_id.
     bindP (require_actor_id e (rq_actor_id rq)) (\<lambda>actor_id.
     thenP (raise_when (falsy actor_id) (HTTPException 401 ''actor required''))
     (bindP (gets (get_legal_hold tenant_id hold_id)) (\<lambda>h. found h ''legal hold not found'' (\<lambda>h.
     idempotent e tenant_id (rq_idempotency_key rq)
       (''POST:/v1/privacy/legal-holds/'' @ str_uuid hold_id @ ''/release'')
       (JObj (env_dump e (MHoldRelease reason))) 200 (\<lambda>h. env_dump e (MHold h))
       (replay_as e ''LegalHoldRecord'' (\<lambda>m. case m of MHold h \<Rightarrow> Some h | _ \<Rightarrow> None))
       (thenP (raise_when (lh_released_at h \<noteq> None) (HTTPException 409 ''legal hold is released''))
       (bindP (now_utc e) (\<lambda>released_at.
       let released = h\<lparr>lh_released_at := Some released_at, lh_released_by := actor_id,
             lh_release_reason := Some reason\<rparr> in
       thenP (modify (save_legal_hold released))
       (bindP (uuid4 e) (\<lambda>correlation_id.
       thenP (emit_event e ''privacy.legal_hold_released'' tenant_id (lh_trip_id released) correlation_id actor_id
                [(''legal_hold_id'', JStr (str_uuid (lh_legal_hold_id released))),
                 (''scope'', JStr (hold_scope_value (lh_scope released)))])
         (ret released))))))))))))"

definition list_legal_holds :: "'e api_env_scheme \<Rightarrow> request \<Rightarrow> legal_hold_record list act" where
  "list_legal_holds e rq =
     thenP (require_role (rq_actor_role rq) [TENANT_ADMIN])
     (bindP (require_tenant (rq_tenant_id rq)) (\<lambda>tenant_id. gets (repo_list_legal_holds tenant_id)))"

section \<open>Deletion requests\<close>

definition create_deletion_request ::
  "'e api_env_scheme \<Rightarrow> request \<Rightarrow> deletion_request \<Rightarrow> deletion_request act" where
  "create_deletion_request e rq payload =
     thenP (require_role (rq_actor_role rq) [TRAVELER, TENANT_ADMIN])
     (bindP (require_tenant (rq_tenant_id rq)) (\<lambda>tenant_id.
     bindP (require_actor_matches_payload e (rq_actor_id rq) (dr_requested_by payload)) (\<lambda>requester.
     thenP (raise_when (dr_tenant_id payload \<noteq> tenant_id) (HTTPException 403 ''tenant mismatch''))
     (thenP (raise_when (rq_actor_role rq = Some TRAVELER \<and> requester \<noteq> dr_traveler_id payload)
              (HTTPException 403 ''deletion request denied''))
     (idempotent e tenant_id (rq_idempotency_key rq) ''POST:/v1/privacy/deletion-requests''
       (JObj (env_dump e (MDeletion payload))) 201 (\<lambda>r. env_dump e (MDeletion r))
       (replay_as e ''DeletionRequest'' (\<lambda>m. case m of MDeletion r \<Rightarrow> Some r | _ \<Rightarrow> None))
       (let r = payload\<lparr>dr_status := DEL_PENDING, dr_completed_at := None, dr_blocked_by_hold_ids := [],
              dr_failure_code := None\<rparr> in
        thenP (modify (save_deletion_request r))
        (bindP (uuid4 e) (\<lambda>correlation_id.
        thenP (emit_event e ''privacy.deletion_requested'' tenant_id None correlation_id (Some requester)
                 [(''deletion_request_id'', JStr (str_uuid (dr_deletion_request_id r))),
                  (''scope'', JStr (deletion_scope_value (dr_scope r)))])
          (ret r)))))))))"

definition list_deletion_requests :: "'e api_env_scheme \<Rightarrow> request \<Rightarrow> deletion_request list act" where
  "list_deletion_requests e rq =
     thenP (require_role (rq_actor_role rq) [TRAVELER, TENANT_ADMIN])
     (bindP (require_tenant (rq_tenant_id rq)) (\<lambda>tenant_id.
     bindP (require_actor_id e (rq_actor_id rq)) (\<lambda>actor_id.
     gets (repo_list_deletion_requests tenant_id (if rq_actor_role rq = Some TRAVELER then actor_id else None)))))"

section \<open>Jobs\<close>

definition counts_json :: "(string, int) dict \<Rightarrow> json" where
  "counts_json d = JObj (map (\<lambda>(k, n). (k, JInt n)) d)"

text \<open>The event is recorded without \<^verbatim>\<open>emit_event\<close>; the repository redacts its details.\<close>

definition run_retention_job :: "'e api_env_scheme \<Rightarrow> (string, int) dict act" where
  "run_retention_job e =
     (let days = ctl_retention_days (env_controls e) in
      bindP (run_retention e days 30 365 None) (\<lambda>deleted.
      bindP (uuid4 e) (\<lambda>correlation_id. bindP (now_utc e) (\<lambda>today.
      bindP (uuid4 e) (\<lambda>event_id. bindP (now_utc e) (\<lambda>emitted_at.
        thenP (modify (record_event
          \<lparr>evt_event_id = event_id, evt_event_type = ''retention.completed'', evt_tenant_id = ''system'',
           evt_trip_id = None, evt_correlation_id = correlation_id,
           evt_idempotency_key = ''retention:'' @ env_isodate e today, evt_emitted_at = emitted_at,
           evt_actor_id = None,
           evt_details = [(''deleted_record_counts'', counts_json deleted), (''retention_days'', JInt days)]\<rparr>))
          (ret deleted)))))))"

definition bump :: "string \<Rightarrow> (string, int) dict \<Rightarrow> (string, int) dict" where
  "bump k d = dict_set k ((case dict_get d k of None \<Rightarrow> 0 | Some n \<Rightarrow> n) + 1) d"

definition report_deletion ::
  "'e api_env_scheme \<Rightarrow> deletion_request \<times> (string, int) dict \<Rightarrow> unit act" where
  "report_deletion e = (\<lambda>(r, deleted).
     bindP (uuid4 e) (\<lambda>correlation_id.
     emit_event e (''privacy.deletion_'' @ deletion_status_value (dr_status r)) (dr_tenant_id r) None correlation_id
       (Some (dr_requested_by r))
       [(''deletion_request_id'', JStr (str_uuid (dr_deletion_request_id r))),
        (''scope'', JStr (deletion_scope_value (dr_scope r))), (''deleted_record_counts'', counts_json deleted)]))"

definition process_privacy_deletion_requests_job :: "'e api_env_scheme \<Rightarrow> (string, int) dict act" where
  "process_privacy_deletion_requests_job e =
     bindP (process_due_deletion_requests e None) (\<lambda>processed.
     thenP (for_each processed (report_deletion e))
       (ret (fold (\<lambda>(r, _). bump (deletion_status_value (dr_status r))) processed
          [(''completed'', 0), (''blocked_by_legal_hold'', 0), (''failed'', 0)])))"

end
