(* ===== verification/Governance.thy ===== *)
theory Governance
  imports Trips Idempotency
begin

text \<open>
  The governance endpoints of \<^verbatim>\<open>apps/api/main.py\<close>: change records, expiring runtime-control
  overrides for a tenant and for the platform, immutable playbooks, and provider onboarding.
\<close>

section \<open>Change and provider records\<close>

definition create_change_record :: "'e api_env_scheme \<Rightarrow> request \<Rightarrow> change_record \<Rightarrow> change_record act" where
  "create_change_record e rq payload =
     thenP (require_role (rq_actor_role rq) [TENANT_ADMIN])
     (thenP (require_actor_matches_payload e (rq_actor_id rq) (cr_requested_by payload))
     (bindP (require_tenant (rq_tenant_id rq)) (\<lambda>tenant_id.
     thenP (raise_when (cr_tenant_id payload \<noteq> tenant_id) (HTTPException 403 ''tenant mismatch''))
     (idempotent e tenant_id (rq_idempotency_key rq) ''POST:/v1/governance/changes''
       (JObj (env_dump e (MChange payload))) 201 (\<lambda>r. env_dump e (MChange r))
       (replay_as e ''ChangeRecord'' (\<lambda>m. case m of MChange r \<Rightarrow> Some r | _ \<Rightarrow> None))
       (thenP (modify (save_change_record payload)) (ret payload))))))"

definition list_change_records :: "'e api_env_scheme \<Rightarrow> request \<Rightarrow> change_record list act" where
  "list_change_records e rq =
     thenP (require_role (rq_actor_role rq) [TENANT_ADMIN])
     (bindP (require_tenant (rq_tenant_id rq)) (\<lambda>tenant_id. gets (repo_list_change_records tenant_id)))"

definition create_provider_onboarding ::
  "'e api_env_scheme \<Rightarrow> request \<Rightarrow> provider_onboarding_record \<Rightarrow> provider_onboarding_record act" where
  "create_provider_onboarding e rq payload =
     thenP (require_role (rq_actor_role rq) [TENANT_ADMIN])
     (thenP (require_actor_matches_payload e (rq_actor_id rq) (po_owner_id payload))
     (bindP (require_tenant (rq_tenant_id rq)) (\<lambda>tenant_id.
     thenP (raise_when (po_tenant_id payload \<noteq> tenant_id) (HTTPException 403 ''tenant mismatch''))
     (idempotent e tenant_id (rq_idempotency_key rq) ''POST:/v1/governance/providers''
       (JObj (env_dump e (MProvider payload))) 201 (\<lambda>r. env_dump e (MProvider r))
       (replay_as e ''ProviderOnboardingRecord'' (\<lambda>m. case m of MProvider r \<Rightarrow> Some r | _ \<Rightarrow> None))
       (thenP (modify (save_provider_onboarding payload)) (ret payload))))))"

definition list_provider_onboarding ::
  "'e api_env_scheme \<Rightarrow> request \<Rightarrow> provider_onboarding_record list act" where
  "list_provider_onboarding e rq =
     thenP (require_role (rq_actor_role rq) [TENANT_ADMIN])
     (bindP (require_tenant (rq_tenant_id rq)) (\<lambda>tenant_id. gets (repo_list_provider_onboarding tenant_id)))"

section \<open>Runtime controls\<close>

text \<open>The clock is read only when the update has an expiry.\<close>

definition require_future_expiry :: "'e api_env_scheme \<Rightarrow> runtime_control_update \<Rightarrow> unit act" where
  "require_future_expiry e u = (case rc_expires_at u of
     None \<Rightarrow> ret ()
   | Some expires_at \<Rightarrow> bindP (now_utc e) (\<lambda>now.
       raise_when (expires_at \<le> now) (HTTPException 422 ''control expiry must be in the future'')))"

definition json_opt_time :: "'e api_env_scheme \<Rightarrow> datetime option \<Rightarrow> json" where
  "json_opt_time e t = (case t of None \<Rightarrow> JNull | Some n \<Rightarrow> JStr (env_isoformat e n))"

definition control_details ::
  "'e api_env_scheme \<Rightarrow> string \<Rightarrow> runtime_control_name \<Rightarrow> bool \<Rightarrow> 'u runtime_control_update_scheme \<Rightarrow> json_object" where
  "control_details e scope name previous_enabled r =
     [(''scope'', JStr scope), (''control_name'', JStr (control_name_value name)), (''reason'', JStr (rc_reason r)),
      (''previous_enabled'', JBool previous_enabled), (''enabled'', JBool (rc_enabled r)),
      (''review_at'', json_opt_time e (rc_review_at r)), (''expires_at'', json_opt_time e (rc_expires_at r))]"

definition set_runtime_control ::
  "'e api_env_scheme \<Rightarrow> request \<Rightarrow> runtime_control_name \<Rightarrow> runtime_control_update \<Rightarrow> runtime_control_change act" where
  "set_runtime_control e rq name payload =
     thenP (require_role (rq_actor_role rq) [TENANT_ADMIN])
     (bindP (require_tenant (rq_tenant_id rq)) (\<lambda>tenant_id.
     thenP (require_future_expiry e payload)
     (bindP (require_actor_id e (rq_actor_id rq)) (\<lambda>actor.
     let actor_id = (if falsy actor then ''local-compat-tenant-admin'' else the actor) in
     bindP (control_enabled e tenant_id name) (\<lambda>previous_enabled.
     idempotent e tenant_id (rq_idempotency_key rq) (''PUT:/v1/governance/runtime-controls/'' @ control_name_value name)
       (JObj (env_dump e (MControlUpdate payload))) 200 (\<lambda>r. env_dump e (MControlChange r))
       (replay_as e ''RuntimeControlChange'' (\<lambda>m. case m of MControlChange r \<Rightarrow> Some r | _ \<Rightarrow> None))
       (bindP (uuid4 e) (\<lambda>change_id. bindP (now_utc e) (\<lambda>changed_at.
        let r = runtime_control_update.extend payload
              \<lparr>rc_control_change_id = change_id, rc_tenant_id = tenant_id, rc_scope = ''tenant'',
               rc_control_name = name, rc_previous_enabled = previous_enabled, rc_actor_id = actor_id,
               rc_changed_at = changed_at\<rparr> in
        thenP (raise_when (\<not> len_between 1 128 tenant_id \<or> \<not> len_between 1 128 actor_id)
                 (ValidationError ''RuntimeControlChange''))
        (thenP (modify (save_runtime_control_change r))
        (bindP (uuid4 e) (\<lambda>correlation_id.
        thenP (emit_event e ''runtime_control.changed'' tenant_id None correlation_id (Some actor_id)
                 (control_details e ''tenant'' name previous_enabled r))
          (ret r))))))))))))"

definition list_runtime_control_changes :: "'e api_env_scheme \<Rightarrow> request \<Rightarrow> runtime_control_change list act" where
  "list_runtime_control_changes e rq =
     thenP (require_role (rq_actor_role rq) [TENANT_ADMIN])
     (bindP (require_tenant (rq_tenant_id rq)) (\<lambda>tenant_id. gets (repo_list_runtime_control_changes tenant_id)))"

definition set_platform_runtime_control ::
  "'e api_env_scheme \<Rightarrow> request \<Rightarrow> runtime_control_name \<Rightarrow> runtime_control_update \<Rightarrow>
    platform_runtime_control_change act" where
  "set_platform_runtime_control e rq name payload =
     thenP (require_role (rq_actor_role rq) [PLATFORM_ADMIN])
     (thenP (require_future_expiry e payload)
     (bindP (require_actor_id e (rq_actor_id rq)) (\<lambda>actor.
     let actor_id = (if falsy actor then ''local-compat-platform-admin'' else the actor) in
     bindP (get_platform_control_override e name) (\<lambda>current.
     let previous_enabled = (case current of Some r \<Rightarrow> rc_enabled r | None \<Rightarrow> default_control_enabled e name) in
     idempotent e ''platform-control-plane'' (rq_idempotency_key rq)
       (''PUT:/v1/platform/runtime-controls/'' @ control_name_value name)
       (JObj (env_dump e (MControlUpdate payload))) 200 (\<lambda>r. env_dump e (MPlatformChange r))
       (replay_as e ''PlatformRuntimeControlChange'' (\<lambda>m. case m of MPlatformChange r \<Rightarrow> Some r | _ \<Rightarrow> None))
       (bindP (uuid4 e) (\<lambda>change_id. bindP (now_utc e) (\<lambda>changed_at.
        let r = runtime_control_update.extend payload
              \<lparr>prc_control_change_id = change_id, prc_scope = ''platform'', prc_control_name = name,
               prc_previous_enabled = previous_enabled, prc_actor_id = actor_id, prc_changed_at = changed_at\<rparr> in
        thenP (raise_when (\<not> len_between 1 128 actor_id) (ValidationError ''PlatformRuntimeControlChange''))
        (thenP (modify (save_platform_control_change r))
        (bindP (uuid4 e) (\<lambda>correlation_id.
        thenP (emit_event e ''platform_runtime_control.changed'' ''platform-control-plane'' None correlation_id
                 (Some actor_id) (control_details e ''platform'' name previous_enabled r))
          (ret r)))))))))))"

definition list_platform_runtime_controls ::
  "'e api_env_scheme \<Rightarrow> request \<Rightarrow> platform_runtime_control_change list act" where
  "list_platform_runtime_controls e rq =
     thenP (require_role (rq_actor_role rq) [PLATFORM_ADMIN]) (gets list_platform_control_changes)"

section \<open>Playbooks\<close>

definition publish_tenant_playbook ::
  "'e api_env_scheme \<Rightarrow> request \<Rightarrow> tenant_playbook_create \<Rightarrow> tenant_playbook act" where
  "publish_tenant_playbook e rq payload =
     (let conflict = HTTPException 409 ''an immutable playbook already exists for this name and version'' in
     thenP (require_role (rq_actor_role rq) [TENANT_ADMIN])
     (bindP (require_tenant (rq_tenant_id rq)) (\<lambda>tenant_id.
     bindP (require_actor_id e (rq_actor_id rq)) (\<lambda>actor_id.
     thenP (raise_when (falsy actor_id) (HTTPException 401 ''an administrator actor identity is required''))
     (let playbook_id = env_uuid5 e (''routeshield:playbook:'' @ tenant_id @ '':'' @ pb_name payload @ '':'' @
            pb_version payload) in
     bindP (gets (get_playbook tenant_id playbook_id)) (\<lambda>existing. case existing of
       Some p \<Rightarrow> thenP (raise_when (pb_guidance p \<noteq> pb_guidance payload) conflict) (ret p)
     | None \<Rightarrow> idempotent e tenant_id (rq_idempotency_key rq) ''POST:/v1/governance/playbooks''
         (JObj (env_dump e (MPlaybookCreate payload))) 201 (\<lambda>p. env_dump e (MPlaybook p))
         (replay_as e ''TenantPlaybook'' (\<lambda>m. case m of MPlaybook p \<Rightarrow> Some p | _ \<Rightarrow> None))
         (bindP (now_utc e) (\<lambda>approved_at.
          let p = tenant_playbook_create.extend payload
                \<lparr>pb_playbook_id = playbook_id, pb_tenant_id = tenant_id, pb_approved_by = the actor_id,
                 pb_approved_at = approved_at\<rparr> in
          thenP (raise_when (\<not> len_between 1 128 tenant_id \<or> \<not> len_between 1 128 (the actor_id))
                   (ValidationError ''TenantPlaybook''))
          (bindP (save_playbook p) (\<lambda>stored.
          thenP (raise_when (pb_guidance stored \<noteq> pb_guidance p) conflict)
          (bindP (uuid4 e) (\<lambda>correlation_id.
          thenP (emit_event e ''playbook.published'' tenant_id None correlation_id actor_id
                   [(''playbook_id'', JStr (str_uuid (pb_playbook_id stored))), (''name'', JStr (pb_name stored)),
                    (''version'', JStr (pb_version stored))])
            (ret stored)))))))))))))"

definition list_tenant_playbooks :: "'e api_env_scheme \<Rightarrow> request \<Rightarrow> tenant_playbook list act" where
  "list_tenant_playbooks e rq =
     thenP (require_role (rq_actor_role rq) staff_roles)
     (bindP (require_tenant (rq_tenant_id rq)) (\<lambda>tenant_id. gets (list_approved_playbooks tenant_id)))"

end
