(* ===== verification/Csv.thy ===== *)
theory Csv
  imports Models
begin

text \<open>
  \<^verbatim>\<open>parse_csv_rows\<close> of \<^verbatim>\<open>apps/api/ingestion.py\<close>, with the part of the standard \<^verbatim>\<open>csv\<close> module it
  uses: the reader of the excel dialect (comma, double quote, doubled quotes, not strict) over the
  lines of a \<^verbatim>\<open>StringIO\<close>, and \<^verbatim>\<open>DictReader\<close>.  A line ends after a newline; the reader is told so by
  an end-of-line mark, here \<^const>\<open>None\<close>.
\<close>

section \<open>The reader\<close>

datatype csv_state =
    START_RECORD | START_FIELD | IN_FIELD | IN_QUOTED_FIELD | QUOTE_IN_QUOTED_FIELD | EAT_CRNL

record csv_reader =
  csv_state :: csv_state
  csv_field :: string
  csv_fields :: "string list"

definition csv_fresh :: csv_reader where
  "csv_fresh = \<lparr>csv_state = START_RECORD, csv_field = [], csv_fields = []\<rparr>"

definition save_field :: "csv_state \<Rightarrow> csv_reader \<Rightarrow> csv_reader result" where
  "save_field s r = Inr (r\<lparr>csv_state := s, csv_field := [], csv_fields := csv_fields r @ [csv_field r]\<rparr>)"

definition add_char :: "char \<Rightarrow> csv_state \<Rightarrow> csv_reader \<Rightarrow> csv_reader result" where
  "add_char c s r = (if length (csv_field r) \<ge> 131072
     then Inl (OtherException ''field larger than field limit (131072)'')
     else Inr (r\<lparr>csv_state := s, csv_field := csv_field r @ [c]\<rparr>))"

definition line_end :: "char option \<Rightarrow> bool" where
  "line_end c \<longleftrightarrow> c = None \<or> c = Some CHR 0x0A \<or> c = Some CHR 0x0D"

definition after_end :: "char option \<Rightarrow> csv_state" where
  "after_end c = (if c = None then START_RECORD else EAT_CRNL)"

definition start_field :: "char option \<Rightarrow> csv_reader \<Rightarrow> csv_reader result" where
  "start_field c r =
     (if line_end c then save_field (after_end c) r
      else if c = Some CHR 0x22 then Inr (r\<lparr>csv_state := IN_QUOTED_FIELD\<rparr>)
      else if c = Some CHR '','' then save_field START_FIELD r
      else add_char (the c) IN_FIELD r)"

definition csv_step :: "csv_reader \<Rightarrow> char option \<Rightarrow> csv_reader result" where
  "csv_step r c = (case csv_state r of
     START_RECORD \<Rightarrow>
       if c = None then Inr r
       else if line_end c then Inr (r\<lparr>csv_state := EAT_CRNL\<rparr>)
       else start_field c (r\<lparr>csv_state := START_FIELD\<rparr>)
   | START_FIELD \<Rightarrow> start_field c r
   | IN_FIELD \<Rightarrow>
       if line_end c then save_field (after_end c) r
       else if c = Some CHR '','' then save_field START_FIELD r
       else add_char (the c) IN_FIELD r
   | IN_QUOTED_FIELD \<Rightarrow>
       if c = None then Inr r
       else if c = Some CHR 0x22 then Inr (r\<lparr>csv_state := QUOTE_IN_QUOTED_FIELD\<rparr>)
       else add_char (the c) IN_QUOTED_FIELD r
   | QUOTE_IN_QUOTED_FIELD \<Rightarrow>
       if c = Some CHR 0x22 then add_char CHR 0x22 IN_QUOTED_FIELD r
       else if c = Some CHR '','' then save_field START_FIELD r
       else if line_end c then save_field (after_end c) r
       else add_char (the c) IN_FIELD r
   | EAT_CRNL \<Rightarrow>
       if c = None then Inr (r\<lparr>csv_state := START_RECORD\<rparr>)
       else if line_end c then Inr r
       else Inl (OtherException ''new-line character seen in unquoted field''))"

text \<open>A mark after every newline, and one after a last line without it.\<close>

fun csv_marks :: "string \<Rightarrow> char option list" where
  "csv_marks [] = []"
| "csv_marks [c] = [Some c, None]"
| "csv_marks (c # d # cs) = (if c = CHR 0x0A then [Some c, None] else [Some c]) @ csv_marks (d # cs)"

text \<open>A record is complete when a line ends at the start of a record; a quoted field may span lines.\<close>

fun csv_records :: "csv_reader \<Rightarrow> char option list \<Rightarrow> string list list result" where
  "csv_records r [] = Inr (if csv_field r \<noteq> [] \<or> csv_state r = IN_QUOTED_FIELD
     then [csv_fields r @ [csv_field r]] else [])"
| "csv_records r (c # cs) = result_bind (csv_step r c) (\<lambda>r'.
     if c = None \<and> csv_state r' = START_RECORD
     then result_bind (csv_records csv_fresh cs) (\<lambda>rows. Inr (csv_fields r' # rows))
     else csv_records r' cs)"

definition csv_reader_rows :: "string \<Rightarrow> string list list result" where
  "csv_reader_rows content = csv_records csv_fresh (csv_marks content)"

section \<open>\<open>DictReader\<close>\<close>

text \<open>A row: the named columns in order, \<^const>\<open>None\<close> where the row is short, and the fields beyond.\<close>

record csv_row =
  row_columns :: "(string, string option) dict"
  row_extra :: "string list"

definition dict_row :: "string list \<Rightarrow> string list \<Rightarrow> csv_row" where
  "dict_row fieldnames row = \<lparr>row_columns =
     fold (\<lambda>k. dict_set k None) (drop (length row) fieldnames)
       (fold (\<lambda>(k, v). dict_set k (Some v)) (zip fieldnames row) []),
     row_extra = drop (length fieldnames) row\<rparr>"

definition dict_reader :: "string \<Rightarrow> csv_row list result" where
  "dict_reader content = result_bind (csv_reader_rows content) (\<lambda>rows. Inr (case rows of
     [] \<Rightarrow> [] | fieldnames # rest \<Rightarrow> map (dict_row fieldnames) (filter (\<lambda>row. row \<noteq> []) rest)))"

section \<open>\<open>parse_csv_rows\<close>\<close>

definition REQUIRED_CSV_COLUMNS :: "string list" where
  "REQUIRED_CSV_COLUMNS = [''tenant_id'', ''traveler_id'', ''segment_id'', ''carrier_code'', ''flight_number'']"

definition formula_like :: "string option \<Rightarrow> bool" where
  "formula_like v = (case v of Some (c # _) \<Rightarrow> c \<in> {CHR ''='', CHR ''+'', CHR ''-'', CHR ''@''} | _ \<Rightarrow> False)"

text \<open>
  The scan for formulas stops at the first one; the list of fields beyond the header has no
  \<^verbatim>\<open>startswith\<close>, and is the last value of its row.
\<close>

fun formula_scan :: "csv_row list \<Rightarrow> bool result" where
  "formula_scan [] = Inr False"
| "formula_scan (row # rows) =
     (if list_ex formula_like (dict_values (row_columns row)) then Inr True
      else if row_extra row \<noteq> [] then Inl (OtherException ''AttributeError'')
      else formula_scan rows)"

definition parse_csv_rows :: "string \<Rightarrow> int \<Rightarrow> csv_row list result" where
  "parse_csv_rows content max_rows =
     result_bind (dict_reader content) (\<lambda>rows.
       if rows = [] \<or> \<not> set REQUIRED_CSV_COLUMNS \<subseteq> set (dict_keys (row_columns (hd rows)))
       then Inl (ValueError ''CSV is missing required itinerary columns'')
       else if int (length rows) > max_rows then Inl (ValueError ''CSV exceeds row limit'')
       else result_bind (formula_scan rows) (\<lambda>found.
         if found then Inl (ValueError ''CSV formula-like values are not accepted'') else Inr rows))"

end
