(* ===== verification/Ingest.thy ===== *)
theory Ingest
  imports AssessTrip Csv
begin

text \<open>
  The two import endpoints of \<^verbatim>\<open>apps/api/main.py\<close>: the quarantined CSV upload and the signed booking
  webhook.  A body is the text whose UTF-8 encoding was received.
\<close>

section \<open>CSV import\<close>

definition utf8_length :: "string \<Rightarrow> int" where
  "utf8_length s = sum_list (map (\<lambda>c. if of_char c < (128 :: nat) then 1 else 2) s)"

fun upload_status_value :: "original_upload_status \<Rightarrow> string" where
  "upload_status_value QUARANTINED = ''quarantined''"
| "upload_status_value UPLOAD_VALIDATED = ''validated''"
| "upload_status_value UPLOAD_REJECTED = ''rejected''"

definition new_csv_upload ::
  "'h host_scheme \<Rightarrow> uuid \<Rightarrow> string \<Rightarrow> string \<Rightarrow> string \<Rightarrow> string \<Rightarrow> original_upload_record act" where
  "new_csv_upload h upload_id tenant_id object_key stored_sha256 content =
     bindP (now_utc h) (\<lambda>created_at.
       let u = \<lparr>up_original_upload_id = upload_id, up_tenant_id = tenant_id, up_source = ''csv'',
             up_object_key = object_key, up_content_sha256 = stored_sha256,
             up_content_size_bytes = utf8_length content, up_content_type = ''text/csv'',
             up_status = QUARANTINED, up_validation_errors = [], up_created_at = created_at,
             up_validated_at = None\<rparr>
       in if valid_original_upload_record u then ret u else throw (ValidationError ''OriginalUploadRecord''))"

definition reject_upload :: "original_upload_record \<Rightarrow> string \<Rightarrow> exn \<Rightarrow> 'a act" where
  "reject_upload u reason x =
     thenP (modify (save_original_upload (u\<lparr>up_status := UPLOAD_REJECTED, up_validation_errors := [reason]\<rparr>)))
       (throw x)"

definition parsed_rows :: "original_upload_record \<Rightarrow> string \<Rightarrow> csv_row list act" where
  "parsed_rows u content = (case parse_csv_rows content 1000 of
     Inr rows \<Rightarrow> ret rows
   | Inl (ValueError reason) \<Rightarrow> reject_upload u reason (HTTPException 422 reason)
   | Inl x \<Rightarrow> throw x)"

definition import_csv :: "'e api_env_scheme \<Rightarrow> string \<Rightarrow> string \<Rightarrow> json_object act" where
  "import_csv e tenant_id content =
     bindP (uuid4 e) (\<lambda>upload_id.
     bindP (upload_put (env_sha256 e) tenant_id upload_id content) (\<lambda>(object_key, stored_sha256).
     bindP (new_csv_upload e upload_id tenant_id object_key stored_sha256 content) (\<lambda>u.
     thenP (modify (save_original_upload u))
     (bindP (parsed_rows u content) (\<lambda>rows.
     thenP (if list_ex (\<lambda>row. dict_get (row_columns row) ''tenant_id'' \<noteq> Some (Some tenant_id)) rows
            then reject_upload u ''tenant mismatch'' (HTTPException 403 ''tenant mismatch'') else ret ())
     (bindP (now_utc e) (\<lambda>validated_at.
     let u' = u\<lparr>up_status := UPLOAD_VALIDATED, up_validated_at := Some validated_at\<rparr> in
     thenP (modify (save_original_upload u'))
       (ret [(''validated_rows'', JInt (int (length rows))),
             (''original_upload_id'', JStr (str_uuid (up_original_upload_id u'))),
             (''status'', JStr (upload_status_value (up_status u')))]))))))))"

definition validate_trip_csv :: "'e api_env_scheme \<Rightarrow> request \<Rightarrow> string \<Rightarrow> json_object act" where
  "validate_trip_csv e rq content =
     thenP (require_role (rq_actor_role rq) [TRAVEL_MANAGER, TENANT_ADMIN])
     (bindP (require_tenant (rq_tenant_id rq)) (\<lambda>tenant_id.
     idempotent e tenant_id (rq_idempotency_key rq) ''POST:/v1/trips/import/csv''
       (JObj [(''content_sha256'', JStr (env_sha256 e content))]) 200 id
       (\<lambda>r. ret (or_empty (idem_response_payload r)))
       (import_csv e tenant_id content)))"

section \<open>Booking webhook\<close>

definition unprocessable :: "'a result \<Rightarrow> 'a act" where
  "unprocessable r = (case r of
     Inr x \<Rightarrow> ret x
   | Inl (ValueError reason) \<Rightarrow> throw (HTTPException 422 reason)
   | Inl x \<Rightarrow> throw x)"

text \<open>The itinerary an event carries, checked against the tenant of the event.\<close>

definition webhook_trip_payload :: "'e api_env_scheme \<Rightarrow> booking_webhook_event \<Rightarrow> trip_create act" where
  "webhook_trip_payload e ev = (case get_or (bw_data ev) ''trip'' JNull of
     JObj raw_trip \<Rightarrow>
       (case validate_as e ''TripCreate'' (\<lambda>m. case m of MTripCreate t \<Rightarrow> Some t | _ \<Rightarrow> None) raw_trip of
          Inl _ \<Rightarrow> throw (HTTPException 422 (bw_event_type ev @ '' trip is invalid''))
        | Inr t \<Rightarrow>
            if trip_tenant_id t \<noteq> bw_tenant_id ev then throw (HTTPException 403 ''tenant mismatch'') else ret t)
   | _ \<Rightarrow> throw (HTTPException 422 (bw_event_type ev @ '' requires a trip object'')))"

definition webhook_existing_trip :: "booking_webhook_event \<Rightarrow> world \<Rightarrow> trip option" where
  "webhook_existing_trip ev w = (case bw_trip_id ev of
     None \<Rightarrow> None | Some trip_id \<Rightarrow> get_trip (bw_tenant_id ev) trip_id w)"

definition upsert_target :: "'e api_env_scheme \<Rightarrow> booking_webhook_event \<Rightarrow> (trip option \<times> string option) act" where
  "upsert_target e ev =
     bindP (webhook_trip_payload e ev) (\<lambda>payload.
     bindP (gets (webhook_existing_trip ev)) (\<lambda>existing.
     thenP (raise_when (bw_event_type ev = ''itinerary.updated'' \<and> bw_trip_id ev = None)
              (HTTPException 422 ''itinerary.updated requires trip_id''))
     (thenP (raise_when (bw_event_type ev = ''itinerary.updated'' \<and> existing = None)
              (HTTPException 404 ''trip not found''))
     (bindP (case bw_trip_id ev of Some trip_id \<Rightarrow> ret trip_id | None \<Rightarrow> uuid4 e) (\<lambda>trip_id.
     bindP (case existing of Some t \<Rightarrow> ret (trip_created_at t) | None \<Rightarrow> now_utc e) (\<lambda>created_at.
     let t = trip_create.extend payload
           \<lparr>trip_trip_id = trip_id, trip_status = TRIP_ACTIVE, trip_created_at = created_at\<rparr> in
     thenP (raise_when (\<not> valid_trip_create t) (ValidationError ''Trip''))
       (ret (Some t, Some (if existing = None then ''itinerary_created'' else ''itinerary_updated'')))))))))"

definition cancel_target :: "booking_webhook_event \<Rightarrow> (trip option \<times> string option) act" where
  "cancel_target ev =
     thenP (raise_when (bw_trip_id ev = None) (HTTPException 422 ''itinerary.cancelled requires trip_id''))
     (bindP (gets (webhook_existing_trip ev)) (\<lambda>existing. found existing ''trip not found'' (\<lambda>t.
       ret (Some (t\<lparr>trip_status := TRIP_CANCELLED\<rparr>), Some ''itinerary_cancelled''))))"

definition webhook_target :: "'e api_env_scheme \<Rightarrow> booking_webhook_event \<Rightarrow> (trip option \<times> string option) act" where
  "webhook_target e ev =
     (if bw_event_type ev \<in> {''itinerary.upsert'', ''itinerary.updated''} then upsert_target e ev
      else if bw_event_type ev = ''itinerary.cancelled'' then cancel_target ev
      else ret (None, None))"

definition cancellation_evidence :: "'h host_scheme \<Rightarrow> string \<Rightarrow> evidence_envelope act" where
  "cancellation_evidence h message_id =
     bindP (uuid4 h) (\<lambda>eid. bindP (now_utc h) (\<lambda>retrieved. bindP (now_utc h) (\<lambda>now. ret
       \<lparr>ev_evidence_id = eid, ev_source_name = ''booking-webhook'', ev_source_type = ''flight_status'',
        ev_source_url_or_record_id = ''booking-webhook:'' @ message_id, ev_retrieved_at = retrieved,
        ev_observed_at = None, ev_expires_at = now + td_minutes 15, ev_freshness_status = FRESH,
        ev_normalized_payload = [(''risk_score'', JInt 100), (''booking_status'', JStr ''cancelled'')],
        ev_raw_payload_reference = None, ev_provider_latency_ms = None, ev_provider_request_id = None,
        ev_error_code = None\<rparr>)))"

text \<open>A new itinerary drops the stored evidence; a cancellation replaces the flight status in it.\<close>

definition apply_change :: "'h host_scheme \<Rightarrow> booking_webhook_event \<Rightarrow> trip \<Rightarrow> string option \<Rightarrow> unit act" where
  "apply_change h ev t change =
     thenP (modify (save_trip t))
     (if change = Some ''itinerary_updated'' then save_evidence (trip_tenant_id t) (trip_trip_id t) []
      else if change = Some ''itinerary_cancelled''
      then bindP (gets (get_evidence (trip_tenant_id t) (trip_trip_id t))) (\<lambda>current.
        bindP (cancellation_evidence h (bw_message_id ev)) (\<lambda>item.
          save_evidence (trip_tenant_id t) (trip_trip_id t)
            (filter (\<lambda>x. ev_source_type x \<noteq> ''flight_status'') current @ [item])))
      else ret ())"

definition webhook_event_record ::
  "'e api_env_scheme \<Rightarrow> booking_webhook_event \<Rightarrow> string \<Rightarrow> uuid option \<Rightarrow> string option \<Rightarrow> event_record act" where
  "webhook_event_record e ev key trip_id change =
     bindP (uuid4 e) (\<lambda>correlation_id. bindP (uuid4 e) (\<lambda>event_id. bindP (now_utc e) (\<lambda>emitted_at.
       let r = \<lparr>evt_event_id = event_id, evt_event_type = ''booking_webhook.'' @ bw_event_type ev,
             evt_tenant_id = bw_tenant_id ev, evt_trip_id = trip_id, evt_correlation_id = correlation_id,
             evt_idempotency_key = key, evt_emitted_at = emitted_at, evt_actor_id = None,
             evt_details = [(''message_id'', JStr (bw_message_id ev)),
               (''occurred_at'', JStr (env_departure_iso e (bw_occurred_at ev))),
               (''payload_keys'', JList (map JStr (py_sorted id (dict_keys (bw_data ev))))),
               (''material_change'', json_opt_str change)]\<rparr>
       in thenP (modify (record_event r)) (ret r))))"

definition webhook_work ::
  "'e assess_env_scheme \<Rightarrow> booking_webhook_event \<Rightarrow> string \<Rightarrow> trip option \<Rightarrow> string option \<Rightarrow> json_object act" where
  "webhook_work e ev key target change =
     bindP (webhook_event_record e ev key (case target of None \<Rightarrow> bw_trip_id ev | Some t \<Rightarrow> Some (trip_trip_id t)) change)
       (\<lambda>event.
     bindP (case target of
         None \<Rightarrow> ret JNull
       | Some t \<Rightarrow> thenP (apply_change e ev t change)
           (bindP (assess_trip e (system_request (trip_tenant_id t) ''booking-webhook'' (key @ '':assessment''))
                     (trip_trip_id t) None) (\<lambda>r.
             ret (JStr (str_uuid (ra_assessment_id (ar_assessment r))))))) (\<lambda>assessment_id.
     ret [(''status'', JStr ''accepted''), (''message_id'', JStr (bw_message_id ev)),
          (''event_id'', JStr (str_uuid (evt_event_id event))),
          (''trip_id'', json_opt_uuid (map_option trip_trip_id target)), (''assessment_id'', assessment_id),
          (''material_change'', json_opt_str change)]))"

text \<open>
  The clock of the timestamp window is read before the timestamp is parsed; the code reads it after,
  so a request with a malformed timestamp makes one reading less.
\<close>

definition booking_webhook ::
  "'e assess_env_scheme \<Rightarrow> string \<Rightarrow> string option \<Rightarrow> string option \<Rightarrow> string option \<Rightarrow> json_object act" where
  "booking_webhook e body x_signature x_timestamp x_tenant_id =
     (let secret = env_getenv e ''BOOKING_WEBHOOK_SECRET'' in
      thenP (raise_when (falsy secret \<or> falsy x_signature \<or> falsy x_timestamp)
               (HTTPException 401 ''invalid webhook credentials''))
      (thenP (raise_when
          (\<not> verify_webhook_signature (env_hmac_sha256 e) body (the x_signature) (the secret) x_timestamp)
          (HTTPException 401 ''invalid webhook signature''))
      (bindP (now_utc e) (\<lambda>now.
      bindP (unprocessable (parse_webhook_timestamp (env_fromisoformat e) (td_minutes 5) now (the x_timestamp))) (\<lambda>timestamp.
      bindP (unprocessable (parse_booking_webhook (env_loads e) (env_decode_webhook e) body timestamp (td_minutes 5))) (\<lambda>ev.
      thenP (raise_when (truthy x_tenant_id \<and> x_tenant_id \<noteq> Some (bw_tenant_id ev)) (HTTPException 403 ''tenant mismatch''))
      (bindP (webhook_target e ev) (\<lambda>(target, change).
      let key = ''booking-webhook:'' @ bw_message_id ev in
      bindP (claim_mutation e (bw_tenant_id ev) key ''POST:/v1/webhooks/booking'' (JObj (env_dump e (MWebhook ev))))
        (\<lambda>(request_hash, replay). case replay of
          Some r \<Rightarrow> ret (case idem_response_payload r of
              Some payload \<Rightarrow> if payload = [] then [(''status'', JStr ''accepted'')] else payload
            | None \<Rightarrow> [(''status'', JStr ''accepted'')])
        | None \<Rightarrow> bindP (webhook_work e ev key target change) (\<lambda>response.
            thenP (complete_mutation e (bw_tenant_id ev) key request_hash 202 response) (ret response)))))))))))"

end
