(* ===== verification/Operations.thy ===== *)
theory Operations
  imports Selections Decisions NotificationsApi MemoryApi PrivacyApi Governance Ingest
begin

text \<open>
  The service as a state machine: every endpoint and job that writes is one operation, and a run is
  any sequence of operations by anyone, each of which may return or raise.  A relation between
  worlds that every repository write respects is respected by every operation.
\<close>

section \<open>Operations\<close>

datatype trip_operation =
    CreateTrip request trip_create
  | AssignTripManager request uuid string
  | PutEvidence request uuid "evidence_envelope list"
  | ValidateTripCsv request string
  | BookingWebhook string "string option" "string option" "string option"
  | AssessTrip request uuid "demo_scenario option"
  | RefreshIncident request uuid
  | ProcessDueAssessments "datetime option"

datatype recovery_operation =
    CreateCandidateSet request uuid "recovery_candidate list"
  | RecordCandidateOutcome request uuid uuid string recovery_candidate_outcome_update
  | ApproveIncident request uuid approval_request
  | RejectIncident request uuid approval_request
  | DispatchApprovedActions

datatype notification_operation =
    QueueNotification request notification_create
  | DispatchNotifications request
  | DispatchDueNotifications
  | AcknowledgeNotification request uuid string

datatype privacy_operation =
    UpdatePreferences request string traveler_preference_update
  | CreateMemoryProposal request memory_update_proposal
  | ConfirmMemoryProposal request uuid string
  | DeleteTravelerMemory request string string
  | CreateLegalHold request legal_hold_record
  | ReleaseLegalHold request uuid string
  | CreateDeletionRequest request deletion_request
  | RunRetention
  | ProcessDeletionRequests

datatype governance_operation =
    CreateChangeRecord request change_record
  | CreateProviderOnboarding request provider_onboarding_record
  | SetRuntimeControl request runtime_control_name runtime_control_update
  | SetPlatformRuntimeControl request runtime_control_name runtime_control_update
  | PublishTenantPlaybook request tenant_playbook_create
  | AuditRuntimeControls

fun perform_trip :: "assess_env \<Rightarrow> trip_operation \<Rightarrow> world \<Rightarrow> world" where
  "perform_trip e (CreateTrip rq t) w = snd (api_create_trip e rq t w)"
| "perform_trip e (AssignTripManager rq i m) w = snd (assign_trip_manager e rq i m w)"
| "perform_trip e (PutEvidence rq i ev) w = snd (put_evidence e rq i ev w)"
| "perform_trip e (ValidateTripCsv rq content) w = snd (validate_trip_csv e rq content w)"
| "perform_trip e (BookingWebhook body sig ts tenant) w = snd (booking_webhook e body sig ts tenant w)"
| "perform_trip e (AssessTrip rq i scenario) w = snd (assess_trip e rq i scenario w)"
| "perform_trip e (RefreshIncident rq i) w = snd (refresh_incident e rq i w)"
| "perform_trip e (ProcessDueAssessments now) w = snd (process_due_assessments e now w)"

fun perform_recovery :: "assess_env \<Rightarrow> recovery_operation \<Rightarrow> world \<Rightarrow> world" where
  "perform_recovery e (CreateCandidateSet rq i cs) w = snd (create_candidate_set e rq i cs w)"
| "perform_recovery e (RecordCandidateOutcome rq i s c p) w = snd (record_candidate_outcome e rq i s c p w)"
| "perform_recovery e (ApproveIncident rq i p) w = snd (approve_incident e rq i p w)"
| "perform_recovery e (RejectIncident rq i p) w = snd (reject_incident e rq i p w)"
| "perform_recovery e DispatchApprovedActions w = snd (dispatch_approved_actions_job e w)"

fun perform_notification :: "assess_env \<Rightarrow> notification_operation \<Rightarrow> world \<Rightarrow> world" where
  "perform_notification e (QueueNotification rq n) w = snd (queue_notification e rq n w)"
| "perform_notification e (DispatchNotifications rq) w = snd (dispatch_notifications e rq w)"
| "perform_notification e DispatchDueNotifications w = snd (dispatch_due_notifications_job e w)"
| "perform_notification e (AcknowledgeNotification rq n a) w = snd (acknowledge_notification e rq n a w)"

fun perform_privacy :: "assess_env \<Rightarrow> privacy_operation \<Rightarrow> world \<Rightarrow> world" where
  "perform_privacy e (UpdatePreferences rq t u) w = snd (update_preferences e rq t u w)"
| "perform_privacy e (CreateMemoryProposal rq p) w = snd (create_memory_proposal e rq p w)"
| "perform_privacy e (ConfirmMemoryProposal rq p a) w = snd (confirm_memory_proposal e rq p a w)"
| "perform_privacy e (DeleteTravelerMemory rq t a) w = snd (delete_traveler_memory e rq t a w)"
| "perform_privacy e (CreateLegalHold rq h) w = snd (create_legal_hold e rq h w)"
| "perform_privacy e (ReleaseLegalHold rq h r) w = snd (release_legal_hold e rq h r w)"
| "perform_privacy e (CreateDeletionRequest rq r) w = snd (create_deletion_request e rq r w)"
| "perform_privacy e RunRetention w = snd (run_retention_job e w)"
| "perform_privacy e ProcessDeletionRequests w = snd (process_privacy_deletion_requests_job e w)"

fun perform_governance :: "assess_env \<Rightarrow> governance_operation \<Rightarrow> world \<Rightarrow> world" where
  "perform_governance e (CreateChangeRecord rq r) w = snd (create_change_record e rq r w)"
| "perform_governance e (CreateProviderOnboarding rq r) w = snd (create_provider_onboarding e rq r w)"
| "perform_governance e (SetRuntimeControl rq n u) w = snd (set_runtime_control e rq n u w)"
| "perform_governance e (SetPlatformRuntimeControl rq n u) w = snd (set_platform_runtime_control e rq n u w)"
| "perform_governance e (PublishTenantPlaybook rq p) w = snd (publish_tenant_playbook e rq p w)"
| "perform_governance e AuditRuntimeControls w = snd (audit_runtime_controls e w)"

datatype operation =
    TripOperation trip_operation
  | RecoveryOperation recovery_operation
  | NotificationOperation notification_operation
  | PrivacyOperation privacy_operation
  | GovernanceOperation governance_operation

fun perform :: "assess_env \<Rightarrow> operation \<Rightarrow> world \<Rightarrow> world" where
  "perform e (TripOperation x) w = perform_trip e x w"
| "perform e (RecoveryOperation x) w = perform_recovery e x w"
| "perform e (NotificationOperation x) w = perform_notification e x w"
| "perform e (PrivacyOperation x) w = perform_privacy e x w"
| "perform e (GovernanceOperation x) w = perform_governance e x w"

text \<open>The worlds of one process from its empty repository; the environment may change between steps.\<close>

inductive service_run :: "world \<Rightarrow> bool" where
  started: "service_run empty_world"
| operated: "service_run w \<Longrightarrow> service_run (perform e operation w)"

section \<open>The contract of the repository's writes\<close>

text \<open>The operations whose own writes a contract may have to treat apart.\<close>

fun guarded :: "operation \<Rightarrow> bool" where
  "guarded (RecoveryOperation (RecordCandidateOutcome _ _ _ _ _)) = True"
| "guarded (RecoveryOperation (ApproveIncident _ _ _)) = True"
| "guarded (RecoveryOperation (RejectIncident _ _ _)) = True"
| "guarded (PrivacyOperation (UpdatePreferences _ _ _)) = True"
| "guarded (PrivacyOperation (ConfirmMemoryProposal _ _ _)) = True"
| "guarded _ = False"

lemma guarded_cases:
  assumes "guarded operation"
  obtains (outcome) rq i s c p where "operation = RecoveryOperation (RecordCandidateOutcome rq i s c p)"
  | (approve) rq i p where "operation = RecoveryOperation (ApproveIncident rq i p)"
  | (reject) rq i p where "operation = RecoveryOperation (RejectIncident rq i p)"
  | (update) rq tv u where "operation = PrivacyOperation (UpdatePreferences rq tv u)"
  | (confirm) rq pid a where "operation = PrivacyOperation (ConfirmMemoryProposal rq pid a)"
  using assms by (elim guarded.elims) auto

locale service_frame = assessment_frame +
  assumes writes: "R w (save_trip t w)" "R w (repo_create_trip t w)" "R w (save_incident i w)"
      "R w (save_manager_feedback f w)"
      "R w (save_memory_proposal mp w)" "R w (record_memory_audit ma w)" "R w (save_notification n w)"
      "R w (record_notification_attempt na w)" "R w (save_action_dispatch ad w)" "R w (record_action_dispatch_attempt aa w)"
      "R w (save_change_record cr w)" "R w (save_provider_onboarding po w)" "R w (save_runtime_control_change rc w)"
      "R w (save_platform_control_change pc w)" "R w (save_original_upload up w)" "R w (save_legal_hold lh w)"
      "R w (save_deletion_request dr w)" "R w (w\<lparr>w_upload_objects := objects\<rparr>)"
      "R w (w\<lparr>db_tenant_playbooks := dict_set (pb_playbook_id pb) pb (db_tenant_playbooks w)\<rparr>)"
    and erasures: "R w (w\<lparr>db_profiles := dict_pop pk (db_profiles w),
        db_memory_proposals := dict_pop_all ks (db_memory_proposals w)\<rparr>)"
      "R w (erase_rows tn tv trips incidents w)" "R w (purge_rows holds before a b trips incidents w)"
    and deliveries: "moves R (claim_due_notifications (h :: assess_env) tn' wid ttl now limit)"
      "moves R (complete_notification_delivery n att cid)"
      "moves R (claim_due_action_dispatches (h :: assess_env) tn' wid ttl now limit)"
      "moves R (complete_action_dispatch ad aat cid)"
begin

lemmas rules = calm loops tries moves_branches moves_modify writes stored threads erasures deliveries

lemma evidence_saves: "moves R (save_evidence tn i ev)"
  unfolding save_evidence_def by (intro rules)

lemma trip_operations:
  "moves R (api_create_trip e rq t)" "moves R (assign_trip_manager e rq i m)" "moves R (put_evidence e rq i ev)"
  unfolding api_create_trip_def assign_trip_manager_def put_evidence_def Let_def
  by (intro rules evidence_saves)+

lemma fold_moves: "(\<And>x w. R w (g x w)) \<Longrightarrow> moves R (modify (fold g xs))"
proof (rule moves_modify)
  fix w assume step: "\<And>x w. R w (g x w)"
  show "R w (fold g xs w)"
  proof (induction xs arbitrary: w)
    case (Cons x xs)
    show ?case using transpD [OF trans step [of w x] Cons.IH [of "g x w"]] by simp
  qed (use refl in \<open>simp add: reflp_def\<close>)
qed

lemma candidate_operations: "moves R (create_candidate_set e rq i cs)"
  unfolding create_candidate_set_def new_candidate_set_def Let_def by (intro rules)

lemma decision_operations:
  assumes "\<And>ap w. R w (save_approval ap w)"
  shows "moves R (approve_incident e rq i p)" "moves R (reject_incident e rq i p)"
proof -
  have "moves R (decide_incident e i p t)" for t
    unfolding decide_incident_def action_status_for_def new_approval_def queue_action_def new_action_dispatch_def Let_def
    by (intro rules resumptions assms)
  then show "moves R (approve_incident e rq i p)" "moves R (reject_incident e rq i p)"
    unfolding approve_incident_def reject_incident_def by (intro rules | assumption)+
qed

lemma scopes: "moves R (event_scope h i)" "moves R (both_controls e t a b)"
  unfolding event_scope_def both_controls_def by (intro rules)+

lemma now_ors: "moves R (now_or h t)"
  unfolding now_or_def by (intro rules)

lemma action_operations:
  fixes e :: assess_env
  shows "moves R (dispatch_approved_actions_job e)"
  unfolding dispatch_approved_actions_job_def dispatch_one_action_def dispatch_approved_action_def Let_def
  by (intro rules scopes now_ors)

lemma notification_deliveries: "moves R (deliver_and_log e t wid n)"
  unfolding deliver_and_log_def deliver_notification_def Let_def by (intro rules scopes now_ors)

lemma notification_operations:
  fixes e :: assess_env
  shows "moves R (queue_notification e rq n)" "moves R (dispatch_notifications e rq)"
  "moves R (dispatch_due_notifications_job e)" "moves R (acknowledge_notification e rq nid a)"
  unfolding queue_notification_def new_notification_def dispatch_notifications_def dispatch_due_notifications_job_def
    dispatch_one_notification_def acknowledge_notification_def manager_scope_def Let_def
  by (intro rules scopes notification_deliveries)+

lemma memory_parts:
  "moves R (new_memory_audit h t tv a p ac d)" "moves R (require_memory_writes_enabled e t)"
  "moves R (patched_profile e t pr ex)" "moves R (repo_delete_traveler_memory t tv)"
  unfolding new_memory_audit_def require_memory_writes_enabled_def patched_profile_def repo_delete_traveler_memory_def
  by (intro rules)+

lemma memory_operations:
  "moves R (create_memory_proposal e rq mp)" "moves R (delete_traveler_memory e rq tv a)"
  unfolding create_memory_proposal_def delete_traveler_memory_def Let_def
  by (intro rules memory_parts)+

lemma profile_operations:
  assumes "\<And>p w. R w (save_profile p w)"
  shows "moves R (update_preferences e rq tv u)" "moves R (confirm_memory_proposal e rq pid a)"
  unfolding update_preferences_def confirm_memory_proposal_def Let_def
  by (intro rules memory_parts assms)+

lemma retention_works: "moves R (run_retention h a b c now)"
  unfolding run_retention_def purge_expired_def active_holds_def Let_def by (intro rules now_ors)

lemma deletion_works: "moves R (process_due_deletion_requests h now)"
  unfolding process_due_deletion_requests_def process_deletion_request_def erase_traveler_data_def Let_def
  by (intro rules now_ors memory_parts)

lemma privacy_operations:
  "moves R (create_legal_hold e rq lh)" "moves R (release_legal_hold e rq hid r)"
  "moves R (create_deletion_request e rq dr)" "moves R (run_retention_job e)"
  "moves R (process_privacy_deletion_requests_job e)"
  unfolding create_legal_hold_def release_legal_hold_def create_deletion_request_def run_retention_job_def
    process_privacy_deletion_requests_job_def report_deletion_def Let_def
  by (intro rules retention_works deletion_works)+

lemma governance_parts:
  "moves R (require_future_expiry e u)" "moves R (get_platform_control_override e n)" "moves R (save_playbook pb)"
  unfolding require_future_expiry_def get_platform_control_override_def unexpired_def save_playbook_def
  by (intro rules)+

lemma governance_operations:
  "moves R (create_change_record e rq cr)" "moves R (create_provider_onboarding e rq po)"
  "moves R (set_runtime_control e rq n u)" "moves R (set_platform_runtime_control e rq n u)"
  "moves R (publish_tenant_playbook e rq pbc)" "moves R (audit_runtime_controls e)"
  unfolding create_change_record_def create_provider_onboarding_def set_runtime_control_def
    set_platform_runtime_control_def publish_tenant_playbook_def audit_runtime_controls_def Let_def
  by (intro rules governance_parts)+

lemma csv_parts: "moves R (reject_upload u reason x)" "moves R (new_csv_upload h i t k sha content)"
  "moves R (upload_put f t i content)"
  unfolding reject_upload_def new_csv_upload_def upload_put_def Let_def by (intro rules)+

lemma csv_rows: "moves R (parsed_rows u content)"
proof (cases "parse_csv_rows content 1000")
  case (Inl x)
  then show ?thesis by (cases x) (simp_all add: parsed_rows_def csv_parts stays)
qed (simp add: parsed_rows_def stays)

lemma csv_operations: "moves R (validate_trip_csv e rq content)"
  unfolding validate_trip_csv_def import_csv_def Let_def by (intro rules csv_parts csv_rows)

lemma webhook_parsing: "moves R (unprocessable r)"
proof (cases r)
  case (Inl x)
  then show ?thesis by (cases x) (simp_all add: unprocessable_def stays)
qed (simp add: unprocessable_def stays)

lemma webhook_parts: "moves R (webhook_target e ev)" "moves R (apply_change h ev t change)"
  "moves R (webhook_event_record e ev key i change)"
  unfolding webhook_target_def upsert_target_def cancel_target_def webhook_trip_payload_def apply_change_def
    cancellation_evidence_def webhook_event_record_def Let_def
  by (intro rules moves_json evidence_saves)+

lemma webhook_operations: "moves R (booking_webhook e body sig ts tenant)"
  unfolding booking_webhook_def webhook_work_def Let_def
  by (intro rules webhook_parsing webhook_parts claim_mutations complete_mutations assessments)

lemma outcome_operations:
  assumes "\<And>t oc w. R w (repo_record_candidate_outcome t oc w)"
  shows "moves R (record_candidate_outcome e rq i s c p)"
  unfolding record_candidate_outcome_def record_outcome_work_def new_outcome_def outcome_feedback_def
    new_manager_feedback_def Let_def
  by (intro rules fold_moves assms)

text \<open>
  Every operation but those whose writes the contract leaves out: the recording of an outcome, the
  decision of an incident and the two updates of a profile.
\<close>

lemma steps: "moves R m \<Longrightarrow> R w (snd (m w))"
  by (simp add: moves_def)

lemmas operation_steps = trip_operations [THEN steps] csv_operations [THEN steps] webhook_operations [THEN steps]
  assessments [THEN steps] refreshes [THEN steps] due_jobs [THEN steps] candidate_operations [THEN steps]
  action_operations [THEN steps] notification_operations [THEN steps]
  memory_operations [THEN steps] privacy_operations [THEN steps] governance_operations [THEN steps]

lemma group_steps:
  "R w (perform_trip e x1 w)" "R w (perform_notification e x3 w)" "R w (perform_governance e x5 w)"
proof -
  show "R w (perform_trip e x1 w)" by (cases x1) (simp_all add: operation_steps)
  show "R w (perform_notification e x3 w)" by (cases x3) (simp_all add: operation_steps)
  show "R w (perform_governance e x5 w)" by (cases x5) (simp_all add: operation_steps)
qed

lemma operations:
  assumes "\<not> guarded operation"
  shows "R w (perform e operation w)"
proof (cases operation)
  case (RecoveryOperation x)
  with assms show ?thesis by (cases x) (simp_all add: operation_steps)
next
  case (PrivacyOperation x)
  with assms show ?thesis by (cases x) (simp_all add: operation_steps)
qed (simp_all add: group_steps)

end

end
