(* ===== verification/Service.thy ===== *)
theory Service
  imports Operations
begin

text \<open>
  What holds in every world the service reaches: \<open>service_frame\<close> interpreted on the
  well-formedness of the tables and on the outcomes stored, and the invariants of a run.
\<close>

section \<open>Claims and deliveries\<close>

text \<open>
  The claim loop writes back, under their own keys, records of the table it has just read.
\<close>

lemma claim_loop_keeps:
  assumes "\<And>k r n w. (k, r) \<in> set table \<Longrightarrow> P w \<Longrightarrow> P (put k (lease n r) w)"
    and "\<And>w n. P w \<Longrightarrow> P (w\<lparr>run_draws := n\<rparr>)" and "P w"
  shows "P (snd (claim_loop h claimable lease put limit table claimed w))"
  using assms
proof (induction table arbitrary: w claimed)
  case (Cons kr table)
  obtain k r where kr: "kr = (k, r)" by fastforce
  have "P (put k (lease (host_uuid4 h (run_draws w)) r) (w\<lparr>run_draws := Suc (run_draws w)\<rparr>))"
    using Cons.prems kr by simp
  from Cons.IH [OF _ _ this] Cons.IH [OF _ _ Cons.prems(3)] Cons.prems kr show ?case
    by (auto simp: prog_simps)
qed (simp add: ret_app)

section \<open>Well-formed tables\<close>

definition tables_ok :: "world \<Rightarrow> bool" where
  "tables_ok w \<longleftrightarrow> table_ok trip_trip_id (db_trips w) \<and> table_ok inc_incident_id (db_incidents w) \<and>
     table_ok apr_incident_id (db_approvals w) \<and> table_ok (\<lambda>p. (prof_tenant_id p, prof_traveler_id p)) (db_profiles w) \<and>
     table_ok mp_proposal_id (db_memory_proposals w) \<and>
     table_ok (\<lambda>x. cs_candidate_set_id (snd x)) (db_candidate_sets w) \<and>
     table_ok (\<lambda>x. out_outcome_id (snd x)) (db_candidate_outcomes w) \<and>
     table_ok mf_feedback_id (db_manager_feedback w) \<and> table_ok pb_playbook_id (db_tenant_playbooks w) \<and>
     table_ok nt_notification_id (db_notifications w) \<and> table_ok ad_action_dispatch_id (db_action_dispatches w) \<and>
     table_ok cr_change_id (db_change_records w) \<and> table_ok po_provider_onboarding_id (db_provider_onboarding w) \<and>
     table_ok lh_legal_hold_id (db_legal_holds w) \<and> table_ok dr_deletion_request_id (db_deletion_requests w) \<and>
     table_ok (\<lambda>c. (rc_tenant_id c, rc_control_name c)) (db_control_overrides w) \<and>
     table_ok prc_control_name (db_platform_overrides w) \<and> table_ok up_original_upload_id (db_original_uploads w)"

definition keeps_tables :: "world \<Rightarrow> world \<Rightarrow> bool" where
  "keeps_tables w w' \<longleftrightarrow> (tables_ok w \<longrightarrow> tables_ok w')"

lemma table_ok_pop [simp]: "table_ok key d \<Longrightarrow> table_ok key (dict_pop k d)"
  by (auto simp: table_ok_def dict_pop_def dict_wf_def distinct_map_filter_fst)

lemma tables_ok_draws: "tables_ok w \<Longrightarrow> tables_ok (w\<lparr>run_draws := n\<rparr>)"
  by (simp add: tables_ok_def)

lemma now_or_tables:
  assumes "tables_ok w"
  obtains n w' where "now_or h now w = (Inr n, w')" "tables_ok w'"
  using assms by (cases now) (auto simp: now_or_def prog_simps tables_ok_def)

lemma claim_notifications_tables:
  assumes "tables_ok w" "\<And>n r. nt_notification_id (lease n r) = nt_notification_id r"
  shows "tables_ok (snd (claim_loop h claimable lease put_notification limit (db_notifications w) [] w))"
proof (rule claim_loop_keeps [where P = tables_ok, OF _ tables_ok_draws assms(1)])
  fix k r n v assume "(k, r) \<in> set (db_notifications w)" "tables_ok v"
  then show "tables_ok (put_notification k (lease n r) v)"
    using assms by (auto simp: tables_ok_def put_notification_def table_ok_def [where d = "db_notifications w"])
qed

lemma claim_actions_tables:
  assumes "tables_ok w" "\<And>n r. ad_action_dispatch_id (lease n r) = ad_action_dispatch_id r"
  shows "tables_ok (snd (claim_loop h claimable lease put_action limit (db_action_dispatches w) [] w))"
proof (rule claim_loop_keeps [where P = tables_ok, OF _ tables_ok_draws assms(1)])
  fix k r n v assume "(k, r) \<in> set (db_action_dispatches w)" "tables_ok v"
  then show "tables_ok (put_action k (lease n r) v)"
    using assms by (auto simp: tables_ok_def put_action_def table_ok_def [where d = "db_action_dispatches w"])
qed

lemma claim_keeps_tables:
  "moves keeps_tables (claim_due_notifications h t wid ttl now limit)"
  "moves keeps_tables (claim_due_action_dispatches h t wid ttl now limit)"
proof -
  have "tables_ok (snd (claim_due_notifications h t wid ttl now limit w))" if w: "tables_ok w" for w
  proof -
    obtain n w' where n: "now_or h now w = (Inr n, w')" "tables_ok w'" using now_or_tables [OF w] .
    show ?thesis
      by (simp add: claim_due_notifications_def bindP_app gets_app n)
        (rule claim_notifications_tables, rule n(2), simp add: lease_notification_def)
  qed
  then show "moves keeps_tables (claim_due_notifications h t wid ttl now limit)"
    by (simp add: moves_def keeps_tables_def)
  have "tables_ok (snd (claim_due_action_dispatches h t wid ttl now limit w))" if w: "tables_ok w" for w
  proof -
    obtain n w' where n: "now_or h now w = (Inr n, w')" "tables_ok w'" using now_or_tables [OF w] .
    show ?thesis
      by (simp add: claim_due_action_dispatches_def bindP_app gets_app n)
        (rule claim_actions_tables, rule n(2), simp add: lease_action_def)
  qed
  then show "moves keeps_tables (claim_due_action_dispatches h t wid ttl now limit)"
    by (simp add: moves_def keeps_tables_def)
qed

lemma drop_rows_tables:
  "tables_ok w \<Longrightarrow> tables_ok (drop_incident_rows ids w)" "tables_ok w \<Longrightarrow> tables_ok (drop_action_rows ids w)"
  by (simp_all add: tables_ok_def drop_incident_rows_def drop_action_rows_def Let_def)

lemma erase_tables: "tables_ok w \<Longrightarrow> tables_ok (erase_rows t tv trips incidents w)"
  unfolding erase_rows_def Let_def by (intro drop_rows_tables) (auto simp: tables_ok_def drop_incident_rows_def)

lemma purge_tables: "tables_ok w \<Longrightarrow> tables_ok (purge_rows holds before a b trips incidents w)"
proof -
  assume w: "tables_ok w"
  define w2 where "w2 = drop_incident_rows incidents (w\<lparr>db_trips := dict_pop_all trips (db_trips w),
            db_evidence := dict_pop_all trips (db_evidence w),
            db_assessments := dict_pop_all trips (db_assessments w)\<rparr>)"
  have "tables_ok w2" unfolding w2_def by (rule drop_rows_tables) (use w in \<open>simp add: tables_ok_def\<close>)
  then show ?thesis
    unfolding purge_rows_def Let_def w2_def [symmetric]
    by (simp add: tables_ok_def drop_action_rows_def Let_def)
qed

lemma complete_keeps_tables:
  "moves keeps_tables (complete_notification_delivery n att cid)" "moves keeps_tables (complete_action_dispatch ad aat cid)"
  unfolding moves_def keeps_tables_def complete_notification_delivery_def complete_action_dispatch_def
  by (auto simp: prog_simps Let_def tables_ok_def split: option.split)

lemma keeps_tables_quiet: "bookkeeping w w' \<Longrightarrow> keeps_tables w w'"
  by (auto simp: keeps_tables_def bookkeeping_def tables_ok_def)

lemmas write_defs = save_trip_def repo_create_trip_def save_incident_def save_approval_def save_candidate_set_def
  save_manager_feedback_def save_profile_def save_memory_proposal_def record_memory_audit_def save_notification_def
  record_notification_attempt_def save_action_dispatch_def record_action_dispatch_attempt_def save_change_record_def
  save_provider_onboarding_def save_runtime_control_change_def save_platform_control_change_def
  save_original_upload_def save_legal_hold_def save_deletion_request_def repo_record_candidate_outcome_def

lemma table_updates:
  "keeps_tables w (w\<lparr>w_graph_threads := threads\<rparr>)" "keeps_tables w (w\<lparr>pw_cache := cache\<rparr>)"
  "keeps_tables w (w\<lparr>pw_failures := failures\<rparr>)" "keeps_tables w (w\<lparr>db_evidence := evidence\<rparr>)"
  "keeps_tables w (w\<lparr>db_assessments := assessments\<rparr>)" "keeps_tables w (w\<lparr>w_upload_objects := objects\<rparr>)"
  "keeps_tables w (w\<lparr>db_tenant_playbooks := dict_set (pb_playbook_id pb) pb (db_tenant_playbooks w)\<rparr>)"
  "keeps_tables w (w\<lparr>db_profiles := dict_pop pk (db_profiles w),
     db_memory_proposals := dict_pop_all ks (db_memory_proposals w)\<rparr>)"
  by (auto simp: keeps_tables_def tables_ok_def)

lemma trip_writes:
  "keeps_tables w (save_trip t w)" "keeps_tables w (repo_create_trip t w)" "keeps_tables w (save_incident i w)"
  "keeps_tables w (save_approval ap w)" "keeps_tables w (save_candidate_set tn cs w)"
  "keeps_tables w (repo_record_candidate_outcome tn oc w)" "keeps_tables w (save_manager_feedback f w)"
  by (auto simp: keeps_tables_def tables_ok_def write_defs Let_def split: option.split)

lemma outbox_writes:
  "keeps_tables w (save_notification n w)" "keeps_tables w (record_notification_attempt na w)"
  "keeps_tables w (save_action_dispatch ad w)" "keeps_tables w (record_action_dispatch_attempt aa w)"
  "keeps_tables w (save_original_upload up w)"
  by (auto simp: keeps_tables_def tables_ok_def write_defs)

lemma privacy_writes:
  "keeps_tables w (save_profile p w)" "keeps_tables w (save_memory_proposal mp w)"
  "keeps_tables w (record_memory_audit ma w)" "keeps_tables w (save_legal_hold lh w)"
  "keeps_tables w (save_deletion_request dr w)"
  by (auto simp: keeps_tables_def tables_ok_def write_defs)

lemma governance_writes:
  "keeps_tables w (save_change_record cr w)" "keeps_tables w (save_provider_onboarding po w)"
  "keeps_tables w (save_runtime_control_change rc w)" "keeps_tables w (save_platform_control_change pc w)"
  by (auto simp: keeps_tables_def tables_ok_def write_defs)

lemma table_erasures:
  "keeps_tables w (erase_rows t tv trips incidents w)" "keeps_tables w (purge_rows holds before a b trips incidents w)"
  by (simp_all add: keeps_tables_def erase_tables purge_tables)

lemmas table_rules = keeps_tables_quiet claim_keeps_tables complete_keeps_tables table_updates trip_writes
  outbox_writes privacy_writes governance_writes table_erasures

interpretation tabled: service_frame keeps_tables
  by unfold_locales (rule table_rules | simp add: keeps_tables_def reflp_def transp_def)+


section \<open>Stored outcomes\<close>

text \<open>Everything but the recording of an outcome leaves the outcomes stored or removes some.\<close>

definition fewer_outcomes :: "world \<Rightarrow> world \<Rightarrow> bool" where
  "fewer_outcomes w w' \<longleftrightarrow> stored_outcomes w' \<subseteq> stored_outcomes w"

lemma same_outcomes: "db_candidate_outcomes w' = db_candidate_outcomes w \<Longrightarrow> fewer_outcomes w w'"
  by (simp add: fewer_outcomes_def)

lemma filtered_values: "set (dict_values (dict_filter p d)) \<subseteq> set (dict_values d)"
  by (auto simp: dict_values_def dict_filter_def)

text \<open>Claims and completed deliveries change nothing but the two outboxes.\<close>

definition same_but_outboxes :: "world \<Rightarrow> world \<Rightarrow> bool" where
  "same_but_outboxes w w' \<longleftrightarrow> db_candidate_outcomes w' = db_candidate_outcomes w \<and> db_approvals w' = db_approvals w \<and>
     db_profiles w' = db_profiles w \<and> db_trips w' = db_trips w"

lemma claims_in_outboxes:
  "same_but_outboxes w (snd (claim_due_notifications h t wid ttl now limit w))"
  "same_but_outboxes w (snd (claim_due_action_dispatches h t wid ttl now limit w))"
proof -
  obtain n w' where n: "now_or h now w = (Inr n, w')" "same_but_outboxes w w'"
    by (cases now) (auto simp: now_or_def prog_simps same_but_outboxes_def)
  show "same_but_outboxes w (snd (claim_due_notifications h t wid ttl now limit w))"
    by (simp add: claim_due_notifications_def bindP_app gets_app n(1))
      (rule claim_loop_keeps [where P = "same_but_outboxes w", OF _ _ n(2)], simp_all add: put_notification_def same_but_outboxes_def)
  show "same_but_outboxes w (snd (claim_due_action_dispatches h t wid ttl now limit w))"
    by (simp add: claim_due_action_dispatches_def bindP_app gets_app n(1))
      (rule claim_loop_keeps [where P = "same_but_outboxes w", OF _ _ n(2)], simp_all add: put_action_def same_but_outboxes_def)
qed

lemma deliveries_in_outboxes:
  "same_but_outboxes w (snd (complete_notification_delivery n att cid w))"
  "same_but_outboxes w (snd (complete_action_dispatch ad aat cid w))"
  by (auto simp: complete_notification_delivery_def complete_action_dispatch_def prog_simps Let_def same_but_outboxes_def
    split: option.split)

lemma outbox_moves:
  assumes "\<And>w w'. same_but_outboxes w w' \<Longrightarrow> R w w'"
  shows "moves R (claim_due_notifications h t wid ttl now limit)" "moves R (complete_notification_delivery n att cid)"
    "moves R (claim_due_action_dispatches h t wid ttl now limit)" "moves R (complete_action_dispatch ad aat cid)"
  by (simp_all add: moves_def assms claims_in_outboxes deliveries_in_outboxes)

lemma erasures_drop_outcomes:
  "fewer_outcomes w (erase_rows t tv trips incidents w)" "fewer_outcomes w (purge_rows holds before a b trips incidents w)"
  using filtered_values
  by (simp_all add: fewer_outcomes_def erase_rows_def purge_rows_def drop_incident_rows_def drop_action_rows_def Let_def)

lemma quiet_outcomes: "bookkeeping w w' \<Longrightarrow> fewer_outcomes w w'"
  by (rule same_outcomes) (auto simp: bookkeeping_def)

interpretation fewer: service_frame fewer_outcomes
  by unfold_locales (rule erasures_drop_outcomes | rule quiet_outcomes, assumption
    | rule outbox_moves, simp add: same_but_outboxes_def same_outcomes
    | simp add: same_outcomes write_defs Let_def split: option.split
    | (auto simp: fewer_outcomes_def reflp_def transp_def)[1])+

section \<open>Invariants of a run\<close>

lemma tables_step: "tables_ok w \<Longrightarrow> tables_ok (perform e operation w)"
proof -
  note step = tabled.steps [of _ w]
  have "keeps_tables w (perform e operation w)"
  proof (cases "guarded operation")
    case True
    then show ?thesis
      by (cases rule: guarded_cases)
        (simp_all add: step tabled.outcome_operations tabled.decision_operations tabled.profile_operations
          trip_writes privacy_writes)
  qed (rule tabled.operations)
  then show "tables_ok w \<Longrightarrow> tables_ok (perform e operation w)" by (simp add: keeps_tables_def)
qed

lemma recorded_selection:
  assumes "one_selection w"
  shows "one_selection (snd (record_candidate_outcome e rq i set_id cid payload w))"
  using record_step [of w e rq i set_id cid payload]
proof (elim disjE exE conjE)
  assume "grows_by {} w (snd (record_candidate_outcome e rq i set_id cid payload w))"
  then show ?thesis using one_selection_fewer [OF assms] by (simp add: grows_by_def)
qed (rule one_selection_grows [OF assms])

lemma selection_step:
  assumes "one_selection w"
  shows "one_selection (perform e operation w)"
proof -
  have fewer: ?thesis if "fewer_outcomes w (perform e operation w)"
    using that one_selection_fewer [OF assms] by (simp add: fewer_outcomes_def)
  have writes: "fewer_outcomes w (save_approval ap w)" "fewer_outcomes w (save_profile p w)" for w ap p
    by (simp_all add: same_outcomes write_defs)
  note step = fewer.steps [of _ w]
  show ?thesis
  proof (cases "guarded operation")
    case True
    then show ?thesis
    proof (cases rule: guarded_cases)
      case outcome
      then show ?thesis by (simp add: recorded_selection assms)
    qed (rule fewer, simp add: step fewer.decision_operations fewer.profile_operations writes)+
  next
    case False
    then show ?thesis by (intro fewer fewer.operations)
  qed
qed

lemma empty_world_ok: "tables_ok empty_world" "one_selection empty_world"
  by (simp_all add: tables_ok_def one_selection_def empty_world_def table_ok_def dict_wf_def dict_values_def)

lemma run_invariants: "service_run w \<Longrightarrow> tables_ok w \<and> one_selection w"
proof (induction rule: service_run.induct)
  case (operated w e operation)
  then show ?case using tables_step selection_step by blast
qed (simp add: empty_world_ok)

section \<open>Properties\<close>

text \<open>
  C8. Whatever sequence of requests and jobs the service has run since its empty repository, in
  whatever order, by whomever, and whether they returned or failed half-way, its eighteen keyed
  tables hold at most one record per key, each stored under the key it carries, and no recovery
  set has two selected candidates.
\<close>

theorem service_state_is_sound:
  assumes "service_run w"
  shows "tables_ok w \<and> one_selection w"
  by (rule run_invariants [OF assms])

text \<open>Witness: an administrator places a legal hold on a tenant.\<close>

definition sample_service :: assess_env where
  "sample_service = graph_env.extend sample_graph \<lparr>env_replies = (\<lambda>_ _ _. HttpTimeout), env_completion = (\<lambda>_. [])\<rparr>"

definition admin_request :: request where
  "admin_request = \<lparr>rq_tenant_id = Some ''t'', rq_actor_role = Some TENANT_ADMIN, rq_actor_id = Some ''a'',
     rq_idempotency_key = None\<rparr>"

lemma hold_placed:
  "db_legal_holds (perform sample_service (PrivacyOperation (CreateLegalHold admin_request sample_hold)) empty_world)
    = [(3, sample_hold)]"
  by (simp add: create_legal_hold_def admin_request_def sample_service_def graph_env.defs sample_graph_def api_env.defs
    prog_simps require_role_def require_tenant_def require_actor_matches_payload_def require_actor_id_def sample_hold_def
    idempotent_def claim_optional_mutation_def complete_optional_mutation_def falsy_def sample_api_def sample_controls_def
    save_legal_hold_def emit_event_def record_event_def Let_def empty_world_def)

theorem service_state_is_sound_witness:
  "\<exists>w. service_run w \<and> dict_get (db_legal_holds w) 3 = Some sample_hold \<and>
     table_ok lh_legal_hold_id (db_legal_holds w) \<and> one_selection w"
proof -
  let ?w = "perform sample_service (PrivacyOperation (CreateLegalHold admin_request sample_hold)) empty_world"
  have run: "service_run ?w" by (rule operated) (rule started)
  show ?thesis
    using service_state_is_sound [OF run] run hold_placed by (intro exI [of _ ?w]) (simp add: tables_ok_def)
qed

end
