(* ===== verification/Guards.thy ===== *)
theory Guards
  imports Frames
begin

text \<open>
  Triples over computations that may raise, and the guards of a handler: what is known about a
  request once it has passed them, while nothing but the protocol's bookkeeping has been written.
\<close>

section \<open>Triples\<close>

definition triple ::
  "('s \<Rightarrow> bool) \<Rightarrow> ('s, 'a) prog \<Rightarrow> ('a \<Rightarrow> 's \<Rightarrow> bool) \<Rightarrow> ('s \<Rightarrow> bool) \<Rightarrow> bool" where
  "triple P m Q E \<longleftrightarrow> (\<forall>w. P w \<longrightarrow> (case fst (m w) of Inl _ \<Rightarrow> E (snd (m w)) | Inr x \<Rightarrow> Q x (snd (m w))))"

lemma tripleI:
  assumes "\<And>w x w'. P w \<Longrightarrow> m w = (Inl x, w') \<Longrightarrow> E w'" "\<And>w x w'. P w \<Longrightarrow> m w = (Inr x, w') \<Longrightarrow> Q x w'"
  shows "triple P m Q E"
  unfolding triple_def
proof (intro allI impI)
  fix w assume "P w"
  then show "case fst (m w) of Inl _ \<Rightarrow> E (snd (m w)) | Inr x \<Rightarrow> Q x (snd (m w))"
    using assms by (cases "m w"; cases "fst (m w)") auto
qed

lemma tripleD:
  "triple P m Q E \<Longrightarrow> P w \<Longrightarrow> m w = (Inl x, w') \<Longrightarrow> E w'"
  "triple P m Q E \<Longrightarrow> P w \<Longrightarrow> m w = (Inr y, w') \<Longrightarrow> Q y w'"
  unfolding triple_def by force+

lemma triple_state: "triple P m (\<lambda>_. E) E \<Longrightarrow> P w \<Longrightarrow> E (snd (m w))"
  unfolding triple_def by (cases "fst (m w)") force+

lemma triple_ret: "(\<And>w. P w \<Longrightarrow> Q x w) \<Longrightarrow> triple P (ret x) Q E"
  by (simp add: triple_def ret_app)

lemma triple_throw: "(\<And>w. P w \<Longrightarrow> E w) \<Longrightarrow> triple P (throw x) Q E"
  by (simp add: triple_def throw_app)

lemma triple_gets: "(\<And>w. P w \<Longrightarrow> Q (f w) w) \<Longrightarrow> triple P (gets f) Q E"
  by (simp add: triple_def gets_app)

lemma triple_modify: "(\<And>w. P w \<Longrightarrow> Q () (f w)) \<Longrightarrow> triple P (modify f) Q E"
  by (simp add: triple_def modify_app)

lemma triple_bind:
  assumes "triple P m Q' E" "\<And>x. triple (Q' x) (f x) Q E"
  shows "triple P (bindP m f) Q E"
  unfolding triple_def
proof (intro allI impI)
  fix w assume w: "P w"
  obtain r w' where r: "m w = (r, w')" by fastforce
  show "case fst (bindP m f w) of Inl _ \<Rightarrow> E (snd (bindP m f w)) | Inr y \<Rightarrow> Q y (snd (bindP m f w))"
  proof (cases r)
    case (Inl x)
    with tripleD(1) [OF assms(1) w] r show ?thesis by (simp add: bindP_app)
  next
    case (Inr x)
    then have "Q' x w'" using tripleD(2) [OF assms(1) w] r by simp
    moreover have "bindP m f w = f x w'" using Inr r by (simp add: bindP_app)
    ultimately show ?thesis using assms(2) [of x] unfolding triple_def by (simp only: simp_thms)
  qed
qed

lemma triple_then: "triple P m (\<lambda>_. P') E \<Longrightarrow> triple P' k Q E \<Longrightarrow> triple P (thenP m k) Q E"
  unfolding thenP_def by (rule triple_bind)

lemma triple_pure: "(A \<Longrightarrow> triple P m Q E) \<Longrightarrow> triple (\<lambda>w. P w \<and> A) m Q E"
  by (auto simp: triple_def)

lemma triple_weaken: "triple P m Q' E \<Longrightarrow> (\<And>x w. Q' x w \<Longrightarrow> Q x w) \<Longrightarrow> triple P m Q E"
  by (rule tripleI) (blast dest: tripleD)+

lemma triple_yields: "triple P m (\<lambda>_. P') E \<Longrightarrow> yields A m \<Longrightarrow> triple P m (\<lambda>x w. P' w \<and> A x) E"
  unfolding yields_def by (rule tripleI) (blast dest: tripleD)+

section \<open>What the guards tell\<close>

lemma role_yields: "yields (\<lambda>_. r \<in> Some ` set roles) (require_role r roles)"
  by (simp add: yields_def require_role_def raise_when_app)

lemma check_yields: "yields (\<lambda>_. \<not> b) (raise_when b x)"
  by (simp add: yields_def raise_when_app)

lemma tenant_yields: "yields (\<lambda>t. tenant = Some t) (require_tenant tenant)"
  by (cases tenant) (simp_all add: yields_def require_tenant_def throw_app ret_app)

lemma actor_yields:
  "yields (\<lambda>x. x = actor \<and> (ctl_require_oidc (env_controls e) \<longrightarrow> truthy actor)) (require_actor_id e actor)"
  by (auto simp: yields_def require_actor_id_def throw_app ret_app split: if_splits)

text \<open>The actor of the request, if it has one, is the one named; with OIDC required, it has one.\<close>

definition speaks_for :: "'e api_env_scheme \<Rightarrow> string option \<Rightarrow> string \<Rightarrow> bool" where
  "speaks_for e actor named \<longleftrightarrow> (truthy actor \<longrightarrow> actor = Some named) \<and>
     (ctl_require_oidc (env_controls e) \<longrightarrow> truthy actor)"

lemma match_yields:
  "yields (\<lambda>x. x = named \<and> speaks_for e actor named) (require_actor_matches_payload e actor named)"
  by (auto simp: yields_def require_actor_matches_payload_def require_actor_id_def speaks_for_def prog_simps
    split: if_splits)

section \<open>The guards of a handler\<close>

text \<open>\<open>I\<close> holds before a handler's own writes and \<open>E\<close> whenever it stops; bookkeeping keeps both.\<close>

locale guards =
  fixes I E :: "world \<Rightarrow> bool"
  assumes kept: "bookkeeping w w' \<Longrightarrow> I w \<Longrightarrow> I w'" "bookkeeping w w' \<Longrightarrow> E w \<Longrightarrow> E w'"
    and allowed: "I w \<Longrightarrow> E w"

sublocale guards \<subseteq> protocol_frame "\<lambda>w w'. (I w \<longrightarrow> I w') \<and> (E w \<longrightarrow> E w')"
  by unfold_locales (auto simp: reflp_def transp_def intro: kept)

context guards
begin

lemma quietly:
  assumes "moves (\<lambda>w w'. (I w \<longrightarrow> I w') \<and> (E w \<longrightarrow> E w')) m"
  shows "triple I m (\<lambda>_. I) E" "triple E m (\<lambda>_. E) E"
proof -
  have step: "(I w \<longrightarrow> I (snd (m w))) \<and> (E w \<longrightarrow> E (snd (m w)))" for w
    using assms by (simp add: moves_def)
  show "triple I m (\<lambda>_. I) E"
    by (rule tripleI) (use step allowed in \<open>metis snd_conv\<close>)+
  show "triple E m (\<lambda>_. E) E"
    by (rule tripleI) (use step in \<open>metis snd_conv\<close>)+
qed

lemma by_value:
  assumes "moves (\<lambda>w w'. (I w \<longrightarrow> I w') \<and> (E w \<longrightarrow> E w')) m" "yields A m"
    and "\<And>x. A x \<Longrightarrow> triple I (f x) Q E"
  shows "triple I (bindP m f) Q E"
  by (rule triple_bind [OF triple_yields [OF quietly(1) [OF assms(1)] assms(2)]], rule triple_pure, rule assms(3))

lemma after_quiet:
  assumes "moves (\<lambda>w w'. (I w \<longrightarrow> I w') \<and> (E w \<longrightarrow> E w')) m"
  shows "(\<And>x. triple I (f x) Q E) \<Longrightarrow> triple I (bindP m f) Q E"
    and "triple I k Q E \<Longrightarrow> triple I (thenP m k) Q E"
  by (erule triple_bind [OF quietly(1) [OF assms]], erule triple_then [OF quietly(1) [OF assms]])

lemma after_role: "(r \<in> Some ` set allowed_roles \<Longrightarrow> triple I k Q E) \<Longrightarrow>
    triple I (thenP (require_role r allowed_roles) k) Q E"
  unfolding thenP_def by (rule by_value [OF roles role_yields])

lemma after_check: "(\<not> b \<Longrightarrow> triple I k Q E) \<Longrightarrow> triple I (thenP (raise_when b x) k) Q E"
  unfolding thenP_def by (rule by_value [OF stays(5) check_yields])

lemma after_tenant: "(\<And>t. tenant = Some t \<Longrightarrow> triple I (f t) Q E) \<Longrightarrow> triple I (bindP (require_tenant tenant) f) Q E"
  by (rule by_value [OF tenants tenant_yields])

lemma after_actor:
  "((ctl_require_oidc (env_controls e) \<longrightarrow> truthy actor) \<Longrightarrow> triple I (f actor) Q E) \<Longrightarrow>
    triple I (bindP (require_actor_id e actor) f) Q E"
  by (rule by_value [OF actors actor_yields]) simp

lemma after_match:
  "(speaks_for e actor named \<Longrightarrow> triple I (f named) Q E) \<Longrightarrow>
    triple I (bindP (require_actor_matches_payload e actor named) f) Q E"
  by (rule by_value [OF matching_actors match_yields]) simp

lemma then_match:
  "(speaks_for e actor named \<Longrightarrow> triple I k Q E) \<Longrightarrow>
    triple I (thenP (require_actor_matches_payload e actor named) k) Q E"
  unfolding thenP_def by (rule after_match) blast

lemma after_read:
  assumes "\<And>w. I w \<Longrightarrow> f w = x" "triple I (k x) Q E"
  shows "triple I (bindP (gets f) k) Q E"
proof (rule triple_bind [where Q' = "\<lambda>y w. I w \<and> y = x"])
  show "triple I (gets f) (\<lambda>y w. I w \<and> y = x) E" by (rule triple_gets) (simp add: assms(1))
qed (rule triple_pure, simp add: assms(2))

lemma after_found: "(\<And>v. x = Some v \<Longrightarrow> triple I (f v) Q E) \<Longrightarrow> triple I (found x detail f) Q E"
  by (cases x) (simp_all add: triple_throw allowed)

lemma once:
  assumes "\<And>r. moves (\<lambda>w w'. (I w \<longrightarrow> I w') \<and> (E w \<longrightarrow> E w')) (replayed r)" "triple I work (\<lambda>_. E) E"
  shows "triple I (idempotent e t key scope p sc dump replayed work) (\<lambda>_. E) E"
proof -
  have replays: "triple I (replayed r) (\<lambda>_. E) E" for r
    by (rule triple_weaken [OF quietly(1) [OF assms(1)] allowed])
  have finish: "triple E (thenP (complete_optional_mutation e t key h sc (dump x)) (ret x)) (\<lambda>_. E) E" for h x
    by (rule triple_then, rule quietly(2), rule completes, rule triple_ret)
  show ?thesis
    unfolding idempotent_def
    by (rule after_quiet(1) [OF claims])
      (simp add: replays triple_bind [OF assms(2) finish] split: option.split prod.split)
qed

end

end
