(* ===== verification/Authority.thy ===== *)
theory Authority
  imports Service Guards Identifiers
begin

text \<open>
  On whose authority the service writes: decisions on incidents and changes of a traveler's profile,
  over every operation.
\<close>

section \<open>Approvals\<close>

definition no_new_approvals :: "world \<Rightarrow> world \<Rightarrow> bool" where
  "no_new_approvals w w' \<longleftrightarrow> (\<forall>k a. dict_get (db_approvals w') k = Some a \<longrightarrow> dict_get (db_approvals w) k = Some a)"

lemma same_approvals: "db_approvals w' = db_approvals w \<Longrightarrow> no_new_approvals w w'"
  by (simp add: no_new_approvals_def)

lemma erasures_drop_approvals:
  "no_new_approvals w (erase_rows t tv trips incidents w)" "no_new_approvals w (purge_rows holds before a b trips incidents w)"
  by (auto simp: no_new_approvals_def erase_rows_def purge_rows_def drop_incident_rows_def drop_action_rows_def Let_def
    dict_simps split: if_splits)

interpretation undecided: service_frame no_new_approvals
  by unfold_locales (rule erasures_drop_approvals | rule same_approvals, simp add: bookkeeping_same; fail
    | rule outbox_moves, simp add: same_but_outboxes_def same_approvals
    | simp add: same_approvals write_defs Let_def split: option.split
    | (auto simp: no_new_approvals_def reflp_def transp_def)[1])+

text \<open>
  While nothing is decided, approvals and incidents are those the request found; a new approval has
  the grounds \<open>Q\<close>.
\<close>

definition undecided_in :: "world \<Rightarrow> world \<Rightarrow> bool" where
  "undecided_in w0 w \<longleftrightarrow> db_approvals w = db_approvals w0 \<and> db_incidents w = db_incidents w0 \<and>
     db_trips w = db_trips w0"

definition decided_on :: "(uuid \<Rightarrow> approval_record \<Rightarrow> bool) \<Rightarrow> world \<Rightarrow> world \<Rightarrow> bool" where
  "decided_on Q w0 w \<longleftrightarrow> (\<forall>k a. dict_get (db_approvals w) k = Some a \<longrightarrow> dict_get (db_approvals w0) k = Some a \<or> Q k a)"

interpretation deciding_guards: guards "undecided_in w0" "decided_on Q w0" for w0 Q
  by unfold_locales (auto simp: undecided_in_def decided_on_def bookkeeping_same)

lemma decided_onD:
  "decided_on Q w0 w \<Longrightarrow> dict_get (db_approvals w) k = Some a \<Longrightarrow> dict_get (db_approvals w0) k \<noteq> Some a \<Longrightarrow> Q k a"
  by (auto simp: decided_on_def)

lemma decided_later: "no_new_approvals w w' \<Longrightarrow> decided_on Q w0 w \<Longrightarrow> decided_on Q w0 w'"
  by (simp add: decided_on_def no_new_approvals_def)

lemma approval_value:
  "yields (\<lambda>a. approval_request.truncate a = payload \<and> apr_incident_id a = iid) (new_approval h iid payload s)"
  unfolding yields_def by (blast dest: approval_step)

lemma decision_authority:
  assumes "\<And>i a. get_incident t iid w0 = Some i \<Longrightarrow> inc_status i = PENDING_APPROVAL \<Longrightarrow>
    approval_request.truncate a = payload \<Longrightarrow> Q iid a"
  shows "triple (undecided_in w0) (decide_incident e iid payload t) (\<lambda>_. decided_on Q w0) (decided_on Q w0)"
proof -
  let ?T = "\<lambda>P m. triple P m (\<lambda>_. decided_on Q w0) (decided_on Q w0)"
  have tail: "?T (decided_on Q w0) m" if "moves no_new_approvals m" for m :: "'b act"
    by (rule tripleI) (use movesD [OF that] decided_later in blast)+
  have status: "moves (\<lambda>w w'. (undecided_in w0 w \<longrightarrow> undecided_in w0 w') \<and> (decided_on Q w0 w \<longrightarrow> decided_on Q w0 w'))
      (action_status_for e t payload)"
    unfolding action_status_for_def by (intro deciding_guards.calm moves_branches)
  have approval: "moves (\<lambda>w w'. (undecided_in w0 w \<longrightarrow> undecided_in w0 w') \<and> (decided_on Q w0 w \<longrightarrow> decided_on Q w0 w'))
      (new_approval e iid payload s)" for s
    unfolding new_approval_def Let_def by (intro deciding_guards.calm moves_branches)
  have saved: "triple (undecided_in w0) (modify (save_approval a)) (\<lambda>_. decided_on Q w0) (decided_on Q w0)"
    if "get_incident t iid w0 = Some i" "\<not> inc_status i \<noteq> PENDING_APPROVAL"
      "approval_request.truncate a = payload \<and> apr_incident_id a = iid" for i a
    using that assms [of i a]
    by (intro triple_modify) (auto simp: save_approval_def decided_on_def undecided_in_def dict_get_set)
  have read: "get_incident t iid w = get_incident t iid w0" if "undecided_in w0 w" for w
    using that by (simp add: undecided_in_def get_incident_def)
  show ?thesis
    unfolding decide_incident_def
    by (rule deciding_guards.after_read, rule read, assumption, rule deciding_guards.after_found,
      rule deciding_guards.after_check, rule deciding_guards.after_quiet(1) [OF status],
      rule deciding_guards.by_value [OF approval approval_value], rule triple_then, rule saved, assumption+,
      rule tail, unfold queue_action_def new_action_dispatch_def, intro undecided.rules undecided.resumptions)
qed

text \<open>The grounds of an approval stored for incident \<open>iid\<close>: who asked for which decision, on what.\<close>

definition decided_by ::
  "'e api_env_scheme \<Rightarrow> request \<Rightarrow> uuid \<Rightarrow> approval_request \<Rightarrow> world \<Rightarrow> uuid \<Rightarrow> approval_record \<Rightarrow> bool" where
  "decided_by e rq iid payload w k a \<longleftrightarrow> k = iid \<and> approval_request.truncate a = payload \<and>
     rq_actor_role rq \<in> {Some TRAVEL_MANAGER, Some TENANT_ADMIN} \<and> speaks_for e (rq_actor_id rq) (apr_actor_id a) \<and>
     truthy (rq_idempotency_key rq) \<and>
     (\<exists>t i tr. rq_tenant_id rq = Some t \<and> get_incident t iid w = Some i \<and> inc_status i = PENDING_APPROVAL \<and>
        get_trip t (inc_trip_id i) w = Some tr \<and>
        (rq_actor_role rq = Some TRAVEL_MANAGER \<and> truthy (rq_actor_id rq) \<longrightarrow> trip_assigned_manager_id tr = rq_actor_id rq))"

definition may_access :: "request \<Rightarrow> string \<Rightarrow> uuid \<Rightarrow> world \<Rightarrow> bool" where
  "may_access rq t iid w \<longleftrightarrow> (\<exists>i tr. get_incident t iid w = Some i \<and> get_trip t (inc_trip_id i) w = Some tr \<and>
     (rq_actor_role rq = Some TRAVEL_MANAGER \<and> truthy (rq_actor_id rq) \<longrightarrow> trip_assigned_manager_id tr = rq_actor_id rq))"

lemma decided_fields:
  "approval_request.truncate a = payload \<Longrightarrow>
    apr_actor_id a = apr_actor_id payload \<and> apr_decision a = apr_decision payload"
  by (auto simp: approval_request.defs)

lemma grounds:
  assumes "rq_actor_role rq \<in> Some ` set [TRAVEL_MANAGER, TENANT_ADMIN]" "speaks_for e (rq_actor_id rq) (apr_actor_id payload)"
    and "\<not> falsy (rq_idempotency_key rq)" "\<not> apr_decision payload \<noteq> d" "rq_tenant_id rq = Some t"
    and "may_access rq t iid w"
    and "get_incident t iid w = Some i" "inc_status i = PENDING_APPROVAL" "approval_request.truncate a = payload"
  shows "apr_decision payload = d \<and> decided_by e rq iid payload w iid a"
  using assms(1-8) decided_fields [OF assms(9)] assms(9) by (auto simp: decided_by_def may_access_def)

text \<open>The access check reads the incident and its trip, and a manager must be the trip's.\<close>

lemma access_grants:
  assumes "incident_trip_access e rq t iid roles w = (Inr it, w')"
  shows "may_access rq t iid w"
  using assms
  by (auto simp: may_access_def require_incident_trip_access_def require_trip_access_def require_role_def
    require_actor_id_def prog_simps split: option.splits if_splits)

lemma after_access:
  assumes "may_access rq t iid w0 \<Longrightarrow> triple (undecided_in w0) k P (decided_on Q w0)"
  shows "triple (undecided_in w0) (thenP (incident_trip_access e rq t iid roles) k) P (decided_on Q w0)"
  unfolding thenP_def
proof (rule triple_bind [where Q' = "\<lambda>_ w. undecided_in w0 w \<and> may_access rq t iid w0"])
  show "triple (undecided_in w0) (incident_trip_access e rq t iid roles)
      (\<lambda>_ w. undecided_in w0 w \<and> may_access rq t iid w0) (decided_on Q w0)"
  proof (rule tripleI)
    fix w x w' assume w: "undecided_in w0 w" "incident_trip_access e rq t iid roles w = (Inl x, w')"
    then have "w' = w" using access_unchanged by (metis snd_conv)
    with w show "decided_on Q w0 w'" by (simp add: deciding_guards.allowed)
  next
    fix w x w' assume w: "undecided_in w0 w" "incident_trip_access e rq t iid roles w = (Inr x, w')"
    then have "w' = w" using access_unchanged by (metis snd_conv)
    moreover have "may_access rq t iid w0" using access_grants [OF w(2)] w(1)
      by (simp add: may_access_def undecided_in_def get_incident_def get_trip_def)
    ultimately show "undecided_in w0 w' \<and> may_access rq t iid w0" using w(1) by simp
  qed
qed (rule triple_pure, rule assms)

lemma decided_by_decision:
  "decided_by e rq iid payload w k a \<Longrightarrow> k = iid \<and> apr_decision a = apr_decision payload"
  using decided_fields by (auto simp: decided_by_def)

lemma endpoint_authority:
  "triple (undecided_in w) (approve_incident e rq iid payload)
     (\<lambda>_. decided_on (\<lambda>k a. apr_decision payload = APPROVE \<and> decided_by e rq iid payload w k a) w)
     (decided_on (\<lambda>k a. apr_decision payload = APPROVE \<and> decided_by e rq iid payload w k a) w)"
  "triple (undecided_in w) (reject_incident e rq iid payload)
     (\<lambda>_. decided_on (\<lambda>k a. apr_decision payload = REJECT \<and> decided_by e rq iid payload w k a) w)
     (decided_on (\<lambda>k a. apr_decision payload = REJECT \<and> decided_by e rq iid payload w k a) w)"
  unfolding approve_incident_def reject_incident_def
  by (rule deciding_guards.after_role, rule deciding_guards.then_match, rule deciding_guards.after_check,
      rule deciding_guards.after_check, rule deciding_guards.after_tenant,
      rule after_access,
      rule deciding_guards.once [OF deciding_guards.replays], rule decision_authority,
      rule grounds, assumption+)+

section \<open>Properties\<close>

text \<open>
  C5. Only people decide: whatever the operation, a request or a job, completed or failed, an
  approval it has stored was asked for at the endpoint of exactly that decision, by an
  administrator of the incident's tenant or the travel manager assigned to its trip, under their own
  identity and an idempotency key, while the incident was awaiting approval, and is their request
  unchanged.
\<close>

theorem only_people_decide:
  assumes "dict_get (db_approvals (perform e operation w)) iid = Some a" "dict_get (db_approvals w) iid \<noteq> Some a"
  shows "\<exists>rq payload. decided_by e rq iid payload w iid a \<and> operation = RecoveryOperation
    (if apr_decision a = APPROVE then ApproveIncident rq iid payload else RejectIncident rq iid payload)"
proof -
  have new: "\<not> no_new_approvals w (perform e operation w)"
    using assms by (auto simp: no_new_approvals_def)
  then have "guarded operation" using undecided.operations by blast
  have start: "undecided_in w w" by (simp add: undecided_in_def)
  have quiet: "no_new_approvals w' (save_profile p w')" "no_new_approvals w' (repo_record_candidate_outcome t oc w')"
    for w' p t oc
    by (simp_all add: same_approvals write_defs Let_def split: option.split)
  note steps = undecided.steps [of _ w]
  from \<open>guarded operation\<close> show ?thesis
  proof (cases rule: guarded_cases)
    case (outcome rq i s c p)
    then show ?thesis using new by (simp add: steps undecided.outcome_operations quiet)
  next
    case (approve rq i payload)
    with decided_onD [OF triple_state [OF endpoint_authority(1) start]] assms
    have "apr_decision payload = APPROVE \<and> decided_by e rq i payload w iid a" by simp
    with decided_by_decision [of e rq i payload w iid a] show ?thesis unfolding approve by fastforce
  next
    case (reject rq i payload)
    with decided_onD [OF triple_state [OF endpoint_authority(2) start]] assms
    have "apr_decision payload = REJECT \<and> decided_by e rq i payload w iid a" by simp
    with decided_by_decision [of e rq i payload w iid a] show ?thesis unfolding reject by fastforce
  qed (use new in \<open>simp add: steps undecided.profile_operations quiet\<close>)+
qed

text \<open>Witness: a manager rejects an incident.\<close>

definition manager_request :: request where
  "manager_request = \<lparr>rq_tenant_id = Some ''t'', rq_actor_role = Some TRAVEL_MANAGER, rq_actor_id = Some ''m'',
     rq_idempotency_key = Some ''k''\<rparr>"

definition awaiting_world :: world where
  "awaiting_world = empty_world\<lparr>db_trips := [(7, sample_trip\<lparr>trip_assigned_manager_id := Some ''m''\<rparr>)],
     db_incidents := [(1, sample_incident ''t'' 1\<lparr>inc_status := PENDING_APPROVAL\<rparr>)]\<rparr>"

lemma rejection_stored:
  "\<exists>a. dict_get (db_approvals (perform sample_service (RecoveryOperation (RejectIncident manager_request 1 rejection))
     awaiting_world)) 1 = Some a"
proof -
  let ?scope = "''POST:/v1/incidents/'' @ str_uuid 1 @ ''/reject''"
  let ?body = "JObj (env_dump sample_service (MApprovalRequest rejection))"
  have sha: "pattern_class (\<lambda>c. digit09 c \<or> char_between CHR ''a'' CHR ''f'' c) 64 64 (replicate 64 CHR ''0'')"
    by code_simp
  have new: "case idem_record ''t'' ''k'' awaiting_world of None \<Rightarrow> True
      | Some r \<Rightarrow> idem_expires_at r \<le> host_now sample_service (Suc (run_reads awaiting_world))"
    by (simp add: awaiting_world_def empty_world_def)
  have fingerprint: "request_fingerprint sample_service scope p = replicate 64 CHR ''0''" for scope p
    by (simp add: request_fingerprint_def sample_service_def graph_env.defs sample_graph_def api_env.defs sample_api_def)
  have "valid_idempotency_record (fresh_claim sample_service ''t'' ''k'' ?scope ?body (run_reads awaiting_world))"
    using sha by (simp add: valid_idempotency_record_def fresh_claim_def is_sha256_hex_def len_between_def fingerprint
      length_str_uuid)
  with claim_new [OF new, of ?scope ?body] obtain fp w1 where
    claim: "claim_mutation sample_service ''t'' ''k'' ?scope ?body awaiting_world = (Inr (fp, None), w1)" by auto
  then have optional: "claim_optional_mutation sample_service ''t'' (Some ''k'') ?scope ?body awaiting_world
      = (Inr (Some fp, None), w1)"
    by (simp add: claim_optional_mutation_def falsy_def prog_simps)
  have "db_incidents w1 = db_incidents awaiting_world"
    using movesD [OF deciding.claims optional] by (simp add: same_decisions_def)
  then have i: "get_incident ''t'' 1 w1 = Some (sample_incident ''t'' 1\<lparr>inc_status := PENDING_APPROVAL\<rparr>)"
    by (simp add: awaiting_world_def get_incident_def owned_get_def sample_incident_def)
  obtain a w2 where a: "decide_incident sample_service 1 rejection ''t'' w1 = (Inr a, w2)"
    using decide_returns [OF i, of rejection sample_service]
    by (auto simp: sample_incident_def valid_approval_request_def rejection_def len_between_def)
  have stored: "dict_get (db_approvals w2) 1 = Some a"
    using decision_steps [OF i a] by (simp add: dict_get_set)
  have fields: "rq_idempotency_key manager_request = Some ''k''" "apr_decision rejection = REJECT"
    "\<not> falsy (Some ''k'')"
    by (simp_all add: manager_request_def rejection_def falsy_def)
  have guards: "require_role (rq_actor_role manager_request) [TRAVEL_MANAGER, TENANT_ADMIN] awaiting_world
      = (Inr (), awaiting_world)"
    "require_actor_matches_payload sample_service (rq_actor_id manager_request) (apr_actor_id rejection) awaiting_world
      = (Inr ''m'', awaiting_world)"
    "require_tenant (rq_tenant_id manager_request) awaiting_world = (Inr ''t'', awaiting_world)"
    by (simp_all add: manager_request_def require_role_def require_actor_matches_payload_def require_actor_id_def
      require_tenant_def prog_simps rejection_def falsy_def sample_service_def graph_env.defs sample_graph_def
      api_env.defs sample_api_def sample_controls_def)
  have access: "incident_trip_access sample_service manager_request ''t'' 1 [TRAVEL_MANAGER, TENANT_ADMIN]
      awaiting_world = (Inr (sample_incident ''t'' 1\<lparr>inc_status := PENDING_APPROVAL\<rparr>, sample_trip\<lparr>trip_assigned_manager_id := Some ''m''\<rparr>), awaiting_world)"
    by (simp add: manager_request_def require_incident_trip_access_def require_trip_access_def require_role_def
      require_actor_id_def prog_simps falsy_def sample_service_def graph_env.defs sample_graph_def api_env.defs
      sample_api_def sample_controls_def awaiting_world_def get_incident_def get_trip_def owned_get_def
      sample_incident_def sample_trip_def)
  have "reject_incident sample_service manager_request 1 rejection awaiting_world =
    idempotent sample_service ''t'' (Some ''k'') ?scope ?body 200 (\<lambda>a. env_dump sample_service (MApproval a))
      (replay_as sample_service ''ApprovalRecord'' (\<lambda>m. case m of MApproval a \<Rightarrow> Some a | _ \<Rightarrow> None))
      (decide_incident sample_service 1 rejection ''t'') awaiting_world"
    using access by (simp add: reject_incident_def thenP_app bindP_app guards raise_when_app fields)
  also have "\<dots> = thenP (complete_optional_mutation sample_service ''t'' (Some ''k'') (Some fp) 200
      (env_dump sample_service (MApproval a))) (ret a) w2"
    unfolding idempotent_def bindP_app optional by (simp add: bindP_app a)
  finally have run: "reject_incident sample_service manager_request 1 rejection awaiting_world =
    thenP (complete_optional_mutation sample_service ''t'' (Some ''k'') (Some fp) 200
      (env_dump sample_service (MApproval a))) (ret a) w2" .
  have "moves same_decisions (thenP (complete_optional_mutation sample_service ''t'' (Some ''k'') (Some fp) 200
      (env_dump sample_service (MApproval a))) (ret a))"
    by (intro deciding.thens deciding.completes deciding.stays)
  then have "db_approvals (snd (reject_incident sample_service manager_request 1 rejection awaiting_world)) = db_approvals w2"
    unfolding run by (simp add: moves_def same_decisions_def)
  with stored show ?thesis by simp
qed

theorem only_people_decide_witness:
  "\<exists>a. dict_get (db_approvals (perform sample_service (RecoveryOperation (RejectIncident manager_request 1 rejection))
     awaiting_world)) 1 = Some a \<and> apr_decision a = REJECT \<and> apr_actor_id a = ''m''"
proof -
  obtain a where a: "dict_get (db_approvals (perform sample_service
      (RecoveryOperation (RejectIncident manager_request 1 rejection)) awaiting_world)) 1 = Some a"
    using rejection_stored by blast
  have "dict_get (db_approvals awaiting_world) 1 \<noteq> Some a" by (simp add: awaiting_world_def empty_world_def)
  from only_people_decide [OF a this] have "apr_decision a = REJECT" "speaks_for sample_service (Some ''m'') (apr_actor_id a)"
    by (cases "apr_decision a"; auto simp: decided_by_def manager_request_def split: if_splits)+
  with a show ?thesis by (auto simp: speaks_for_def falsy_def)
qed

end
