(* ===== verification/Consent.thy ===== *)
theory Consent
  imports Service Guards
begin

text \<open>
  Whose word changes a traveler's profile, over every operation of the service.
\<close>

section \<open>New profiles\<close>

definition fewer_profiles :: "world \<Rightarrow> world \<Rightarrow> bool" where
  "fewer_profiles w w' \<longleftrightarrow> set (db_profiles w') \<subseteq> set (db_profiles w)"

lemma same_profiles: "db_profiles w' = db_profiles w \<Longrightarrow> fewer_profiles w w'"
  by (simp add: fewer_profiles_def)

lemma profiles_removed:
  "fewer_profiles w (erase_rows t tv trips incidents w)" "fewer_profiles w (purge_rows holds before a b trips incidents w)"
  "fewer_profiles w (w\<lparr>db_profiles := dict_pop pk (db_profiles w), db_memory_proposals := proposals\<rparr>)"
  by (auto simp: fewer_profiles_def erase_rows_def purge_rows_def drop_incident_rows_def drop_action_rows_def Let_def
    dict_filter_def dict_pop_def)

interpretation unchanged: service_frame fewer_profiles
  by unfold_locales (rule profiles_removed | rule same_profiles, (auto simp: bookkeeping_def)[1]; fail
    | rule outbox_moves, simp add: same_but_outboxes_def same_profiles
    | simp add: same_profiles write_defs Let_def split: option.split
    | (auto simp: fewer_profiles_def reflp_def transp_def)[1])+

definition unwritten_in :: "world \<Rightarrow> world \<Rightarrow> bool" where
  "unwritten_in w0 w \<longleftrightarrow> db_profiles w = db_profiles w0 \<and> db_memory_proposals w = db_memory_proposals w0"

definition written_on :: "(string \<times> string \<Rightarrow> traveler_preference_profile \<Rightarrow> bool) \<Rightarrow> world \<Rightarrow> world \<Rightarrow> bool" where
  "written_on Q w0 w \<longleftrightarrow> (\<forall>(k, p) \<in> set (db_profiles w). (k, p) \<in> set (db_profiles w0) \<or> Q k p)"

interpretation writing_guards: guards "unwritten_in w0" "written_on Q w0" for w0 Q
  by unfold_locales (auto simp: unwritten_in_def written_on_def bookkeeping_def)

lemma written_later: "fewer_profiles w w' \<Longrightarrow> written_on Q w0 w \<Longrightarrow> written_on Q w0 w'"
  unfolding fewer_profiles_def written_on_def by blast

lemma profile_saved:
  assumes "Q (prof_tenant_id p, prof_traveler_id p) p" "moves fewer_profiles m"
  shows "triple (unwritten_in w0) (thenP (modify (save_profile p)) m) (\<lambda>_. written_on Q w0) (written_on Q w0)"
proof (rule triple_then)
  show "triple (unwritten_in w0) (modify (save_profile p)) (\<lambda>_. written_on Q w0) (written_on Q w0)"
    using assms(1) items_dict_set [of "(prof_tenant_id p, prof_traveler_id p)" p]
    by (intro triple_modify) (fastforce simp: unwritten_in_def written_on_def save_profile_def)
  show "triple (written_on Q w0) m (\<lambda>_. written_on Q w0) (written_on Q w0)"
    by (rule tripleI) (use movesD [OF assms(2)] written_later in blast)+
qed

section \<open>The grounds of a new profile\<close>

definition next_version :: "string \<times> string \<Rightarrow> world \<Rightarrow> int" where
  "next_version k w = (case dict_get (db_profiles w) k of None \<Rightarrow> 1 | Some p \<Rightarrow> prof_version p + 1)"

definition set_by :: "'e api_env_scheme \<Rightarrow> request \<Rightarrow> string \<Rightarrow> traveler_preference_update \<Rightarrow> world \<Rightarrow>
    string \<times> string \<Rightarrow> traveler_preference_profile \<Rightarrow> bool" where
  "set_by e rq traveler u w k p \<longleftrightarrow> (\<exists>t. rq_tenant_id rq = Some t \<and> k = (t, traveler)) \<and>
     (rq_actor_role rq = Some TENANT_ADMIN \<or>
      rq_actor_role rq = Some TRAVELER \<and> speaks_for e (rq_actor_id rq) traveler) \<and>
     prof_version p = next_version k w \<and> prof_consent_version p = upd_consent_version u"

definition confirmed_by :: "'e api_env_scheme \<Rightarrow> request \<Rightarrow> uuid \<Rightarrow> string \<Rightarrow> world \<Rightarrow>
    string \<times> string \<Rightarrow> traveler_preference_profile \<Rightarrow> bool" where
  "confirmed_by e rq pid actor w k p \<longleftrightarrow> rq_actor_role rq = Some TRAVELER \<and>
     (\<exists>t pr. rq_tenant_id rq = Some t \<and> get_memory_proposal t pid w = Some pr \<and> k = (t, actor) \<and>
        mp_traveler_id pr = actor \<and> mp_status pr = PENDING_CONFIRMATION \<and> speaks_for e (rq_actor_id rq) actor \<and>
        set (dict_keys (mp_patch pr)) \<subseteq> set patchable_fields) \<and>
     prof_version p = next_version k w"

text \<open>Pydantic keeps the fields that a patch does not name.\<close>

definition patches_fields :: "'e api_env_scheme \<Rightarrow> bool" where
  "patches_fields e \<longleftrightarrow> (\<forall>patch b p. set (dict_keys patch) \<subseteq> set patchable_fields \<longrightarrow>
     env_patch_profile e patch b = Inr p \<longrightarrow> prof_tenant_id p = prof_tenant_id b \<and>
       prof_traveler_id p = prof_traveler_id b \<and> prof_version p = prof_version b)"

lemma stored_profile:
  assumes "tables_ok w" "get_profile t tv w = Some p"
  shows "prof_tenant_id p = t \<and> prof_traveler_id p = tv"
proof -
  have "table_ok (\<lambda>p. (prof_tenant_id p, prof_traveler_id p)) (db_profiles w)"
    using assms(1) unfolding tables_ok_def by blast
  from table_ok_get [OF this, of "(t, tv)" p] assms(2) show ?thesis by (simp add: get_profile_def)
qed

lemma patched_value:
  assumes "patches_fields e" "set (dict_keys (mp_patch pr)) \<subseteq> set patchable_fields"
    and "\<And>p. existing = Some p \<Longrightarrow> prof_tenant_id p = t \<and> prof_traveler_id p = mp_traveler_id pr"
  shows "yields (\<lambda>p. prof_tenant_id p = t \<and> prof_traveler_id p = mp_traveler_id pr \<and>
     prof_version p = (case existing of None \<Rightarrow> 1 | Some p \<Rightarrow> prof_version p + 1)) (patched_profile e t pr existing)"
  unfolding yields_def
proof (intro allI impI)
  fix s p s' assume run: "patched_profile e t pr existing s = (Inr p, s')"
  define b where "b = (case existing of Some p \<Rightarrow> p\<lparr>prof_version := prof_version p + 1\<rparr>
    | None \<Rightarrow> default_profile t (mp_traveler_id pr) ''pending'' 1 (host_now e (run_reads s)))"
  have ids: "prof_tenant_id b = t" "prof_traveler_id b = mp_traveler_id pr"
    "prof_version b = (case existing of None \<Rightarrow> 1 | Some p \<Rightarrow> prof_version p + 1)"
    using assms(3) by (cases existing; simp add: b_def default_profile_def)+
  obtain u where "bindP (lift_result (env_patch_profile e (mp_patch pr) b)) (\<lambda>p.
      if valid_traveler_preference_profile p then ret p else throw (ValidationError ''TravelerPreferenceProfile'')) u
    = (Inr p, s')"
    using run by (cases existing) (simp_all add: patched_profile_def bindP_app ret_app now_utc_app b_def)
  then have "env_patch_profile e (mp_patch pr) b = Inr p"
    by (cases "env_patch_profile e (mp_patch pr) b") (simp_all add: bindP_app lift_result_app ret_app throw_app split: if_splits)
  with assms(1,2) have "prof_tenant_id p = prof_tenant_id b \<and> prof_traveler_id p = prof_traveler_id b \<and>
      prof_version p = prof_version b"
    unfolding patches_fields_def by blast
  with ids show "prof_tenant_id p = t \<and> prof_traveler_id p = mp_traveler_id pr \<and>
      prof_version p = (case existing of None \<Rightarrow> 1 | Some p \<Rightarrow> prof_version p + 1)"
    by simp
qed

lemma applied_fields:
  "prof_tenant_id (apply_update u p) = prof_tenant_id p" "prof_traveler_id (apply_update u p) = prof_traveler_id p"
  "prof_version (apply_update u p) = prof_version p" "prof_consent_version (apply_update u p) = upd_consent_version u"
  by (simp_all add: apply_update_def)

lemma update_grounds:
  assumes "tables_ok w" "rq_tenant_id rq = Some t" "rq_actor_role rq \<in> Some ` set [TRAVELER, TENANT_ADMIN]"
    and "ctl_require_oidc (env_controls e) \<longrightarrow> truthy (rq_actor_id rq)"
    and "\<not> (rq_actor_role rq = Some TRAVELER \<and> truthy (rq_actor_id rq) \<and> rq_actor_id rq \<noteq> Some tv)"
    and "q = apply_update u (case get_profile t tv w of
      None \<Rightarrow> default_profile t tv cv (case get_profile t tv w of None \<Rightarrow> 1 | Some p \<Rightarrow> prof_version p + 1) now
    | Some p \<Rightarrow> p\<lparr>prof_version := (case get_profile t tv w of None \<Rightarrow> 1 | Some p \<Rightarrow> prof_version p + 1),
        prof_updated_at := now\<rparr>)"
  shows "set_by e rq tv u w (prof_tenant_id q, prof_traveler_id q) q"
proof -
  have "prof_tenant_id q = t \<and> prof_traveler_id q = tv \<and> prof_version q = next_version (t, tv) w \<and>
      prof_consent_version q = upd_consent_version u"
    using stored_profile [OF assms(1), of t tv]
    by (cases "get_profile t tv w")
      (simp_all add: assms(6) applied_fields default_profile_def next_version_def get_profile_def [symmetric])
  with assms(2-5) show ?thesis by (auto simp: set_by_def speaks_for_def)
qed

lemma update_authority:
  assumes "tables_ok w"
  shows "triple (unwritten_in w) (update_preferences e rq tv u)
    (\<lambda>_. written_on (set_by e rq tv u w) w) (written_on (set_by e rq tv u w) w)"
proof -
  have read: "get_profile t tv w' = get_profile t tv w" if "unwritten_in w w'" for t w'
    using that by (simp add: unwritten_in_def get_profile_def)
  show ?thesis
    unfolding update_preferences_def require_memory_writes_enabled_def Let_def
    by (rule writing_guards.after_role, rule writing_guards.after_tenant, rule writing_guards.after_actor,
      rule writing_guards.after_check, rule writing_guards.after_quiet(2), intro writing_guards.calm,
      rule writing_guards.once [OF writing_guards.replays], rule writing_guards.after_read, rule read, assumption,
      rule writing_guards.after_quiet(1) [OF writing_guards.reads], rule writing_guards.after_check,
      rule profile_saved, rule update_grounds [OF assms], assumption+, rule refl,
      intro unchanged.rules unchanged.memory_parts)
qed

lemma confirm_authority:
  assumes "tables_ok w" "patches_fields e"
  shows "triple (unwritten_in w) (confirm_memory_proposal e rq pid a)
    (\<lambda>_. written_on (confirmed_by e rq pid a w) w) (written_on (confirmed_by e rq pid a w) w)"
proof -
  let ?Q = "confirmed_by e rq pid a w"
  have read: "get_profile t tv w' = get_profile t tv w" "get_memory_proposal t pid w' = get_memory_proposal t pid w"
    if "unwritten_in w w'" for t tv w'
    using that by (simp_all add: unwritten_in_def get_profile_def get_memory_proposal_def)
  have ids: "prof_tenant_id p = t \<and> prof_traveler_id p = tv" if "get_profile t tv w = Some p" for t tv p
    by (rule stored_profile [OF assms(1) that])
  have patched: "moves (\<lambda>w1 w2. (unwritten_in w w1 \<longrightarrow> unwritten_in w w2) \<and> (written_on ?Q w w1 \<longrightarrow> written_on ?Q w w2))
      (patched_profile e t pr existing)" for t pr existing
    unfolding patched_profile_def by (intro writing_guards.calm moves_branches)
  have grounds: "?Q (prof_tenant_id p, prof_traveler_id p) p"
    if "rq_actor_role rq \<in> Some ` set [TRAVELER]" "speaks_for e (rq_actor_id rq) a" "rq_tenant_id rq = Some t"
      "get_memory_proposal t pid w = Some pr" "\<not> a \<noteq> mp_traveler_id pr" "\<not> mp_status pr \<noteq> PENDING_CONFIRMATION"
      "\<not> \<not> set (dict_keys (mp_patch pr)) \<subseteq> set patchable_fields"
      "prof_tenant_id p = t \<and> prof_traveler_id p = mp_traveler_id pr \<and>
       prof_version p = (case get_profile t (mp_traveler_id pr) w of None \<Rightarrow> 1 | Some p \<Rightarrow> prof_version p + 1)"
    for t pr p
    using that by (auto simp: confirmed_by_def next_version_def get_profile_def)
  show ?thesis
    unfolding confirm_memory_proposal_def require_memory_writes_enabled_def
    by (rule writing_guards.after_role, rule writing_guards.after_match, rule writing_guards.after_tenant,
      rule writing_guards.after_quiet(2), intro writing_guards.calm,
      rule writing_guards.after_read, rule read(2), assumption, rule writing_guards.after_found,
      rule writing_guards.after_check, rule writing_guards.once [OF writing_guards.replays],
      rule writing_guards.after_check, rule writing_guards.after_read, rule read(1), assumption,
      rule writing_guards.after_check, rule writing_guards.by_value [OF patched patched_value [OF assms(2)]],
      simp, rule ids, assumption,
      rule writing_guards.after_quiet(1) [OF writing_guards.reads], rule profile_saved, rule grounds, assumption+,
      intro unchanged.rules unchanged.memory_parts)
qed

section \<open>Properties\<close>

text \<open>
  C12. A profile changes by consent: whatever the operation, in every world the service reaches, a
  profile it has newly stored was set through the settings endpoint by an administrator of the
  tenant or the traveler, or is the result of the traveler confirming, in person, a pending proposal
  about themselves whose patch names only permitted fields; its version is the successor of the one
  before.
\<close>

theorem profiles_change_by_consent:
  assumes "service_run w" "patches_fields e"
    and "dict_get (db_profiles (perform e operation w)) (t, traveler) = Some p"
    and "dict_get (db_profiles w) (t, traveler) \<noteq> Some p"
  shows "(\<exists>rq u. operation = PrivacyOperation (UpdatePreferences rq traveler u) \<and>
            set_by e rq traveler u w (t, traveler) p) \<or>
         (\<exists>rq pid. operation = PrivacyOperation (ConfirmMemoryProposal rq pid traveler) \<and>
            confirmed_by e rq pid traveler w (t, traveler) p)"
proof -
  have ok: "tables_ok w" using run_invariants [OF assms(1)] by simp
  then have "dict_wf (db_profiles w)" by (simp add: tables_ok_def table_ok_def)
  with assms(4) have old: "((t, traveler), p) \<notin> set (db_profiles w)" by (auto simp: dict_get_in_items)
  have new: "((t, traveler), p) \<in> set (db_profiles (perform e operation w))"
    using assms(3) by (simp add: map_of_SomeD)
  with old have changed: "\<not> fewer_profiles w (perform e operation w)" by (auto simp: fewer_profiles_def)
  then have "guarded operation" using unchanged.operations by blast
  have start: "unwritten_in w w" by (simp add: unwritten_in_def)
  have quiet: "fewer_profiles w' (save_approval a w')" "fewer_profiles w' (repo_record_candidate_outcome n oc w')"
    for w' a n oc
    by (simp_all add: same_profiles write_defs Let_def split: option.split)
  note steps = unchanged.steps [of _ w]
  from \<open>guarded operation\<close> show ?thesis
  proof (cases rule: guarded_cases)
    case (update rq tv u)
    with new old triple_state [OF update_authority [OF ok] start, of e rq tv u]
    have "set_by e rq tv u w (t, traveler) p" by (auto simp: written_on_def)
    with update show ?thesis by (auto simp: set_by_def)
  next
    case (confirm rq pid a)
    with new old triple_state [OF confirm_authority [OF ok assms(2)] start, of rq pid a]
    have "confirmed_by e rq pid a w (t, traveler) p" by (auto simp: written_on_def)
    with confirm show ?thesis by (auto simp: confirmed_by_def)
  qed (use changed in \<open>simp add: steps unchanged.decision_operations unchanged.outcome_operations quiet\<close>)+
qed

text \<open>Witness: a traveler sets a language, which is the first version of the profile.\<close>

definition traveler_settings :: request where
  "traveler_settings = \<lparr>rq_tenant_id = Some ''t'', rq_actor_role = Some TRAVELER, rq_actor_id = Some ''u'',
     rq_idempotency_key = None\<rparr>"

definition language_update :: traveler_preference_update where
  "language_update = \<lparr>upd_preferred_airports = None, upd_preferred_carriers = None, upd_cabin_or_seat_preference = None,
     upd_minimum_connection_minutes = None, upd_avoid_overnight_connections = None,
     upd_approved_ground_transport_preferences = None, upd_notification_channel = None, upd_language = Some ''fr'',
     upd_approved_accessibility_accommodations = None, upd_consent_version = ''c''\<rparr>"

definition french_profile :: traveler_preference_profile where
  "french_profile = apply_update language_update (default_profile ''t'' ''u'' ''c'' 1 0)"

lemma language_set:
  "dict_get (db_profiles (perform sample_service (PrivacyOperation (UpdatePreferences traveler_settings ''u'' language_update))
     empty_world)) (''t'', ''u'') = Some french_profile"
  by (simp add: update_preferences_def traveler_settings_def sample_service_def graph_env.defs sample_graph_def api_env.defs
    prog_simps require_role_def require_tenant_def require_actor_id_def require_memory_writes_enabled_def
    control_enabled_def get_runtime_control_override_def get_platform_control_override_def unexpired_def
    default_control_enabled_def
    idempotent_def claim_optional_mutation_def complete_optional_mutation_def falsy_def sample_api_def sample_controls_def
    emit_event_def record_event_def Let_def empty_world_def get_profile_def save_profile_def new_memory_audit_def
    record_memory_audit_def french_profile_def apply_update_def keep_def keep_opt_def default_profile_def
    language_update_def valid_traveler_preference_profile_def valid_minimum_connection_def len_between_def)

lemma sample_patches: "patches_fields sample_service"
  by (simp add: patches_fields_def sample_service_def graph_env.defs sample_graph_def api_env.defs sample_api_def)

theorem profiles_change_by_consent_witness:
  "\<exists>w. service_run w \<and> dict_get (db_profiles (perform sample_service
       (PrivacyOperation (UpdatePreferences traveler_settings ''u'' language_update)) w)) (''t'', ''u'') = Some french_profile \<and>
     set_by sample_service traveler_settings ''u'' language_update w (''t'', ''u'') french_profile"
proof -
  have "dict_get (db_profiles empty_world) (''t'', ''u'') \<noteq> Some french_profile" by (simp add: empty_world_def)
  from profiles_change_by_consent [OF started sample_patches language_set this] started language_set show ?thesis by auto
qed

end
