(* ===== verification/Webhooks.thy ===== *)
theory Webhooks
  imports Service Guards
begin

text \<open>
  What a booking webhook needs before it may write anything, and whose trips it may write.
\<close>

interpretation trips_kept: assessment_frame "\<lambda>w w'. db_trips w' = db_trips w"
  by unfold_locales (auto simp: reflp_def transp_def bookkeeping_same save_candidate_set_def save_incident_def)

text \<open>The credentials of an accepted delivery, and the event it carries.\<close>

definition signed_event ::
  "'e api_env_scheme \<Rightarrow> string \<Rightarrow> string option \<Rightarrow> string option \<Rightarrow> string option \<Rightarrow> booking_webhook_event \<Rightarrow> bool" where
  "signed_event e body signature timestamp tenant ev \<longleftrightarrow>
     (\<exists>secret sg tm now t. env_getenv e ''BOOKING_WEBHOOK_SECRET'' = Some secret \<and> secret \<noteq> [] \<and>
        signature = Some sg \<and> timestamp = Some tm \<and>
        verify_webhook_signature (env_hmac_sha256 e) body sg secret timestamp \<and>
        parse_webhook_timestamp (env_fromisoformat e) (td_minutes 5) now tm = Inr t \<and>
        parse_booking_webhook (env_loads e) (env_decode_webhook e) body t (td_minutes 5) = Inr ev) \<and>
     (truthy tenant \<longrightarrow> tenant = Some (bw_tenant_id ev))"

text \<open>Before a write, only the bookkeeping differs; afterwards, every new trip is the event's tenant's.\<close>

definition saved_for :: "(string \<Rightarrow> bool) \<Rightarrow> world \<Rightarrow> world \<Rightarrow> bool" where
  "saved_for Q w0 w \<longleftrightarrow> (\<exists>tenant. Q tenant \<and>
     (\<forall>(k, t) \<in> set (db_trips w). (k, t) \<in> set (db_trips w0) \<or> trip_tenant_id t = tenant))"

definition trips_of :: "(string \<Rightarrow> bool) \<Rightarrow> world \<Rightarrow> world \<Rightarrow> bool" where
  "trips_of Q w0 w \<longleftrightarrow> bookkeeping w0 w \<or> saved_for Q w0 w"

lemma bookkeeping_refl: "bookkeeping w w"
  by (rule bookkeepingI [where draws = "run_draws w" and reads = "run_reads w" and records = "db_idempotency_records w"
        and events = "db_events w" and stdout = "w_stdout w"]) simp

lemma bookkeeping_trans: "bookkeeping u v \<Longrightarrow> bookkeeping v w \<Longrightarrow> bookkeeping u w"
  unfolding bookkeeping_def by fastforce

interpretation webhook_guards: guards "bookkeeping w0" "trips_of Q w0" for w0 Q
  by unfold_locales (auto simp: trips_of_def saved_for_def bookkeeping_same intro: bookkeeping_trans)

lemma unprocessable_value: "yields (\<lambda>x. r = Inr x) (unprocessable r)"
  by (auto simp: yields_def unprocessable_def ret_app throw_app split: sum.splits exn.splits)

lemma target_value: "yields (\<lambda>(target, change). \<forall>t. target = Some t \<longrightarrow> trip_tenant_id t = bw_tenant_id ev) (webhook_target e ev)"
proof -
  have payload: "yields (\<lambda>t. trip_tenant_id t = bw_tenant_id ev) (webhook_trip_payload e ev)"
    unfolding webhook_trip_payload_def
    by (auto simp: yields_def ret_app throw_app split: json.split sum.split)
  have "yields (\<lambda>(target, change). \<forall>t. target = Some t \<longrightarrow> trip_tenant_id t = bw_tenant_id ev) (upsert_target e ev)"
    unfolding upsert_target_def Let_def
    by (rule yields_bind [OF payload], intro yields_after yields_then yields_ret) (simp add: trip_create.defs)
  moreover have "yields (\<lambda>(target, change). \<forall>t. target = Some t \<longrightarrow> trip_tenant_id t = bw_tenant_id ev) (cancel_target ev)"
    unfolding cancel_target_def
    by (auto simp: yields_def prog_simps webhook_existing_trip_def get_trip_def owned_get_def split: option.splits if_splits)
  ultimately show ?thesis
    unfolding webhook_target_def by (auto simp: yields_ret)
qed

lemma parsing: "reflp R \<Longrightarrow> moves R (unprocessable r)"
  by (cases r; (auto simp: unprocessable_def moves_stay split: exn.split)[1])

lemma target_moves:
  "moves (\<lambda>w w'. (bookkeeping w0 w \<longrightarrow> bookkeeping w0 w') \<and> (trips_of Q w0 w \<longrightarrow> trips_of Q w0 w')) (webhook_target e ev)"
  unfolding webhook_target_def upsert_target_def cancel_target_def webhook_trip_payload_def Let_def
  by (intro webhook_guards.calm moves_branches moves_json)

lemma thenP_assoc: "thenP (thenP a b) c = thenP a (thenP b c)"
  by (rule ext) (auto simp: thenP_app split: prod.split sum.split)

lemma bind_thenP: "bindP (thenP a b) f = thenP a (bindP b f)"
  by (rule ext) (auto simp: thenP_app bindP_app split: prod.split sum.split)

lemma trip_saved:
  assumes "Q (trip_tenant_id t)"
  shows "triple (bookkeeping w0) (modify (save_trip t)) (\<lambda>_. saved_for Q w0) (trips_of Q w0)"
  using assms items_dict_set [of "trip_trip_id t" t]
  by (intro triple_modify) (fastforce simp: saved_for_def save_trip_def bookkeeping_same)

lemma saved_kept:
  assumes "moves (\<lambda>w w'. db_trips w' = db_trips w) m"
  shows "triple (saved_for Q w0) m (\<lambda>_. saved_for Q w0) (trips_of Q w0)"
  by (rule tripleI) (use movesD [OF assms] in \<open>simp add: saved_for_def trips_of_def\<close>)+

lemma work_authority:
  assumes "\<forall>t. target = Some t \<longrightarrow> Q (trip_tenant_id t)"
  shows "triple (bookkeeping w0) (webhook_work e ev key target change) (\<lambda>_. trips_of Q w0) (trips_of Q w0)"
proof -
  let ?E = "trips_of Q w0"
  have event: "moves (\<lambda>w w'. (bookkeeping w0 w \<longrightarrow> bookkeeping w0 w') \<and> (?E w \<longrightarrow> ?E w'))
      (webhook_event_record e ev key i change)" for i
    unfolding webhook_event_record_def Let_def by (intro webhook_guards.calm)
  have saved: "triple (saved_for Q w0) m (\<lambda>_. ?E) ?E" if "moves (\<lambda>w w'. db_trips w' = db_trips w) m" for m :: "'b act"
    by (rule triple_weaken [OF saved_kept [OF that]]) (simp add: trips_of_def)
  show ?thesis
  proof (cases target)
    case None
    show ?thesis
      unfolding webhook_work_def None option.case
      by (rule webhook_guards.after_quiet(1) [OF event], rule webhook_guards.after_quiet(1) [OF webhook_guards.stays(1)],
        rule triple_ret, rule webhook_guards.allowed)
  next
    case (Some t)
    with assms have t: "Q (trip_tenant_id t)" by simp
    show ?thesis
      unfolding webhook_work_def Some option.case apply_change_def thenP_assoc bind_thenP
      by (rule webhook_guards.after_quiet(1) [OF event], rule triple_then, rule trip_saved [where Q = Q and t = t, OF t], rule saved,
        unfold save_evidence_def cancellation_evidence_def,
        intro trips_kept.calm trips_kept.assessments moves_branches moves_modify) simp_all
  qed
qed

lemma webhook_authority:
  fixes e :: assess_env and body :: string and sg ts x_tenant :: "string option"
  defines "Q \<equiv> \<lambda>tenant. \<exists>ev. signed_event e body sg ts x_tenant ev \<and> tenant = bw_tenant_id ev"
  shows "triple (bookkeeping w) (booking_webhook e body sg ts x_tenant)
    (\<lambda>_ v. trips_of Q w v \<and> (\<exists>tenant. Q tenant)) (trips_of Q w)"
proof -
  let ?E = "trips_of Q w"
  have quiet: "moves (\<lambda>u v. (bookkeeping w u \<longrightarrow> bookkeeping w v) \<and> (?E u \<longrightarrow> ?E v)) (unprocessable r)" for r :: "'b result"
    by (rule parsing) (simp add: reflp_def)
  have final: "triple P m (\<lambda>_ v. ?E v \<and> (\<exists>tenant. Q tenant)) ?E"
    if "triple P m (\<lambda>_. ?E) ?E" "\<exists>tenant. Q tenant" for P and m :: "json_object act"
    by (rule triple_weaken [OF that(1)]) (use that(2) in simp)
  have answered: "triple (bookkeeping w) (ret x) (\<lambda>_. ?E) ?E" for x :: json_object
    by (rule triple_ret) (rule webhook_guards.allowed)
  have closing: "triple ?E (thenP (complete_mutation e t key h 202 r) (ret r)) (\<lambda>_. ?E) ?E" for t key h r
    by (rule triple_then, rule webhook_guards.quietly(2), rule webhook_guards.complete_mutations, rule triple_ret)
  have accepted: "triple (bookkeeping w) (bindP (claim_mutation e t key scope p) (\<lambda>(request_hash, replay). case replay of
        Some r \<Rightarrow> ret (answer r)
      | None \<Rightarrow> bindP (webhook_work e ev key target change) (\<lambda>response.
          thenP (complete_mutation e t key request_hash 202 response) (ret response)))) (\<lambda>_. ?E) ?E"
    if "\<forall>t. target = Some t \<longrightarrow> Q (trip_tenant_id t)" for t key scope p answer ev target change
  proof (rule webhook_guards.after_quiet(1) [OF webhook_guards.claim_mutations])
    fix x
    show "triple (bookkeeping w) (case x of (request_hash, replay) \<Rightarrow> (case replay of
        Some r \<Rightarrow> ret (answer r)
      | None \<Rightarrow> bindP (webhook_work e ev key target change) (\<lambda>response.
          thenP (complete_mutation e t key request_hash 202 response) (ret response)))) (\<lambda>_. ?E) ?E"
      using triple_bind [OF work_authority [OF that] closing] answered
      by (auto split: prod.split option.split)
  qed
  have signed: "Q (bw_tenant_id ev)" if "\<not> (falsy (env_getenv e ''BOOKING_WEBHOOK_SECRET'') \<or> falsy sg \<or> falsy ts)"
    "\<not> \<not> verify_webhook_signature (env_hmac_sha256 e) body (the sg) (the (env_getenv e ''BOOKING_WEBHOOK_SECRET'')) ts"
    "parse_webhook_timestamp (env_fromisoformat e) (td_minutes 5) now (the ts) = Inr t"
    "parse_booking_webhook (env_loads e) (env_decode_webhook e) body t (td_minutes 5) = Inr ev"
    "\<not> (truthy x_tenant \<and> x_tenant \<noteq> Some (bw_tenant_id ev))" for now t ev
    using that unfolding Q_def signed_event_def by (auto simp: falsy_def split: option.splits)
  show ?thesis
    unfolding booking_webhook_def Let_def
    apply (rule webhook_guards.after_check, rule webhook_guards.after_check,
      rule webhook_guards.after_quiet(1) [OF webhook_guards.reads],
      rule webhook_guards.by_value [OF quiet unprocessable_value],
      rule webhook_guards.by_value [OF quiet unprocessable_value], rule webhook_guards.after_check,
      rule webhook_guards.by_value [OF target_moves target_value])
    subgoal premises prems for now t ev x
      using signed [OF prems(1-5)] prems(6)
      by (cases x) (auto intro!: final accepted)
    done
qed

section \<open>Properties\<close>


text \<open>Witness: a signed event of a type that touches no trip.\<close>

definition ping :: booking_webhook_event where
  "ping = \<lparr>bw_message_id = ''m'', bw_tenant_id = ''t'', bw_event_type = ''ping'',
     bw_occurred_at = \<lparr>dt_instant = 0, dt_utcoffset = Some 0\<rparr>, bw_trip_id = None, bw_data = []\<rparr>"

definition signing_service :: assess_env where
  "signing_service = sample_service\<lparr>env_getenv := (\<lambda>_. Some ''s''), env_hmac_sha256 := (\<lambda>_ _. ''g''),
     env_fromisoformat := (\<lambda>_. Some \<lparr>dt_instant = 0, dt_utcoffset = Some 0\<rparr>), env_loads := (\<lambda>_. Some JNull),
     env_decode_webhook := (\<lambda>_. Some ping)\<rparr>"

lemma signing_fields:
  "env_getenv signing_service = (\<lambda>_. Some ''s'')" "env_hmac_sha256 signing_service = (\<lambda>_ _. ''g'')"
  "env_fromisoformat signing_service = (\<lambda>_. Some \<lparr>dt_instant = 0, dt_utcoffset = Some 0\<rparr>)"
  "env_loads signing_service = (\<lambda>_. Some JNull)" "env_decode_webhook signing_service = (\<lambda>_. Some ping)"
  "host_now signing_service = int" "env_sha256 signing_service = (\<lambda>_. replicate 64 CHR ''0'')"
  by (simp_all add: signing_service_def sample_service_def graph_env.defs sample_graph_def api_env.defs sample_api_def)

lemma ping_accepted:
  "\<exists>response. fst (booking_webhook signing_service ''b'' (Some ''g'') (Some ''0'') (Some ''t'') empty_world) = Inr response"
proof -
  let ?w = "empty_world\<lparr>run_reads := Suc 0\<rparr>"
  let ?body = "JObj (env_dump signing_service (MWebhook ping))"
  let ?claim = "fresh_claim signing_service ''t'' ''booking-webhook:m'' ''POST:/v1/webhooks/booking'' ?body (run_reads ?w)"
  have new: "case idem_record ''t'' ''booking-webhook:m'' ?w of None \<Rightarrow> True
      | Some r \<Rightarrow> idem_expires_at r \<le> host_now signing_service (Suc (run_reads ?w))"
    by (simp add: empty_world_def)
  have "pattern_class (\<lambda>c. digit09 c \<or> char_between CHR ''a'' CHR ''f'' c) 64 64 (replicate 64 CHR ''0'')"
    by code_simp
  then have valid: "valid_idempotency_record ?claim"
    by (simp add: valid_idempotency_record_def fresh_claim_def is_sha256_hex_def len_between_def request_fingerprint_def
      signing_fields)
  with claim_new [OF new, of "''POST:/v1/webhooks/booking''" ?body] obtain w2 where
    claim: "claim_mutation signing_service ''t'' ''booking-webhook:m'' ''POST:/v1/webhooks/booking'' ?body ?w =
      (Inr (request_fingerprint signing_service ''POST:/v1/webhooks/booking'' ?body, None), w2)"
    and kept: "idem_record ''t'' ''booking-webhook:m'' w2 = Some ?claim" by auto
  obtain response w3 where work: "webhook_work signing_service ping ''booking-webhook:m'' None None w2 = (Inr response, w3)"
    and same: "db_idempotency_records w3 = db_idempotency_records w2"
    by (simp add: webhook_work_def webhook_event_record_def prog_simps Let_def record_event_def)
  have hash: "idem_request_hash ?claim = request_fingerprint signing_service ''POST:/v1/webhooks/booking'' ?body"
    by (simp add: fresh_claim_def)
  have stored: "idem_record ''t'' ''booking-webhook:m'' w3 = Some ?claim" using kept same by simp
  note finish = complete_claimed [OF stored hash, of signing_service 202 response]
  have fields: "bw_tenant_id ping = ''t''" "bw_message_id ping = ''m''" "bw_event_type ping = ''ping''"
    "valid_booking_webhook_event ping" "dt_instant (bw_occurred_at ping) = 0"
    by (simp_all add: ping_def valid_booking_webhook_event_def len_between_def)
  have parsed: "parse_webhook_timestamp (env_fromisoformat signing_service) (td_minutes 5) 0 ''0'' = Inr 0"
    "parse_booking_webhook (env_loads signing_service) (env_decode_webhook signing_service) ''b'' 0 (td_minutes 5) = Inr ping"
    by (simp_all add: parse_webhook_timestamp_def parse_booking_webhook_def signing_fields fields td_defs)
  have signed: "verify_webhook_signature (env_hmac_sha256 signing_service) ''b'' ''g'' ''s'' (Some ''0'')"
    by (simp add: verify_webhook_signature_def signing_fields)
  have clock: "now_utc signing_service empty_world = (Inr 0, ?w)"
    by (simp add: now_utc_app signing_fields empty_world_def)
  have target: "webhook_target signing_service ping = ret (None, None)" by (simp add: webhook_target_def fields)
  have key: "''booking-webhook:'' @ bw_message_id ping = ''booking-webhook:m''" by (simp add: fields)
  have "booking_webhook signing_service ''b'' (Some ''g'') (Some ''0'') (Some ''t'') empty_world =
      bindP (claim_mutation signing_service ''t'' ''booking-webhook:m'' ''POST:/v1/webhooks/booking'' ?body)
        (\<lambda>(request_hash, replay). case replay of
          Some r \<Rightarrow> ret (case idem_response_payload r of
              Some payload \<Rightarrow> if payload = [] then [(''status'', JStr ''accepted'')] else payload
            | None \<Rightarrow> [(''status'', JStr ''accepted'')])
        | None \<Rightarrow> bindP (webhook_work signing_service ping ''booking-webhook:m'' None None) (\<lambda>response.
            thenP (complete_mutation signing_service ''t'' ''booking-webhook:m'' request_hash 202 response) (ret response))) ?w"
    unfolding booking_webhook_def Let_def
    by (simp add: falsy_def signing_fields(1) signed thenP_app raise_when_app bindP_app [of "now_utc signing_service"] clock
      bindP_app [of "unprocessable _"] parsed unprocessable_def ret_app target bindP_app [of "ret _"] key fields)
  then show ?thesis
    unfolding bindP_app [of "claim_mutation _ _ _ _ _"] claim
    by (simp add: bindP_app work thenP_app finish ret_app)
qed


end
