(* ===== verification/Sql.thy ===== *)
theory Sql
  imports Host
begin

text \<open>
  The SQL that \<^verbatim>\<open>apps/api/postgres_repository.py\<close> builds with SQLAlchemy, as operations on tables.
  A table is a dictionary from the primary key to the other columns, in the order the server lists
  it; nothing is promised of that order.  A document column holds what pydantic's
  \<^verbatim>\<open>model_dump(mode="json")\<close> made of a model and is read back by \<^verbatim>\<open>model_validate\<close>: both are the fields
  of a codec.  A statement of a table is given by the selector of the table and its record update;
  it raises \<^verbatim>\<open>IntegrityError\<close> for a duplicate primary key and \<^verbatim>\<open>DataError\<close> for a text longer than its
  column.  Texts contain no NUL character, which PostgreSQL refuses.
\<close>

section \<open>Documents\<close>

record ('m, 'd) codec =
  cd_dump :: "'m \<Rightarrow> 'd"
  cd_validate :: "'d \<Rightarrow> 'm result"

text \<open>What pydantic documents: a dumped model is validated to the model it came from.\<close>

definition round_trips :: "('m, 'd) codec \<Rightarrow> bool" where
  "round_trips c \<longleftrightarrow> (\<forall>m. cd_validate c (cd_dump c m) = Inr m)"

definition parse :: "('m, 'd) codec \<Rightarrow> 'd \<Rightarrow> ('s, 'm) prog" where
  "parse c d = lift_result (cd_validate c d)"

text \<open>\<^verbatim>\<open>Model.model_validate(row) if row else None\<close>; the document of a model is not empty.\<close>

definition parse_one :: "('m, 'd) codec \<Rightarrow> 'd option \<Rightarrow> ('s, 'm option) prog" where
  "parse_one c row = (case row of None \<Rightarrow> ret None | Some d \<Rightarrow> bindP (parse c d) (\<lambda>m. ret (Some m)))"

definition parse_all :: "('m, 'd) codec \<Rightarrow> 'd list \<Rightarrow> ('s, 'm list) prog" where
  "parse_all c rows = lift_result (result_map (cd_validate c) rows)"

definition parse_keyed :: "('m, 'd) codec \<Rightarrow> ('k \<times> 'd) list \<Rightarrow> ('s, ('k \<times> 'm) list) prog" where
  "parse_keyed c rows =
     lift_result (result_map (\<lambda>(k, d). result_bind (cd_validate c d) (\<lambda>m. Inr (k, m))) rows)"

section \<open>Columns\<close>

definition integrity_error :: exn where "integrity_error = OtherException ''IntegrityError''"

definition data_error :: exn where "data_error = OtherException ''DataError''"

text \<open>Each text of a \<^verbatim>\<open>String(n)\<close> column has at most n characters.\<close>

definition fitting :: "(nat \<times> string) list \<Rightarrow> bool" where
  "fitting cols = list_all (\<lambda>(n, s). length s \<le> n) cols"

definition columns_fit :: "(nat \<times> string) list \<Rightarrow> ('s, unit) prog" where
  "columns_fit cols = raise_when (\<not> fitting cols) data_error"

record 'd document =
  row_payload :: 'd

record 'd row = "'d document" +
  row_tenant_id :: string

section \<open>Statements\<close>

definition run_statements :: "('s, unit) prog list \<Rightarrow> ('s, unit) prog" where
  "run_statements ms = foldr thenP ms (ret ())"

text \<open>\<^verbatim>\<open>insert().values(...)\<close>, alone and with \<^verbatim>\<open>on_conflict_do_update\<close>.\<close>

definition insert_row ::
  "('s \<Rightarrow> ('k, 'r) dict) \<Rightarrow> ((('k, 'r) dict \<Rightarrow> ('k, 'r) dict) \<Rightarrow> 's \<Rightarrow> 's) \<Rightarrow> 'k \<Rightarrow> 'r \<Rightarrow> ('s, unit) prog" where
  "insert_row sel upd k r = bindP (gets (\<lambda>s. dict_get (sel s) k)) (\<lambda>old.
     if old \<noteq> None then throw integrity_error else modify (upd (\<lambda>t. t @ [(k, r)])))"

definition upserted :: "'k \<Rightarrow> 'r \<Rightarrow> ('r \<Rightarrow> 'r) \<Rightarrow> ('k, 'r) dict \<Rightarrow> ('k, 'r) dict" where
  "upserted k r assign t = (case dict_get t k of None \<Rightarrow> t @ [(k, r)] | Some old \<Rightarrow> dict_set k (assign old) t)"

definition upsert_row ::
  "((('k, 'r) dict \<Rightarrow> ('k, 'r) dict) \<Rightarrow> 's \<Rightarrow> 's) \<Rightarrow> 'k \<Rightarrow> 'r \<Rightarrow> ('r \<Rightarrow> 'r) \<Rightarrow> ('s, unit) prog" where
  "upsert_row upd k r assign = modify (upd (upserted k r assign))"

text \<open>\<^verbatim>\<open>on_conflict_do_nothing().returning(payload)\<close>: the document stored, if it was stored.\<close>

definition insert_or_nothing ::
  "('s \<Rightarrow> ('k, ('d, 'x) document_scheme) dict) \<Rightarrow>
   ((('k, ('d, 'x) document_scheme) dict \<Rightarrow> ('k, ('d, 'x) document_scheme) dict) \<Rightarrow> 's \<Rightarrow> 's) \<Rightarrow>
   'k \<Rightarrow> ('d, 'x) document_scheme \<Rightarrow> ('s, 'd option) prog" where
  "insert_or_nothing sel upd k r = bindP (gets (\<lambda>s. dict_get (sel s) k)) (\<lambda>old.
     if old \<noteq> None then ret None
     else thenP (modify (upd (\<lambda>t. t @ [(k, r)]))) (ret (Some (row_payload r))))"

text \<open>\<^verbatim>\<open>update().where(key).values(...)\<close> and \<^verbatim>\<open>delete().where(...)\<close>.\<close>

definition update_row ::
  "((('k, 'r) dict \<Rightarrow> ('k, 'r) dict) \<Rightarrow> 's \<Rightarrow> 's) \<Rightarrow> 'k \<Rightarrow> ('r \<Rightarrow> 'r) \<Rightarrow> ('s, unit) prog" where
  "update_row upd key assign = modify (upd (map (\<lambda>(k, r). (k, if k = key then assign r else r))))"

definition delete_rows ::
  "((('k, 'r) dict \<Rightarrow> ('k, 'r) dict) \<Rightarrow> 's \<Rightarrow> 's) \<Rightarrow> ('k \<Rightarrow> 'r \<Rightarrow> bool) \<Rightarrow> ('s, unit) prog" where
  "delete_rows upd P = modify (upd (dict_filter (\<lambda>k r. \<not> P k r)))"

text \<open>The \<^verbatim>\<open>rowcount\<close> of a delete.\<close>

definition delete_counting ::
  "('s \<Rightarrow> ('k, 'r) dict) \<Rightarrow> ((('k, 'r) dict \<Rightarrow> ('k, 'r) dict) \<Rightarrow> 's \<Rightarrow> 's) \<Rightarrow> ('k \<Rightarrow> 'r \<Rightarrow> bool) \<Rightarrow> ('s, int) prog" where
  "delete_counting sel upd P = bindP (gets (\<lambda>s. int (length (dict_filter P (sel s))))) (\<lambda>n.
     thenP (delete_rows upd P) (ret n))"

text \<open>\<^verbatim>\<open>if ids: await connection.execute(...)\<close>\<close>

definition if_any :: "'a list \<Rightarrow> ('s, unit) prog list \<Rightarrow> ('s, unit) prog" where
  "if_any ids ms = (if ids = [] then ret () else run_statements ms)"

text \<open>\<^verbatim>\<open>select(payload).where(...)\<close>, by primary key and for all rows.\<close>

definition select_one ::
  "('k, ('d, 'x) document_scheme) dict \<Rightarrow> 'k \<Rightarrow> (('d, 'x) document_scheme \<Rightarrow> bool) \<Rightarrow> 'd option" where
  "select_one t k P = (case dict_get t k of None \<Rightarrow> None | Some r \<Rightarrow> if P r then Some (row_payload r) else None)"

definition select_keyed ::
  "('k, ('d, 'x) document_scheme) dict \<Rightarrow> (('d, 'x) document_scheme \<Rightarrow> bool) \<Rightarrow> ('k \<times> 'd) list" where
  "select_keyed t P = [(k, row_payload r). (k, r) \<leftarrow> t, P r]"

definition select_all ::
  "('k, ('d, 'x) document_scheme) dict \<Rightarrow> (('d, 'x) document_scheme \<Rightarrow> bool) \<Rightarrow> 'd list" where
  "select_all t P = [row_payload r. (k, r) \<leftarrow> t, P r]"

text \<open>\<^verbatim>\<open>order_by\<close> the primary key; a \<^verbatim>\<open>uuid\<close> is ordered as the unsigned number it is.\<close>

definition select_ordered ::
  "('k::linorder, ('d, 'x) document_scheme) dict \<Rightarrow> (('d, 'x) document_scheme \<Rightarrow> bool) \<Rightarrow> 'd list" where
  "select_ordered t P = map snd (py_sorted fst (select_keyed t P))"

end
