(* ===== verification/Postgres.thy ===== *)
theory Postgres
  imports Sql Ingest
begin

text \<open>
  \<^verbatim>\<open>apps/api/postgres_repository.py\<close>: the repository on PostgreSQL.  The state is the run (clock and
  identifiers) and a table per \<^verbatim>\<open>Table\<close> of the source, with the columns of the source.  A method that
  opens \<^verbatim>\<open>engine.begin()\<close> is a transaction: an exception puts every table back.  Each method is one
  atomic step; the rows that other transactions hold locked are an argument of the claims, which
  skip them.
\<close>

section \<open>Tables\<close>

record segment_row =
  sr_tenant_id :: string
  sr_carrier_code :: string
  sr_flight_number :: string
  sr_departure_airport :: string
  sr_arrival_airport :: string
  sr_scheduled_departure_at :: datetime
  sr_scheduled_arrival_at :: datetime

record 'd trip_row = "'d row" +
  row_trip_id :: uuid

record 'd incident_row = "'d row" +
  row_incident_id :: uuid

record 'd outcome_row = "'d incident_row" +
  row_candidate_set_id :: uuid

record 'd action_row = "'d incident_row" +
  row_action_status :: string

record 'd status_row = "'d row" +
  row_status :: string

record 'd traveler_row = "'d row" +
  row_traveler_id :: string

record 'd deletion_row = "'d traveler_row" +
  row_deletion_status :: string

record 'd change_row = "'d row" +
  row_change_type :: string

record 'd control_row = "'d row" +
  row_control_name :: string

record 'd platform_row = "'d document" +
  row_platform_control_name :: string

record 'd delivery_row = "'d document" +
  row_notification_id :: uuid

record 'd dispatch_row = "'d document" +
  row_action_dispatch_id :: uuid

record 'd pg_world = run +
  pg_trips :: "(uuid, 'd row) dict"
  pg_trip_segments :: "(uuid \<times> string, segment_row) dict"
  pg_evidence_items :: "(uuid, 'd trip_row) dict"
  pg_assessments :: "(uuid, 'd trip_row) dict"
  pg_incidents :: "(uuid, 'd trip_row) dict"
  pg_preferences :: "(string \<times> string, 'd document) dict"
  pg_approvals :: "(uuid, 'd document) dict"
  pg_events :: "(uuid, 'd row) dict"
  pg_memory_proposals :: "(uuid, 'd row) dict"
  pg_candidate_sets :: "(uuid, 'd incident_row) dict"
  pg_candidate_outcomes :: "(uuid, 'd outcome_row) dict"
  pg_manager_feedback :: "(uuid, 'd incident_row) dict"
  pg_tenant_playbooks :: "(uuid, 'd row) dict"
  pg_notifications :: "(uuid, 'd status_row) dict"
  pg_notification_attempts :: "(uuid, 'd delivery_row) dict"
  pg_action_dispatches :: "(uuid, 'd action_row) dict"
  pg_action_dispatch_attempts :: "(uuid, 'd dispatch_row) dict"
  pg_memory_audit_events :: "(uuid, 'd traveler_row) dict"
  pg_change_records :: "(uuid, 'd change_row) dict"
  pg_provider_onboarding_records :: "(uuid, 'd status_row) dict"
  pg_runtime_control_overrides :: "(string \<times> string, 'd document) dict"
  pg_runtime_control_changes :: "(uuid, 'd control_row) dict"
  pg_platform_overrides :: "(string, 'd document) dict"
  pg_platform_changes :: "(uuid, 'd platform_row) dict"
  pg_idempotency_records :: "(string \<times> string, 'd document) dict"
  pg_original_uploads :: "(uuid, 'd status_row) dict"
  pg_legal_holds :: "(uuid, 'd status_row) dict"
  pg_deletion_requests :: "(uuid, 'd deletion_row) dict"

text \<open>The documents of the models; \<^verbatim>\<open>payload["traveler_id"].astext\<close> is a query on a document.\<close>

record 'd codecs =
  cd_trip :: "(trip, 'd) codec"
  cd_evidence :: "(evidence_envelope, 'd) codec"
  cd_assessment :: "(risk_assessment, 'd) codec"
  cd_incident :: "(incident, 'd) codec"
  cd_profile :: "(traveler_preference_profile, 'd) codec"
  cd_approval :: "(approval_record, 'd) codec"
  cd_event :: "(event_record, 'd) codec"
  cd_proposal :: "(memory_update_proposal, 'd) codec"
  cd_candidate_set :: "(recovery_candidate_set, 'd) codec"
  cd_outcome :: "(recovery_candidate_outcome, 'd) codec"
  cd_feedback :: "(manager_feedback, 'd) codec"
  cd_playbook :: "(tenant_playbook, 'd) codec"
  cd_notification :: "(notification_record, 'd) codec"
  cd_delivery :: "(notification_attempt, 'd) codec"
  cd_action :: "(action_dispatch_record, 'd) codec"
  cd_dispatch :: "(action_dispatch_attempt, 'd) codec"
  cd_memory_audit :: "(memory_audit_event, 'd) codec"
  cd_change :: "(change_record, 'd) codec"
  cd_onboarding :: "(provider_onboarding_record, 'd) codec"
  cd_control :: "(runtime_control_change, 'd) codec"
  cd_platform :: "(platform_runtime_control_change, 'd) codec"
  cd_idempotency :: "(idempotency_record, 'd) codec"
  cd_upload :: "(original_upload_record, 'd) codec"
  cd_hold :: "(legal_hold_record, 'd) codec"
  cd_deletion :: "(deletion_request, 'd) codec"
  cd_astext :: "'d \<Rightarrow> string \<Rightarrow> string option"

type_synonym ('d, 'a) pg = "('d pg_world, 'a) prog"

definition empty_pg_world :: "'d pg_world" where
  "empty_pg_world = \<lparr>run_draws = 0, run_reads = 0, pg_trips = [], pg_trip_segments = [], pg_evidence_items = [],
     pg_assessments = [], pg_incidents = [], pg_preferences = [], pg_approvals = [], pg_events = [],
     pg_memory_proposals = [], pg_candidate_sets = [], pg_candidate_outcomes = [], pg_manager_feedback = [],
     pg_tenant_playbooks = [], pg_notifications = [], pg_notification_attempts = [], pg_action_dispatches = [],
     pg_action_dispatch_attempts = [], pg_memory_audit_events = [], pg_change_records = [],
     pg_provider_onboarding_records = [], pg_runtime_control_overrides = [], pg_runtime_control_changes = [],
     pg_platform_overrides = [], pg_platform_changes = [], pg_idempotency_records = [], pg_original_uploads = [],
     pg_legal_holds = [], pg_deletion_requests = []\<rparr>"

text \<open>\<^verbatim>\<open>async with self.engine.begin()\<close>: committed on return, rolled back on an exception.\<close>

definition transaction :: "('d, 'a) pg \<Rightarrow> ('d, 'a) pg" where
  "transaction m = (\<lambda>p. case m p of
     (Inl e, p') \<Rightarrow> (Inl e, p\<lparr>run_draws := run_draws p', run_reads := run_reads p'\<rparr>)
   | (Inr x, p') \<Rightarrow> (Inr x, p'))"

text \<open>The body of a writing method: statements, then the value it returns.\<close>

definition executing :: "('d, unit) pg list \<Rightarrow> 'a \<Rightarrow> ('d, 'a) pg" where
  "executing ms x = transaction (thenP (run_statements ms) (ret x))"

section \<open>Trips, evidence, assessments and incidents\<close>

definition segment_columns :: "trip \<Rightarrow> flight_segment \<Rightarrow> (nat \<times> string) list" where
  "segment_columns t s = [(64, seg_segment_id s), (128, trip_tenant_id t), (3, seg_carrier_code s),
     (4, seg_flight_number s), (3, seg_departure_airport s), (3, seg_arrival_airport s)]"

definition segment_row_of :: "trip \<Rightarrow> flight_segment \<Rightarrow> segment_row" where
  "segment_row_of t s = \<lparr>sr_tenant_id = trip_tenant_id t, sr_carrier_code = seg_carrier_code s,
     sr_flight_number = seg_flight_number s, sr_departure_airport = seg_departure_airport s,
     sr_arrival_airport = seg_arrival_airport s,
     sr_scheduled_departure_at = dt_instant (seg_scheduled_departure_at s),
     sr_scheduled_arrival_at = dt_instant (seg_scheduled_arrival_at s)\<rparr>"

definition replace_trip_segments :: "trip \<Rightarrow> ('d, unit) pg" where
  "replace_trip_segments t = run_statements
     (delete_rows pg_trip_segments_update (\<lambda>(trip_id, _) _. trip_id = trip_trip_id t) #
      concat (map (\<lambda>s. [columns_fit (segment_columns t s),
        insert_row pg_trip_segments pg_trip_segments_update (trip_trip_id t, seg_segment_id s) (segment_row_of t s)])
        (trip_segments t)))"

definition pg_create_trip :: "'d codecs \<Rightarrow> trip \<Rightarrow> ('d, trip) pg" where
  "pg_create_trip c t = executing
     [columns_fit [(128, trip_tenant_id t)],
      insert_row pg_trips pg_trips_update (trip_trip_id t)
        \<lparr>row_payload = cd_dump (cd_trip c) t, row_tenant_id = trip_tenant_id t\<rparr>,
      replace_trip_segments t] t"

definition pg_save_trip :: "'d codecs \<Rightarrow> trip \<Rightarrow> ('d, trip) pg" where
  "pg_save_trip c t = executing
     [columns_fit [(128, trip_tenant_id t)],
      upsert_row pg_trips_update (trip_trip_id t)
        \<lparr>row_payload = cd_dump (cd_trip c) t, row_tenant_id = trip_tenant_id t\<rparr>
        (\<lambda>r. r\<lparr>row_tenant_id := trip_tenant_id t, row_payload := cd_dump (cd_trip c) t\<rparr>),
      replace_trip_segments t] t"

definition pg_get_trip :: "'d codecs \<Rightarrow> string \<Rightarrow> uuid \<Rightarrow> ('d, trip option) pg" where
  "pg_get_trip c tenant_id trip_id =
     bindP (gets (\<lambda>p. select_one (pg_trips p) trip_id (\<lambda>r. row_tenant_id r = tenant_id))) (parse_one (cd_trip c))"

definition pg_list_trips :: "'d codecs \<Rightarrow> ('d, trip list) pg" where
  "pg_list_trips c = bindP (gets (\<lambda>p. select_all (pg_trips p) (\<lambda>_. True))) (parse_all (cd_trip c))"

definition pg_save_evidence :: "'d codecs \<Rightarrow> string \<Rightarrow> uuid \<Rightarrow> evidence_envelope list \<Rightarrow> ('d, unit) pg" where
  "pg_save_evidence c tenant_id trip_id evidence = executing
     (delete_rows pg_evidence_items_update (\<lambda>_ r. row_tenant_id r = tenant_id \<and> row_trip_id r = trip_id) #
      concat (map (\<lambda>e. [columns_fit [(128, tenant_id)],
        insert_row pg_evidence_items pg_evidence_items_update (ev_evidence_id e)
          \<lparr>row_payload = cd_dump (cd_evidence c) e, row_tenant_id = tenant_id, row_trip_id = trip_id\<rparr>]) evidence)) ()"

definition pg_get_evidence :: "'d codecs \<Rightarrow> string \<Rightarrow> uuid \<Rightarrow> ('d, evidence_envelope list) pg" where
  "pg_get_evidence c tenant_id trip_id =
     bindP (gets (\<lambda>p. select_all (pg_evidence_items p) (\<lambda>r. row_tenant_id r = tenant_id \<and> row_trip_id r = trip_id)))
       (parse_all (cd_evidence c))"

definition pg_save_assessment :: "'d codecs \<Rightarrow> string \<Rightarrow> risk_assessment \<Rightarrow> ('d, risk_assessment) pg" where
  "pg_save_assessment c tenant_id a = executing
     [columns_fit [(128, tenant_id)],
      insert_row pg_assessments pg_assessments_update (ra_assessment_id a)
        \<lparr>row_payload = cd_dump (cd_assessment c) a, row_tenant_id = tenant_id, row_trip_id = ra_trip_id a\<rparr>] a"

definition pg_save_incident :: "'d codecs \<Rightarrow> incident \<Rightarrow> ('d, incident) pg" where
  "pg_save_incident c i = executing
     [columns_fit [(128, inc_tenant_id i)],
      upsert_row pg_incidents_update (inc_incident_id i)
        \<lparr>row_payload = cd_dump (cd_incident c) i, row_tenant_id = inc_tenant_id i, row_trip_id = inc_trip_id i\<rparr>
        (\<lambda>r. r\<lparr>row_payload := cd_dump (cd_incident c) i\<rparr>)] i"

definition pg_get_incident :: "'d codecs \<Rightarrow> string \<Rightarrow> uuid \<Rightarrow> ('d, incident option) pg" where
  "pg_get_incident c tenant_id incident_id =
     bindP (gets (\<lambda>p. select_one (pg_incidents p) incident_id (\<lambda>r. row_tenant_id r = tenant_id)))
       (parse_one (cd_incident c))"

definition pg_list_incidents :: "'d codecs \<Rightarrow> string \<Rightarrow> ('d, incident list) pg" where
  "pg_list_incidents c tenant_id =
     bindP (gets (\<lambda>p. select_all (pg_incidents p) (\<lambda>r. row_tenant_id r = tenant_id))) (parse_all (cd_incident c))"

definition pg_save_profile :: "'d codecs \<Rightarrow> traveler_preference_profile \<Rightarrow> ('d, traveler_preference_profile) pg" where
  "pg_save_profile c f = executing
     [columns_fit [(128, prof_tenant_id f), (128, prof_traveler_id f)],
      upsert_row pg_preferences_update (prof_tenant_id f, prof_traveler_id f)
        \<lparr>row_payload = cd_dump (cd_profile c) f\<rparr> (\<lambda>r. r\<lparr>row_payload := cd_dump (cd_profile c) f\<rparr>)] f"

definition pg_get_profile :: "'d codecs \<Rightarrow> string \<Rightarrow> string \<Rightarrow> ('d, traveler_preference_profile option) pg" where
  "pg_get_profile c tenant_id traveler_id =
     bindP (gets (\<lambda>p. select_one (pg_preferences p) (tenant_id, traveler_id) (\<lambda>_. True))) (parse_one (cd_profile c))"

definition pg_save_approval :: "'d codecs \<Rightarrow> approval_record \<Rightarrow> ('d, approval_record) pg" where
  "pg_save_approval c a = executing
     [upsert_row pg_approvals_update (apr_incident_id a)
        \<lparr>row_payload = cd_dump (cd_approval c) a\<rparr> (\<lambda>r. r\<lparr>row_payload := cd_dump (cd_approval c) a\<rparr>)] a"

section \<open>Idempotency records\<close>

definition pg_claim_idempotency ::
  "'h host_scheme \<Rightarrow> 'd codecs \<Rightarrow> string \<Rightarrow> string \<Rightarrow> string \<Rightarrow> string \<Rightarrow> datetime \<Rightarrow>
    ('d, idempotency_disposition \<times> idempotency_record) pg" where
  "pg_claim_idempotency h c tenant_id key scope request_hash expires_at =
     bindP (now_utc h) (\<lambda>created.
       let r = \<lparr>idem_tenant_id = tenant_id, idem_idempotency_key = key, idem_scope = scope,
                idem_request_hash = request_hash, idem_state = IN_PROGRESS, idem_response_status_code = None,
                idem_response_payload = None, idem_created_at = created, idem_expires_at = expires_at,
                idem_completed_at = None\<rparr>;
           doc = \<lparr>row_payload = cd_dump (cd_idempotency c) r\<rparr>
       in if \<not> valid_idempotency_record r then throw (ValidationError ''IdempotencyRecord'')
          else transaction (thenP (columns_fit [(128, tenant_id), (256, key)])
            (bindP (insert_or_nothing pg_idempotency_records pg_idempotency_records_update (tenant_id, key) doc)
              (\<lambda>inserted. case inserted of
                 Some d \<Rightarrow> bindP (parse (cd_idempotency c) d) (\<lambda>r'. ret (EXECUTE, r'))
               | None \<Rightarrow>
                   bindP (gets (\<lambda>p. select_one (pg_idempotency_records p) (tenant_id, key) (\<lambda>_. True))) (\<lambda>found.
                   case found of None \<Rightarrow> throw (OtherException ''NoResultFound'') | Some d \<Rightarrow>
                   bindP (parse (cd_idempotency c) d) (\<lambda>current. bindP (now_utc h) (\<lambda>now.
                     if idem_expires_at current \<le> now
                     then thenP (update_row pg_idempotency_records_update (tenant_id, key) (\<lambda>row. row\<lparr>row_payload := cd_dump (cd_idempotency c) r\<rparr>)) (ret (EXECUTE, r))
                     else if idem_scope current \<noteq> scope \<or> idem_request_hash current \<noteq> request_hash
                     then ret (CONFLICT, current)
                     else if idem_state current = COMPLETED then ret (REPLAY, current)
                     else ret (STILL_IN_PROGRESS, current))))))))"

definition pg_complete_idempotency ::
  "'h host_scheme \<Rightarrow> 'd codecs \<Rightarrow> string \<Rightarrow> string \<Rightarrow> string \<Rightarrow> int \<Rightarrow> json_object \<Rightarrow>
    ('d, idempotency_record) pg" where
  "pg_complete_idempotency h c tenant_id key request_hash status_code payload = transaction (
     bindP (gets (\<lambda>p. select_one (pg_idempotency_records p) (tenant_id, key) (\<lambda>_. True))) (\<lambda>found. case found of
       None \<Rightarrow> throw (KeyError ''idempotency claim not found'')
     | Some d \<Rightarrow> bindP (parse (cd_idempotency c) d) (\<lambda>r.
         if idem_request_hash r \<noteq> request_hash then throw (KeyError ''idempotency claim does not match request'')
         else bindP (now_utc h) (\<lambda>now.
           let r' = r\<lparr>idem_state := COMPLETED, idem_response_status_code := Some status_code,
                      idem_response_payload := Some payload, idem_completed_at := Some now\<rparr>
           in thenP (update_row pg_idempotency_records_update (tenant_id, key)
                (\<lambda>row. row\<lparr>row_payload := cd_dump (cd_idempotency c) r'\<rparr>)) (ret r')))))"

section \<open>Events, memory, candidate sets, feedback and playbooks\<close>

definition pg_record_event :: "'d codecs \<Rightarrow> event_record \<Rightarrow> ('d, event_record) pg" where
  "pg_record_event c e =
     (let e' = e\<lparr>evt_details := redact_object (evt_details e)\<rparr>
      in executing
        [columns_fit [(128, evt_tenant_id e')],
         insert_row pg_events pg_events_update (evt_event_id e')
           \<lparr>row_payload = cd_dump (cd_event c) e', row_tenant_id = evt_tenant_id e'\<rparr>] e')"

definition pg_list_events :: "'d codecs \<Rightarrow> string \<Rightarrow> ('d, event_record list) pg" where
  "pg_list_events c tenant_id =
     bindP (gets (\<lambda>p. select_all (pg_events p) (\<lambda>r. row_tenant_id r = tenant_id))) (parse_all (cd_event c))"

definition pg_save_memory_proposal :: "'d codecs \<Rightarrow> memory_update_proposal \<Rightarrow> ('d, memory_update_proposal) pg" where
  "pg_save_memory_proposal c m = executing
     [columns_fit [(128, mp_tenant_id m)],
      upsert_row pg_memory_proposals_update (mp_proposal_id m)
        \<lparr>row_payload = cd_dump (cd_proposal c) m, row_tenant_id = mp_tenant_id m\<rparr>
        (\<lambda>r. r\<lparr>row_payload := cd_dump (cd_proposal c) m\<rparr>)] m"

definition pg_get_memory_proposal :: "'d codecs \<Rightarrow> string \<Rightarrow> uuid \<Rightarrow> ('d, memory_update_proposal option) pg" where
  "pg_get_memory_proposal c tenant_id proposal_id =
     bindP (gets (\<lambda>p. select_one (pg_memory_proposals p) proposal_id (\<lambda>r. row_tenant_id r = tenant_id)))
       (parse_one (cd_proposal c))"

definition pg_delete_traveler_memory :: "'d codecs \<Rightarrow> string \<Rightarrow> string \<Rightarrow> ('d, (string, int) dict) pg" where
  "pg_delete_traveler_memory c tenant_id traveler_id = transaction (
     bindP (delete_counting pg_preferences pg_preferences_update (\<lambda>k _. k = (tenant_id, traveler_id))) (\<lambda>profiles.
     bindP (delete_counting pg_memory_proposals pg_memory_proposals_update (\<lambda>_ r. row_tenant_id r = tenant_id \<and>
         cd_astext c (row_payload r) ''traveler_id'' = Some traveler_id)) (\<lambda>proposals.
       ret [(''profiles'', profiles), (''memory_proposals'', proposals)])))"

definition pg_save_candidate_set :: "'d codecs \<Rightarrow> string \<Rightarrow> recovery_candidate_set \<Rightarrow> ('d, recovery_candidate_set) pg" where
  "pg_save_candidate_set c tenant_id cs = executing
     [columns_fit [(128, tenant_id)],
      insert_row pg_candidate_sets pg_candidate_sets_update (cs_candidate_set_id cs)
        \<lparr>row_payload = cd_dump (cd_candidate_set c) cs, row_tenant_id = tenant_id,
         row_incident_id = cs_incident_id cs\<rparr>] cs"

definition pg_get_candidate_set ::
  "'d codecs \<Rightarrow> string \<Rightarrow> uuid \<Rightarrow> uuid \<Rightarrow> ('d, recovery_candidate_set option) pg" where
  "pg_get_candidate_set c tenant_id incident_id set_id =
     bindP (gets (\<lambda>p. select_one (pg_candidate_sets p) set_id
         (\<lambda>r. row_tenant_id r = tenant_id \<and> row_incident_id r = incident_id))) (parse_one (cd_candidate_set c))"

definition pg_list_candidate_sets :: "'d codecs \<Rightarrow> string \<Rightarrow> uuid \<Rightarrow> ('d, recovery_candidate_set list) pg" where
  "pg_list_candidate_sets c tenant_id incident_id =
     bindP (gets (\<lambda>p. select_all (pg_candidate_sets p)
         (\<lambda>r. row_tenant_id r = tenant_id \<and> row_incident_id r = incident_id))) (parse_all (cd_candidate_set c))"

definition pg_record_candidate_outcome ::
  "'d codecs \<Rightarrow> string \<Rightarrow> recovery_candidate_outcome \<Rightarrow> ('d, recovery_candidate_outcome) pg" where
  "pg_record_candidate_outcome c tenant_id oc = executing
     [columns_fit [(128, tenant_id)],
      insert_row pg_candidate_outcomes pg_candidate_outcomes_update (out_outcome_id oc)
        \<lparr>row_payload = cd_dump (cd_outcome c) oc, row_tenant_id = tenant_id, row_incident_id = out_incident_id oc,
         row_candidate_set_id = out_candidate_set_id oc\<rparr>] oc"

definition pg_list_candidate_outcomes :: "'d codecs \<Rightarrow> string \<Rightarrow> uuid \<Rightarrow> ('d, recovery_candidate_outcome list) pg" where
  "pg_list_candidate_outcomes c tenant_id set_id =
     bindP (gets (\<lambda>p. select_all (pg_candidate_outcomes p)
         (\<lambda>r. row_tenant_id r = tenant_id \<and> row_candidate_set_id r = set_id)))
       (\<lambda>rows. bindP (parse_all (cd_outcome c) rows) (\<lambda>ocs. ret (py_sorted outcome_key ocs)))"

definition pg_save_manager_feedback :: "'d codecs \<Rightarrow> manager_feedback \<Rightarrow> ('d, manager_feedback) pg" where
  "pg_save_manager_feedback c f = executing
     [columns_fit [(128, mf_tenant_id f)],
      insert_row pg_manager_feedback pg_manager_feedback_update (mf_feedback_id f)
        \<lparr>row_payload = cd_dump (cd_feedback c) f, row_tenant_id = mf_tenant_id f,
         row_incident_id = mf_incident_id f\<rparr>] f"

definition pg_list_manager_feedback :: "'d codecs \<Rightarrow> string \<Rightarrow> uuid \<Rightarrow> ('d, manager_feedback list) pg" where
  "pg_list_manager_feedback c tenant_id incident_id =
     bindP (gets (\<lambda>p. select_all (pg_manager_feedback p)
         (\<lambda>r. row_tenant_id r = tenant_id \<and> row_incident_id r = incident_id)))
       (\<lambda>rows. bindP (parse_all (cd_feedback c) rows) (\<lambda>fs.
          ret (py_sorted (\<lambda>f. (mf_created_at f, str_uuid (mf_feedback_id f))) fs)))"

definition pg_get_playbook :: "'d codecs \<Rightarrow> string \<Rightarrow> uuid \<Rightarrow> ('d, tenant_playbook option) pg" where
  "pg_get_playbook c tenant_id playbook_id =
     bindP (gets (\<lambda>p. select_one (pg_tenant_playbooks p) playbook_id (\<lambda>r. row_tenant_id r = tenant_id)))
       (parse_one (cd_playbook c))"

definition pg_save_playbook :: "'d codecs \<Rightarrow> tenant_playbook \<Rightarrow> ('d, tenant_playbook) pg" where
  "pg_save_playbook c b = transaction (thenP (columns_fit [(128, pb_tenant_id b)])
     (bindP (insert_or_nothing pg_tenant_playbooks pg_tenant_playbooks_update (pb_playbook_id b)
         \<lparr>row_payload = cd_dump (cd_playbook c) b, row_tenant_id = pb_tenant_id b\<rparr>) (\<lambda>inserted. case inserted of
       Some d \<Rightarrow> parse (cd_playbook c) d
     | None \<Rightarrow> bindP (gets (\<lambda>p. select_one (pg_tenant_playbooks p) (pb_playbook_id b) (\<lambda>_. True))) (\<lambda>existing.
         case existing of None \<Rightarrow> throw (OtherException ''NoResultFound'') | Some d \<Rightarrow> parse (cd_playbook c) d))))"

definition pg_list_approved_playbooks :: "'d codecs \<Rightarrow> string \<Rightarrow> ('d, tenant_playbook list) pg" where
  "pg_list_approved_playbooks c tenant_id =
     bindP (gets (\<lambda>p. select_all (pg_tenant_playbooks p) (\<lambda>r. row_tenant_id r = tenant_id)))
       (\<lambda>rows. bindP (parse_all (cd_playbook c) rows) (\<lambda>bs. ret (py_sorted (\<lambda>b. (pb_name b, pb_version b)) bs)))"

section \<open>Outboxes\<close>

definition pg_save_notification :: "'d codecs \<Rightarrow> notification_record \<Rightarrow> ('d, notification_record) pg" where
  "pg_save_notification c n = executing
     [columns_fit [(128, nt_tenant_id n), (32, notification_status_value (nt_status n))],
      upsert_row pg_notifications_update (nt_notification_id n)
        \<lparr>row_payload = cd_dump (cd_notification c) n, row_tenant_id = nt_tenant_id n,
         row_status = notification_status_value (nt_status n)\<rparr>
        (\<lambda>r. r\<lparr>row_status := notification_status_value (nt_status n), row_payload := cd_dump (cd_notification c) n\<rparr>)] n"

definition pg_get_notification :: "'d codecs \<Rightarrow> string \<Rightarrow> uuid \<Rightarrow> ('d, notification_record option) pg" where
  "pg_get_notification c tenant_id notification_id =
     bindP (gets (\<lambda>p. select_one (pg_notifications p) notification_id (\<lambda>r. row_tenant_id r = tenant_id)))
       (parse_one (cd_notification c))"

text \<open>\<^verbatim>\<open>if statuses:\<close> ignores an empty set as it ignores \<^verbatim>\<open>None\<close>.\<close>

definition pg_list_notifications ::
  "'d codecs \<Rightarrow> string \<Rightarrow> notification_status set option \<Rightarrow> ('d, notification_record list) pg" where
  "pg_list_notifications c tenant_id statuses =
     bindP (gets (\<lambda>p. select_all (pg_notifications p) (\<lambda>r. row_tenant_id r = tenant_id \<and>
         (case statuses of None \<Rightarrow> True | Some ss \<Rightarrow> ss = {} \<or> row_status r \<in> notification_status_value ` ss))))
       (parse_all (cd_notification c))"

definition pg_list_due_notifications ::
  "'h host_scheme \<Rightarrow> 'd codecs \<Rightarrow> datetime option \<Rightarrow> ('d, notification_record list) pg" where
  "pg_list_due_notifications h c now =
     bindP (now_or h now) (\<lambda>timestamp.
     bindP (gets (\<lambda>p. select_all (pg_notifications p) (\<lambda>r. row_status r \<in>
         {notification_status_value NQUEUED, notification_status_value NRETRY_SCHEDULED}))) (\<lambda>rows.
     bindP (parse_all (cd_notification c) rows) (\<lambda>ns. ret (filter (\<lambda>n. nt_next_attempt_at n \<le> timestamp) ns))))"

text \<open>
  The loop over the rows of a claim: what is not ready is skipped, what is ready is replaced by a
  leased copy with a fresh claim identifier.
\<close>

fun lease_rows ::
  "'h host_scheme \<Rightarrow> ('m, 'd) codec \<Rightarrow> ('m \<Rightarrow> bool) \<Rightarrow> (uuid \<Rightarrow> 'm \<Rightarrow> 'm) \<Rightarrow> ('m \<Rightarrow> ('d, unit) pg) \<Rightarrow>
    'd list \<Rightarrow> 'm list \<Rightarrow> ('d, 'm list) pg" where
  "lease_rows h codec ready lease store [] claimed = ret claimed"
| "lease_rows h codec ready lease store (d # rest) claimed =
     bindP (parse codec d) (\<lambda>m.
       if \<not> ready m then lease_rows h codec ready lease store rest claimed
       else bindP (uuid4 h) (\<lambda>claim_id.
         thenP (store (lease claim_id m))
           (lease_rows h codec ready lease store rest (claimed @ [lease claim_id m]))))"

text \<open>\<^verbatim>\<open>with_for_update(skip_locked=True).limit(limit)\<close>\<close>

definition lockable ::
  "uuid set \<Rightarrow> int \<Rightarrow> (uuid, ('d, 'x) row_scheme) dict \<Rightarrow> (('d, 'x) row_scheme \<Rightarrow> bool) \<Rightarrow> 'd list" where
  "lockable locked limit t P = map snd (take (nat limit) (filter (\<lambda>(k, _). k \<notin> locked) (select_keyed t P)))"

definition due_notification :: "datetime \<Rightarrow> notification_record \<Rightarrow> bool" where
  "due_notification timestamp n \<longleftrightarrow> \<not> nt_next_attempt_at n > timestamp \<and>
     lease_free (nt_dispatch_claim_expires_at n) timestamp"

definition pg_store_notification :: "'d codecs \<Rightarrow> notification_record \<Rightarrow> ('d, unit) pg" where
  "pg_store_notification c n = update_row pg_notifications_update (nt_notification_id n)
     (\<lambda>r. r\<lparr>row_payload := cd_dump (cd_notification c) n\<rparr>)"

definition pg_claim_due_notifications ::
  "'h host_scheme \<Rightarrow> 'd codecs \<Rightarrow> uuid set \<Rightarrow> string option \<Rightarrow> string \<Rightarrow> timedelta \<Rightarrow> datetime option \<Rightarrow> int \<Rightarrow>
    ('d, notification_record list) pg" where
  "pg_claim_due_notifications h c locked tenant_id worker_id claim_ttl now limit =
     bindP (now_or h now) (\<lambda>timestamp. transaction (
       thenP (raise_when (limit < 0) data_error)
         (bindP (gets (\<lambda>p. lockable locked limit (pg_notifications p) (\<lambda>r.
             row_status r \<in> {notification_status_value NQUEUED, notification_status_value NRETRY_SCHEDULED} \<and>
             tenant_matches tenant_id (row_tenant_id r))))
           (\<lambda>rows. lease_rows h (cd_notification c) (due_notification timestamp)
              (lease_notification worker_id timestamp claim_ttl) (pg_store_notification c) rows []))))"

definition pg_record_notification_attempt :: "'d codecs \<Rightarrow> notification_attempt \<Rightarrow> ('d, notification_attempt) pg" where
  "pg_record_notification_attempt c a = executing
     [insert_row pg_notification_attempts pg_notification_attempts_update (na_attempt_id a)
        \<lparr>row_payload = cd_dump (cd_delivery c) a, row_notification_id = na_notification_id a\<rparr>] a"

definition pg_complete_notification_delivery ::
  "'d codecs \<Rightarrow> notification_record \<Rightarrow> notification_attempt \<Rightarrow> uuid \<Rightarrow> ('d, notification_record option) pg" where
  "pg_complete_notification_delivery c n attempt claim_id = transaction (
     bindP (gets (\<lambda>p. select_one (pg_notifications p) (nt_notification_id n) (\<lambda>_. True))) (\<lambda>payload. case payload of
       None \<Rightarrow> ret None
     | Some d \<Rightarrow> bindP (parse (cd_notification c) d) (\<lambda>current.
         if nt_dispatch_claim_id current \<noteq> Some claim_id then ret None
         else let completed = n\<lparr>nt_dispatch_claim_id := None, nt_dispatch_claimed_by := None,
                    nt_dispatch_claimed_at := None, nt_dispatch_claim_expires_at := None\<rparr>
              in thenP (run_statements
                   [update_row pg_notifications_update (nt_notification_id n) (\<lambda>r. r\<lparr>
                      row_status := notification_status_value (nt_status completed),
                      row_payload := cd_dump (cd_notification c) completed\<rparr>),
                    insert_row pg_notification_attempts pg_notification_attempts_update (na_attempt_id attempt)
                      \<lparr>row_payload = cd_dump (cd_delivery c) attempt,
                       row_notification_id = na_notification_id attempt\<rparr>])
                 (ret (Some completed)))))"

definition pg_list_notification_attempts :: "'d codecs \<Rightarrow> string \<Rightarrow> uuid \<Rightarrow> ('d, notification_attempt list) pg" where
  "pg_list_notification_attempts c tenant_id notification_id =
     bindP (pg_get_notification c tenant_id notification_id) (\<lambda>n. if n = None then ret []
       else bindP (gets (\<lambda>p. select_all (pg_notification_attempts p) (\<lambda>r. row_notification_id r = notification_id)))
         (parse_all (cd_delivery c)))"

definition pg_save_action_dispatch :: "'d codecs \<Rightarrow> action_dispatch_record \<Rightarrow> ('d, action_dispatch_record) pg" where
  "pg_save_action_dispatch c a = executing
     [columns_fit [(128, ad_tenant_id a), (32, action_status_value (ad_status a))],
      upsert_row pg_action_dispatches_update (ad_action_dispatch_id a)
        \<lparr>row_payload = cd_dump (cd_action c) a, row_tenant_id = ad_tenant_id a,
         row_incident_id = ad_incident_id a, row_action_status = action_status_value (ad_status a)\<rparr>
        (\<lambda>r. r\<lparr>row_action_status := action_status_value (ad_status a), row_payload := cd_dump (cd_action c) a\<rparr>)] a"

definition pg_list_action_dispatches :: "'d codecs \<Rightarrow> string \<Rightarrow> uuid \<Rightarrow> ('d, action_dispatch_record list) pg" where
  "pg_list_action_dispatches c tenant_id incident_id =
     bindP (gets (\<lambda>p. select_all (pg_action_dispatches p)
         (\<lambda>r. row_tenant_id r = tenant_id \<and> row_incident_id r = incident_id))) (parse_all (cd_action c))"

definition due_action :: "datetime \<Rightarrow> action_dispatch_record \<Rightarrow> bool" where
  "due_action timestamp a \<longleftrightarrow> \<not> ad_next_attempt_at a > timestamp \<and>
     lease_free (ad_dispatch_claim_expires_at a) timestamp"

definition pg_store_action :: "'d codecs \<Rightarrow> action_dispatch_record \<Rightarrow> ('d, unit) pg" where
  "pg_store_action c a = update_row pg_action_dispatches_update (ad_action_dispatch_id a)
     (\<lambda>r. r\<lparr>row_payload := cd_dump (cd_action c) a\<rparr>)"

definition pg_claim_due_action_dispatches ::
  "'h host_scheme \<Rightarrow> 'd codecs \<Rightarrow> uuid set \<Rightarrow> string option \<Rightarrow> string \<Rightarrow> timedelta \<Rightarrow> datetime option \<Rightarrow> int \<Rightarrow>
    ('d, action_dispatch_record list) pg" where
  "pg_claim_due_action_dispatches h c locked tenant_id worker_id claim_ttl now limit =
     bindP (now_or h now) (\<lambda>timestamp. transaction (
       thenP (raise_when (limit < 0) data_error)
         (bindP (gets (\<lambda>p. lockable locked limit (pg_action_dispatches p) (\<lambda>r.
             row_action_status r \<in> {action_status_value AQUEUED, action_status_value ARETRY_SCHEDULED} \<and>
             tenant_matches tenant_id (row_tenant_id r))))
           (\<lambda>rows. lease_rows h (cd_action c) (due_action timestamp)
              (lease_action worker_id timestamp claim_ttl) (pg_store_action c) rows []))))"

definition pg_record_action_dispatch_attempt ::
  "'d codecs \<Rightarrow> action_dispatch_attempt \<Rightarrow> ('d, action_dispatch_attempt) pg" where
  "pg_record_action_dispatch_attempt c a = executing
     [insert_row pg_action_dispatch_attempts pg_action_dispatch_attempts_update (aa_attempt_id a)
        \<lparr>row_payload = cd_dump (cd_dispatch c) a, row_action_dispatch_id = aa_action_dispatch_id a\<rparr>] a"

definition pg_complete_action_dispatch ::
  "'d codecs \<Rightarrow> action_dispatch_record \<Rightarrow> action_dispatch_attempt \<Rightarrow> uuid \<Rightarrow> ('d, action_dispatch_record option) pg" where
  "pg_complete_action_dispatch c a attempt claim_id = transaction (
     bindP (gets (\<lambda>p. select_one (pg_action_dispatches p) (ad_action_dispatch_id a) (\<lambda>_. True))) (\<lambda>payload. case payload of
       None \<Rightarrow> ret None
     | Some d \<Rightarrow> bindP (parse (cd_action c) d) (\<lambda>current.
         if ad_dispatch_claim_id current \<noteq> Some claim_id then ret None
         else let completed = a\<lparr>ad_dispatch_claim_id := None, ad_dispatch_claimed_by := None,
                    ad_dispatch_claimed_at := None, ad_dispatch_claim_expires_at := None\<rparr>
              in thenP (run_statements
                   [update_row pg_action_dispatches_update (ad_action_dispatch_id a) (\<lambda>r. r\<lparr>
                      row_action_status := action_status_value (ad_status completed),
                      row_payload := cd_dump (cd_action c) completed\<rparr>),
                    insert_row pg_action_dispatch_attempts pg_action_dispatch_attempts_update (aa_attempt_id attempt)
                      \<lparr>row_payload = cd_dump (cd_dispatch c) attempt,
                       row_action_dispatch_id = aa_action_dispatch_id attempt\<rparr>])
                 (ret (Some completed)))))"

definition pg_list_action_dispatch_attempts :: "'d codecs \<Rightarrow> string \<Rightarrow> uuid \<Rightarrow> ('d, action_dispatch_attempt list) pg" where
  "pg_list_action_dispatch_attempts c tenant_id action_dispatch_id =
     bindP (gets (\<lambda>p. select_one (pg_action_dispatches p) action_dispatch_id (\<lambda>r. row_tenant_id r = tenant_id)))
       (\<lambda>action. case action of None \<Rightarrow> ret []
        | Some _ \<Rightarrow> bindP (gets (\<lambda>p. select_all (pg_action_dispatch_attempts p)
              (\<lambda>r. row_action_dispatch_id r = action_dispatch_id))) (parse_all (cd_dispatch c)))"

section \<open>Audit, governance, runtime controls, uploads, holds and deletion requests\<close>

fun change_type_value :: "change_record_type \<Rightarrow> string" where
  "change_type_value CHANGE_MODEL = ''model''"
| "change_type_value CHANGE_PROMPT = ''prompt''"
| "change_type_value CHANGE_POLICY = ''policy''"

fun onboarding_status_value :: "provider_onboarding_status \<Rightarrow> string" where
  "onboarding_status_value PO_DRAFT = ''draft''"
| "onboarding_status_value PO_SECURITY_REVIEW = ''security_review''"
| "onboarding_status_value PO_APPROVED = ''approved''"
| "onboarding_status_value PO_REJECTED = ''rejected''"
| "onboarding_status_value PO_DISABLED = ''disabled''"

definition pg_record_memory_audit :: "'d codecs \<Rightarrow> memory_audit_event \<Rightarrow> ('d, memory_audit_event) pg" where
  "pg_record_memory_audit c e =
     (let e' = e\<lparr>mau_details := redact_object (mau_details e)\<rparr>
      in executing
        [columns_fit [(128, mau_tenant_id e'), (128, mau_traveler_id e')],
         insert_row pg_memory_audit_events pg_memory_audit_events_update (mau_audit_id e')
           \<lparr>row_payload = cd_dump (cd_memory_audit c) e', row_tenant_id = mau_tenant_id e',
            row_traveler_id = mau_traveler_id e'\<rparr>] e')"

definition pg_list_memory_audit :: "'d codecs \<Rightarrow> string \<Rightarrow> string option \<Rightarrow> ('d, memory_audit_event list) pg" where
  "pg_list_memory_audit c tenant_id traveler_id =
     bindP (gets (\<lambda>p. select_all (pg_memory_audit_events p) (\<lambda>r. row_tenant_id r = tenant_id \<and>
         (falsy traveler_id \<or> traveler_id = Some (row_traveler_id r))))) (parse_all (cd_memory_audit c))"

definition pg_save_change_record :: "'d codecs \<Rightarrow> change_record \<Rightarrow> ('d, change_record) pg" where
  "pg_save_change_record c r = executing
     [columns_fit [(128, cr_tenant_id r), (32, change_type_value (cr_change_type r))],
      insert_row pg_change_records pg_change_records_update (cr_change_id r)
        \<lparr>row_payload = cd_dump (cd_change c) r, row_tenant_id = cr_tenant_id r,
         row_change_type = change_type_value (cr_change_type r)\<rparr>] r"

definition pg_list_change_records :: "'d codecs \<Rightarrow> string \<Rightarrow> ('d, change_record list) pg" where
  "pg_list_change_records c tenant_id =
     bindP (gets (\<lambda>p. select_all (pg_change_records p) (\<lambda>r. row_tenant_id r = tenant_id))) (parse_all (cd_change c))"

definition pg_save_provider_onboarding ::
  "'d codecs \<Rightarrow> provider_onboarding_record \<Rightarrow> ('d, provider_onboarding_record) pg" where
  "pg_save_provider_onboarding c r = executing
     [columns_fit [(128, po_tenant_id r), (32, onboarding_status_value (po_status r))],
      insert_row pg_provider_onboarding_records pg_provider_onboarding_records_update (po_provider_onboarding_id r)
        \<lparr>row_payload = cd_dump (cd_onboarding c) r, row_tenant_id = po_tenant_id r,
         row_status = onboarding_status_value (po_status r)\<rparr>] r"

definition pg_list_provider_onboarding :: "'d codecs \<Rightarrow> string \<Rightarrow> ('d, provider_onboarding_record list) pg" where
  "pg_list_provider_onboarding c tenant_id =
     bindP (gets (\<lambda>p. select_all (pg_provider_onboarding_records p) (\<lambda>r. row_tenant_id r = tenant_id)))
       (parse_all (cd_onboarding c))"

text \<open>The clock is read only when the override has an expiry.\<close>

definition unexpired_row ::
  "'h host_scheme \<Rightarrow> ('x \<Rightarrow> datetime option) \<Rightarrow> 'x option \<Rightarrow> ('d, 'x option) pg" where
  "unexpired_row h expires_at r = (case r of
     None \<Rightarrow> ret None
   | Some x \<Rightarrow> (case expires_at x of
       None \<Rightarrow> ret (Some x)
     | Some e \<Rightarrow> bindP (now_utc h) (\<lambda>now. ret (if e \<le> now then None else Some x))))"

definition pg_get_runtime_control_override ::
  "'h host_scheme \<Rightarrow> 'd codecs \<Rightarrow> string \<Rightarrow> runtime_control_name \<Rightarrow> ('d, runtime_control_change option) pg" where
  "pg_get_runtime_control_override h c tenant_id name =
     bindP (gets (\<lambda>p. select_one (pg_runtime_control_overrides p) (tenant_id, control_name_value name) (\<lambda>_. True)))
       (\<lambda>payload. bindP (parse_one (cd_control c) payload) (unexpired_row h rc_expires_at))"

definition pg_save_runtime_control_change ::
  "'d codecs \<Rightarrow> runtime_control_change \<Rightarrow> ('d, runtime_control_change) pg" where
  "pg_save_runtime_control_change c r = executing
     [columns_fit [(128, rc_tenant_id r), (64, control_name_value (rc_control_name r))],
      insert_row pg_runtime_control_changes pg_runtime_control_changes_update (rc_control_change_id r)
        \<lparr>row_payload = cd_dump (cd_control c) r, row_tenant_id = rc_tenant_id r,
         row_control_name = control_name_value (rc_control_name r)\<rparr>,
      upsert_row pg_runtime_control_overrides_update (rc_tenant_id r, control_name_value (rc_control_name r))
        \<lparr>row_payload = cd_dump (cd_control c) r\<rparr> (\<lambda>row. row\<lparr>row_payload := cd_dump (cd_control c) r\<rparr>)] r"

definition pg_list_runtime_control_changes :: "'d codecs \<Rightarrow> string \<Rightarrow> ('d, runtime_control_change list) pg" where
  "pg_list_runtime_control_changes c tenant_id =
     bindP (gets (\<lambda>p. select_ordered (pg_runtime_control_changes p) (\<lambda>r. row_tenant_id r = tenant_id)))
       (parse_all (cd_control c))"

definition pg_get_platform_control_override ::
  "'h host_scheme \<Rightarrow> 'd codecs \<Rightarrow> runtime_control_name \<Rightarrow> ('d, platform_runtime_control_change option) pg" where
  "pg_get_platform_control_override h c name =
     bindP (gets (\<lambda>p. select_one (pg_platform_overrides p) (control_name_value name) (\<lambda>_. True)))
       (\<lambda>payload. bindP (parse_one (cd_platform c) payload) (unexpired_row h rc_expires_at))"

definition pg_save_platform_control_change ::
  "'d codecs \<Rightarrow> platform_runtime_control_change \<Rightarrow> ('d, platform_runtime_control_change) pg" where
  "pg_save_platform_control_change c r = executing
     [columns_fit [(64, control_name_value (prc_control_name r))],
      insert_row pg_platform_changes pg_platform_changes_update (prc_control_change_id r)
        \<lparr>row_payload = cd_dump (cd_platform c) r,
         row_platform_control_name = control_name_value (prc_control_name r)\<rparr>,
      upsert_row pg_platform_overrides_update (control_name_value (prc_control_name r))
        \<lparr>row_payload = cd_dump (cd_platform c) r\<rparr> (\<lambda>row. row\<lparr>row_payload := cd_dump (cd_platform c) r\<rparr>)] r"

definition pg_list_platform_control_changes :: "'d codecs \<Rightarrow> ('d, platform_runtime_control_change list) pg" where
  "pg_list_platform_control_changes c =
     bindP (gets (\<lambda>p. select_ordered (pg_platform_changes p) (\<lambda>_. True))) (parse_all (cd_platform c))"

definition pg_save_original_upload :: "'d codecs \<Rightarrow> original_upload_record \<Rightarrow> ('d, original_upload_record) pg" where
  "pg_save_original_upload c u = executing
     [columns_fit [(128, up_tenant_id u), (32, upload_status_value (up_status u))],
      upsert_row pg_original_uploads_update (up_original_upload_id u)
        \<lparr>row_payload = cd_dump (cd_upload c) u, row_tenant_id = up_tenant_id u,
         row_status = upload_status_value (up_status u)\<rparr>
        (\<lambda>r. r\<lparr>row_status := upload_status_value (up_status u), row_payload := cd_dump (cd_upload c) u\<rparr>)] u"

definition pg_get_original_upload :: "'d codecs \<Rightarrow> string \<Rightarrow> uuid \<Rightarrow> ('d, original_upload_record option) pg" where
  "pg_get_original_upload c tenant_id upload_id =
     bindP (gets (\<lambda>p. select_one (pg_original_uploads p) upload_id (\<lambda>r. row_tenant_id r = tenant_id)))
       (parse_one (cd_upload c))"

definition hold_status :: "legal_hold_record \<Rightarrow> string" where
  "hold_status x = (if lh_released_at x \<noteq> None then ''released'' else ''active'')"

definition pg_save_legal_hold :: "'d codecs \<Rightarrow> legal_hold_record \<Rightarrow> ('d, legal_hold_record) pg" where
  "pg_save_legal_hold c x = executing
     [columns_fit [(128, lh_tenant_id x), (32, hold_status x)],
      upsert_row pg_legal_holds_update (lh_legal_hold_id x)
        \<lparr>row_payload = cd_dump (cd_hold c) x, row_tenant_id = lh_tenant_id x, row_status = hold_status x\<rparr>
        (\<lambda>r. r\<lparr>row_status := hold_status x, row_payload := cd_dump (cd_hold c) x\<rparr>)] x"

definition pg_get_legal_hold :: "'d codecs \<Rightarrow> string \<Rightarrow> uuid \<Rightarrow> ('d, legal_hold_record option) pg" where
  "pg_get_legal_hold c tenant_id hold_id =
     bindP (gets (\<lambda>p. select_one (pg_legal_holds p) hold_id (\<lambda>r. row_tenant_id r = tenant_id))) (parse_one (cd_hold c))"

definition pg_list_legal_holds :: "'d codecs \<Rightarrow> string \<Rightarrow> ('d, legal_hold_record list) pg" where
  "pg_list_legal_holds c tenant_id =
     bindP (gets (\<lambda>p. select_ordered (pg_legal_holds p) (\<lambda>r. row_tenant_id r = tenant_id))) (parse_all (cd_hold c))"

definition pg_active_legal_holds_for_traveler ::
  "'h host_scheme \<Rightarrow> 'd codecs \<Rightarrow> string \<Rightarrow> string \<Rightarrow> datetime option \<Rightarrow> ('d, legal_hold_record list) pg" where
  "pg_active_legal_holds_for_traveler h c tenant_id traveler_id now =
     bindP (now_or h now) (\<lambda>timestamp.
     bindP (gets (\<lambda>p. select_keyed (pg_trips p) (\<lambda>_. True))) (\<lambda>rows.
     bindP (parse_keyed (cd_trip c) rows) (\<lambda>trip_rows.
       let trip_ids = [k. (k, t) \<leftarrow> trip_rows, trip_tenant_id t = tenant_id \<and> trip_traveler_id t = traveler_id]
       in bindP (pg_list_legal_holds c tenant_id) (\<lambda>holds. ret (filter (\<lambda>x. is_active x timestamp \<and>
            (lh_scope x = HOLD_TENANT \<or>
             lh_scope x = HOLD_TRAVELER \<and> lh_traveler_id x = Some traveler_id \<or>
             lh_scope x = HOLD_TRIP \<and> lh_trip_id x \<in> Some ` set trip_ids)) holds)))))"

definition pg_save_deletion_request :: "'d codecs \<Rightarrow> deletion_request \<Rightarrow> ('d, deletion_request) pg" where
  "pg_save_deletion_request c r = executing
     [columns_fit [(128, dr_tenant_id r), (128, dr_traveler_id r), (32, deletion_status_value (dr_status r))],
      upsert_row pg_deletion_requests_update (dr_deletion_request_id r)
        \<lparr>row_payload = cd_dump (cd_deletion c) r, row_tenant_id = dr_tenant_id r,
         row_traveler_id = dr_traveler_id r, row_deletion_status = deletion_status_value (dr_status r)\<rparr>
        (\<lambda>row. row\<lparr>row_deletion_status := deletion_status_value (dr_status r),
                  row_payload := cd_dump (cd_deletion c) r\<rparr>)] r"

definition pg_get_deletion_request :: "'d codecs \<Rightarrow> string \<Rightarrow> uuid \<Rightarrow> ('d, deletion_request option) pg" where
  "pg_get_deletion_request c tenant_id request_id =
     bindP (gets (\<lambda>p. select_one (pg_deletion_requests p) request_id (\<lambda>r. row_tenant_id r = tenant_id)))
       (parse_one (cd_deletion c))"

definition pg_list_deletion_requests :: "'d codecs \<Rightarrow> string \<Rightarrow> string option \<Rightarrow> ('d, deletion_request list) pg" where
  "pg_list_deletion_requests c tenant_id traveler_id =
     bindP (gets (\<lambda>p. select_ordered (pg_deletion_requests p) (\<lambda>r. row_tenant_id r = tenant_id \<and>
         (falsy traveler_id \<or> traveler_id = Some (row_traveler_id r))))) (parse_all (cd_deletion c))"

definition pg_list_pending_deletion_requests :: "'d codecs \<Rightarrow> ('d, deletion_request list) pg" where
  "pg_list_pending_deletion_requests c =
     bindP (gets (\<lambda>p. select_ordered (pg_deletion_requests p) (\<lambda>r. row_deletion_status r \<in>
         {deletion_status_value DEL_PENDING, deletion_status_value BLOCKED_BY_LEGAL_HOLD}))) (parse_all (cd_deletion c))"

end
