(* ===== verification/PostgresPrivacy.thy ===== *)
theory PostgresPrivacy
  imports Postgres
begin

text \<open>
  \<^verbatim>\<open>erase_traveler_data\<close> and \<^verbatim>\<open>purge_expired\<close> of \<^verbatim>\<open>apps/api/postgres_repository.py\<close>: the keys to delete are
  computed in Python from the documents read, then deleted table by table, in one transaction.
\<close>

section \<open>Erasure of one traveler\<close>

text \<open>Rows hanging off incidents, which both erasure and retention delete with them.\<close>

definition delete_incident_rows :: "uuid list \<Rightarrow> ('d, unit) pg list" where
  "delete_incident_rows ids =
     [delete_rows pg_approvals_update (\<lambda>k _. k \<in> set ids),
      delete_rows pg_candidate_sets_update (\<lambda>_ r. row_incident_id r \<in> set ids),
      delete_rows pg_candidate_outcomes_update (\<lambda>_ r. row_incident_id r \<in> set ids),
      delete_rows pg_manager_feedback_update (\<lambda>_ r. row_incident_id r \<in> set ids)]"

definition delete_action_rows :: "uuid list \<Rightarrow> ('d, unit) pg list" where
  "delete_action_rows ids =
     [bindP (gets (\<lambda>p. [k. (k, r) \<leftarrow> pg_action_dispatches p, row_incident_id r \<in> set ids])) (\<lambda>actions.
        delete_rows pg_action_dispatch_attempts_update (\<lambda>_ r. row_action_dispatch_id r \<in> set actions)),
      delete_rows pg_action_dispatches_update (\<lambda>_ r. row_incident_id r \<in> set ids)]"

definition delete_incidents :: "uuid list \<Rightarrow> ('d, unit) pg" where
  "delete_incidents ids = delete_rows pg_incidents_update (\<lambda>k _. k \<in> set ids)"

definition pg_erase_memory :: "'d codecs \<Rightarrow> string \<Rightarrow> string \<Rightarrow> ('d, (string, int) dict) pg" where
  "pg_erase_memory c tenant_id traveler_id =
     bindP (gets (\<lambda>p. dict_get (pg_preferences p) (tenant_id, traveler_id) \<noteq> None)) (\<lambda>profile_present.
     bindP (gets (\<lambda>p. select_keyed (pg_memory_proposals p) (\<lambda>r. row_tenant_id r = tenant_id))) (\<lambda>rows.
     bindP (parse_keyed (cd_proposal c) rows) (\<lambda>proposals.
       let proposal_ids = [k. (k, m) \<leftarrow> proposals, mp_traveler_id m = traveler_id]
       in thenP (run_statements
            [delete_rows pg_preferences_update (\<lambda>k _. k = (tenant_id, traveler_id)),
             if_any proposal_ids [delete_rows pg_memory_proposals_update (\<lambda>k _. k \<in> set proposal_ids)]])
          (ret [(''profiles'', if profile_present then 1 else 0),
                (''memory_proposals'', int (length proposal_ids))]))))"

text \<open>The keys of the trips, incidents and notifications of a traveler.\<close>

definition pg_traveler_keys ::
  "'d codecs \<Rightarrow> string \<Rightarrow> string \<Rightarrow> ('d, uuid list \<times> uuid list \<times> uuid list) pg" where
  "pg_traveler_keys c tenant_id traveler_id =
     bindP (gets (\<lambda>p. select_keyed (pg_trips p) (\<lambda>_. True))) (\<lambda>rows.
     bindP (parse_keyed (cd_trip c) rows) (\<lambda>trip_rows.
       let trip_ids = [k. (k, t) \<leftarrow> trip_rows, trip_tenant_id t = tenant_id \<and> trip_traveler_id t = traveler_id]
       in bindP (gets (\<lambda>p. select_keyed (pg_incidents p) (\<lambda>_. True))) (\<lambda>rows.
          bindP (parse_keyed (cd_incident c) rows) (\<lambda>incident_rows.
            let incident_ids = [k. (k, i) \<leftarrow> incident_rows, inc_tenant_id i = tenant_id \<and> inc_trip_id i \<in> set trip_ids]
            in bindP (gets (\<lambda>p. select_keyed (pg_notifications p) (\<lambda>r. row_tenant_id r = tenant_id))) (\<lambda>rows.
               bindP (parse_keyed (cd_notification c) rows) (\<lambda>notification_rows.
                 ret (trip_ids, incident_ids,
                   [k. (k, n) \<leftarrow> notification_rows, nt_traveler_id n = traveler_id])))))))"

definition pg_erase_rows :: "uuid list \<Rightarrow> uuid list \<Rightarrow> uuid list \<Rightarrow> ('d, unit) pg" where
  "pg_erase_rows trip_ids incident_ids notification_ids = run_statements
     [if_any notification_ids
        [delete_rows pg_notification_attempts_update (\<lambda>_ r. row_notification_id r \<in> set notification_ids),
         delete_rows pg_notifications_update (\<lambda>k _. k \<in> set notification_ids)],
      if_any incident_ids
        (delete_action_rows incident_ids @ delete_incident_rows incident_ids @ [delete_incidents incident_ids]),
      if_any trip_ids
        [delete_rows pg_evidence_items_update (\<lambda>_ r. row_trip_id r \<in> set trip_ids),
         delete_rows pg_assessments_update (\<lambda>_ r. row_trip_id r \<in> set trip_ids),
         delete_rows pg_trip_segments_update (\<lambda>(trip_id, _) _. trip_id \<in> set trip_ids),
         delete_rows pg_trips_update (\<lambda>k _. k \<in> set trip_ids)]]"

definition pg_erase_traveler_data ::
  "'d codecs \<Rightarrow> string \<Rightarrow> string \<Rightarrow> deletion_request_scope \<Rightarrow> ('d, (string, int) dict) pg" where
  "pg_erase_traveler_data c tenant_id traveler_id scope = transaction (
     bindP (pg_erase_memory c tenant_id traveler_id) (\<lambda>counts.
       if scope = PREFERENCE_MEMORY then ret counts
       else bindP (pg_traveler_keys c tenant_id traveler_id) (\<lambda>(trip_ids, incident_ids, notification_ids).
         thenP (pg_erase_rows trip_ids incident_ids notification_ids)
           (ret (counts @ [(''trips'', int (length trip_ids)), (''evidence'', int (length trip_ids)),
              (''assessments'', int (length trip_ids)), (''incidents'', int (length incident_ids)),
              (''notifications'', int (length notification_ids))])))))"

section \<open>Retention\<close>

text \<open>The comprehension validates a document, asks \<^verbatim>\<open>is_active()\<close>, and validates it again to keep it.\<close>

definition pg_active_holds :: "'h host_scheme \<Rightarrow> 'd codecs \<Rightarrow> ('d, legal_hold_record list) pg" where
  "pg_active_holds h c = bindP (gets (\<lambda>p. select_all (pg_legal_holds p) (\<lambda>_. True))) (\<lambda>rows.
     bindP (for_each rows (\<lambda>d. bindP (parse (cd_hold c) d) (\<lambda>x. bindP (now_utc h) (\<lambda>now.
       if is_active x now then bindP (parse (cd_hold c) d) (\<lambda>x'. ret [x']) else ret []))))
     (\<lambda>kept. ret (concat kept)))"

record expired_keys =
  xp_trips :: "uuid list"
  xp_incidents :: "uuid list"
  xp_profiles :: "(string \<times> string) list"
  xp_proposals :: "uuid list"
  xp_notifications :: "uuid list"
  xp_uploads :: "uuid list"
  xp_events :: "uuid list"
  xp_memory_audits :: "uuid list"

text \<open>The rows of a table whose model satisfies a condition on its key and itself.\<close>

definition keys_where ::
  "('d pg_world \<Rightarrow> ('k, ('d, 'x) document_scheme) dict) \<Rightarrow> ('m, 'd) codec \<Rightarrow> ('k \<Rightarrow> 'm \<Rightarrow> bool) \<Rightarrow> ('d, 'k list) pg" where
  "keys_where sel codec P = bindP (gets (\<lambda>p. select_keyed (sel p) (\<lambda>_. True))) (\<lambda>rows.
     bindP (parse_keyed codec rows) (\<lambda>parsed. ret [k. (k, m) \<leftarrow> parsed, P k m]))"

text \<open>The keys of the uploads also depend on the tenant column of the row.\<close>

definition expired_uploads ::
  "'d codecs \<Rightarrow> legal_hold_record list \<Rightarrow> datetime \<Rightarrow> ('d, uuid list) pg" where
  "expired_uploads c holds upload_cutoff =
     bindP (gets (\<lambda>p. [((k, row_tenant_id r), row_payload r). (k, r) \<leftarrow> pg_original_uploads p])) (\<lambda>rows.
     bindP (parse_keyed (cd_upload c) rows) (\<lambda>parsed.
       ret [k. ((k, tenant_id), u) \<leftarrow> parsed, up_created_at u < upload_cutoff \<and> \<not> held_tenant holds tenant_id]))"

definition pg_expired_keys ::
  "'h host_scheme \<Rightarrow> 'd codecs \<Rightarrow> datetime \<Rightarrow> datetime \<Rightarrow> datetime \<Rightarrow> ('d, expired_keys) pg" where
  "pg_expired_keys h c before upload_cutoff audit_cutoff =
     bindP (gets (\<lambda>p. select_keyed (pg_trips p) (\<lambda>_. True))) (\<lambda>rows.
     bindP (pg_active_holds h c) (\<lambda>holds.
     bindP (parse_keyed (cd_trip c) rows) (\<lambda>parsed_trips.
       let trip_ids = [k. (k, t) \<leftarrow> parsed_trips, trip_created_at t < before \<and> \<not> (\<exists>x \<in> set holds. hold_covers x k t)]
       in bindP (keys_where pg_incidents (cd_incident c) (\<lambda>_ i. inc_trip_id i \<in> set trip_ids)) (\<lambda>incident_ids.
          bindP (keys_where pg_preferences (cd_profile c) (\<lambda>(tenant_id, traveler_id) f. prof_updated_at f < before \<and>
            \<not> held_traveler holds tenant_id traveler_id \<and> \<not> held_tenant holds tenant_id)) (\<lambda>profiles.
          bindP (keys_where pg_memory_proposals (cd_proposal c) (\<lambda>_ m. mp_created_at m < before \<and>
            \<not> held_traveler holds (mp_tenant_id m) (mp_traveler_id m) \<and> \<not> held_tenant holds (mp_tenant_id m)))
            (\<lambda>proposal_ids.
          bindP (keys_where pg_notifications (cd_notification c) (\<lambda>_ n. nt_created_at n < before)) (\<lambda>notification_ids.
          bindP (expired_uploads c holds upload_cutoff) (\<lambda>upload_ids.
          bindP (keys_where pg_events (cd_event c) (\<lambda>_ e. evt_emitted_at e < audit_cutoff)) (\<lambda>event_ids.
          bindP (keys_where pg_memory_audit_events (cd_memory_audit c) (\<lambda>_ e. mau_occurred_at e < audit_cutoff))
            (\<lambda>audit_ids.
          ret \<lparr>xp_trips = trip_ids, xp_incidents = incident_ids, xp_profiles = profiles, xp_proposals = proposal_ids,
               xp_notifications = notification_ids, xp_uploads = upload_ids, xp_events = event_ids,
               xp_memory_audits = audit_ids\<rparr>))))))))))"

definition pg_purge_rows :: "expired_keys \<Rightarrow> ('d, unit) pg" where
  "pg_purge_rows x = run_statements
     [if_any (xp_trips x)
        [delete_rows pg_evidence_items_update (\<lambda>_ r. row_trip_id r \<in> set (xp_trips x)),
         delete_rows pg_assessments_update (\<lambda>_ r. row_trip_id r \<in> set (xp_trips x))],
      if_any (xp_incidents x)
        (delete_incident_rows (xp_incidents x) @ delete_action_rows (xp_incidents x) @
         [delete_incidents (xp_incidents x)]),
      if_any (xp_trips x) [delete_rows pg_trips_update (\<lambda>k _. k \<in> set (xp_trips x))],
      run_statements (map (\<lambda>key. delete_rows pg_preferences_update (\<lambda>k _. k = key)) (xp_profiles x)),
      if_any (xp_proposals x) [delete_rows pg_memory_proposals_update (\<lambda>k _. k \<in> set (xp_proposals x))],
      if_any (xp_notifications x)
        [delete_rows pg_notification_attempts_update (\<lambda>_ r. row_notification_id r \<in> set (xp_notifications x)),
         delete_rows pg_notifications_update (\<lambda>k _. k \<in> set (xp_notifications x))],
      if_any (xp_uploads x) [delete_rows pg_original_uploads_update (\<lambda>k _. k \<in> set (xp_uploads x))],
      if_any (xp_events x) [delete_rows pg_events_update (\<lambda>k _. k \<in> set (xp_events x))],
      if_any (xp_memory_audits x)
        [delete_rows pg_memory_audit_events_update (\<lambda>k _. k \<in> set (xp_memory_audits x))]]"

definition pg_purge_counts :: "expired_keys \<Rightarrow> (string, int) dict" where
  "pg_purge_counts x =
     [(''trips'', int (length (xp_trips x))), (''evidence'', int (length (xp_trips x))),
      (''assessments'', int (length (xp_trips x))), (''incidents'', int (length (xp_incidents x))),
      (''profiles'', int (length (xp_profiles x))), (''memory_proposals'', int (length (xp_proposals x))),
      (''notifications'', int (length (xp_notifications x))), (''original_uploads'', int (length (xp_uploads x))),
      (''audit_events'', int (length (xp_events x))), (''memory_audits'', int (length (xp_memory_audits x)))]"

definition pg_purge_expired ::
  "'h host_scheme \<Rightarrow> 'd codecs \<Rightarrow> datetime \<Rightarrow> datetime option \<Rightarrow> datetime option \<Rightarrow> ('d, (string, int) dict) pg" where
  "pg_purge_expired h c before original_upload_before audit_before =
     (let upload_cutoff = (case original_upload_before of None \<Rightarrow> before | Some t \<Rightarrow> t);
          audit_cutoff = (case audit_before of None \<Rightarrow> before | Some t \<Rightarrow> t)
      in transaction (bindP (pg_expired_keys h c before upload_cutoff audit_cutoff) (\<lambda>x.
           thenP (pg_purge_rows x) (ret (pg_purge_counts x)))))"

end
