(* ===== verification/Rows.thy ===== *)
theory Rows
  imports Sql
begin

text \<open>
  How a table stores a collection: \<open>same_rows L t\<close> says that the table t lists the rows L, whose keys are
  distinct, in some order.  The statements of Sql keep the relation, and what they select is
  determined by L, up to the order in which the server lists rows.
\<close>

named_theorems sql_simps \<open>statements on a state\<close>

section \<open>Statements on a state\<close>

lemma columns_fit_app [sql_simps]:
  "columns_fit cols s = (if fitting cols then (Inr (), s) else (Inl data_error, s))"
  by (simp add: columns_fit_def prog_simps)

lemma insert_row_app [sql_simps]:
  "insert_row sel upd k r s = (if dict_get (sel s) k = None then (Inr (), upd (\<lambda>t. t @ [(k, r)]) s)
     else (Inl integrity_error, s))"
  by (simp add: insert_row_def prog_simps)

lemma upsert_row_app [sql_simps]: "upsert_row upd k r f s = (Inr (), upd (upserted k r f) s)"
  by (simp add: upsert_row_def prog_simps)

lemma update_row_app [sql_simps]:
  "update_row upd key f s = (Inr (), upd (map (\<lambda>(k, r). (k, if k = key then f r else r))) s)"
  by (simp add: update_row_def prog_simps)

lemma delete_rows_app [sql_simps]: "delete_rows upd P s = (Inr (), upd (dict_filter (\<lambda>k r. \<not> P k r)) s)"
  by (simp add: delete_rows_def prog_simps)

lemma run_statements_Nil [sql_simps]: "run_statements [] s = (Inr (), s)"
  by (simp add: run_statements_def prog_simps)

lemma run_statements_Cons [sql_simps]:
  "run_statements (m # ms) s = (case m s of (Inl e, s') \<Rightarrow> (Inl e, s') | (Inr _, s') \<Rightarrow> run_statements ms s')"
  by (simp add: run_statements_def prog_simps split: prod.splits sum.splits)

lemma run_statements_append:
  "run_statements ms s = (Inr (), s') \<Longrightarrow> run_statements (ms @ ns) s = run_statements ns s'"
  by (induction ms arbitrary: s) (auto simp: sql_simps split: prod.splits sum.splits)

lemma if_any_app [sql_simps]:
  "if_any ids ms s = (if ids = [] then (Inr (), s) else run_statements ms s)"
  by (simp add: if_any_def prog_simps)

lemma parse_app [sql_simps]: "parse c d s = (cd_validate c d, s)"
  by (simp add: parse_def prog_simps)

lemma round_tripsD [simp]: "round_trips c \<Longrightarrow> cd_validate c (cd_dump c m) = Inr m"
  by (simp add: round_trips_def)

section \<open>Tables as collections of rows\<close>

definition same_rows :: "('k \<times> 'r) list \<Rightarrow> ('k, 'r) dict \<Rightarrow> bool" where
  "same_rows L t \<longleftrightarrow> distinct (map fst L) \<and> mset t = mset L"

lemma same_rows_refl: "same_rows L L \<longleftrightarrow> dict_wf L"
  by (simp add: same_rows_def dict_wf_def)

lemma same_rows_wf: "same_rows L t \<Longrightarrow> dict_wf t"
  unfolding same_rows_def dict_wf_def by (metis mset_eq_imp_distinct_iff mset_map)

lemma same_rows_wf': "same_rows L t \<Longrightarrow> dict_wf L"
  by (simp add: same_rows_def dict_wf_def)

lemma same_rows_cong: "mset L = mset L' \<Longrightarrow> same_rows L t \<longleftrightarrow> same_rows L' t"
  unfolding same_rows_def by (metis mset_eq_imp_distinct_iff mset_map)

lemma same_rows_get:
  assumes "same_rows L t"
  shows "dict_get t k = dict_get L k"
proof -
  have "distinct (map fst t)" using same_rows_wf [OF assms] by (simp add: dict_wf_def)
  moreover have "set t = set L" using assms mset_eq_setD by (auto simp: same_rows_def)
  ultimately have "map_of t = map_of L" using assms map_of_inject_set by (metis same_rows_def)
  then show ?thesis by simp
qed

lemma same_rows_fresh: "same_rows L t \<Longrightarrow> dict_get t k = None \<longleftrightarrow> k \<notin> fst ` set L"
  by (simp add: same_rows_get map_of_eq_None_iff)

lemma same_rows_insert:
  "same_rows L t \<Longrightarrow> k \<notin> fst ` set L \<Longrightarrow> same_rows (L @ [(k, r)]) (t @ [(k, r)])"
  by (auto simp: same_rows_def)

lemma same_rows_filter: "same_rows L t \<Longrightarrow> same_rows (dict_filter P L) (dict_filter P t)"
  by (simp add: same_rows_def dict_filter_def distinct_map_filter mset_filter)

text \<open>Replacing the row at a key, in place.\<close>

definition put_at :: "'k \<Rightarrow> ('r \<Rightarrow> 'r) \<Rightarrow> ('k, 'r) dict \<Rightarrow> ('k, 'r) dict" where
  "put_at key f = map (\<lambda>(k, r). (k, if k = key then f r else r))"

lemma map_fst_put_at [simp]: "map fst (put_at key f t) = map fst t"
  by (simp add: put_at_def comp_def case_prod_unfold)

lemma same_rows_put_at: "same_rows L t \<Longrightarrow> same_rows (put_at k f L) (put_at k f t)"
  using map_fst_put_at [of k f L] by (simp add: same_rows_def) (simp add: put_at_def mset_map)

lemma update_put_at:
  "distinct (map fst t) \<Longrightarrow> dict_get t k = Some old \<Longrightarrow> dict_set k (f old) t = put_at k f t"
proof (induction t)
  case Nil
  then show ?case by simp
next
  case (Cons kv t)
  obtain k0 r0 where kv: "kv = (k0, r0)" by fastforce
  show ?case
  proof (cases "k0 = k")
    case True
    have "k \<notin> fst ` set t" using Cons.prems kv True by simp
    then have "put_at k f t = t" unfolding put_at_def by (intro map_idI) (auto simp: rev_image_eqI)
    then show ?thesis using Cons.prems kv True by (simp add: put_at_def)
  next
    case False
    then show ?thesis using Cons kv by (simp add: put_at_def)
  qed
qed

lemma upserted_cases:
  assumes "dict_wf t"
  shows "upserted k r f t = (if dict_get t k = None then t @ [(k, r)] else put_at k f t)"
  using assms update_put_at [of t k _ f] by (auto simp: upserted_def dict_wf_def split: option.splits)

lemma same_rows_upsert:
  assumes "same_rows L t"
  shows "same_rows (upserted k r f L) (upserted k r f t)"
  using assms same_rows_insert [OF assms, of k r] same_rows_put_at [OF assms, of k f]
    same_rows_fresh [OF assms, of k]
  by (auto simp: upserted_cases [OF same_rows_wf [OF assms]] upserted_cases [OF same_rows_wf' [OF assms]]
      same_rows_get [OF assms])

section \<open>What a select returns\<close>

lemma same_rows_select_one: "same_rows L t \<Longrightarrow> select_one t k P = select_one L k P"
  by (simp add: select_one_def same_rows_get)

lemma select_all_conv: "select_all t P = map (row_payload \<circ> snd) (filter (P \<circ> snd) t)"
  by (induction t) (auto simp: select_all_def)

lemma select_keyed_conv: "select_keyed t P = map (apsnd row_payload) (filter (P \<circ> snd) t)"
  by (induction t) (auto simp: select_keyed_def)

lemma same_rows_select: "same_rows L t \<Longrightarrow> mset (select_all t P) = mset (select_all L P)"
  by (simp add: same_rows_def select_all_conv)

lemma same_rows_select_keyed: "same_rows L t \<Longrightarrow> mset (select_keyed t P) = mset (select_keyed L P)"
  by (simp add: same_rows_def select_keyed_conv)

lemma select_ordered_mset: "mset (select_ordered t P) = mset (select_all t P)"
proof -
  have "mset (select_ordered t P) = image_mset snd (mset (select_keyed t P))"
    by (simp add: select_ordered_def py_sorted_def)
  also have "\<dots> = mset (select_all t P)" by (simp add: select_keyed_conv select_all_conv multiset.map_comp comp_def)
  finally show ?thesis .
qed

section \<open>Reading documents back\<close>

lemma result_map_dumped:
  assumes "round_trips c" "set rows \<subseteq> range (cd_dump c)"
  shows "\<exists>xs. result_map (cd_validate c) rows = Inr xs \<and> rows = map (cd_dump c) xs"
  using assms(2)
proof (induction rows)
  case Nil
  then show ?case by simp
next
  case (Cons d rows)
  then obtain m xs where "d = cd_dump c m" "result_map (cd_validate c) rows = Inr xs" "rows = map (cd_dump c) xs" by auto
  then show ?case using assms(1) by (intro exI [of _ "m # xs"]) (simp add: result_bind_def)
qed

lemma dump_inj: "round_trips c \<Longrightarrow> inj (cd_dump c)"
  by (rule injI) (metis Inr_inject round_tripsD)

lemma parse_all_rows:
  assumes "round_trips c" "mset rows = mset (map (cd_dump c) vs)"
  shows "\<exists>xs. parse_all c rows s = (Inr xs, s) \<and> mset xs = mset vs"
proof -
  have "set rows \<subseteq> range (cd_dump c)" using mset_eq_setD [OF assms(2)] by auto
  then obtain xs where xs: "result_map (cd_validate c) rows = Inr xs" "rows = map (cd_dump c) xs"
    using result_map_dumped [OF assms(1)] by blast
  have "image_mset (cd_dump c) (mset xs) = image_mset (cd_dump c) (mset vs)"
    using assms(2) xs(2) by simp
  then have "mset xs = mset vs" by (rule injD [OF multiset.inj_map [OF dump_inj [OF assms(1)]]])
  then show ?thesis using xs(1) by (simp add: parse_all_def prog_simps)
qed

lemma parse_keyed_rows:
  fixes c :: "('m, 'd) codec" and rows :: "('k \<times> 'd) list"
  assumes "round_trips c" "mset rows = mset (map (apsnd (cd_dump c)) vs)"
  shows "\<exists>xs. parse_keyed c rows s = (Inr xs, s) \<and> mset xs = mset vs"
proof -
  define f :: "'k \<times> 'd \<Rightarrow> ('k \<times> 'm) result" where
    "f = (\<lambda>(k, d). result_bind (cd_validate c d) (\<lambda>m. Inr (k, m)))"
  have f: "f (k, cd_dump c m) = Inr (k, m)" for k m using assms(1) by (simp add: f_def result_bind_def)
  have "set rows \<subseteq> range (apsnd (cd_dump c))" using mset_eq_setD [OF assms(2)] by auto
  then have "\<exists>xs. result_map f rows = Inr xs \<and> rows = map (apsnd (cd_dump c)) xs"
  proof (induction rows)
    case Nil
    then show ?case by simp
  next
    case (Cons d rows)
    then obtain k m xs where "d = (k, cd_dump c m)" "result_map f rows = Inr xs" "rows = map (apsnd (cd_dump c)) xs"
      by (auto simp: apsnd_def map_prod_def)
    then show ?case using f by (intro exI [of _ "(k, m) # xs"]) (simp add: result_bind_def)
  qed
  then obtain xs where xs: "result_map f rows = Inr xs" "rows = map (apsnd (cd_dump c)) xs" by blast
  have "inj (apsnd (cd_dump c))" using dump_inj [OF assms(1)] by (simp add: inj_apsnd)
  moreover have "image_mset (apsnd (cd_dump c)) (mset xs) = image_mset (apsnd (cd_dump c)) (mset vs)"
    using assms(2) xs(2) by simp
  ultimately have "mset xs = mset vs" by (metis injD multiset.inj_map)
  then show ?thesis using xs(1) by (simp add: parse_keyed_def f_def prog_simps)
qed

lemma parse_one_dumped:
  "round_trips c \<Longrightarrow> parse_one c (map_option (cd_dump c) v) s = (Inr v, s)"
  by (cases v) (simp_all add: parse_one_def sql_simps prog_simps)

section \<open>A dictionary stored row by row\<close>

definition rows_of :: "('k \<Rightarrow> 'v \<Rightarrow> 'r) \<Rightarrow> ('k, 'v) dict \<Rightarrow> ('k, 'r) dict" where
  "rows_of row d = map (\<lambda>(k, v). (k, row k v)) d"

lemma map_fst_rows_of [simp]: "map fst (rows_of row d) = map fst d"
  by (simp add: rows_of_def comp_def case_prod_unfold)

lemma rows_of_get: "dict_get (rows_of row d) k = map_option (row k) (dict_get d k)"
  by (induction d) (auto simp: rows_of_def)

lemma rows_of_set:
  "(\<And>old. dict_get d k = Some old \<Longrightarrow> f (row k old) = row k v) \<Longrightarrow>
     rows_of row (dict_set k v d) = upserted k (row k v) f (rows_of row d)"
proof -
  assume f: "\<And>old. dict_get d k = Some old \<Longrightarrow> f (row k old) = row k v"
  have "rows_of row (dict_set k v d) = dict_set k (row k v) (rows_of row d)"
    by (induction d) (auto simp: rows_of_def)
  moreover have "dict_get d' k = None \<Longrightarrow> dict_set k r d' = d' @ [(k, r)]" for d' :: "('b \<times> 'c) list" and r
    by (induction d') (auto split: if_splits)
  ultimately show ?thesis using f by (auto simp: upserted_def rows_of_get split: option.splits)
qed

lemma rows_of_fresh: "dict_get d k = None \<Longrightarrow> rows_of row (dict_set k v d) = rows_of row d @ [(k, row k v)]"
  by (induction d) (auto simp: rows_of_def split: if_splits)

lemma rows_of_filter: "rows_of row (dict_filter P d) = dict_filter Q (rows_of row d)"
  if "\<And>k v. (k, v) \<in> set d \<Longrightarrow> Q k (row k v) = P k v"
  using that by (induction d) (auto simp: rows_of_def dict_filter_def)

lemma rows_of_select:
  assumes "\<And>k v. row_payload (row k v) = dump v"
  shows "select_all (rows_of row d) P = map dump [v. (k, v) \<leftarrow> d, P (row k v)]"
  using assms by (induction d) (auto simp: select_all_def rows_of_def)

lemma rows_of_select_keyed:
  assumes "\<And>k v. row_payload (row k v) = dump v"
  shows "select_keyed (rows_of row d) P = map (apsnd dump) [(k, v). (k, v) \<leftarrow> d, P (row k v)]"
  using assms by (induction d) (auto simp: select_keyed_def rows_of_def)

lemma rows_of_select_one:
  assumes "\<And>k v. row_payload (row k v) = dump v"
  shows "select_one (rows_of row d) k P =
    map_option dump (case dict_get d k of None \<Rightarrow> None | Some v \<Rightarrow> if P (row k v) then Some v else None)"
  using assms by (simp add: select_one_def rows_of_get split: option.splits)

section \<open>Records grouped under a key, stored one row each\<close>

definition grouped_rows :: "('v \<Rightarrow> 'i) \<Rightarrow> ('k \<Rightarrow> 'v \<Rightarrow> 'r) \<Rightarrow> ('k, 'v list) dict \<Rightarrow> ('i, 'r) dict" where
  "grouped_rows key row d = concat (map (\<lambda>(k, vs). map (\<lambda>v. (key v, row k v)) vs) d)"

lemma grouped_append:
  "mset (grouped_rows key row (dict_append k v d)) = mset (grouped_rows key row d @ [(key v, row k v)])"
proof -
  have "mset (grouped_rows key row (dict_set k (case dict_get d' k of None \<Rightarrow> [v] | Some vs \<Rightarrow> vs @ [v]) d)) =
      mset (grouped_rows key row d @ [(key v, row k v)])" if "dict_get d' k = dict_get d k" for d'
    using that by (induction d) (auto simp: grouped_rows_def split: option.splits if_splits)
  then show ?thesis by (simp add: dict_append_def)
qed

lemma grouped_set:
  assumes "dict_wf d"
  shows "mset (grouped_rows key row (dict_set k vs d)) =
    mset (grouped_rows key row (dict_filter (\<lambda>k' _. k' \<noteq> k) d) @ map (\<lambda>v. (key v, row k v)) vs)"
  using assms
proof (induction d)
  case Nil
  then show ?case by (simp add: grouped_rows_def dict_filter_def)
next
  case (Cons kv d)
  obtain k0 v0 where kv: "kv = (k0, v0)" by fastforce
  have keep: "dict_filter (\<lambda>k' _. k' \<noteq> k) d = d" if "k0 = k"
    using Cons.prems kv that by (auto simp: dict_filter_def dict_wf_def intro!: filter_True) force
  show ?case
    using Cons kv keep by (cases "k0 = k") (auto simp: grouped_rows_def dict_filter_def dict_wf_def)
qed

lemma grouped_filter:
  "(\<And>k vs v. (k, vs) \<in> set d \<Longrightarrow> v \<in> set vs \<Longrightarrow> Q (key v) (row k v) = P k) \<Longrightarrow>
     dict_filter Q (grouped_rows key row d) = grouped_rows key row (dict_filter (\<lambda>k _. P k) d)"
proof (induction d)
  case Nil
  then show ?case by (simp add: grouped_rows_def dict_filter_def)
next
  case (Cons kv d)
  obtain k0 v0 where kv: "kv = (k0, v0)" by fastforce
  have "\<And>v. v \<in> set v0 \<Longrightarrow> Q (key v) (row k0 v) = P k0" using Cons.prems kv by auto
  then have "dict_filter Q (map (\<lambda>v. (key v, row k0 v)) v0) = (if P k0 then map (\<lambda>v. (key v, row k0 v)) v0 else [])"
    by (induction v0) (auto simp: dict_filter_def)
  moreover have "dict_filter Q (grouped_rows key row d) = grouped_rows key row (dict_filter (\<lambda>k _. P k) d)"
    using Cons by auto
  ultimately show ?case using kv by (simp add: grouped_rows_def dict_filter_def)
qed

lemma grouped_cong:
  "(\<And>k vs v. (k, vs) \<in> set d \<Longrightarrow> v \<in> set vs \<Longrightarrow> row k v = row' k v) \<Longrightarrow> grouped_rows key row d = grouped_rows key row' d"
  unfolding grouped_rows_def by (intro arg_cong [where f = concat] map_cong) auto

lemma select_all_append: "select_all (xs @ ys) P = select_all xs P @ select_all ys P"
  by (simp add: select_all_def)

lemma grouped_select:
  assumes "dict_wf d" "\<And>k v. row_payload (row k v) = dump v"
    and "\<And>k vs v. (k, vs) \<in> set d \<Longrightarrow> v \<in> set vs \<Longrightarrow> P (row k v) = (k = k0 \<and> B)"
  shows "select_all (grouped_rows key row d) P =
    map dump (if B then (case dict_get d k0 of None \<Rightarrow> [] | Some vs \<Rightarrow> vs) else [])"
  using assms(1, 3)
proof (induction d)
  case Nil
  then show ?case by (simp add: grouped_rows_def select_all_def)
next
  case (Cons kv d)
  obtain k vs where kv: "kv = (k, vs)" by fastforce
  have "\<And>v. v \<in> set vs \<Longrightarrow> P (row k v) = (k = k0 \<and> B)" using Cons.prems(2) kv by auto
  then have "select_all (map (\<lambda>v. (key v, row k v)) vs) P = (if k = k0 \<and> B then map dump vs else [])"
    using assms(2) by (induction vs) (auto simp: select_all_def)
  moreover have "k = k0 \<Longrightarrow> dict_get d k0 = None"
    using Cons.prems(1) kv by (simp add: dict_wf_def map_of_eq_None_iff)
  moreover have "select_all (grouped_rows key row d) P =
      map dump (if B then (case dict_get d k0 of None \<Rightarrow> [] | Some vs \<Rightarrow> vs) else [])"
    by (rule Cons.IH) (use Cons.prems kv in \<open>auto simp: dict_wf_def\<close>)
  ultimately show ?case using kv by (auto simp: grouped_rows_def select_all_append)
qed

section \<open>Logs and renamed keys\<close>

definition log_rows :: "('v \<Rightarrow> 'k) \<Rightarrow> ('v \<Rightarrow> 'r) \<Rightarrow> 'v list \<Rightarrow> ('k, 'r) dict" where
  "log_rows key row vs = map (\<lambda>v. (key v, row v)) vs"

lemma log_rows_snoc: "log_rows key row (vs @ [v]) = log_rows key row vs @ [(key v, row v)]"
  by (simp add: log_rows_def)

lemma log_rows_keys [simp]: "fst ` set (log_rows key row vs) = key ` set vs"
  by (auto simp: log_rows_def image_iff)

lemma log_rows_select:
  assumes "\<And>v. row_payload (row v) = dump v"
  shows "select_all (log_rows key row vs) P = map dump (filter (\<lambda>v. P (row v)) vs)"
  using assms by (induction vs) (auto simp: select_all_def log_rows_def)

definition renamed :: "('k \<Rightarrow> 'j) \<Rightarrow> ('k, 'v) dict \<Rightarrow> ('j, 'v) dict" where
  "renamed f d = map (apfst f) d"

lemma renamed_set: "inj f \<Longrightarrow> renamed f (dict_set k v d) = dict_set (f k) v (renamed f d)"
  by (induction d) (auto simp: renamed_def dest: injD)

lemma renamed_get: "inj f \<Longrightarrow> dict_get (renamed f d) (f k) = dict_get d k"
  by (induction d) (auto simp: renamed_def dest: injD)

section \<open>Storing, inserting and appending\<close>

abbreviation by_key :: "('v \<Rightarrow> 'r) \<Rightarrow> ('k, 'v) dict \<Rightarrow> ('k, 'r) dict" where
  "by_key row \<equiv> rows_of (\<lambda>_. row)"

text \<open>A record replaced at its key agrees with the old one in the columns given.\<close>

definition keeps :: "('v \<Rightarrow> 'x) \<Rightarrow> 'k \<Rightarrow> 'v \<Rightarrow> ('k, 'v) dict \<Rightarrow> bool" where
  "keeps cols k v d \<longleftrightarrow> (case dict_get d k of None \<Rightarrow> True | Some old \<Rightarrow> cols old = cols v)"

definition unused :: "'k \<Rightarrow> ('k, 'v) dict \<Rightarrow> bool" where
  "unused k d \<longleftrightarrow> dict_get d k = None"

definition unused_id :: "('v \<Rightarrow> uuid) \<Rightarrow> uuid \<Rightarrow> (uuid, 'v list) dict \<Rightarrow> bool" where
  "unused_id key i d \<longleftrightarrow> list_all (\<lambda>(_, vs). i \<notin> key ` set vs) d"

lemma keepsD: "keeps cols k v d \<Longrightarrow> dict_get d k = Some old \<Longrightarrow> cols old = cols v"
  by (simp add: keeps_def)

lemma by_key_upsert:
  assumes "same_rows (by_key row d) t" "\<And>old. dict_get d k = Some old \<Longrightarrow> f (row old) = row v"
  shows "same_rows (by_key row (dict_set k v d)) (upserted k (row v) f t)"
  using same_rows_upsert [OF assms(1), of k "row v" f] rows_of_set [of d k f "\<lambda>_. row" v] assms(2) by simp

lemma by_key_get: "same_rows (by_key row d) t \<Longrightarrow> dict_get t k = map_option row (dict_get d k)"
  by (simp add: same_rows_get rows_of_get)

lemma by_key_insert:
  assumes "same_rows (by_key row d) t" "unused k d"
  shows "dict_get t k = None" "same_rows (by_key row (dict_set k v d)) (t @ [(k, row v)])"
proof -
  show "dict_get t k = None" using assms by (simp add: by_key_get unused_def)
  then have "same_rows (by_key row d @ [(k, row v)]) (t @ [(k, row v)])"
    using same_rows_fresh [OF assms(1)] same_rows_insert [OF assms(1)] by blast
  then show "same_rows (by_key row (dict_set k v d)) (t @ [(k, row v)])"
    using rows_of_fresh [of d k "\<lambda>_. row" v] assms(2) by (simp add: unused_def)
qed

lemma log_insert:
  assumes "same_rows (log_rows key row vs) t" "key v \<notin> key ` set vs"
  shows "dict_get t (key v) = None" "same_rows (log_rows key row (vs @ [v])) (t @ [(key v, row v)])"
  using same_rows_fresh [OF assms(1)] same_rows_insert [OF assms(1)] assms(2) by (simp_all add: log_rows_snoc)

lemma unused_in_group:
  assumes "unused_id key i d"
  shows "i \<notin> fst ` set (grouped_rows key row d)"
proof -
  have "fst ` set (grouped_rows key row d) = {key v | v k vs. (k, vs) \<in> set d \<and> v \<in> set vs}"
    by (force simp: grouped_rows_def)
  then show ?thesis using assms by (auto simp: unused_id_def list_all_iff)
qed

lemma grouped_insert:
  assumes "same_rows (grouped_rows key row d) t" "unused_id key (key v) d"
  shows "dict_get t (key v) = None"
    "same_rows (grouped_rows key row (dict_append k v d)) (t @ [(key v, row k v)])"
proof -
  note new = unused_in_group [OF assms(2)]
  then show "dict_get t (key v) = None" using same_rows_fresh [OF assms(1)] by blast
  have "same_rows (grouped_rows key row d @ [(key v, row k v)]) (t @ [(key v, row k v)])"
    by (rule same_rows_insert [OF assms(1) new])
  then show "same_rows (grouped_rows key row (dict_append k v d)) (t @ [(key v, row k v)])"
    by (simp add: same_rows_cong [OF grouped_append])
qed

text \<open>An insert of many rows, as one statement over a list of values.\<close>

lemma insert_many:
  fixes sel :: "'s \<Rightarrow> ('k, 'r) dict" and upd :: "(('k, 'r) dict \<Rightarrow> ('k, 'r) dict) \<Rightarrow> 's \<Rightarrow> 's"
  assumes "\<And>f s. sel (upd f s) = f (sel s)" "\<And>f g s. upd f (upd g s) = upd (f \<circ> g) s" "\<And>s. upd (\<lambda>t. t) s = s"
    and "distinct (map k xs)" "list_all (\<lambda>x. fitting (cols x)) xs" "\<forall>x \<in> set xs. dict_get (sel s) (k x) = None"
  shows "run_statements (concat (map (\<lambda>x. [columns_fit (cols x), insert_row sel upd (k x) (r x)]) xs)) s =
    (Inr (), upd (\<lambda>t. t @ map (\<lambda>x. (k x, r x)) xs) s)"
  using assms(4-6)
proof (induction xs arbitrary: s)
  case Nil
  then show ?case by (simp add: sql_simps assms(3))
next
  case (Cons x xs)
  have "\<forall>y \<in> set xs. dict_get (sel (upd (\<lambda>t. t @ [(k x, r x)]) s)) (k y) = None"
    using Cons.prems by (force simp: assms(1) map_add_def image_iff split: option.splits)
  then show ?case using Cons by (simp add: sql_simps assms(2) comp_def)
qed

text \<open>Replacing the rows of one key of a grouped dictionary.\<close>

lemma grouped_replace:
  assumes "same_rows (grouped_rows key row d) t" "dict_wf d" "distinct (map key vs)"
    and "\<And>k' v. row k' v \<in> R \<longleftrightarrow> k' = k"
    and "list_all (\<lambda>v. unused_id key (key v) (dict_filter (\<lambda>k' _. k' \<noteq> k) d)) vs"
  shows "\<forall>v \<in> set vs. dict_get (dict_filter (\<lambda>_ r. r \<notin> R) t) (key v) = None"
    "same_rows (grouped_rows key row (dict_set k vs d)) (dict_filter (\<lambda>_ r. r \<notin> R) t @ map (\<lambda>v. (key v, row k v)) vs)"
proof -
  let ?L = "grouped_rows key row (dict_filter (\<lambda>k' _. k' \<noteq> k) d)"
  have "dict_filter (\<lambda>_ r. r \<notin> R) (grouped_rows key row d) = ?L" by (rule grouped_filter) (simp add: assms(4))
  then have rest: "same_rows ?L (dict_filter (\<lambda>_ r. r \<notin> R) t)"
    using same_rows_filter [OF assms(1), of "\<lambda>_ r. r \<notin> R"] by simp
  have new: "\<forall>v \<in> set vs. key v \<notin> fst ` set ?L"
    using assms(5) unused_in_group unfolding list_all_iff by blast
  then show "\<forall>v \<in> set vs. dict_get (dict_filter (\<lambda>_ r. r \<notin> R) t) (key v) = None"
    using same_rows_fresh [OF rest] by blast
  have "same_rows (?L @ map (\<lambda>v. (key v, row k v)) vs) (dict_filter (\<lambda>_ r. r \<notin> R) t @ map (\<lambda>v. (key v, row k v)) vs)"
    using rest new assms(3) by (force simp: same_rows_def comp_def)
  then show "same_rows (grouped_rows key row (dict_set k vs d))
      (dict_filter (\<lambda>_ r. r \<notin> R) t @ map (\<lambda>v. (key v, row k v)) vs)"
    by (simp add: same_rows_cong [OF grouped_set [OF assms(2)]])
qed

section \<open>Updating, selecting and deleting at keys\<close>

lemma by_key_update:
  assumes "same_rows (by_key row d) t" "dict_get d k = Some old" "f (row old) = row v"
  shows "same_rows (by_key row (dict_set k v d)) (map (\<lambda>(k', r). (k', if k' = k then f r else r)) t)"
proof -
  have "upserted k (row v) f t = put_at k f t"
    using upserted_cases [OF same_rows_wf [OF assms(1)]] assms(2) by (simp add: by_key_get [OF assms(1)])
  then show ?thesis using by_key_upsert [OF assms(1), of k f v] assms(2, 3) by (simp add: put_at_def)
qed

lemma by_key_select_one:
  assumes "same_rows (by_key row d) t" "\<And>v. row_payload (row v) = dump v"
  shows "select_one t k P =
    map_option dump (case dict_get d k of None \<Rightarrow> None | Some v \<Rightarrow> if P (row v) then Some v else None)"
  by (simp add: same_rows_select_one [OF assms(1)] rows_of_select_one assms(2))

lemma by_key_select:
  assumes "same_rows (by_key row d) t" "\<And>v. row_payload (row v) = dump v"
  shows "mset (select_all t P) = mset (map dump (filter (\<lambda>v. P (row v)) (dict_values d)))"
proof -
  have "[v. (k, v) \<leftarrow> d, P (row v)] = filter (\<lambda>v. P (row v)) (dict_values d)"
    by (induction d) (auto simp: dict_values_def)
  then show ?thesis by (simp add: same_rows_select [OF assms(1)] rows_of_select assms(2))
qed

lemma by_key_select_keyed:
  assumes "same_rows (by_key row d) t" "\<And>v. row_payload (row v) = dump v"
  shows "mset (select_keyed t P) = mset (map (apsnd dump) (filter (\<lambda>(k, v). P (row v)) d))"
proof -
  have "[(k, v). (k, v) \<leftarrow> d, P (row v)] = filter (\<lambda>(k, v). P (row v)) d" by (induction d) auto
  then show ?thesis by (simp add: same_rows_select_keyed [OF assms(1)] rows_of_select_keyed assms(2))
qed

lemma by_key_delete:
  assumes "same_rows (by_key row d) t" "\<And>k v. (k, v) \<in> set d \<Longrightarrow> Q k (row v) = P k v"
  shows "same_rows (by_key row (dict_filter P d)) (dict_filter Q t)"
  using same_rows_filter [OF assms(1), of Q] rows_of_filter [of d Q "\<lambda>_. row" P] assms(2) by simp

lemma grouped_delete:
  assumes "same_rows (grouped_rows key row d) t"
    and "\<And>k vs v. (k, vs) \<in> set d \<Longrightarrow> v \<in> set vs \<Longrightarrow> Q (key v) (row k v) = P k"
  shows "same_rows (grouped_rows key row (dict_filter (\<lambda>k _. P k) d)) (dict_filter Q t)"
  using same_rows_filter [OF assms(1), of Q] grouped_filter [of d Q key row P] assms(2) by simp

lemma pop_filter: "dict_pop k d = dict_filter (\<lambda>k' _. k' \<noteq> k) d"
  by (simp add: dict_pop_def dict_filter_def)

lemma pop_all_filter: "dict_pop_all ks d = dict_filter (\<lambda>k _. k \<notin> ks) d"
  by (simp add: dict_pop_all_def dict_filter_def)

lemma dict_unique: "dict_wf d \<Longrightarrow> (k, v) \<in> set d \<Longrightarrow> (k, v') \<in> set d \<Longrightarrow> v = v'"
  unfolding dict_wf_def by (rule eq_key_imp_eq_value)

lemma pop_all_where:
  assumes "dict_wf d"
  shows "dict_pop_all {k. \<exists>v. (k, v) \<in> set d \<and> P v} d = dict_filter (\<lambda>_ v. \<not> P v) d"
  unfolding dict_pop_all_def dict_filter_def by (intro filter_cong) (auto dest: dict_unique [OF assms])

end
