(* ===== verification/PostgresRefinement.thy ===== *)
theory PostgresRefinement
  imports PostgresPrivacy Rows
begin

text \<open>
  The PostgreSQL repository against the in-memory one.  \<open>represents c w p\<close> says that each table of p
  lists, in some order, the rows that the in-memory state w stands for.  A call of the repository
  interface is run on both sides; the proviso \<open>admissible\<close> collects what a caller must respect for the two
  to agree: identifiers that are inserted are new, records that are replaced keep the columns the
  upserts do not touch, and texts fit their columns.
\<close>

section \<open>What a state of the in-memory repository looks like in tables\<close>

definition owner_of :: "(uuid, trip) dict \<Rightarrow> uuid \<Rightarrow> string" where
  "owner_of trips k = (case dict_get trips k of None \<Rightarrow> [] | Some t \<Rightarrow> trip_tenant_id t)"

definition trip_row_of :: "'d codecs \<Rightarrow> trip \<Rightarrow> 'd row" where
  "trip_row_of c t = \<lparr>row_payload = cd_dump (cd_trip c) t, row_tenant_id = trip_tenant_id t\<rparr>"

definition evidence_row_of :: "'d codecs \<Rightarrow> (uuid, trip) dict \<Rightarrow> uuid \<Rightarrow> evidence_envelope \<Rightarrow> 'd trip_row" where
  "evidence_row_of c trips k e = \<lparr>row_payload = cd_dump (cd_evidence c) e, row_tenant_id = owner_of trips k, row_trip_id = k\<rparr>"

definition assessment_row_of :: "'d codecs \<Rightarrow> (uuid, trip) dict \<Rightarrow> uuid \<Rightarrow> risk_assessment \<Rightarrow> 'd trip_row" where
  "assessment_row_of c trips k a = \<lparr>row_payload = cd_dump (cd_assessment c) a, row_tenant_id = owner_of trips k, row_trip_id = k\<rparr>"

definition incident_row_of :: "'d codecs \<Rightarrow> incident \<Rightarrow> 'd trip_row" where
  "incident_row_of c i = \<lparr>row_payload = cd_dump (cd_incident c) i, row_tenant_id = inc_tenant_id i, row_trip_id = inc_trip_id i\<rparr>"

definition event_row_of :: "'d codecs \<Rightarrow> event_record \<Rightarrow> 'd row" where
  "event_row_of c e = \<lparr>row_payload = cd_dump (cd_event c) e, row_tenant_id = evt_tenant_id e\<rparr>"

definition proposal_row_of :: "'d codecs \<Rightarrow> memory_update_proposal \<Rightarrow> 'd row" where
  "proposal_row_of c m = \<lparr>row_payload = cd_dump (cd_proposal c) m, row_tenant_id = mp_tenant_id m\<rparr>"

definition candidate_set_row_of :: "'d codecs \<Rightarrow> string \<times> recovery_candidate_set \<Rightarrow> 'd incident_row" where
  "candidate_set_row_of c item = \<lparr>row_payload = cd_dump (cd_candidate_set c) (snd item), row_tenant_id = fst item,
     row_incident_id = cs_incident_id (snd item)\<rparr>"

definition outcome_row_of :: "'d codecs \<Rightarrow> string \<times> recovery_candidate_outcome \<Rightarrow> 'd outcome_row" where
  "outcome_row_of c item = \<lparr>row_payload = cd_dump (cd_outcome c) (snd item), row_tenant_id = fst item,
     row_incident_id = out_incident_id (snd item), row_candidate_set_id = out_candidate_set_id (snd item)\<rparr>"

definition feedback_row_of :: "'d codecs \<Rightarrow> manager_feedback \<Rightarrow> 'd incident_row" where
  "feedback_row_of c f = \<lparr>row_payload = cd_dump (cd_feedback c) f, row_tenant_id = mf_tenant_id f,
     row_incident_id = mf_incident_id f\<rparr>"

definition playbook_row_of :: "'d codecs \<Rightarrow> tenant_playbook \<Rightarrow> 'd row" where
  "playbook_row_of c b = \<lparr>row_payload = cd_dump (cd_playbook c) b, row_tenant_id = pb_tenant_id b\<rparr>"

definition notification_row_of :: "'d codecs \<Rightarrow> notification_record \<Rightarrow> 'd status_row" where
  "notification_row_of c n = \<lparr>row_payload = cd_dump (cd_notification c) n, row_tenant_id = nt_tenant_id n,
     row_status = notification_status_value (nt_status n)\<rparr>"

definition delivery_row_of :: "'d codecs \<Rightarrow> notification_attempt \<Rightarrow> 'd delivery_row" where
  "delivery_row_of c a = \<lparr>row_payload = cd_dump (cd_delivery c) a, row_notification_id = na_notification_id a\<rparr>"

definition action_row_of :: "'d codecs \<Rightarrow> action_dispatch_record \<Rightarrow> 'd action_row" where
  "action_row_of c a = \<lparr>row_payload = cd_dump (cd_action c) a, row_tenant_id = ad_tenant_id a,
     row_incident_id = ad_incident_id a, row_action_status = action_status_value (ad_status a)\<rparr>"

definition dispatch_row_of :: "'d codecs \<Rightarrow> action_dispatch_attempt \<Rightarrow> 'd dispatch_row" where
  "dispatch_row_of c a = \<lparr>row_payload = cd_dump (cd_dispatch c) a, row_action_dispatch_id = aa_action_dispatch_id a\<rparr>"

definition change_row_of :: "'d codecs \<Rightarrow> change_record \<Rightarrow> 'd change_row" where
  "change_row_of c r = \<lparr>row_payload = cd_dump (cd_change c) r, row_tenant_id = cr_tenant_id r,
     row_change_type = change_type_value (cr_change_type r)\<rparr>"

definition onboarding_row_of :: "'d codecs \<Rightarrow> provider_onboarding_record \<Rightarrow> 'd status_row" where
  "onboarding_row_of c r = \<lparr>row_payload = cd_dump (cd_onboarding c) r, row_tenant_id = po_tenant_id r,
     row_status = onboarding_status_value (po_status r)\<rparr>"

definition upload_row_of :: "'d codecs \<Rightarrow> original_upload_record \<Rightarrow> 'd status_row" where
  "upload_row_of c u = \<lparr>row_payload = cd_dump (cd_upload c) u, row_tenant_id = up_tenant_id u,
     row_status = upload_status_value (up_status u)\<rparr>"

definition hold_row_of :: "'d codecs \<Rightarrow> legal_hold_record \<Rightarrow> 'd status_row" where
  "hold_row_of c x = \<lparr>row_payload = cd_dump (cd_hold c) x, row_tenant_id = lh_tenant_id x, row_status = hold_status x\<rparr>"

definition deletion_row_of :: "'d codecs \<Rightarrow> deletion_request \<Rightarrow> 'd deletion_row" where
  "deletion_row_of c r = \<lparr>row_payload = cd_dump (cd_deletion c) r, row_tenant_id = dr_tenant_id r,
     row_traveler_id = dr_traveler_id r, row_deletion_status = deletion_status_value (dr_status r)\<rparr>"

definition control_row_of :: "'d codecs \<Rightarrow> runtime_control_change \<Rightarrow> 'd control_row" where
  "control_row_of c r = \<lparr>row_payload = cd_dump (cd_control c) r, row_tenant_id = rc_tenant_id r,
     row_control_name = control_name_value (rc_control_name r)\<rparr>"

definition platform_row_of :: "'d codecs \<Rightarrow> platform_runtime_control_change \<Rightarrow> 'd platform_row" where
  "platform_row_of c r = \<lparr>row_payload = cd_dump (cd_platform c) r,
     row_platform_control_name = control_name_value (prc_control_name r)\<rparr>"

definition document_of :: "('m, 'd) codec \<Rightarrow> 'm \<Rightarrow> 'd document" where
  "document_of c m = \<lparr>row_payload = cd_dump c m\<rparr>"

lemmas row_defs = trip_row_of_def evidence_row_of_def assessment_row_of_def incident_row_of_def event_row_of_def
  proposal_row_of_def candidate_set_row_of_def outcome_row_of_def feedback_row_of_def playbook_row_of_def
  notification_row_of_def delivery_row_of_def action_row_of_def dispatch_row_of_def change_row_of_def
  onboarding_row_of_def upload_row_of_def hold_row_of_def deletion_row_of_def control_row_of_def
  platform_row_of_def document_of_def

definition represents :: "'d codecs \<Rightarrow> world \<Rightarrow> 'd pg_world \<Rightarrow> bool" where
  "represents c w p \<longleftrightarrow>
     same_rows (by_key (trip_row_of c) (db_trips w)) (pg_trips p) \<and>
     same_rows (grouped_rows ev_evidence_id (evidence_row_of c (db_trips w)) (db_evidence w)) (pg_evidence_items p) \<and>
     same_rows (grouped_rows ra_assessment_id (assessment_row_of c (db_trips w)) (db_assessments w)) (pg_assessments p) \<and>
     same_rows (by_key (incident_row_of c) (db_incidents w)) (pg_incidents p) \<and>
     same_rows (by_key (document_of (cd_profile c)) (db_profiles w)) (pg_preferences p) \<and>
     same_rows (by_key (document_of (cd_approval c)) (db_approvals w)) (pg_approvals p) \<and>
     same_rows (log_rows evt_event_id (event_row_of c) (db_events w)) (pg_events p) \<and>
     same_rows (by_key (proposal_row_of c) (db_memory_proposals w)) (pg_memory_proposals p) \<and>
     same_rows (by_key (candidate_set_row_of c) (db_candidate_sets w)) (pg_candidate_sets p) \<and>
     same_rows (by_key (outcome_row_of c) (db_candidate_outcomes w)) (pg_candidate_outcomes p) \<and>
     same_rows (by_key (feedback_row_of c) (db_manager_feedback w)) (pg_manager_feedback p) \<and>
     same_rows (by_key (playbook_row_of c) (db_tenant_playbooks w)) (pg_tenant_playbooks p) \<and>
     same_rows (by_key (notification_row_of c) (db_notifications w)) (pg_notifications p) \<and>
     same_rows (grouped_rows na_attempt_id (\<lambda>_. delivery_row_of c) (db_notification_attempts w))
       (pg_notification_attempts p) \<and>
     same_rows (by_key (action_row_of c) (db_action_dispatches w)) (pg_action_dispatches p) \<and>
     same_rows (grouped_rows aa_attempt_id (\<lambda>_. dispatch_row_of c) (db_action_dispatch_attempts w))
       (pg_action_dispatch_attempts p) \<and>
     same_rows (by_key (change_row_of c) (db_change_records w)) (pg_change_records p) \<and>
     same_rows (by_key (onboarding_row_of c) (db_provider_onboarding w)) (pg_provider_onboarding_records p) \<and>
     same_rows (by_key (document_of (cd_control c)) (renamed (apsnd control_name_value) (db_control_overrides w)))
       (pg_runtime_control_overrides p) \<and>
     same_rows (log_rows rc_control_change_id (control_row_of c) (db_control_changes w)) (pg_runtime_control_changes p) \<and>
     same_rows (by_key (document_of (cd_platform c)) (renamed control_name_value (db_platform_overrides w)))
       (pg_platform_overrides p) \<and>
     same_rows (log_rows prc_control_change_id (platform_row_of c) (db_platform_changes w)) (pg_platform_changes p) \<and>
     same_rows (by_key (upload_row_of c) (db_original_uploads w)) (pg_original_uploads p) \<and>
     same_rows (by_key (hold_row_of c) (db_legal_holds w)) (pg_legal_holds p) \<and>
     same_rows (by_key (deletion_row_of c) (db_deletion_requests w)) (pg_deletion_requests p)"

text \<open>Records hang off records that exist, under their own keys.\<close>

definition grouped_under :: "('v \<Rightarrow> uuid) \<Rightarrow> (uuid, 'p) dict \<Rightarrow> (uuid, 'v list) dict \<Rightarrow> bool" where
  "grouped_under parent ps d \<longleftrightarrow> dict_wf d \<and> fst ` set d \<subseteq> fst ` set ps \<and> (\<forall>(k, vs) \<in> set d. \<forall>v \<in> set vs. parent v = k)"

definition filed_under :: "(uuid, 'p) dict \<Rightarrow> (uuid, 'v list) dict \<Rightarrow> bool" where
  "filed_under ps d \<longleftrightarrow> dict_wf d \<and> fst ` set d \<subseteq> fst ` set ps"

definition hangs_together :: "world \<Rightarrow> bool" where
  "hangs_together w \<longleftrightarrow> grouped_under ra_trip_id (db_trips w) (db_assessments w) \<and>
     filed_under (db_trips w) (db_evidence w) \<and>
     grouped_under na_notification_id (db_notifications w) (db_notification_attempts w) \<and>
     grouped_under aa_action_dispatch_id (db_action_dispatches w) (db_action_dispatch_attempts w) \<and>
     table_ok (\<lambda>item. out_outcome_id (snd item)) (db_candidate_outcomes w) \<and>
     table_ok mf_feedback_id (db_manager_feedback w)"

definition codecs_ok :: "'d codecs \<Rightarrow> bool" where
  "codecs_ok c \<longleftrightarrow> round_trips (cd_trip c) \<and> round_trips (cd_evidence c) \<and> round_trips (cd_assessment c) \<and>
     round_trips (cd_incident c) \<and> round_trips (cd_profile c) \<and> round_trips (cd_approval c) \<and>
     round_trips (cd_event c) \<and> round_trips (cd_proposal c) \<and> round_trips (cd_candidate_set c) \<and>
     round_trips (cd_outcome c) \<and> round_trips (cd_feedback c) \<and> round_trips (cd_playbook c) \<and>
     round_trips (cd_notification c) \<and> round_trips (cd_delivery c) \<and> round_trips (cd_action c) \<and>
     round_trips (cd_dispatch c) \<and> round_trips (cd_memory_audit c) \<and> round_trips (cd_change c) \<and>
     round_trips (cd_onboarding c) \<and> round_trips (cd_control c) \<and> round_trips (cd_platform c) \<and>
     round_trips (cd_idempotency c) \<and> round_trips (cd_upload c) \<and> round_trips (cd_hold c) \<and>
     round_trips (cd_deletion c) \<and>
     (\<forall>m. cd_astext c (cd_dump (cd_proposal c) m) ''traveler_id'' = Some (mp_traveler_id m))"

section \<open>Calls of the repository interface\<close>

datatype store_call =
    CreateTrip trip
  | SaveTrip trip
  | SaveEvidence string uuid "evidence_envelope list"
  | SaveAssessment string risk_assessment
  | SaveIncident incident
  | SaveProfile traveler_preference_profile
  | SaveApproval approval_record
  | RecordEvent event_record
  | SaveProposal memory_update_proposal
  | DeleteMemory string string
  | SaveCandidateSet string recovery_candidate_set
  | RecordOutcome string recovery_candidate_outcome
  | SaveFeedback manager_feedback
  | SavePlaybook tenant_playbook
  | SaveNotification notification_record
  | RecordDelivery notification_attempt
  | CompleteDelivery notification_record notification_attempt uuid
  | SaveAction action_dispatch_record
  | RecordDispatch action_dispatch_attempt
  | CompleteDispatch action_dispatch_record action_dispatch_attempt uuid
  | SaveChange change_record
  | SaveOnboarding provider_onboarding_record
  | SaveControl runtime_control_change
  | SavePlatformControl platform_runtime_control_change
  | SaveUpload original_upload_record
  | SaveHold legal_hold_record
  | SaveDeletion deletion_request
  | Erase string string deletion_request_scope

definition silently :: "('s, 'a) prog \<Rightarrow> ('s, unit) prog" where
  "silently m = thenP m (ret ())"

fun in_memory :: "store_call \<Rightarrow> unit act" where
  "in_memory (CreateTrip t) = modify (repo_create_trip t)"
| "in_memory (SaveTrip t) = modify (save_trip t)"
| "in_memory (SaveEvidence tenant_id k es) = save_evidence tenant_id k es"
| "in_memory (SaveAssessment tenant_id a) = silently (save_assessment tenant_id a)"
| "in_memory (SaveIncident i) = modify (save_incident i)"
| "in_memory (SaveProfile f) = modify (save_profile f)"
| "in_memory (SaveApproval a) = modify (save_approval a)"
| "in_memory (RecordEvent e) = modify (record_event e)"
| "in_memory (SaveProposal m) = modify (save_memory_proposal m)"
| "in_memory (DeleteMemory t k) = silently (repo_delete_traveler_memory t k)"
| "in_memory (SaveCandidateSet t cs) = modify (save_candidate_set t cs)"
| "in_memory (RecordOutcome t oc) = modify (repo_record_candidate_outcome t oc)"
| "in_memory (SaveFeedback f) = modify (save_manager_feedback f)"
| "in_memory (SavePlaybook b) = silently (save_playbook b)"
| "in_memory (SaveNotification n) = modify (save_notification n)"
| "in_memory (RecordDelivery a) = modify (record_notification_attempt a)"
| "in_memory (CompleteDelivery n a k) = silently (complete_notification_delivery n a k)"
| "in_memory (SaveAction a) = modify (save_action_dispatch a)"
| "in_memory (RecordDispatch a) = modify (record_action_dispatch_attempt a)"
| "in_memory (CompleteDispatch x a k) = silently (complete_action_dispatch x a k)"
| "in_memory (SaveChange r) = modify (save_change_record r)"
| "in_memory (SaveOnboarding r) = modify (save_provider_onboarding r)"
| "in_memory (SaveControl r) = modify (save_runtime_control_change r)"
| "in_memory (SavePlatformControl r) = modify (save_platform_control_change r)"
| "in_memory (SaveUpload u) = modify (save_original_upload u)"
| "in_memory (SaveHold x) = modify (save_legal_hold x)"
| "in_memory (SaveDeletion r) = modify (save_deletion_request r)"
| "in_memory (Erase t k s) = silently (erase_traveler_data t k s)"

fun on_postgres :: "'d codecs \<Rightarrow> store_call \<Rightarrow> ('d, unit) pg" where
  "on_postgres c (CreateTrip t) = silently (pg_create_trip c t)"
| "on_postgres c (SaveTrip t) = silently (pg_save_trip c t)"
| "on_postgres c (SaveEvidence tenant_id k es) = pg_save_evidence c tenant_id k es"
| "on_postgres c (SaveAssessment tenant_id a) = silently (pg_save_assessment c tenant_id a)"
| "on_postgres c (SaveIncident i) = silently (pg_save_incident c i)"
| "on_postgres c (SaveProfile f) = silently (pg_save_profile c f)"
| "on_postgres c (SaveApproval a) = silently (pg_save_approval c a)"
| "on_postgres c (RecordEvent e) = silently (pg_record_event c e)"
| "on_postgres c (SaveProposal m) = silently (pg_save_memory_proposal c m)"
| "on_postgres c (DeleteMemory t k) = silently (pg_delete_traveler_memory c t k)"
| "on_postgres c (SaveCandidateSet t cs) = silently (pg_save_candidate_set c t cs)"
| "on_postgres c (RecordOutcome t oc) = silently (pg_record_candidate_outcome c t oc)"
| "on_postgres c (SaveFeedback f) = silently (pg_save_manager_feedback c f)"
| "on_postgres c (SavePlaybook b) = silently (pg_save_playbook c b)"
| "on_postgres c (SaveNotification n) = silently (pg_save_notification c n)"
| "on_postgres c (RecordDelivery a) = silently (pg_record_notification_attempt c a)"
| "on_postgres c (CompleteDelivery n a k) = silently (pg_complete_notification_delivery c n a k)"
| "on_postgres c (SaveAction a) = silently (pg_save_action_dispatch c a)"
| "on_postgres c (RecordDispatch a) = silently (pg_record_action_dispatch_attempt c a)"
| "on_postgres c (CompleteDispatch x a k) = silently (pg_complete_action_dispatch c x a k)"
| "on_postgres c (SaveChange r) = silently (pg_save_change_record c r)"
| "on_postgres c (SaveOnboarding r) = silently (pg_save_provider_onboarding c r)"
| "on_postgres c (SaveControl r) = silently (pg_save_runtime_control_change c r)"
| "on_postgres c (SavePlatformControl r) = silently (pg_save_platform_control_change c r)"
| "on_postgres c (SaveUpload u) = silently (pg_save_original_upload c u)"
| "on_postgres c (SaveHold x) = silently (pg_save_legal_hold c x)"
| "on_postgres c (SaveDeletion r) = silently (pg_save_deletion_request c r)"
| "on_postgres c (Erase t k s) = silently (pg_erase_traveler_data c t k s)"

definition storable_trip :: "trip \<Rightarrow> bool" where
  "storable_trip t \<longleftrightarrow> fitting [(128, trip_tenant_id t)] \<and> distinct (map seg_segment_id (trip_segments t)) \<and>
     list_all (\<lambda>s. fitting (segment_columns t s)) (trip_segments t)"

fun admissible :: "store_call \<Rightarrow> world \<Rightarrow> bool" where
  "admissible (CreateTrip t) w \<longleftrightarrow> storable_trip t \<and> unused (trip_trip_id t) (db_trips w)"
| "admissible (SaveTrip t) w \<longleftrightarrow> storable_trip t \<and> keeps trip_tenant_id (trip_trip_id t) t (db_trips w)"
| "admissible (SaveEvidence tenant_id k es) w \<longleftrightarrow> fitting [(128, tenant_id)] \<and> distinct (map ev_evidence_id es) \<and>
     list_all (\<lambda>e. unused_id ev_evidence_id (ev_evidence_id e) (dict_filter (\<lambda>k' _. k' \<noteq> k) (db_evidence w))) es"
| "admissible (SaveAssessment tenant_id a) w \<longleftrightarrow> fitting [(128, tenant_id)] \<and>
     unused_id ra_assessment_id (ra_assessment_id a) (db_assessments w)"
| "admissible (SaveIncident i) w \<longleftrightarrow> fitting [(128, inc_tenant_id i)] \<and>
     keeps (\<lambda>i. (inc_tenant_id i, inc_trip_id i)) (inc_incident_id i) i (db_incidents w)"
| "admissible (SaveProfile f) w \<longleftrightarrow> fitting [(128, prof_tenant_id f), (128, prof_traveler_id f)]"
| "admissible (SaveApproval a) w \<longleftrightarrow> True"
| "admissible (RecordEvent e) w \<longleftrightarrow> fitting [(128, evt_tenant_id e)] \<and> evt_event_id e \<notin> evt_event_id ` set (db_events w)"
| "admissible (SaveProposal m) w \<longleftrightarrow> fitting [(128, mp_tenant_id m)] \<and>
     keeps mp_tenant_id (mp_proposal_id m) m (db_memory_proposals w)"
| "admissible (DeleteMemory t k) w \<longleftrightarrow> True"
| "admissible (SaveCandidateSet t cs) w \<longleftrightarrow> fitting [(128, t)] \<and> unused (cs_candidate_set_id cs) (db_candidate_sets w)"
| "admissible (RecordOutcome t oc) w \<longleftrightarrow> fitting [(128, t)] \<and> unused (out_outcome_id oc) (db_candidate_outcomes w)"
| "admissible (SaveFeedback f) w \<longleftrightarrow> fitting [(128, mf_tenant_id f)] \<and> unused (mf_feedback_id f) (db_manager_feedback w)"
| "admissible (SavePlaybook b) w \<longleftrightarrow> fitting [(128, pb_tenant_id b)]"
| "admissible (SaveNotification n) w \<longleftrightarrow> fitting [(128, nt_tenant_id n)] \<and>
     keeps nt_tenant_id (nt_notification_id n) n (db_notifications w)"
| "admissible (RecordDelivery a) w \<longleftrightarrow> \<not> unused (na_notification_id a) (db_notifications w) \<and>
     unused_id na_attempt_id (na_attempt_id a) (db_notification_attempts w)"
| "admissible (CompleteDelivery n a k) w \<longleftrightarrow> na_notification_id a = nt_notification_id n \<and>
     keeps nt_tenant_id (nt_notification_id n) n (db_notifications w) \<and>
     unused_id na_attempt_id (na_attempt_id a) (db_notification_attempts w)"
| "admissible (SaveAction a) w \<longleftrightarrow> fitting [(128, ad_tenant_id a)] \<and>
     keeps (\<lambda>a. (ad_tenant_id a, ad_incident_id a)) (ad_action_dispatch_id a) a (db_action_dispatches w)"
| "admissible (RecordDispatch a) w \<longleftrightarrow> \<not> unused (aa_action_dispatch_id a) (db_action_dispatches w) \<and>
     unused_id aa_attempt_id (aa_attempt_id a) (db_action_dispatch_attempts w)"
| "admissible (CompleteDispatch x a k) w \<longleftrightarrow> aa_action_dispatch_id a = ad_action_dispatch_id x \<and>
     keeps (\<lambda>a. (ad_tenant_id a, ad_incident_id a)) (ad_action_dispatch_id x) x (db_action_dispatches w) \<and>
     unused_id aa_attempt_id (aa_attempt_id a) (db_action_dispatch_attempts w)"
| "admissible (SaveChange r) w \<longleftrightarrow> fitting [(128, cr_tenant_id r)] \<and> unused (cr_change_id r) (db_change_records w)"
| "admissible (SaveOnboarding r) w \<longleftrightarrow> fitting [(128, po_tenant_id r)] \<and>
     unused (po_provider_onboarding_id r) (db_provider_onboarding w)"
| "admissible (SaveControl r) w \<longleftrightarrow> fitting [(128, rc_tenant_id r)] \<and>
     rc_control_change_id r \<notin> rc_control_change_id ` set (db_control_changes w)"
| "admissible (SavePlatformControl r) w \<longleftrightarrow>
     prc_control_change_id r \<notin> prc_control_change_id ` set (db_platform_changes w)"
| "admissible (SaveUpload u) w \<longleftrightarrow> fitting [(128, up_tenant_id u)] \<and>
     keeps up_tenant_id (up_original_upload_id u) u (db_original_uploads w)"
| "admissible (SaveHold x) w \<longleftrightarrow> fitting [(128, lh_tenant_id x)] \<and>
     keeps lh_tenant_id (lh_legal_hold_id x) x (db_legal_holds w)"
| "admissible (SaveDeletion r) w \<longleftrightarrow> fitting [(128, dr_tenant_id r), (128, dr_traveler_id r)] \<and>
     keeps (\<lambda>r. (dr_tenant_id r, dr_traveler_id r)) (dr_deletion_request_id r) r (db_deletion_requests w)"
| "admissible (Erase t k s) w \<longleftrightarrow> True"

section \<open>Each call keeps the correspondence\<close>

lemma transaction_ok: "m p = (Inr x, p') \<Longrightarrow> transaction m p = (Inr x, p')"
  by (simp add: transaction_def)

lemma executing_ok: "run_statements ms p = (Inr (), p') \<Longrightarrow> executing ms x p = (Inr x, p')"
  unfolding executing_def by (intro transaction_ok) (simp add: prog_simps)

lemma silently_ok: "m p = (Inr x, p') \<Longrightarrow> silently m p = (Inr (), p')"
  by (simp add: silently_def prog_simps)

lemmas executes = silently_ok [OF executing_ok]

lemma status_widths [simp]:
  "length (notification_status_value s) \<le> 32" "length (action_status_value a) \<le> 32"
  "length (change_type_value t) \<le> 32" "length (onboarding_status_value o') \<le> 32"
  "length (upload_status_value u) \<le> 32" "length (deletion_status_value d) \<le> 32" "length (hold_status x) \<le> 32"
  "length (control_name_value n) \<le> 64"
  by (cases s, simp_all) (cases a, simp_all, cases t, simp_all, cases o', simp_all, cases u, simp_all, cases d, simp_all,
      simp add: hold_status_def, cases n, simp_all)

definition simulates :: "'d codecs \<Rightarrow> store_call \<Rightarrow> bool" where
  "simulates c call \<longleftrightarrow> (\<forall>w p w'. represents c w p \<longrightarrow> hangs_together w \<longrightarrow> admissible call w \<longrightarrow>
     in_memory call w = (Inr (), w') \<longrightarrow> (\<exists>p'. on_postgres c call p = (Inr (), p') \<and> represents c w' p'))"

lemma simulatesI:
  "(\<And>w p w'. represents c w p \<Longrightarrow> hangs_together w \<Longrightarrow> admissible call w \<Longrightarrow> in_memory call w = (Inr (), w') \<Longrightarrow>
     \<exists>p'. on_postgres c call p = (Inr (), p') \<and> represents c w' p') \<Longrightarrow> simulates c call"
  by (simp add: simulates_def)

text \<open>A call is evaluated on both sides; what remains is the table that changes.\<close>

lemma by_key_upsert_row:
  assumes "same_rows (by_key row d) t" "r = row v" "\<And>old. dict_get d k = Some old \<Longrightarrow> f (row old) = row v"
  shows "same_rows (by_key row (dict_set k v d)) (upserted k r f t)"
  using assms by (simp add: by_key_upsert)

lemma by_key_insert_row:
  assumes "same_rows (by_key row d) t" "r = row v" "unused k d"
  shows "same_rows (by_key row (dict_set k v d)) (t @ [(k, r)])"
  using assms by (simp add: by_key_insert)

lemmas evaluated = silently_def executing_def transaction_def prog_simps sql_simps Let_def

lemmas memory_calls = save_incident_def save_profile_def save_approval_def save_memory_proposal_def
  save_candidate_set_def repo_record_candidate_outcome_def save_manager_feedback_def save_notification_def
  save_action_dispatch_def save_change_record_def save_provider_onboarding_def save_original_upload_def
  save_legal_hold_def save_deletion_request_def

lemmas postgres_calls = pg_save_incident_def pg_save_profile_def pg_save_approval_def pg_save_memory_proposal_def
  pg_save_candidate_set_def pg_record_candidate_outcome_def pg_save_manager_feedback_def pg_save_notification_def
  pg_save_action_dispatch_def pg_save_change_record_def pg_save_provider_onboarding_def pg_save_original_upload_def
  pg_save_legal_hold_def pg_save_deletion_request_def

lemma sim_upserts:
  "simulates c (SaveIncident i)" "simulates c (SaveProfile f)" "simulates c (SaveApproval a)"
  "simulates c (SaveProposal m)" "simulates c (SaveNotification n)" "simulates c (SaveAction x)"
  "simulates c (SaveUpload u)" "simulates c (SaveHold l)" "simulates c (SaveDeletion r)"
  by (rule simulatesI, auto simp: represents_def memory_calls postgres_calls evaluated fitting_def row_defs keeps_def
      intro!: by_key_upsert_row)+

lemma sim_inserts:
  "simulates c (SaveCandidateSet t cs)" "simulates c (RecordOutcome t oc)" "simulates c (SaveFeedback fb)"
  "simulates c (SaveChange cr)" "simulates c (SaveOnboarding po)"
  by (rule simulatesI, auto simp: represents_def memory_calls postgres_calls evaluated fitting_def row_defs by_key_get
      unused_def intro!: by_key_insert_row)+

section \<open>Trips and what hangs off them\<close>

lemma owner_of_set:
  assumes "keeps trip_tenant_id (trip_trip_id t) t ts" "k \<in> fst ` set ts"
  shows "owner_of (dict_set (trip_trip_id t) t ts) k = owner_of ts k"
proof -
  have "dict_get ts k \<noteq> None" using assms(2) by (simp add: map_of_eq_None_iff)
  then show ?thesis using assms(1) by (auto simp: owner_of_def keeps_def dict_get_set)
qed

lemma grouped_same_owner:
  assumes "fst ` set d \<subseteq> fst ` set ts" "keeps trip_tenant_id (trip_trip_id t) t ts"
  shows "grouped_rows key (evidence_row_of c (dict_set (trip_trip_id t) t ts)) d = grouped_rows key (evidence_row_of c ts) d"
proof -
  have "k \<in> fst ` set ts" if "(k, vs) \<in> set d" for k vs using that assms(1) by force
  then show ?thesis using assms(2) by (auto intro!: grouped_cong simp: evidence_row_of_def owner_of_set)
qed

lemma grouped_same_owner':
  assumes "fst ` set d \<subseteq> fst ` set ts" "keeps trip_tenant_id (trip_trip_id t) t ts"
  shows "grouped_rows key (assessment_row_of c (dict_set (trip_trip_id t) t ts)) d = grouped_rows key (assessment_row_of c ts) d"
proof -
  have "k \<in> fst ` set ts" if "(k, vs) \<in> set d" for k vs using that assms(1) by force
  then show ?thesis using assms(2) by (auto intro!: grouped_cong simp: assessment_row_of_def owner_of_set)
qed

lemma segments_replaced:
  assumes "storable_trip t"
  shows "\<exists>g. replace_trip_segments t p = (Inr (), pg_trip_segments_update g p)"
proof -
  let ?f = "dict_filter (\<lambda>k _. \<not> (case k of (trip_id, _) \<Rightarrow> trip_id = trip_trip_id t))"
  let ?p = "pg_trip_segments_update ?f p"
  have "run_statements (concat (map (\<lambda>s. [columns_fit (segment_columns t s),
      insert_row pg_trip_segments pg_trip_segments_update (trip_trip_id t, seg_segment_id s) (segment_row_of t s)])
      (trip_segments t))) ?p = (Inr (), pg_trip_segments_update
      (\<lambda>u. u @ map (\<lambda>s. ((trip_trip_id t, seg_segment_id s), segment_row_of t s)) (trip_segments t)) ?p)"
  proof (rule insert_many)
    show "distinct (map (\<lambda>s. (trip_trip_id t, seg_segment_id s)) (trip_segments t))"
      using assms by (auto simp: storable_trip_def distinct_map inj_on_def)
    show "\<forall>s \<in> set (trip_segments t). dict_get (pg_trip_segments ?p) (trip_trip_id t, seg_segment_id s) = None"
      by (auto simp: dict_filter_def map_of_eq_None_iff)
  qed (use assms in \<open>auto simp: storable_trip_def\<close>)
  then have "replace_trip_segments t p = (Inr (), pg_trip_segments_update
      ((\<lambda>u. u @ map (\<lambda>s. ((trip_trip_id t, seg_segment_id s), segment_row_of t s)) (trip_segments t)) \<circ> ?f) p)"
    by (simp add: replace_trip_segments_def sql_simps case_prod_unfold)
  then show ?thesis by blast
qed

lemma represents_segments [simp]: "represents c w (pg_trip_segments_update g p) = represents c w p"
  by (simp add: represents_def)

lemma trip_stored:
  assumes "represents c w p" "hangs_together w" "keeps trip_tenant_id (trip_trip_id t) t (db_trips w)"
    and "same_rows (by_key (trip_row_of c) (dict_set (trip_trip_id t) t (db_trips w))) (f (pg_trips p))"
  shows "represents c (save_trip t w) (pg_trips_update f p)"
  using assms
  by (simp add: represents_def save_trip_def hangs_together_def filed_under_def grouped_under_def grouped_same_owner
      grouped_same_owner')

lemma sim_create_trip: "simulates c (CreateTrip t)"
proof (rule simulatesI)
  fix w p w'
  assume rep: "represents c w p" "hangs_together w" and adm: "admissible (CreateTrip t) w"
    and run: "in_memory (CreateTrip t) w = (Inr (), w')"
  have trips: "same_rows (by_key (trip_row_of c) (db_trips w)) (pg_trips p)" using rep(1) by (simp add: represents_def)
  have free: "unused (trip_trip_id t) (db_trips w)" "storable_trip t" "length (trip_tenant_id t) \<le> 128"
    using adm by (simp_all add: storable_trip_def fitting_def)
  let ?p = "pg_trips_update (\<lambda>u. u @ [(trip_trip_id t, trip_row_of c t)]) p"
  obtain g where "replace_trip_segments t ?p = (Inr (), pg_trip_segments_update g ?p)"
    using segments_replaced [OF free(2)] by blast
  then have "on_postgres c (CreateTrip t) p = (Inr (), pg_trip_segments_update g ?p)"
    using by_key_insert(1) [OF trips free(1)] free(3)
    by (simp add: pg_create_trip_def evaluated fitting_def trip_row_of_def)
  moreover have "represents c (save_trip t w) ?p"
    using free(1) by (intro trip_stored [OF rep] by_key_insert [OF trips]) (simp_all add: keeps_def unused_def)
  ultimately show "\<exists>p'. on_postgres c (CreateTrip t) p = (Inr (), p') \<and> represents c w' p'"
    using run by (auto simp: prog_simps repo_create_trip_def save_trip_def)
qed

lemma sim_save_trip: "simulates c (SaveTrip t)"
proof (rule simulatesI)
  fix w p w'
  assume rep: "represents c w p" "hangs_together w" and adm: "admissible (SaveTrip t) w"
    and run: "in_memory (SaveTrip t) w = (Inr (), w')"
  have trips: "same_rows (by_key (trip_row_of c) (db_trips w)) (pg_trips p)" using rep(1) by (simp add: represents_def)
  have fits: "storable_trip t" "length (trip_tenant_id t) \<le> 128" using adm by (simp_all add: storable_trip_def fitting_def)
  let ?p = "pg_trips_update (upserted (trip_trip_id t) (trip_row_of c t)
      (\<lambda>r. r\<lparr>row_tenant_id := trip_tenant_id t, row_payload := cd_dump (cd_trip c) t\<rparr>)) p"
  obtain g where "replace_trip_segments t ?p = (Inr (), pg_trip_segments_update g ?p)"
    using segments_replaced [OF fits(1)] by blast
  then have "on_postgres c (SaveTrip t) p = (Inr (), pg_trip_segments_update g ?p)"
    using fits(2) by (simp add: pg_save_trip_def evaluated fitting_def trip_row_of_def)
  moreover have "represents c (save_trip t w) ?p"
    using adm by (intro trip_stored [OF rep] by_key_upsert [OF trips]) (simp_all add: trip_row_of_def)
  ultimately show "\<exists>p'. on_postgres c (SaveTrip t) p = (Inr (), p') \<and> represents c w' p'"
    using run by (auto simp: prog_simps)
qed

lemma own_trip: "get_trip tenant_id k w \<noteq> None \<Longrightarrow> owner_of (db_trips w) k = tenant_id"
  by (auto simp: get_trip_def owned_get_def owner_of_def split: option.splits if_splits)

lemma sim_save_evidence: "simulates c (SaveEvidence tenant_id k es)"
proof (rule simulatesI)
  fix w p w'
  assume rep: "represents c w p" "hangs_together w" and adm: "admissible (SaveEvidence tenant_id k es) w"
    and run: "in_memory (SaveEvidence tenant_id k es) w = (Inr (), w')"
  have own: "get_trip tenant_id k w \<noteq> None" and w': "w' = w\<lparr>db_evidence := dict_set k es (db_evidence w)\<rparr>"
    using run by (auto simp: save_evidence_def prog_simps split: if_splits)
  let ?row = "evidence_row_of c (db_trips w)"
  let ?R = "{r. row_tenant_id r = tenant_id \<and> row_trip_id r = k}"
  let ?t = "dict_filter (\<lambda>_ r. r \<notin> ?R) (pg_evidence_items p)"
  let ?p = "pg_evidence_items_update (dict_filter (\<lambda>_ r. r \<notin> ?R)) p"
  have row: "?row k e = \<lparr>row_payload = cd_dump (cd_evidence c) e, row_tenant_id = tenant_id, row_trip_id = k\<rparr>" for e
    by (simp add: evidence_row_of_def own_trip [OF own])
  have table: "same_rows (grouped_rows ev_evidence_id ?row (db_evidence w)) (pg_evidence_items p)"
    using rep(1) by (simp add: represents_def)
  have "?row k' e \<in> ?R \<longleftrightarrow> k' = k" for k' e by (auto simp: evidence_row_of_def own_trip [OF own])
  note replaced = grouped_replace [where vs = es, OF table _ _ this]
  have free: "\<forall>e \<in> set es. dict_get ?t (ev_evidence_id e) = None"
    and after: "same_rows (grouped_rows ev_evidence_id ?row (dict_set k es (db_evidence w)))
      (?t @ map (\<lambda>e. (ev_evidence_id e, ?row k e)) es)"
    using replaced adm rep(2) by (simp_all add: hangs_together_def filed_under_def)
  have "run_statements (concat (map (\<lambda>e. [columns_fit [(128, tenant_id)],
        insert_row pg_evidence_items pg_evidence_items_update (ev_evidence_id e) (?row k e)]) es))
      ?p = (Inr (), pg_evidence_items_update (\<lambda>t. t @ map (\<lambda>e. (ev_evidence_id e, ?row k e)) es) ?p)"
    by (rule insert_many) (use adm free in \<open>auto simp: list_all_iff\<close>)
  then have "on_postgres c (SaveEvidence tenant_id k es) p =
      (Inr (), pg_evidence_items_update (\<lambda>t. t @ map (\<lambda>e. (ev_evidence_id e, ?row k e)) es) ?p)"
    by (simp add: pg_save_evidence_def evaluated row)
  then show "\<exists>p'. on_postgres c (SaveEvidence tenant_id k es) p = (Inr (), p') \<and> represents c w' p'"
    using rep(1) after w' by (simp add: represents_def)
qed

lemma sim_save_assessment: "simulates c (SaveAssessment tenant_id a)"
proof (rule simulatesI)
  fix w p w'
  assume rep: "represents c w p" "hangs_together w" and adm: "admissible (SaveAssessment tenant_id a) w"
    and run: "in_memory (SaveAssessment tenant_id a) w = (Inr (), w')"
  have own: "get_trip tenant_id (ra_trip_id a) w \<noteq> None"
    and w': "w' = w\<lparr>db_assessments := dict_append (ra_trip_id a) a (db_assessments w)\<rparr>"
    using run by (auto simp: save_assessment_def evaluated split: if_splits)
  have row: "assessment_row_of c (db_trips w) (ra_trip_id a) a =
      \<lparr>row_payload = cd_dump (cd_assessment c) a, row_tenant_id = tenant_id, row_trip_id = ra_trip_id a\<rparr>"
    by (simp add: assessment_row_of_def own_trip [OF own])
  have "same_rows (grouped_rows ra_assessment_id (assessment_row_of c (db_trips w)) (db_assessments w)) (pg_assessments p)"
    using rep(1) by (simp add: represents_def)
  note stored = grouped_insert(1) [OF this, where v = a] grouped_insert(2) [OF this, where k = "ra_trip_id a" and v = a]
  show "\<exists>p'. on_postgres c (SaveAssessment tenant_id a) p = (Inr (), p') \<and> represents c w' p'"
    using rep(1) adm stored w' row by (simp add: represents_def pg_save_assessment_def evaluated)
qed

section \<open>Logs, deliveries, playbooks and controls\<close>

lemma renames [simp]: "inj control_name_value" "inj (apsnd control_name_value :: string \<times> _ \<Rightarrow> _)"
proof -
  show "inj control_name_value" by (rule injI) (rule control_name_value_inj)
  then show "inj (apsnd control_name_value :: string \<times> _ \<Rightarrow> _)" by simp
qed

lemma sim_record_event: "simulates c (RecordEvent e)"
proof (rule simulatesI)
  fix w p w'
  assume rep: "represents c w p" and adm: "admissible (RecordEvent e) w" and run: "in_memory (RecordEvent e) w = (Inr (), w')"
  let ?e = "e\<lparr>evt_details := redact_object (evt_details e)\<rparr>"
  have "same_rows (log_rows evt_event_id (event_row_of c) (db_events w)) (pg_events p)" using rep by (simp add: represents_def)
  note stored = log_insert [OF this, of ?e]
  show "\<exists>p'. on_postgres c (RecordEvent e) p = (Inr (), p') \<and> represents c w' p'"
    using rep adm run stored
    by (auto simp: represents_def pg_record_event_def record_event_def evaluated fitting_def event_row_of_def)
qed

lemma sim_save_playbook:
  assumes "round_trips (cd_playbook c)"
  shows "simulates c (SavePlaybook b)"
proof (rule simulatesI)
  fix w p w'
  assume rep: "represents c w p" and adm: "admissible (SavePlaybook b) w" and run: "in_memory (SavePlaybook b) w = (Inr (), w')"
  have table: "same_rows (by_key (playbook_row_of c) (db_tenant_playbooks w)) (pg_tenant_playbooks p)"
    using rep by (simp add: represents_def)
  show "\<exists>p'. on_postgres c (SavePlaybook b) p = (Inr (), p') \<and> represents c w' p'"
  proof (cases "dict_get (db_tenant_playbooks w) (pb_playbook_id b)")
    case None
    then show ?thesis
      using rep adm run by_key_insert(1) [OF table, of "pb_playbook_id b"] by_key_insert(2) [OF table, of "pb_playbook_id b" b] assms
      by (auto simp: represents_def pg_save_playbook_def save_playbook_def insert_or_nothing_def evaluated fitting_def
          playbook_row_of_def unused_def)
  next
    case (Some old)
    then show ?thesis
      using rep adm run assms
      by (simp add: pg_save_playbook_def save_playbook_def insert_or_nothing_def evaluated fitting_def select_one_def
          by_key_get [OF table] playbook_row_of_def)
  qed
qed

lemma sim_record_delivery: "simulates c (RecordDelivery a)"
proof (rule simulatesI)
  fix w p w'
  assume rep: "represents c w p" and adm: "admissible (RecordDelivery a) w" and run: "in_memory (RecordDelivery a) w = (Inr (), w')"
  have table: "same_rows (grouped_rows na_attempt_id (\<lambda>_. delivery_row_of c) (db_notification_attempts w)) (pg_notification_attempts p)"
    using rep by (simp add: represents_def)
  show "\<exists>p'. on_postgres c (RecordDelivery a) p = (Inr (), p') \<and> represents c w' p'"
    using rep adm run grouped_insert [OF table, of a]
    by (auto simp: represents_def pg_record_notification_attempt_def record_notification_attempt_def evaluated delivery_row_of_def)
qed

lemma sim_record_dispatch: "simulates c (RecordDispatch a)"
proof (rule simulatesI)
  fix w p w'
  assume rep: "represents c w p" and adm: "admissible (RecordDispatch a) w" and run: "in_memory (RecordDispatch a) w = (Inr (), w')"
  have table: "same_rows (grouped_rows aa_attempt_id (\<lambda>_. dispatch_row_of c) (db_action_dispatch_attempts w)) (pg_action_dispatch_attempts p)"
    using rep by (simp add: represents_def)
  show "\<exists>p'. on_postgres c (RecordDispatch a) p = (Inr (), p') \<and> represents c w' p'"
    using rep adm run grouped_insert [OF table, of a]
    by (auto simp: represents_def pg_record_action_dispatch_attempt_def record_action_dispatch_attempt_def evaluated
        dispatch_row_of_def)
qed

lemma sim_complete_delivery:
  assumes "round_trips (cd_notification c)"
  shows "simulates c (CompleteDelivery n a claim)"
proof (rule simulatesI)
  fix w p w'
  assume rep: "represents c w p" and adm: "admissible (CompleteDelivery n a claim) w"
    and run: "in_memory (CompleteDelivery n a claim) w = (Inr (), w')"
  have table: "same_rows (by_key (notification_row_of c) (db_notifications w)) (pg_notifications p)"
    and log: "same_rows (grouped_rows na_attempt_id (\<lambda>_. delivery_row_of c) (db_notification_attempts w)) (pg_notification_attempts p)"
    using rep by (simp_all add: represents_def)
  have pay: "row_payload (notification_row_of c m) = cd_dump (cd_notification c) m" for m by (simp add: notification_row_of_def)
  note read = by_key_select_one [OF table pay]
  show "\<exists>p'. on_postgres c (CompleteDelivery n a claim) p = (Inr (), p') \<and> represents c w' p'"
  proof (cases "\<exists>cur. dict_get (db_notifications w) (nt_notification_id n) = Some cur \<and> nt_dispatch_claim_id cur = Some claim")
    case False
    then show ?thesis
      using rep run assms
      by (auto simp: pg_complete_notification_delivery_def complete_notification_delivery_def evaluated read
          split: option.splits)
  next
    case True
    then obtain cur where cur: "dict_get (db_notifications w) (nt_notification_id n) = Some cur"
      "nt_dispatch_claim_id cur = Some claim" by blast
    let ?n = "n\<lparr>nt_dispatch_claim_id := None, nt_dispatch_claimed_by := None, nt_dispatch_claimed_at := None,
        nt_dispatch_claim_expires_at := None\<rparr>"
    have "nt_tenant_id cur = nt_tenant_id n" using adm cur by (auto dest: keepsD)
    then show ?thesis
      using rep adm run assms cur grouped_insert [OF log, of a]
        by_key_update [OF table cur(1), of "\<lambda>r. r\<lparr>row_status := notification_status_value (nt_status n),
          row_payload := cd_dump (cd_notification c) ?n\<rparr>" ?n]
      by (auto simp: pg_complete_notification_delivery_def complete_notification_delivery_def evaluated read
          represents_def notification_row_of_def delivery_row_of_def)
  qed
qed

lemma sim_complete_dispatch:
  assumes "round_trips (cd_action c)"
  shows "simulates c (CompleteDispatch x a claim)"
proof (rule simulatesI)
  fix w p w'
  assume rep: "represents c w p" and adm: "admissible (CompleteDispatch x a claim) w"
    and run: "in_memory (CompleteDispatch x a claim) w = (Inr (), w')"
  have table: "same_rows (by_key (action_row_of c) (db_action_dispatches w)) (pg_action_dispatches p)"
    and log: "same_rows (grouped_rows aa_attempt_id (\<lambda>_. dispatch_row_of c) (db_action_dispatch_attempts w)) (pg_action_dispatch_attempts p)"
    using rep by (simp_all add: represents_def)
  have pay: "row_payload (action_row_of c m) = cd_dump (cd_action c) m" for m by (simp add: action_row_of_def)
  note read = by_key_select_one [OF table pay]
  show "\<exists>p'. on_postgres c (CompleteDispatch x a claim) p = (Inr (), p') \<and> represents c w' p'"
  proof (cases "\<exists>cur. dict_get (db_action_dispatches w) (ad_action_dispatch_id x) = Some cur \<and> ad_dispatch_claim_id cur = Some claim")
    case False
    then show ?thesis
      using rep run assms
      by (auto simp: pg_complete_action_dispatch_def complete_action_dispatch_def evaluated read split: option.splits)
  next
    case True
    then obtain cur where cur: "dict_get (db_action_dispatches w) (ad_action_dispatch_id x) = Some cur"
      "ad_dispatch_claim_id cur = Some claim" by blast
    let ?x = "x\<lparr>ad_dispatch_claim_id := None, ad_dispatch_claimed_by := None, ad_dispatch_claimed_at := None,
        ad_dispatch_claim_expires_at := None\<rparr>"
    have "ad_tenant_id cur = ad_tenant_id x" "ad_incident_id cur = ad_incident_id x" using adm cur by (auto simp: keeps_def)
    then show ?thesis
      using rep adm run assms cur grouped_insert [OF log, of a]
        by_key_update [OF table cur(1), of "\<lambda>r. r\<lparr>row_action_status := action_status_value (ad_status x),
          row_payload := cd_dump (cd_action c) ?x\<rparr>" ?x]
      by (auto simp: pg_complete_action_dispatch_def complete_action_dispatch_def evaluated read represents_def
          action_row_of_def dispatch_row_of_def)
  qed
qed

lemma sim_save_control: "simulates c (SaveControl r)"
proof (rule simulatesI)
  fix w p w'
  assume rep: "represents c w p" and adm: "admissible (SaveControl r) w" and run: "in_memory (SaveControl r) w = (Inr (), w')"
  have log: "same_rows (log_rows rc_control_change_id (control_row_of c) (db_control_changes w)) (pg_runtime_control_changes p)"
    and table: "same_rows (by_key (document_of (cd_control c)) (renamed (apsnd control_name_value) (db_control_overrides w)))
      (pg_runtime_control_overrides p)"
    using rep by (simp_all add: represents_def)
  show "\<exists>p'. on_postgres c (SaveControl r) p = (Inr (), p') \<and> represents c w' p'"
    using rep adm run log_insert [OF log, of r]
      by_key_upsert [OF table, of "(rc_tenant_id r, control_name_value (rc_control_name r))"
        "\<lambda>row. row\<lparr>row_payload := cd_dump (cd_control c) r\<rparr>" r]
    by (auto simp: represents_def pg_save_runtime_control_change_def save_runtime_control_change_def evaluated fitting_def
        renamed_set control_row_of_def document_of_def)
qed

lemma sim_save_platform_control: "simulates c (SavePlatformControl r)"
proof (rule simulatesI)
  fix w p w'
  assume rep: "represents c w p" and adm: "admissible (SavePlatformControl r) w"
    and run: "in_memory (SavePlatformControl r) w = (Inr (), w')"
  have log: "same_rows (log_rows prc_control_change_id (platform_row_of c) (db_platform_changes w)) (pg_platform_changes p)"
    and table: "same_rows (by_key (document_of (cd_platform c)) (renamed control_name_value (db_platform_overrides w)))
      (pg_platform_overrides p)"
    using rep by (simp_all add: represents_def)
  show "\<exists>p'. on_postgres c (SavePlatformControl r) p = (Inr (), p') \<and> represents c w' p'"
    using rep adm run log_insert [OF log, of r]
      by_key_upsert [OF table, of "control_name_value (prc_control_name r)"
        "\<lambda>row. row\<lparr>row_payload := cd_dump (cd_platform c) r\<rparr>" r]
    by (auto simp: represents_def pg_save_platform_control_change_def save_platform_control_change_def evaluated fitting_def
        renamed_set platform_row_of_def document_of_def)
qed

end
