(* ===== verification/PostgresErasure.thy ===== *)
theory PostgresErasure
  imports PostgresRefinement
begin

text \<open>
  Deleting a traveler's memory and erasing a traveler: the keys that PostgreSQL computes from documents
  are the keys that the in-memory repository computes from its dictionaries, and the deletes remove
  the same records.
\<close>

lemma by_key_wf: "same_rows (by_key row d) t \<Longrightarrow> dict_wf d"
  using same_rows_wf' [of "by_key row d" t] by (simp add: dict_wf_def)

section \<open>Memory\<close>

lemma memory_forgotten:
  assumes "represents c w p"
    and "\<And>i m. (i, m) \<in> set (db_memory_proposals w) \<Longrightarrow>
      Q i (proposal_row_of c m) = (\<not> (mp_tenant_id m = t \<and> mp_traveler_id m = k))"
  shows "represents c (forgotten t k w) (pg_memory_proposals_update (dict_filter Q)
    (pg_preferences_update (dict_filter (\<lambda>i _. i \<noteq> (t, k))) p))"
proof -
  have tables: "same_rows (by_key (document_of (cd_profile c)) (db_profiles w)) (pg_preferences p)"
    "same_rows (by_key (proposal_row_of c) (db_memory_proposals w)) (pg_memory_proposals p)"
    using assms(1) by (simp_all add: represents_def)
  have "same_rows (by_key (proposal_row_of c) (dict_filter (\<lambda>_ m. \<not> (mp_tenant_id m = t \<and> mp_traveler_id m = k))
      (db_memory_proposals w))) (dict_filter Q (pg_memory_proposals p))"
    by (rule by_key_delete [OF tables(2)]) (rule assms(2))
  moreover have "same_rows (by_key (document_of (cd_profile c)) (dict_filter (\<lambda>i _. i \<noteq> (t, k)) (db_profiles w)))
      (dict_filter (\<lambda>i _. i \<noteq> (t, k)) (pg_preferences p))"
    by (rule by_key_delete [OF tables(1)]) simp
  ultimately show ?thesis
    using assms(1) pop_all_where [OF by_key_wf [OF tables(2)], of "\<lambda>m. mp_tenant_id m = t \<and> mp_traveler_id m = k"]
    by (simp add: represents_def forgotten_def pop_filter)
qed

lemma sim_delete_memory:
  assumes "codecs_ok c"
  shows "simulates c (DeleteMemory t k)"
proof (rule simulatesI)
  fix w p w'
  assume rep: "represents c w p" and run: "in_memory (DeleteMemory t k) w = (Inr (), w')"
  let ?Q = "\<lambda>(_ :: uuid) r. \<not> (row_tenant_id r = t \<and> cd_astext c (row_payload r) ''traveler_id'' = Some k)"
  have "w' = forgotten t k w" using run by (simp add: silently_def prog_simps delete_memory_app)
  moreover have "on_postgres c (DeleteMemory t k) p = (Inr (), pg_memory_proposals_update (dict_filter ?Q)
      (pg_preferences_update (dict_filter (\<lambda>i _. i \<noteq> (t, k))) p))"
    by (simp add: pg_delete_traveler_memory_def delete_counting_def evaluated)
  moreover have "represents c (forgotten t k w) (pg_memory_proposals_update (dict_filter ?Q)
      (pg_preferences_update (dict_filter (\<lambda>i _. i \<noteq> (t, k))) p))"
    using assms by (intro memory_forgotten [OF rep]) (simp add: proposal_row_of_def codecs_ok_def)
  ultimately show "\<exists>p'. on_postgres c (DeleteMemory t k) p = (Inr (), p') \<and> represents c w' p'" by blast
qed

section \<open>The deletes of an erasure\<close>

lemma dict_filter_all [simp]: "dict_filter (\<lambda>_ _. True) = (\<lambda>d. d)"
  by (rule ext) (simp add: dict_filter_def)

definition pg_erased :: "uuid list \<Rightarrow> uuid list \<Rightarrow> uuid list \<Rightarrow> 'd pg_world \<Rightarrow> 'd pg_world" where
  "pg_erased trip_ids incident_ids notification_ids p = p\<lparr>
     pg_notification_attempts := dict_filter (\<lambda>_ r. row_notification_id r \<notin> set notification_ids) (pg_notification_attempts p),
     pg_notifications := dict_filter (\<lambda>k _. k \<notin> set notification_ids) (pg_notifications p),
     pg_action_dispatch_attempts := dict_filter (\<lambda>_ r. row_action_dispatch_id r \<notin>
       set [k. (k, r) \<leftarrow> pg_action_dispatches p, row_incident_id r \<in> set incident_ids]) (pg_action_dispatch_attempts p),
     pg_action_dispatches := dict_filter (\<lambda>_ r. row_incident_id r \<notin> set incident_ids) (pg_action_dispatches p),
     pg_approvals := dict_filter (\<lambda>k _. k \<notin> set incident_ids) (pg_approvals p),
     pg_candidate_sets := dict_filter (\<lambda>_ r. row_incident_id r \<notin> set incident_ids) (pg_candidate_sets p),
     pg_candidate_outcomes := dict_filter (\<lambda>_ r. row_incident_id r \<notin> set incident_ids) (pg_candidate_outcomes p),
     pg_manager_feedback := dict_filter (\<lambda>_ r. row_incident_id r \<notin> set incident_ids) (pg_manager_feedback p),
     pg_incidents := dict_filter (\<lambda>k _. k \<notin> set incident_ids) (pg_incidents p),
     pg_evidence_items := dict_filter (\<lambda>_ r. row_trip_id r \<notin> set trip_ids) (pg_evidence_items p),
     pg_assessments := dict_filter (\<lambda>_ r. row_trip_id r \<notin> set trip_ids) (pg_assessments p),
     pg_trip_segments := dict_filter (\<lambda>k _. fst k \<notin> set trip_ids) (pg_trip_segments p),
     pg_trips := dict_filter (\<lambda>k _. k \<notin> set trip_ids) (pg_trips p)\<rparr>"

lemma erase_rows_app:
  "pg_erase_rows trip_ids incident_ids notification_ids p = (Inr (), pg_erased trip_ids incident_ids notification_ids p)"
  unfolding pg_erase_rows_def pg_erased_def delete_action_rows_def delete_incident_rows_def delete_incidents_def
  by (cases "trip_ids = []"; cases "incident_ids = []"; cases "notification_ids = []")
    (auto simp: evaluated case_prod_unfold intro!: pg_world.equality)

lemma attempts_of_remaining:
  assumes "same_rows (grouped_rows key row d) t" "grouped_under parent ps d" "\<And>k v. pr (row k v) = parent v"
    and "\<And>k. k \<in> fst ` set ps \<Longrightarrow> k \<in> K \<longleftrightarrow> k \<notin> gone"
  shows "same_rows (grouped_rows key row (dict_filter (\<lambda>k _. k \<in> K) d)) (dict_filter (\<lambda>_ r. pr r \<notin> gone) t)"
proof (rule grouped_delete [OF assms(1)])
  fix k vs v
  assume "(k, vs) \<in> set d" "v \<in> set vs"
  moreover from this have "parent v = k" "k \<in> fst ` set ps" using assms(2) by (force simp: grouped_under_def)+
  ultimately show "(pr (row k v) \<notin> gone) = (k \<in> K)" using assms(3, 4) by simp
qed

lemma kept_keys:
  assumes "dict_wf d" "\<And>i. i \<in> gone \<longleftrightarrow> (\<exists>v. (i, v) \<in> set d \<and> P v)" "k \<in> fst ` set d"
  shows "k \<in> set (dict_keys (dict_filter (\<lambda>_ v. \<not> P v) d)) \<longleftrightarrow> k \<notin> gone"
proof -
  obtain v where v: "(k, v) \<in> set d" using assms(3) by auto
  have "(\<exists>v'. (k, v') \<in> set d \<and> P v') \<longleftrightarrow> P v" "(\<exists>v'. (k, v') \<in> set d \<and> \<not> P v') \<longleftrightarrow> \<not> P v"
    using v dict_unique [OF assms(1) v] by blast+
  moreover have "k \<in> set (dict_keys (dict_filter (\<lambda>_ v. \<not> P v) d)) \<longleftrightarrow> (\<exists>v'. (k, v') \<in> set d \<and> \<not> P v')"
    by (auto simp: dict_keys_def dict_filter_def image_iff)
  ultimately show ?thesis using assms(2) by simp
qed

lemma owner_of_kept: "k \<notin> ids \<Longrightarrow> owner_of (dict_pop_all ids ts) k = owner_of ts k"
  by (simp add: owner_of_def dict_get_pop_all)

lemma sets_of_conv:
  "same_rows (by_key row d) t \<Longrightarrow> (\<And>v. Q (row v) = P v) \<Longrightarrow>
     same_rows (by_key row (dict_filter (\<lambda>_ v. \<not> P v) d)) (dict_filter (\<lambda>_ r. \<not> Q r) t)"
  by (erule by_key_delete) simp

text \<open>The sets of keys that the in-memory repository computes.\<close>

definition notification_ids_of :: "string \<Rightarrow> string \<Rightarrow> world \<Rightarrow> uuid set" where
  "notification_ids_of t k w = {i. \<exists>n. (i, n) \<in> set (db_notifications w) \<and> nt_tenant_id n = t \<and> nt_traveler_id n = k}"

lemma rows_erased:
  assumes rep: "represents c w p" and hang: "hangs_together w"
    and ns: "set notification_ids = notification_ids_of t k w"
  shows "represents c (erase_rows t k (set trip_ids) (set incident_ids) w) (pg_erased trip_ids incident_ids notification_ids p)"
proof -
  let ?n = "\<lambda>n. nt_tenant_id n = t \<and> nt_traveler_id n = k"
  let ?a = "\<lambda>a. ad_incident_id a \<in> set incident_ids"
  let ?actions = "[i. (i, r) \<leftarrow> pg_action_dispatches p, row_incident_id r \<in> set incident_ids]"
  have nt: "same_rows (by_key (notification_row_of c) (db_notifications w)) (pg_notifications p)"
    and na: "same_rows (grouped_rows na_attempt_id (\<lambda>_. delivery_row_of c) (db_notification_attempts w)) (pg_notification_attempts p)"
    and ad: "same_rows (by_key (action_row_of c) (db_action_dispatches w)) (pg_action_dispatches p)"
    and aa: "same_rows (grouped_rows aa_attempt_id (\<lambda>_. dispatch_row_of c) (db_action_dispatch_attempts w))
      (pg_action_dispatch_attempts p)"
    and tr: "same_rows (by_key (trip_row_of c) (db_trips w)) (pg_trips p)"
    and ev: "same_rows (grouped_rows ev_evidence_id (evidence_row_of c (db_trips w)) (db_evidence w)) (pg_evidence_items p)"
    and ra: "same_rows (grouped_rows ra_assessment_id (assessment_row_of c (db_trips w)) (db_assessments w)) (pg_assessments p)"
    and others: "same_rows (by_key (incident_row_of c) (db_incidents w)) (pg_incidents p)"
      "same_rows (by_key (document_of (cd_approval c)) (db_approvals w)) (pg_approvals p)"
      "same_rows (by_key (candidate_set_row_of c) (db_candidate_sets w)) (pg_candidate_sets p)"
      "same_rows (by_key (outcome_row_of c) (db_candidate_outcomes w)) (pg_candidate_outcomes p)"
      "same_rows (by_key (feedback_row_of c) (db_manager_feedback w)) (pg_manager_feedback p)"
    using rep by (simp_all add: represents_def)
  have "same_rows (by_key (notification_row_of c) (dict_filter (\<lambda>_ n. \<not> ?n n) (db_notifications w)))
      (dict_filter (\<lambda>i _. i \<notin> set notification_ids) (pg_notifications p))"
  proof (rule by_key_delete [OF nt])
    fix i n assume "(i, n) \<in> set (db_notifications w)"
    then show "(i \<notin> set notification_ids) = (\<not> ?n n)"
      using ns by_key_wf [OF nt] by (auto simp: notification_ids_of_def dest: dict_unique)
  qed
  moreover have "same_rows (grouped_rows na_attempt_id (\<lambda>_. delivery_row_of c)
      (dict_filter (\<lambda>i _. i \<in> set (dict_keys (dict_filter (\<lambda>_ n. \<not> ?n n) (db_notifications w)))) (db_notification_attempts w)))
      (dict_filter (\<lambda>_ r. row_notification_id r \<notin> set notification_ids) (pg_notification_attempts p))"
    by (intro attempts_of_remaining [OF na, where parent = na_notification_id and ps = "db_notifications w"]
        kept_keys [OF by_key_wf [OF nt]])
      (use hang ns in \<open>simp_all add: hangs_together_def delivery_row_of_def notification_ids_of_def\<close>)
  moreover have "same_rows (by_key (action_row_of c) (dict_filter (\<lambda>_ a. \<not> ?a a) (db_action_dispatches w)))
      (dict_filter (\<lambda>_ r. row_incident_id r \<notin> set incident_ids) (pg_action_dispatches p))"
    by (rule sets_of_conv [OF ad]) (simp add: action_row_of_def)
  moreover have "i \<in> set ?actions \<longleftrightarrow> (\<exists>a. (i, a) \<in> set (db_action_dispatches w) \<and> ?a a)" for i
  proof -
    have "set (pg_action_dispatches p) = set (by_key (action_row_of c) (db_action_dispatches w))"
      using ad mset_eq_setD by (auto simp: same_rows_def)
    then show ?thesis by (force simp: rows_of_def action_row_of_def)
  qed
  then have "same_rows (grouped_rows aa_attempt_id (\<lambda>_. dispatch_row_of c)
      (dict_filter (\<lambda>i _. i \<in> set (dict_keys (dict_filter (\<lambda>_ a. \<not> ?a a) (db_action_dispatches w)))) (db_action_dispatch_attempts w)))
      (dict_filter (\<lambda>_ r. row_action_dispatch_id r \<notin> set ?actions) (pg_action_dispatch_attempts p))"
    by (intro attempts_of_remaining [OF aa, where parent = aa_action_dispatch_id and ps = "db_action_dispatches w"]
        kept_keys [OF by_key_wf [OF ad]])
      (use hang in \<open>simp_all add: hangs_together_def dispatch_row_of_def\<close>)
  moreover have "same_rows (by_key (trip_row_of c) (dict_pop_all (set trip_ids) (db_trips w)))
      (dict_filter (\<lambda>i _. i \<notin> set trip_ids) (pg_trips p))"
    unfolding pop_all_filter by (rule by_key_delete [OF tr]) simp
  moreover have "same_rows (grouped_rows ev_evidence_id (evidence_row_of c (dict_pop_all (set trip_ids) (db_trips w)))
      (dict_pop_all (set trip_ids) (db_evidence w))) (dict_filter (\<lambda>_ r. row_trip_id r \<notin> set trip_ids) (pg_evidence_items p))"
  proof -
    have "grouped_rows ev_evidence_id (evidence_row_of c (dict_pop_all (set trip_ids) (db_trips w)))
        (dict_pop_all (set trip_ids) (db_evidence w)) = grouped_rows ev_evidence_id (evidence_row_of c (db_trips w))
        (dict_filter (\<lambda>i _. i \<notin> set trip_ids) (db_evidence w))"
      unfolding pop_all_filter [of _ "db_evidence w"]
      by (rule grouped_cong) (auto simp: evidence_row_of_def dict_filter_def owner_of_kept)
    then show ?thesis by (simp only:) (rule grouped_delete [OF ev], simp add: evidence_row_of_def)
  qed
  moreover have "same_rows (grouped_rows ra_assessment_id (assessment_row_of c (dict_pop_all (set trip_ids) (db_trips w)))
      (dict_pop_all (set trip_ids) (db_assessments w))) (dict_filter (\<lambda>_ r. row_trip_id r \<notin> set trip_ids) (pg_assessments p))"
  proof -
    have "grouped_rows ra_assessment_id (assessment_row_of c (dict_pop_all (set trip_ids) (db_trips w)))
        (dict_pop_all (set trip_ids) (db_assessments w)) = grouped_rows ra_assessment_id (assessment_row_of c (db_trips w))
        (dict_filter (\<lambda>i _. i \<notin> set trip_ids) (db_assessments w))"
      unfolding pop_all_filter [of _ "db_assessments w"]
      by (rule grouped_cong) (auto simp: assessment_row_of_def dict_filter_def owner_of_kept)
    then show ?thesis by (simp only:) (rule grouped_delete [OF ra], simp add: assessment_row_of_def)
  qed
  moreover have "same_rows (by_key (incident_row_of c) (dict_pop_all (set incident_ids) (db_incidents w)))
      (dict_filter (\<lambda>i _. i \<notin> set incident_ids) (pg_incidents p))"
    "same_rows (by_key (document_of (cd_approval c)) (dict_pop_all (set incident_ids) (db_approvals w)))
      (dict_filter (\<lambda>i _. i \<notin> set incident_ids) (pg_approvals p))"
    unfolding pop_all_filter by (rule by_key_delete [OF others(1)], simp, rule by_key_delete [OF others(2)], simp)
  moreover have "same_rows (by_key (candidate_set_row_of c) (dict_filter (\<lambda>_ x. \<not> cs_incident_id (snd x) \<in> set incident_ids)
      (db_candidate_sets w))) (dict_filter (\<lambda>_ r. \<not> row_incident_id r \<in> set incident_ids) (pg_candidate_sets p))"
    "same_rows (by_key (outcome_row_of c) (dict_filter (\<lambda>_ x. \<not> out_incident_id (snd x) \<in> set incident_ids)
      (db_candidate_outcomes w))) (dict_filter (\<lambda>_ r. \<not> row_incident_id r \<in> set incident_ids) (pg_candidate_outcomes p))"
    "same_rows (by_key (feedback_row_of c) (dict_filter (\<lambda>_ x. \<not> mf_incident_id x \<in> set incident_ids)
      (db_manager_feedback w))) (dict_filter (\<lambda>_ r. \<not> row_incident_id r \<in> set incident_ids) (pg_manager_feedback p))"
    by (rule sets_of_conv [OF others(3)], simp add: candidate_set_row_of_def, rule sets_of_conv [OF others(4)],
        simp add: outcome_row_of_def, rule sets_of_conv [OF others(5)], simp add: feedback_row_of_def)
  ultimately show ?thesis using rep by (simp add: represents_def erase_rows_def drop_incident_rows_def
      drop_action_rows_def pg_erased_def Let_def)
qed

section \<open>The keys, and the erasure as a whole\<close>

lemma read_keyed:
  assumes "same_rows (by_key row d) t" "\<And>v. row_payload (row v) = cd_dump codec v" "round_trips codec"
  shows "\<exists>xs. parse_keyed codec (select_keyed t P) s = (Inr xs, s) \<and> set xs = {(k, v) \<in> set d. P (row v)}"
proof -
  have "\<exists>xs. parse_keyed codec (select_keyed t P) s = (Inr xs, s) \<and> mset xs = mset (filter (\<lambda>(k, v). P (row v)) d)"
    by (rule parse_keyed_rows [OF assms(3) by_key_select_keyed [OF assms(1, 2)]])
  then obtain xs where xs: "parse_keyed codec (select_keyed t P) s = (Inr xs, s)"
    "mset xs = mset (filter (\<lambda>(k, v). P (row v)) d)" by blast
  have "set xs = {(k, v) \<in> set d. P (row v)}" using mset_eq_setD [OF xs(2)] by auto
  with xs(1) show ?thesis by blast
qed

lemma unchanged_proposals [simp]: "pg_memory_proposals_update (\<lambda>t. t) p = p"
  by (rule pg_world.equality) simp_all

lemma memory_erased:
  assumes "codecs_ok c" "represents c w p"
  shows "\<exists>counts p'. pg_erase_memory c t k p = (Inr counts, p') \<and> represents c (forgotten t k w) p'"
proof -
  have table: "same_rows (by_key (proposal_row_of c) (db_memory_proposals w)) (pg_memory_proposals p)"
    using assms(2) by (simp add: represents_def)
  obtain xs where xs: "parse_keyed (cd_proposal c) (select_keyed (pg_memory_proposals p) (\<lambda>r. row_tenant_id r = t)) p = (Inr xs, p)"
    "set xs = {(i, m) \<in> set (db_memory_proposals w). mp_tenant_id m = t}"
    using read_keyed [OF table, of "cd_proposal c" "\<lambda>r. row_tenant_id r = t" p] assms(1)
    by (auto simp: proposal_row_of_def codecs_ok_def)
  let ?ids = "[i. (i, m) \<leftarrow> xs, mp_traveler_id m = k]"
  let ?p = "pg_memory_proposals_update (dict_filter (\<lambda>i _. i \<notin> set ?ids))
    (pg_preferences_update (dict_filter (\<lambda>i _. i \<noteq> (t, k))) p)"
  have "if_any ?ids [delete_rows pg_memory_proposals_update (\<lambda>i _. i \<in> set ?ids)]
      (pg_preferences_update (dict_filter (\<lambda>i _. i \<noteq> (t, k))) p) = (Inr (), ?p)"
    by (cases "?ids = []") (simp_all add: sql_simps del: concat_eq_Nil_conv)
  then have "\<exists>counts. pg_erase_memory c t k p = (Inr counts, ?p)"
    using xs(1) by (simp add: pg_erase_memory_def prog_simps sql_simps Let_def)
  moreover have "represents c (forgotten t k w) ?p"
  proof (rule memory_forgotten [OF assms(2)])
    fix i m assume "(i, m) \<in> set (db_memory_proposals w)"
    then show "(i \<notin> set ?ids) = (\<not> (mp_tenant_id m = t \<and> mp_traveler_id m = k))"
      using dict_unique [OF by_key_wf [OF table]] xs(2) by auto
  qed
  ultimately show ?thesis by blast
qed

lemma traveler_keys:
  assumes "codecs_ok c" "represents c w p"
  shows "\<exists>trip_ids incident_ids notification_ids.
    pg_traveler_keys c t k p = (Inr (trip_ids, incident_ids, notification_ids), p) \<and>
    set trip_ids = set (traveler_trip_ids t k w) \<and>
    set incident_ids = set (trip_incident_ids t (traveler_trip_ids t k w) w) \<and>
    set notification_ids = notification_ids_of t k w"
proof -
  have tables: "same_rows (by_key (trip_row_of c) (db_trips w)) (pg_trips p)"
    "same_rows (by_key (incident_row_of c) (db_incidents w)) (pg_incidents p)"
    "same_rows (by_key (notification_row_of c) (db_notifications w)) (pg_notifications p)"
    using assms(2) by (simp_all add: represents_def)
  obtain ts where ts: "parse_keyed (cd_trip c) (select_keyed (pg_trips p) (\<lambda>_. True)) p = (Inr ts, p)"
    "set ts = set (db_trips w)"
    using read_keyed [OF tables(1), of "cd_trip c" "\<lambda>_. True" p] assms(1) by (auto simp: trip_row_of_def codecs_ok_def)
  obtain js where js: "parse_keyed (cd_incident c) (select_keyed (pg_incidents p) (\<lambda>_. True)) p = (Inr js, p)"
    "set js = set (db_incidents w)"
    using read_keyed [OF tables(2), of "cd_incident c" "\<lambda>_. True" p] assms(1) by (auto simp: incident_row_of_def codecs_ok_def)
  obtain ns where ns: "parse_keyed (cd_notification c) (select_keyed (pg_notifications p) (\<lambda>r. row_tenant_id r = t)) p = (Inr ns, p)"
    "set ns = {(i, n) \<in> set (db_notifications w). nt_tenant_id n = t}"
    using read_keyed [OF tables(3), of "cd_notification c" "\<lambda>r. row_tenant_id r = t" p] assms(1)
    by (auto simp: notification_row_of_def codecs_ok_def)
  define trip_ids where "trip_ids = [i. (i, x) \<leftarrow> ts, trip_tenant_id x = t \<and> trip_traveler_id x = k]"
  define incident_ids where "incident_ids = [i. (i, x) \<leftarrow> js, inc_tenant_id x = t \<and> inc_trip_id x \<in> set trip_ids]"
  define notification_ids where "notification_ids = [i. (i, n) \<leftarrow> ns, nt_traveler_id n = k]"
  have "set trip_ids = set (traveler_trip_ids t k w)" using ts(2) by (auto simp: traveler_trip_ids_def trip_ids_def)
  moreover from this have "set incident_ids = set (trip_incident_ids t (traveler_trip_ids t k w) w)"
    using js(2) by (auto simp: trip_incident_ids_def incident_ids_def)
  moreover have "set notification_ids = notification_ids_of t k w"
    using ns(2) by (auto simp: notification_ids_of_def notification_ids_def)
  moreover have "pg_traveler_keys c t k p = (Inr (trip_ids, incident_ids, notification_ids), p)"
    unfolding trip_ids_def incident_ids_def notification_ids_def
    using ts(1) js(1) ns(1) by (simp add: pg_traveler_keys_def prog_simps Let_def)
  ultimately show ?thesis by blast
qed

lemma hangs_together_forgotten [simp]: "hangs_together (forgotten t k w) = hangs_together w"
  by (simp add: hangs_together_def forgotten_def)

lemma sim_erase:
  assumes "codecs_ok c"
  shows "simulates c (Erase t k scope)"
proof (rule simulatesI)
  fix w p w'
  assume rep: "represents c w p" "hangs_together w" and run: "in_memory (Erase t k scope) w = (Inr (), w')"
  obtain counts q where q: "pg_erase_memory c t k p = (Inr counts, q)" "represents c (forgotten t k w) q"
    using memory_erased [OF assms rep(1)] by blast
  show "\<exists>p'. on_postgres c (Erase t k scope) p = (Inr (), p') \<and> represents c w' p'"
  proof (cases scope)
    case PREFERENCE_MEMORY
    then have "w' = forgotten t k w" using run by (simp add: silently_def prog_simps erase_memory_app)
    then show ?thesis using q PREFERENCE_MEMORY by (simp add: pg_erase_traveler_data_def evaluated)
  next
    case TRAVELER_DATA
    let ?ts = "traveler_trip_ids t k w" and ?is = "trip_incident_ids t (traveler_trip_ids t k w) w"
    have w': "w' = erase_rows t k (set ?ts) (set ?is) (forgotten t k w)"
      using run TRAVELER_DATA by (simp add: silently_def prog_simps erase_app erased_def Let_def)
    obtain ts' is' ns where keys: "pg_traveler_keys c t k q = (Inr (ts', is', ns), q)"
      "set ts' = set ?ts" "set is' = set ?is" "set ns = notification_ids_of t k (forgotten t k w)"
      using traveler_keys [OF assms q(2), of t k] by auto
    have "on_postgres c (Erase t k scope) p = (Inr (), pg_erased ts' is' ns q)"
      using q(1) keys(1) TRAVELER_DATA by (simp add: pg_erase_traveler_data_def evaluated erase_rows_app)
    moreover have "represents c w' (pg_erased ts' is' ns q)"
      using rows_erased [OF q(2) _ keys(4), of ts' is'] rep(2) keys(2, 3) w' by simp
    ultimately show ?thesis by blast
  qed
qed

end
