(* ===== verification/PostgresAgreement.thy ===== *)
theory PostgresAgreement
  imports PostgresErasure Identifiers
begin

text \<open>
  The refinement as a whole: any admissible sequence of calls that the in-memory repository completes is
  completed by PostgreSQL, and afterwards every read of the interface returns the same record, or
  the same records in the order in which the server lists them.
\<close>

section \<open>The in-memory state stays well formed\<close>

lemma grouped_under_set [simp]: "grouped_under parent ps d \<Longrightarrow> grouped_under parent (dict_set k v ps) d"
  by (auto simp: grouped_under_def dom_update)

lemma grouped_under_append:
  assumes "grouped_under parent ps d" "k \<in> fst ` set ps" "parent v = k"
  shows "grouped_under parent ps (dict_append k v d)"
proof -
  let ?vs = "case dict_get d k of None \<Rightarrow> [v] | Some ws \<Rightarrow> ws @ [v]"
  have vs: "\<forall>x \<in> set ?vs. parent x = k"
    using assms(1, 3) by (auto simp: grouped_under_def split: option.splits dest!: map_of_SomeD)
  have "\<forall>(x, ws) \<in> set (dict_append k v d). \<forall>y \<in> set ws. parent y = x"
  proof safe
    fix x ws y assume "(x, ws) \<in> set (dict_append k v d)" "y \<in> set ws"
    then consider "(x, ws) \<in> set d" "y \<in> set ws" | "x = k" "y \<in> set ?vs"
      using items_dict_set [of k ?vs d] by (auto simp: dict_append_def)
    then show "parent y = x" using assms(1) vs by cases (auto simp: grouped_under_def)
  qed
  then show ?thesis using assms(1, 2) by (simp add: grouped_under_def dict_append_def dom_update)
qed

lemma grouped_under_filter:
  "grouped_under parent ps d \<Longrightarrow> grouped_under parent (dict_filter P ps)
     (dict_filter (\<lambda>k _. k \<in> set (dict_keys (dict_filter P ps))) d)"
  unfolding grouped_under_def dict_keys_def
  by (intro conjI dict_wf_filter) (auto simp: dict_filter_def intro: rev_image_eqI)

lemma grouped_under_pop_all: "grouped_under parent ps d \<Longrightarrow> grouped_under parent (dict_pop_all ks ps) (dict_pop_all ks d)"
  by (auto simp: grouped_under_def dict_pop_all_def dict_wf_def distinct_map_filter) force

lemmas hangs_defs = hangs_together_def memory_calls save_trip_def repo_create_trip_def record_event_def
  save_runtime_control_change_def save_platform_control_change_def record_notification_attempt_def
  record_action_dispatch_attempt_def evaluated

lemma is_stored: "\<not> unused k d \<Longrightarrow> k \<in> fst ` set d"
  by (simp add: unused_def map_of_eq_None_iff)

lemma stored_is: "dict_get d k = Some v \<Longrightarrow> k \<in> fst ` set d"
  by (force dest: map_of_SomeD)

lemma owned_is: "owned_get f t k d \<noteq> None \<Longrightarrow> k \<in> fst ` set d"
  by (auto simp: owned_get_def split: option.splits dest!: stored_is)

lemma filed_under_set [simp]: "filed_under ps d \<Longrightarrow> filed_under (dict_set k v ps) d"
  by (auto simp: filed_under_def dom_update)

lemma filed_under_put: "filed_under ps d \<Longrightarrow> k \<in> fst ` set ps \<Longrightarrow> filed_under ps (dict_set k vs d)"
  by (auto simp: filed_under_def dom_update)

lemma filed_under_pop_all: "filed_under ps d \<Longrightarrow> filed_under (dict_pop_all ks ps) (dict_pop_all ks d)"
  unfolding filed_under_def by (intro conjI dict_wf_pop_all) (force simp: dict_pop_all_def)+

lemma erased_hangs_together:
  assumes "hangs_together w"
  shows "hangs_together (erase_rows t k ts ids w)"
  using assms unfolding hangs_together_def erase_rows_def drop_incident_rows_def drop_action_rows_def Let_def
  by (simp add: grouped_under_pop_all grouped_under_filter filed_under_pop_all)

lemma stays_together:
  assumes "hangs_together w" "admissible call w" "in_memory call w = (Inr (), w')"
  shows "hangs_together w'"
proof (cases call)
  case (SaveEvidence t k es)
  then have "get_trip t k w \<noteq> None" "w' = w\<lparr>db_evidence := dict_set k es (db_evidence w)\<rparr>"
    using assms(3) by (auto simp: save_evidence_def prog_simps split: if_splits)
  then show ?thesis using assms(1) owned_is [of trip_tenant_id t k "db_trips w"]
    by (auto simp: hangs_together_def get_trip_def intro!: filed_under_put)
next
  case (SaveAssessment t a)
  then have "get_trip t (ra_trip_id a) w \<noteq> None" "w' = w\<lparr>db_assessments := dict_append (ra_trip_id a) a (db_assessments w)\<rparr>"
    using assms(3) by (auto simp: save_assessment_def evaluated split: if_splits)
  then show ?thesis using assms(1) owned_is [of trip_tenant_id t "ra_trip_id a" "db_trips w"]
    by (auto simp: hangs_together_def get_trip_def intro!: grouped_under_append)
next
  case (DeleteMemory t k)
  then show ?thesis
    using assms hangs_together_forgotten [of t k w] by (simp add: silently_def prog_simps delete_memory_app)
next
  case (Erase t k s)
  then show ?thesis using assms
    by (cases s) (auto simp: silently_def prog_simps erase_memory_app erase_app erased_def Let_def erased_hangs_together)
next
  case (SavePlaybook b)
  then have "w' = w \<or> w' = w\<lparr>db_tenant_playbooks := dict_set (pb_playbook_id b) b (db_tenant_playbooks w)\<rparr>"
    using assms(3) by (auto simp: save_playbook_def evaluated split: option.splits)
  then show ?thesis using assms(1) by (elim disjE) (simp_all add: hangs_together_def)
next
  case (CompleteDelivery n a c)
  then show ?thesis using assms
    by (auto simp: complete_notification_delivery_def hangs_defs dom_update intro!: grouped_under_append grouped_under_set
        intro: stored_is split: option.splits if_splits)
next
  case (CompleteDispatch x a c)
  then show ?thesis using assms
    by (auto simp: complete_action_dispatch_def hangs_defs dom_update intro!: grouped_under_append grouped_under_set
        intro: stored_is split: option.splits if_splits)
next
  case (RecordDelivery a)
  then show ?thesis using assms by (auto simp: hangs_defs intro!: grouped_under_append is_stored)
next
  case (RecordDispatch a)
  then show ?thesis using assms by (auto simp: hangs_defs intro!: grouped_under_append is_stored)
qed (use assms in \<open>auto simp: hangs_defs dom_update\<close>)

section \<open>Every call, and every sequence of calls\<close>

lemma every_call_simulates: "codecs_ok c \<Longrightarrow> simulates c call"
  by (cases call) (auto simp: codecs_ok_def sim_upserts sim_inserts sim_create_trip sim_save_trip sim_save_evidence
      sim_save_assessment sim_record_event sim_save_playbook sim_record_delivery sim_record_dispatch
      sim_complete_delivery sim_complete_dispatch sim_save_control sim_save_platform_control
      intro!: sim_delete_memory sim_erase)

fun admissible_run :: "store_call list \<Rightarrow> world \<Rightarrow> bool" where
  "admissible_run [] w \<longleftrightarrow> True"
| "admissible_run (call # calls) w \<longleftrightarrow> admissible call w \<and> admissible_run calls (snd (in_memory call w))"

lemma every_run_simulates:
  assumes "codecs_ok c" "represents c w p" "hangs_together w" "admissible_run calls w"
    "run_statements (map in_memory calls) w = (Inr (), w')"
  shows "\<exists>p'. run_statements (map (on_postgres c) calls) p = (Inr (), p') \<and> represents c w' p' \<and> hangs_together w'"
  using assms(2-)
proof (induction calls arbitrary: w p)
  case Nil
  then show ?case by (simp add: sql_simps)
next
  case (Cons call calls)
  obtain w1 where w1: "in_memory call w = (Inr (), w1)" "run_statements (map in_memory calls) w1 = (Inr (), w')"
    using Cons.prems(4) by (auto simp: sql_simps split: prod.splits sum.splits)
  obtain p1 where "on_postgres c call p = (Inr (), p1)" "represents c w1 p1"
    using every_call_simulates [OF assms(1), of call] Cons.prems w1(1)
    unfolding simulates_def admissible_run.simps by blast
  then show ?case using Cons.IH [of w1 p1] stays_together [OF Cons.prems(2) _ w1(1)] Cons.prems(3) w1 by (auto simp: sql_simps)
qed

section \<open>What the reads return\<close>

text \<open>The records xs, in the order in which the server lists them.\<close>

definition returns_rows :: "('d, 'm list) pg \<Rightarrow> 'm list \<Rightarrow> 'd pg_world \<Rightarrow> bool" where
  "returns_rows m xs p \<longleftrightarrow> (\<exists>ys. m p = (Inr ys, p) \<and> mset ys = mset xs)"

definition returns :: "('d, 'a) pg \<Rightarrow> 'a \<Rightarrow> 'd pg_world \<Rightarrow> bool" where
  "returns m x p \<longleftrightarrow> m p = (Inr x, p)"

definition single_reads_agree :: "'d codecs \<Rightarrow> world \<Rightarrow> 'd pg_world \<Rightarrow> bool" where
  "single_reads_agree c w p \<longleftrightarrow> (\<forall>t k. returns (pg_get_trip c t k) (get_trip t k w) p \<and>
     returns (pg_get_incident c t k) (get_incident t k w) p \<and>
     returns (pg_get_memory_proposal c t k) (get_memory_proposal t k w) p \<and>
     returns (pg_get_playbook c t k) (get_playbook t k w) p \<and>
     returns (pg_get_notification c t k) (get_notification t k w) p \<and>
     returns (pg_get_original_upload c t k) (get_original_upload t k w) p \<and>
     returns (pg_get_legal_hold c t k) (get_legal_hold t k w) p \<and>
     returns (pg_get_deletion_request c t k) (get_deletion_request t k w) p) \<and>
     (\<forall>t v. returns (pg_get_profile c t v) (get_profile t v w) p) \<and>
     (\<forall>t i k. returns (pg_get_candidate_set c t i k) (get_candidate_set t i k w) p)"

definition list_reads_agree :: "'d codecs \<Rightarrow> world \<Rightarrow> 'd pg_world \<Rightarrow> bool" where
  "list_reads_agree c w p \<longleftrightarrow> returns_rows (pg_list_trips c) (list_trips w) p \<and>
     (\<forall>t. returns_rows (pg_list_incidents c t) (list_incidents t w) p \<and>
        returns_rows (pg_list_events c t) (list_events t w) p \<and>
        returns_rows (pg_list_notifications c t None) (list_notifications t None w) p \<and>
        returns_rows (pg_list_change_records c t) (repo_list_change_records t w) p \<and>
        returns_rows (pg_list_provider_onboarding c t) (repo_list_provider_onboarding t w) p \<and>
        returns_rows (pg_list_runtime_control_changes c t) (repo_list_runtime_control_changes t w) p \<and>
        returns_rows (pg_list_legal_holds c t) (repo_list_legal_holds t w) p \<and>
        returns_rows (pg_list_deletion_requests c t None) (repo_list_deletion_requests t None w) p) \<and>
     returns_rows (pg_list_platform_control_changes c) (list_platform_control_changes w) p \<and>
     returns_rows (pg_list_pending_deletion_requests c) (list_pending_deletion_requests w) p"

definition nested_reads_agree :: "'d codecs \<Rightarrow> world \<Rightarrow> 'd pg_world \<Rightarrow> bool" where
  "nested_reads_agree c w p \<longleftrightarrow> (\<forall>t k. returns_rows (pg_get_evidence c t k) (get_evidence t k w) p \<and>
     returns_rows (pg_list_candidate_sets c t k) (list_candidate_sets t k w) p \<and>
     returns (pg_list_candidate_outcomes c t k) (list_candidate_outcomes t k w) p \<and>
     returns (pg_list_manager_feedback c t k) (list_manager_feedback t k w) p \<and>
     returns_rows (pg_list_notification_attempts c t k) (list_notification_attempts t k w) p \<and>
     returns_rows (pg_list_action_dispatches c t k) (list_action_dispatches t k w) p \<and>
     returns_rows (pg_list_action_dispatch_attempts c t k) (list_action_dispatch_attempts t k w) p)"

lemma returns_one:
  assumes "same_rows (by_key row d) (sel p)" "\<And>v. row_payload (row v) = cd_dump codec v" "round_trips codec"
    and "x = (case dict_get d k of None \<Rightarrow> None | Some v \<Rightarrow> if P (row v) then Some v else None)"
  shows "returns (bindP (gets (\<lambda>p. select_one (sel p) k P)) (parse_one codec)) x p"
  unfolding returns_def
  by (simp add: prog_simps by_key_select_one [OF assms(1, 2)] parse_one_dumped [OF assms(3)] assms(4))

lemma returns_all:
  assumes "same_rows (by_key row d) (sel p)" "\<And>v. row_payload (row v) = cd_dump codec v" "round_trips codec"
    and "mset xs = mset (filter (\<lambda>v. P (row v)) (dict_values d))"
  shows "returns_rows (bindP (gets (\<lambda>p. select_all (sel p) P)) (parse_all codec)) xs p"
  unfolding returns_rows_def using parse_all_rows [OF assms(3) by_key_select [OF assms(1, 2), of P]] assms(4)
  by (simp add: prog_simps)

lemma returns_ordered:
  fixes sel :: "'d pg_world \<Rightarrow> ('k::linorder, ('d, 'x) document_scheme) dict"
  assumes "same_rows (by_key row d) (sel p)" "\<And>v. row_payload (row v) = cd_dump codec v" "round_trips codec"
    and "mset xs = mset (filter (\<lambda>v. P (row v)) (dict_values d))"
  shows "returns_rows (bindP (gets (\<lambda>p. select_ordered (sel p) P)) (parse_all codec)) xs p"
proof -
  have "mset (select_ordered (sel p) P) = mset (map (cd_dump codec) (filter (\<lambda>v. P (row v)) (dict_values d)))"
    using by_key_select [OF assms(1, 2), of P] by (simp add: select_ordered_mset)
  from parse_all_rows [OF assms(3) this] show ?thesis
    unfolding returns_rows_def using assms(4) by (simp add: prog_simps)
qed

lemma returns_log:
  assumes "same_rows (log_rows key row vs) (sel p)" "\<And>v. row_payload (row v) = cd_dump codec v" "round_trips codec"
    and "mset xs = mset (filter (\<lambda>v. P (row v)) vs)"
  shows "returns_rows (bindP (gets (\<lambda>p. select_all (sel p) P)) (parse_all codec)) xs p"
proof -
  have "mset (select_all (sel p) P) = mset (map (cd_dump codec) (filter (\<lambda>v. P (row v)) vs))"
    by (simp add: same_rows_select [OF assms(1)] log_rows_select assms(2))
  from parse_all_rows [OF assms(3) this] show ?thesis
    unfolding returns_rows_def using assms(4) by (simp add: prog_simps)
qed

lemma returns_ordered_log:
  fixes sel :: "'d pg_world \<Rightarrow> ('k::linorder, ('d, 'x) document_scheme) dict"
  assumes "same_rows (log_rows key row vs) (sel p)" "\<And>v. row_payload (row v) = cd_dump codec v" "round_trips codec"
    and "mset xs = mset (filter (\<lambda>v. P (row v)) vs)"
  shows "returns_rows (bindP (gets (\<lambda>p. select_ordered (sel p) P)) (parse_all codec)) xs p"
proof -
  have "mset (select_ordered (sel p) P) = mset (map (cd_dump codec) (filter (\<lambda>v. P (row v)) vs))"
    by (simp add: select_ordered_mset same_rows_select [OF assms(1)] log_rows_select assms(2))
  from parse_all_rows [OF assms(3) this] show ?thesis
    unfolding returns_rows_def using assms(4) by (simp add: prog_simps)
qed

lemma tablesD:
  assumes "represents c w p"
  shows "same_rows (by_key (trip_row_of c) (db_trips w)) (pg_trips p)"
    "same_rows (by_key (incident_row_of c) (db_incidents w)) (pg_incidents p)"
    "same_rows (by_key (document_of (cd_profile c)) (db_profiles w)) (pg_preferences p)"
    "same_rows (by_key (proposal_row_of c) (db_memory_proposals w)) (pg_memory_proposals p)"
    "same_rows (by_key (candidate_set_row_of c) (db_candidate_sets w)) (pg_candidate_sets p)"
    "same_rows (by_key (outcome_row_of c) (db_candidate_outcomes w)) (pg_candidate_outcomes p)"
    "same_rows (by_key (feedback_row_of c) (db_manager_feedback w)) (pg_manager_feedback p)"
    "same_rows (by_key (playbook_row_of c) (db_tenant_playbooks w)) (pg_tenant_playbooks p)"
    "same_rows (by_key (notification_row_of c) (db_notifications w)) (pg_notifications p)"
    "same_rows (by_key (action_row_of c) (db_action_dispatches w)) (pg_action_dispatches p)"
    "same_rows (by_key (change_row_of c) (db_change_records w)) (pg_change_records p)"
    "same_rows (by_key (onboarding_row_of c) (db_provider_onboarding w)) (pg_provider_onboarding_records p)"
    "same_rows (by_key (upload_row_of c) (db_original_uploads w)) (pg_original_uploads p)"
    "same_rows (by_key (hold_row_of c) (db_legal_holds w)) (pg_legal_holds p)"
    "same_rows (by_key (deletion_row_of c) (db_deletion_requests w)) (pg_deletion_requests p)"
    "same_rows (log_rows evt_event_id (event_row_of c) (db_events w)) (pg_events p)"
    "same_rows (log_rows rc_control_change_id (control_row_of c) (db_control_changes w)) (pg_runtime_control_changes p)"
    "same_rows (log_rows prc_control_change_id (platform_row_of c) (db_platform_changes w)) (pg_platform_changes p)"
  using assms by (simp_all add: represents_def)

lemma codecsD:
  assumes "codecs_ok c"
  shows "round_trips (cd_trip c)" "round_trips (cd_evidence c)" "round_trips (cd_incident c)" "round_trips (cd_profile c)"
    "round_trips (cd_event c)" "round_trips (cd_proposal c)" "round_trips (cd_candidate_set c)" "round_trips (cd_outcome c)"
    "round_trips (cd_feedback c)" "round_trips (cd_playbook c)" "round_trips (cd_notification c)" "round_trips (cd_delivery c)"
    "round_trips (cd_action c)" "round_trips (cd_dispatch c)" "round_trips (cd_change c)" "round_trips (cd_onboarding c)"
    "round_trips (cd_control c)" "round_trips (cd_platform c)" "round_trips (cd_upload c)" "round_trips (cd_hold c)"
    "round_trips (cd_deletion c)"
  using assms by (simp_all add: codecs_ok_def)

lemmas single_gets = get_trip_def get_incident_def get_memory_proposal_def get_playbook_def get_notification_def
  get_original_upload_def get_legal_hold_def get_deletion_request_def get_profile_def get_candidate_set_def

lemma candidate_set_read:
  assumes "codecs_ok c" "represents c w p"
  shows "returns (pg_get_candidate_set c t i k) (get_candidate_set t i k w) p"
proof -
  have pay: "row_payload (candidate_set_row_of c v) = (cd_dump (cd_candidate_set c) \<circ> snd) v" for v
    by (simp add: candidate_set_row_of_def)
  have "select_one (pg_candidate_sets p) k (\<lambda>r. row_tenant_id r = t \<and> row_incident_id r = i) =
      map_option (cd_dump (cd_candidate_set c)) (get_candidate_set t i k w)"
    unfolding by_key_select_one [OF tablesD(5) [OF assms(2)] pay]
    by (auto simp: get_candidate_set_def candidate_set_row_of_def split: option.splits)
  then show ?thesis
    by (simp add: returns_def pg_get_candidate_set_def prog_simps parse_one_dumped [OF codecsD(7) [OF assms(1)]])
qed

lemma single_reads:
  assumes "codecs_ok c" "represents c w p"
  shows "single_reads_agree c w p"
  unfolding single_reads_agree_def pg_get_trip_def pg_get_incident_def pg_get_memory_proposal_def
    pg_get_playbook_def pg_get_notification_def pg_get_original_upload_def pg_get_legal_hold_def
    pg_get_deletion_request_def pg_get_profile_def
  by (intro conjI allI candidate_set_read [OF assms])
    (rule returns_one, rule tablesD [OF assms(2)], simp add: row_defs, rule codecsD [OF assms(1)],
      simp add: single_gets owned_get_def row_defs split: option.splits prod.splits)+

lemma deletion_status_value_inj: "deletion_status_value a = deletion_status_value b \<longleftrightarrow> a = b"
  by (cases a; cases b) simp_all

lemmas list_gets = list_trips_def list_incidents_def list_events_def list_notifications_def repo_list_change_records_def
  repo_list_provider_onboarding_def repo_list_runtime_control_changes_def repo_list_legal_holds_def
  repo_list_deletion_requests_def list_platform_control_changes_def list_pending_deletion_requests_def

lemma list_reads:
  assumes "codecs_ok c" "represents c w p"
  shows "list_reads_agree c w p"
  unfolding list_reads_agree_def pg_list_trips_def pg_list_incidents_def pg_list_events_def pg_list_notifications_def
    pg_list_change_records_def pg_list_provider_onboarding_def pg_list_runtime_control_changes_def
    pg_list_legal_holds_def pg_list_deletion_requests_def pg_list_platform_control_changes_def
    pg_list_pending_deletion_requests_def
  by (intro conjI allI)
    ((rule returns_all, rule tablesD [OF assms(2)] | rule returns_ordered, rule tablesD [OF assms(2)] |
      rule returns_log, rule tablesD [OF assms(2)] | rule returns_ordered_log, rule tablesD [OF assms(2)]), simp add: row_defs, rule codecsD [OF assms(1)],
      simp add: list_gets owned_values_def row_defs py_sorted_def falsy_def deletion_status_value_inj
        flip: deletion_status_value.simps)+

section \<open>Records under a record\<close>

lemma stable_order:
  assumes "mset xs = mset ys" "inj_on f (set ys)"
  shows "py_sorted f xs = py_sorted f ys"
  unfolding py_sorted_def
proof (rule sort_key_inj_key_eq)
  show "mset xs = mset (sort_key f ys)" by (simp add: assms(1))
  show "inj_on f (set xs)" using assms(2) mset_eq_setD [OF assms(1)] by simp
qed simp

lemma returns_selected:
  assumes "round_trips codec" "mset (select_all (sel p) P) = mset (map (cd_dump codec) xs)"
  shows "returns_rows (bindP (gets (\<lambda>p. select_all (sel p) P)) (parse_all codec)) xs p"
  unfolding returns_rows_def using parse_all_rows [OF assms] by (simp add: prog_simps)

lemma evidence_read:
  assumes "codecs_ok c" "represents c w p" "hangs_together w"
  shows "returns_rows (pg_get_evidence c t k) (get_evidence t k w) p"
proof -
  have table: "same_rows (grouped_rows ev_evidence_id (evidence_row_of c (db_trips w)) (db_evidence w)) (pg_evidence_items p)"
    using assms(2) by (simp add: represents_def)
  have filed: "filed_under (db_trips w) (db_evidence w)" using assms(3) by (simp add: hangs_together_def)
  have missing: "dict_get (db_evidence w) k = None" if "dict_get (db_trips w) k = None"
    using that filed by (auto simp: filed_under_def map_of_eq_None_iff)
  have "select_all (grouped_rows ev_evidence_id (evidence_row_of c (db_trips w)) (db_evidence w))
      (\<lambda>r. row_tenant_id r = t \<and> row_trip_id r = k) = map (cd_dump (cd_evidence c))
      (if owner_of (db_trips w) k = t then (case dict_get (db_evidence w) k of None \<Rightarrow> [] | Some vs \<Rightarrow> vs) else [])"
    by (rule grouped_select) (use filed in \<open>auto simp: evidence_row_of_def filed_under_def\<close>)
  also have "(if owner_of (db_trips w) k = t then (case dict_get (db_evidence w) k of None \<Rightarrow> [] | Some vs \<Rightarrow> vs) else []) =
      get_evidence t k w"
    using missing by (auto simp: get_evidence_def get_trip_def owned_get_def owner_of_def split: option.splits)
  finally show ?thesis
    unfolding pg_get_evidence_def
    by (intro returns_selected codecsD [OF assms(1)]) (simp add: same_rows_select [OF table])
qed

lemma pairs_select:
  assumes "same_rows (by_key row d) t" "\<And>v. row_payload (row v) = cd_dump codec (snd v)"
    "\<And>v. P (row v) = (fst v = tenant \<and> Q (snd v))"
  shows "mset (select_all t P) = mset (map (cd_dump codec) [x. (saved, x) \<leftarrow> dict_values d, saved = tenant \<and> Q x])"
proof -
  have "map (cd_dump codec \<circ> snd) (filter (\<lambda>v. P (row v)) (dict_values d)) =
      map (cd_dump codec) [x. (saved, x) \<leftarrow> dict_values d, saved = tenant \<and> Q x]"
    by (induction d) (auto simp: dict_values_def assms(3))
  then show ?thesis using by_key_select [OF assms(1), of "cd_dump codec \<circ> snd" P] assms(2) by simp
qed

lemma candidate_sets_read:
  assumes "codecs_ok c" "represents c w p"
  shows "returns_rows (pg_list_candidate_sets c t i) (list_candidate_sets t i w) p"
  unfolding pg_list_candidate_sets_def list_candidate_sets_def
  by (intro returns_selected codecsD [OF assms(1)] pairs_select [OF tablesD(5) [OF assms(2)]])
    (simp_all add: candidate_set_row_of_def)

lemma outcomes_read:
  assumes "codecs_ok c" "represents c w p" "hangs_together w"
  shows "returns (pg_list_candidate_outcomes c t k) (list_candidate_outcomes t k w) p"
proof -
  let ?xs = "[x. (saved, x) \<leftarrow> dict_values (db_candidate_outcomes w), saved = t \<and> out_candidate_set_id x = k]"
  have "mset (select_all (pg_candidate_outcomes p) (\<lambda>r. row_tenant_id r = t \<and> row_candidate_set_id r = k)) =
      mset (map (cd_dump (cd_outcome c)) ?xs)"
    by (rule pairs_select [OF tablesD(6) [OF assms(2)]]) (simp_all add: outcome_row_of_def)
  then obtain ys where ys: "parse_all (cd_outcome c) (select_all (pg_candidate_outcomes p)
      (\<lambda>r. row_tenant_id r = t \<and> row_candidate_set_id r = k)) p = (Inr ys, p)" "mset ys = mset ?xs"
    using parse_all_rows [OF codecsD(8) [OF assms(1)], of _ _ p] by blast
  have stored: "dict_get (db_candidate_outcomes w) (out_outcome_id x) = Some (t, x)"
    if "(t, x) \<in> set (dict_values (db_candidate_outcomes w))" for x
    using that assms(3) table_ok_values [of "\<lambda>item. out_outcome_id (snd item)" "db_candidate_outcomes w" "(t, x)"]
    by (simp add: hangs_together_def)
  have ids: "x = y" if "(t, x) \<in> set (dict_values (db_candidate_outcomes w))" "(t, y) \<in> set (dict_values (db_candidate_outcomes w))"
    "out_outcome_id x = out_outcome_id y" for x y
  proof -
    have "Some (t, x) = Some (t, y)" using stored [OF that(1), unfolded that(3)] stored [OF that(2)] by (rule trans [OF sym])
    then show ?thesis by simp
  qed
  have "inj_on outcome_key (set ?xs)"
    by (rule inj_onI) (auto simp: outcome_key_def str_uuid_inj intro: ids)
  then show ?thesis
    using ys stable_order [OF ys(2)] by (simp add: returns_def pg_list_candidate_outcomes_def list_candidate_outcomes_def prog_simps)
qed

lemma feedback_read:
  assumes "codecs_ok c" "represents c w p" "hangs_together w"
  shows "returns (pg_list_manager_feedback c t i) (list_manager_feedback t i w) p"
proof -
  let ?xs = "filter (\<lambda>f. mf_tenant_id f = t \<and> mf_incident_id f = i) (dict_values (db_manager_feedback w))"
  have pay: "row_payload (feedback_row_of c v) = cd_dump (cd_feedback c) v" for v by (simp add: feedback_row_of_def)
  have "mset (select_all (pg_manager_feedback p) (\<lambda>r. row_tenant_id r = t \<and> row_incident_id r = i)) =
      mset (map (cd_dump (cd_feedback c)) ?xs)"
    using by_key_select [OF tablesD(7) [OF assms(2)] pay, of "\<lambda>r. row_tenant_id r = t \<and> row_incident_id r = i"]
    by (simp add: feedback_row_of_def)
  then obtain ys where ys: "parse_all (cd_feedback c) (select_all (pg_manager_feedback p)
      (\<lambda>r. row_tenant_id r = t \<and> row_incident_id r = i)) p = (Inr ys, p)" "mset ys = mset ?xs"
    using parse_all_rows [OF codecsD(9) [OF assms(1)], of _ _ p] by blast
  have stored: "dict_get (db_manager_feedback w) (mf_feedback_id f) = Some f"
    if "f \<in> set (dict_values (db_manager_feedback w))" for f
    using that assms(3) table_ok_values [of mf_feedback_id "db_manager_feedback w" f] by (simp add: hangs_together_def)
  have ids: "f = g" if "f \<in> set (dict_values (db_manager_feedback w))" "g \<in> set (dict_values (db_manager_feedback w))"
    "mf_feedback_id f = mf_feedback_id g" for f g
  proof -
    have "Some f = Some g" using stored [OF that(1), unfolded that(3)] stored [OF that(2)] by (rule trans [OF sym])
    then show ?thesis by simp
  qed
  have "inj_on (\<lambda>f. (mf_created_at f, str_uuid (mf_feedback_id f))) (set ?xs)"
    by (rule inj_onI) (auto simp: str_uuid_inj intro: ids)
  then show ?thesis
    using ys stable_order [OF ys(2)] by (simp add: returns_def pg_list_manager_feedback_def list_manager_feedback_def prog_simps)
qed

lemma attempts_select:
  assumes "same_rows (grouped_rows key row d) t" "grouped_under parent ps d"
    and "\<And>k v. row_payload (row k v) = cd_dump codec v" "\<And>k v. P (row k v) = (parent v = k0)"
  shows "mset (select_all t P) = mset (map (cd_dump codec) (case dict_get d k0 of None \<Rightarrow> [] | Some vs \<Rightarrow> vs))"
  using grouped_select [of d row "cd_dump codec" P k0 True key] assms(2-4)
  by (force simp: same_rows_select [OF assms(1)] grouped_under_def)

lemma deliveries_read:
  assumes "codecs_ok c" "represents c w p" "hangs_together w"
  shows "returns_rows (pg_list_notification_attempts c t k) (list_notification_attempts t k w) p"
proof -
  have "same_rows (grouped_rows na_attempt_id (\<lambda>_. delivery_row_of c) (db_notification_attempts w)) (pg_notification_attempts p)"
    using assms(2) by (simp add: represents_def)
  from attempts_select [OF this, where codec = "cd_delivery c" and P = "\<lambda>r. row_notification_id r = k" and ?k0.0 = k
      and parent = na_notification_id and ps = "db_notifications w"]
  have "returns_rows (bindP (gets (\<lambda>p. select_all (pg_notification_attempts p) (\<lambda>r. row_notification_id r = k)))
      (parse_all (cd_delivery c))) (case dict_get (db_notification_attempts w) k of None \<Rightarrow> [] | Some vs \<Rightarrow> vs) p"
    using assms(3) by (intro returns_selected codecsD [OF assms(1)]) (simp add: hangs_together_def delivery_row_of_def)
  moreover have "pg_get_notification c t k p = (Inr (get_notification t k w), p)"
    using single_reads [OF assms(1, 2)] by (simp add: single_reads_agree_def returns_def)
  ultimately show ?thesis
    by (auto simp: returns_rows_def pg_list_notification_attempts_def list_notification_attempts_def prog_simps)
qed

lemma dispatches_read:
  assumes "codecs_ok c" "represents c w p" "hangs_together w"
  shows "returns_rows (pg_list_action_dispatch_attempts c t k) (list_action_dispatch_attempts t k w) p"
proof -
  have "same_rows (grouped_rows aa_attempt_id (\<lambda>_. dispatch_row_of c) (db_action_dispatch_attempts w)) (pg_action_dispatch_attempts p)"
    using assms(2) by (simp add: represents_def)
  from attempts_select [OF this, where codec = "cd_dispatch c" and P = "\<lambda>r. row_action_dispatch_id r = k" and ?k0.0 = k
      and parent = aa_action_dispatch_id and ps = "db_action_dispatches w"]
  have "returns_rows (bindP (gets (\<lambda>p. select_all (pg_action_dispatch_attempts p) (\<lambda>r. row_action_dispatch_id r = k)))
      (parse_all (cd_dispatch c))) (case dict_get (db_action_dispatch_attempts w) k of None \<Rightarrow> [] | Some vs \<Rightarrow> vs) p"
    using assms(3) by (intro returns_selected codecsD [OF assms(1)]) (simp add: hangs_together_def dispatch_row_of_def)
  moreover have pay: "row_payload (action_row_of c v) = cd_dump (cd_action c) v" for v by (simp add: action_row_of_def)
  have "select_one (pg_action_dispatches p) k (\<lambda>r. row_tenant_id r = t) =
      map_option (cd_dump (cd_action c)) (owned_get ad_tenant_id t k (db_action_dispatches w))"
    unfolding by_key_select_one [OF tablesD(10) [OF assms(2)] pay]
    by (auto simp: owned_get_def action_row_of_def split: option.splits)
  ultimately show ?thesis
    by (auto simp: returns_rows_def pg_list_action_dispatch_attempts_def list_action_dispatch_attempts_def prog_simps
        split: option.splits)
qed

lemma nested_reads:
  assumes "codecs_ok c" "represents c w p" "hangs_together w"
  shows "nested_reads_agree c w p"
proof -
  have "returns_rows (pg_list_action_dispatches c t k) (list_action_dispatches t k w) p" for t k
    unfolding pg_list_action_dispatches_def
    by (rule returns_all, rule tablesD(10) [OF assms(2)]) (simp_all add: action_row_of_def codecsD [OF assms(1)] list_action_dispatches_def)
  then show ?thesis unfolding nested_reads_agree_def
    using evidence_read [OF assms] candidate_sets_read [OF assms(1, 2)] outcomes_read [OF assms] feedback_read [OF assms]
      deliveries_read [OF assms] dispatches_read [OF assms] by blast
qed

section \<open>The refinement\<close>

lemma empty_represents: "represents c empty_world empty_pg_world" "hangs_together empty_world"
  by (simp_all add: represents_def hangs_together_def empty_world_def empty_pg_world_def rows_of_def grouped_rows_def
      log_rows_def renamed_def same_rows_def grouped_under_def filed_under_def)


datatype sample_document =
    DTrip trip
  | DEvidence evidence_envelope
  | DAssessment risk_assessment
  | DIncident incident
  | DProfile traveler_preference_profile
  | DApproval approval_record
  | DEvent event_record
  | DProposal memory_update_proposal
  | DCandidateSet recovery_candidate_set
  | DOutcome recovery_candidate_outcome
  | DFeedback manager_feedback
  | DPlaybook tenant_playbook
  | DNotification notification_record
  | DDelivery notification_attempt
  | DAction action_dispatch_record
  | DDispatch action_dispatch_attempt
  | DMemoryAudit memory_audit_event
  | DChange change_record
  | DOnboarding provider_onboarding_record
  | DControl runtime_control_change
  | DPlatform platform_runtime_control_change
  | DIdempotency idempotency_record
  | DUpload original_upload_record
  | DHold legal_hold_record
  | DDeletion deletion_request

definition tagged :: "('m \<Rightarrow> sample_document) \<Rightarrow> (sample_document \<Rightarrow> 'm option) \<Rightarrow> ('m, sample_document) codec" where
  "tagged dump match = \<lparr>cd_dump = dump, cd_validate = (\<lambda>d. case match d of
     None \<Rightarrow> Inl (ValidationError ''document'') | Some m \<Rightarrow> Inr m)\<rparr>"

definition sample_codecs :: "sample_document codecs" where
  "sample_codecs = \<lparr>
     cd_trip = tagged DTrip (\<lambda>d. case d of DTrip m \<Rightarrow> Some m | _ \<Rightarrow> None),
     cd_evidence = tagged DEvidence (\<lambda>d. case d of DEvidence m \<Rightarrow> Some m | _ \<Rightarrow> None),
     cd_assessment = tagged DAssessment (\<lambda>d. case d of DAssessment m \<Rightarrow> Some m | _ \<Rightarrow> None),
     cd_incident = tagged DIncident (\<lambda>d. case d of DIncident m \<Rightarrow> Some m | _ \<Rightarrow> None),
     cd_profile = tagged DProfile (\<lambda>d. case d of DProfile m \<Rightarrow> Some m | _ \<Rightarrow> None),
     cd_approval = tagged DApproval (\<lambda>d. case d of DApproval m \<Rightarrow> Some m | _ \<Rightarrow> None),
     cd_event = tagged DEvent (\<lambda>d. case d of DEvent m \<Rightarrow> Some m | _ \<Rightarrow> None),
     cd_proposal = tagged DProposal (\<lambda>d. case d of DProposal m \<Rightarrow> Some m | _ \<Rightarrow> None),
     cd_candidate_set = tagged DCandidateSet (\<lambda>d. case d of DCandidateSet m \<Rightarrow> Some m | _ \<Rightarrow> None),
     cd_outcome = tagged DOutcome (\<lambda>d. case d of DOutcome m \<Rightarrow> Some m | _ \<Rightarrow> None),
     cd_feedback = tagged DFeedback (\<lambda>d. case d of DFeedback m \<Rightarrow> Some m | _ \<Rightarrow> None),
     cd_playbook = tagged DPlaybook (\<lambda>d. case d of DPlaybook m \<Rightarrow> Some m | _ \<Rightarrow> None),
     cd_notification = tagged DNotification (\<lambda>d. case d of DNotification m \<Rightarrow> Some m | _ \<Rightarrow> None),
     cd_delivery = tagged DDelivery (\<lambda>d. case d of DDelivery m \<Rightarrow> Some m | _ \<Rightarrow> None),
     cd_action = tagged DAction (\<lambda>d. case d of DAction m \<Rightarrow> Some m | _ \<Rightarrow> None),
     cd_dispatch = tagged DDispatch (\<lambda>d. case d of DDispatch m \<Rightarrow> Some m | _ \<Rightarrow> None),
     cd_memory_audit = tagged DMemoryAudit (\<lambda>d. case d of DMemoryAudit m \<Rightarrow> Some m | _ \<Rightarrow> None),
     cd_change = tagged DChange (\<lambda>d. case d of DChange m \<Rightarrow> Some m | _ \<Rightarrow> None),
     cd_onboarding = tagged DOnboarding (\<lambda>d. case d of DOnboarding m \<Rightarrow> Some m | _ \<Rightarrow> None),
     cd_control = tagged DControl (\<lambda>d. case d of DControl m \<Rightarrow> Some m | _ \<Rightarrow> None),
     cd_platform = tagged DPlatform (\<lambda>d. case d of DPlatform m \<Rightarrow> Some m | _ \<Rightarrow> None),
     cd_idempotency = tagged DIdempotency (\<lambda>d. case d of DIdempotency m \<Rightarrow> Some m | _ \<Rightarrow> None),
     cd_upload = tagged DUpload (\<lambda>d. case d of DUpload m \<Rightarrow> Some m | _ \<Rightarrow> None),
     cd_hold = tagged DHold (\<lambda>d. case d of DHold m \<Rightarrow> Some m | _ \<Rightarrow> None),
     cd_deletion = tagged DDeletion (\<lambda>d. case d of DDeletion m \<Rightarrow> Some m | _ \<Rightarrow> None),
     cd_astext = (\<lambda>d key. case d of DProposal m \<Rightarrow> (if key = ''traveler_id'' then Some (mp_traveler_id m) else None)
       | _ \<Rightarrow> None)\<rparr>"

lemma sample_codecs_ok: "codecs_ok sample_codecs"
  by (simp add: codecs_ok_def sample_codecs_def round_trips_def tagged_def)

text \<open>Two travelers are stored with an incident and a notification; one of them is erased.\<close>

definition sample_calls :: "store_call list" where
  "sample_calls = [CreateTrip sample_trip, CreateTrip (sample_trip\<lparr>trip_trip_id := 8, trip_traveler_id := ''v''\<rparr>),
     SaveIncident (sample_incident ''t'' 1), SaveNotification sample_inbox, SaveHold sample_hold,
     Erase ''t'' ''u'' TRAVELER_DATA]"

definition after_calls :: world where
  "after_calls = snd (run_statements (map in_memory sample_calls) empty_world)"

lemmas sample_evaluation = sample_calls_def evaluated memory_calls save_trip_def repo_create_trip_def empty_world_def
  erase_traveler_data_def repo_delete_traveler_memory_def erase_rows_def drop_incident_rows_def drop_action_rows_def
  traveler_trip_ids_def trip_incident_ids_def erase_counts_def count_where_def dict_keys_def dict_values_def
  dict_pop_all_def dict_filter_def dict_pop_def sample_trip_def sample_incident_def sample_inbox_def sample_hold_def

lemma sample_run: "run_statements (map in_memory sample_calls) empty_world = (Inr (), after_calls)"
  by (simp add: after_calls_def sample_evaluation)

lemma sample_admissible: "admissible_run sample_calls empty_world"
  by (simp add: sample_evaluation unused_def keeps_def storable_trip_def fitting_def segment_columns_def)

lemma after_calls_fields:
  "dict_keys (db_trips after_calls) = [8]" "db_incidents after_calls = []" "db_notifications after_calls = []"
  by (simp_all add: after_calls_def sample_evaluation)


end
