(* ===== verification/PostgresOutbox.thy ===== *)
theory PostgresOutbox
  imports PostgresAgreement
begin

text \<open>
  The claims of the PostgreSQL outboxes.  A claim locks at most \<^verbatim>\<open>limit\<close> queued rows that nobody else has
  locked, and only then looks at the documents: the rows that are due and free are leased, the
  others are skipped.  \<open>pg_outbox\<close> states what the two outboxes share; it is interpreted on
  notifications and on actions.
\<close>

section \<open>The interface\<close>

fun fresh_leases :: "(nat \<Rightarrow> uuid) \<Rightarrow> (uuid \<Rightarrow> 'm \<Rightarrow> 'm) \<Rightarrow> nat \<Rightarrow> 'm list \<Rightarrow> 'm list" where
  "fresh_leases draw lease n [] = []"
| "fresh_leases draw lease n (m # ms) = lease (draw n) m # fresh_leases draw lease (Suc n) ms"

lemma length_fresh_leases [simp]: "length (fresh_leases draw lease n ms) = length ms"
  by (induction ms arbitrary: n) auto

lemma fresh_leases_origin:
  "x \<in> set (fresh_leases draw lease n ms) \<Longrightarrow> \<exists>m \<in> set ms. \<exists>i. n \<le> i \<and> i < n + length ms \<and> x = lease (draw i) m"
proof (induction ms arbitrary: n)
  case Nil
  then show ?case by simp
next
  case (Cons m ms)
  show ?case
  proof (cases "x = lease (draw n) m")
    case True
    then show ?thesis by (intro bexI [of _ m] exI [of _ n]) auto
  next
    case False
    then obtain y i where "y \<in> set ms" "Suc n \<le> i" "i < Suc n + length ms" "x = lease (draw i) y"
      using Cons.IH [of "Suc n"] Cons.prems False by auto
    then show ?thesis by (intro bexI [of _ y] exI [of _ i]) auto
  qed
qed

text \<open>Every document of a table lies under its own identifier.\<close>

definition own_keys :: "('m, 'd) codec \<Rightarrow> ('m \<Rightarrow> 'k) \<Rightarrow> ('k, ('d, 'x) document_scheme) dict \<Rightarrow> bool" where
  "own_keys codec key t \<longleftrightarrow> dict_wf t \<and> (\<forall>(k, r) \<in> set t. \<exists>m. row_payload r = cd_dump codec m \<and> key m = k)"

lemma own_keysD:
  "own_keys codec key t \<Longrightarrow> (k, r) \<in> set t \<Longrightarrow> \<exists>m. row_payload r = cd_dump codec m \<and> key m = k"
  by (auto simp: own_keys_def)

lemma select_keyed_member: "(k, d) \<in> set (select_keyed t P) \<Longrightarrow> \<exists>r. (k, r) \<in> set t \<and> row_payload r = d"
  by (auto simp: select_keyed_conv)

lemma aligned_keys:
  "map snd rows = map f ms \<Longrightarrow> (\<And>k m. (k, f m) \<in> set rows \<Longrightarrow> key m = k) \<Longrightarrow> map fst rows = map key ms"
proof (induction rows arbitrary: ms)
  case Nil
  then show ?case by simp
next
  case (Cons row rows)
  then obtain m ms' where "ms = m # ms'" "snd row = f m" "map snd rows = map f ms'" by auto
  then show ?case using Cons.IH [of ms'] Cons.prems(2) by (cases row) auto
qed

definition stored_at :: "('m, 'd) codec \<Rightarrow> ('k, ('d, 'x) document_scheme) dict \<Rightarrow> 'k \<Rightarrow> 'm \<Rightarrow> bool" where
  "stored_at codec t k m \<longleftrightarrow> (\<exists>r. dict_get t k = Some r \<and> row_payload r = cd_dump codec m)"

lemma stored_once: "round_trips codec \<Longrightarrow> stored_at codec t k m \<Longrightarrow> stored_at codec t k m' \<Longrightarrow> m = m'"
  by (auto simp: stored_at_def dest: injD [OF dump_inj])

lemma put_at_get: "dict_get (put_at k f t) k' = (if k' = k then map_option f (dict_get t k) else dict_get t k')"
  by (induction t) (auto simp: put_at_def)

locale pg_outbox =
  fixes table :: "'d pg_world \<Rightarrow> (uuid, ('d, 'x) row_scheme) dict"
    and store :: "'m \<Rightarrow> ('d, unit) pg"
    and codec :: "('m, 'd) codec"
    and key :: "'m \<Rightarrow> uuid"
    and expiry_of :: "'m \<Rightarrow> datetime option"
    and due :: "datetime \<Rightarrow> 'm \<Rightarrow> bool"
    and lease :: "string \<Rightarrow> datetime \<Rightarrow> timedelta \<Rightarrow> uuid \<Rightarrow> 'm \<Rightarrow> 'm"
    and queued :: "string option \<Rightarrow> ('d, 'x) row_scheme \<Rightarrow> bool"
  assumes store_ok: "\<exists>p'. store m p = (Inr (), p') \<and> run_draws p' = run_draws p \<and> run_reads p' = run_reads p \<and>
      table p' = put_at (key m) (\<lambda>r. r\<lparr>row_payload := cd_dump codec m\<rparr>) (table p)"
    and draws: "table (p\<lparr>run_draws := n\<rparr>) = table p"
    and lease_key: "key (lease wk t ttl i m) = key m"
    and lease_expiry: "expiry_of (lease wk t ttl i m) = Some (t + ttl)"
    and due_free: "due t m \<Longrightarrow> lease_free (expiry_of m) t"
begin

definition claim ::
  "'h host_scheme \<Rightarrow> uuid set \<Rightarrow> string option \<Rightarrow> string \<Rightarrow> timedelta \<Rightarrow> datetime option \<Rightarrow> int \<Rightarrow> ('d, 'm list) pg" where
  "claim h locked tenant_id worker_id claim_ttl now limit =
     bindP (now_or h now) (\<lambda>timestamp. transaction (thenP (raise_when (limit < 0) data_error)
       (bindP (gets (\<lambda>p. lockable locked limit (table p) (queued tenant_id))) (\<lambda>rows.
          lease_rows h codec (due timestamp) (lease worker_id timestamp claim_ttl) store rows []))))"

text \<open>The documents a claim considers, in the order of the server.\<close>

definition considered :: "uuid set \<Rightarrow> int \<Rightarrow> string option \<Rightarrow> 'd pg_world \<Rightarrow> 'm list \<Rightarrow> bool" where
  "considered locked limit tenant_id p ms \<longleftrightarrow> lockable locked limit (table p) (queued tenant_id) = map (cd_dump codec) ms"

lemma considered_exists:
  assumes "own_keys codec key (table p)"
  shows "\<exists>ms. considered locked limit tenant_id p ms"
proof -
  have "\<forall>d \<in> set (lockable locked limit (table p) (queued tenant_id)). d \<in> range (cd_dump codec)"
    using own_keysD [OF assms] by (auto simp: lockable_def dest!: in_set_takeD select_keyed_member) (metis rangeI)
  then have "\<exists>ms. lockable locked limit (table p) (queued tenant_id) = map (cd_dump codec) ms"
    by (metis ex_map_conv imageE rangeE)
  then show ?thesis by (simp add: considered_def)
qed

lemma considered_stored:
  assumes codec: "round_trips codec" and own: "own_keys codec key (table p)" "considered locked limit tenant_id p ms" "m \<in> set ms"
  shows "stored_at codec (table p) (key m) m" "key m \<notin> locked"
proof -
  have "cd_dump codec m \<in> set (lockable locked limit (table p) (queued tenant_id))"
    using own(2, 3) by (simp add: considered_def)
  then obtain k r where kr: "(k, r) \<in> set (table p)" "row_payload r = cd_dump codec m" "k \<notin> locked"
    by (auto simp: lockable_def dest!: in_set_takeD select_keyed_member)
  then obtain m' where "row_payload r = cd_dump codec m'" "key m' = k" using own_keysD [OF own(1)] by blast
  then have k: "key m = k" using kr(2) injD [OF dump_inj [OF codec]] by metis
  have "dict_get (table p) k = Some r" using own(1) kr(1) by (simp add: own_keys_def dict_get_in_items)
  then show "stored_at codec (table p) (key m) m" "key m \<notin> locked" using k kr by (auto simp: stored_at_def)
qed

lemma considered_length: "considered locked limit tenant_id p ms \<Longrightarrow> int (length ms) \<le> max 0 limit"
proof -
  assume "considered locked limit tenant_id p ms"
  then have "length ms = length (lockable locked limit (table p) (queued tenant_id))" by (simp add: considered_def)
  also have "\<dots> \<le> nat limit" by (simp add: lockable_def)
  finally show ?thesis by simp
qed

lemma considered_distinct:
  assumes codec: "round_trips codec" and stored: "own_keys codec key (table p)" "considered locked limit tenant_id p ms"
  shows "distinct (map key ms)"
proof -
  let ?rows = "take (nat limit) (filter (\<lambda>(k, _). k \<notin> locked) (select_keyed (table p) (queued tenant_id)))"
  have rows: "map snd ?rows = map (cd_dump codec) ms" using stored(2) by (simp add: considered_def lockable_def)
  have own: "\<exists>m. d = cd_dump codec m \<and> key m = k" if "(k, d) \<in> set ?rows" for k d
    using own_keysD [OF stored(1)] that by (auto dest!: in_set_takeD select_keyed_member)
  have "key m = k" if "(k, cd_dump codec m) \<in> set ?rows" for k m
    using own [OF that] injD [OF dump_inj [OF codec]] by blast
  then have "map fst ?rows = map key ms" by (intro aligned_keys [OF rows]) auto
  moreover have "distinct (map fst (select_keyed (table p) (queued tenant_id)))"
  proof -
    have "map fst (select_keyed (table p) (queued tenant_id)) = map fst (filter (queued tenant_id \<circ> snd) (table p))"
      by (simp add: select_keyed_conv comp_def)
    then show ?thesis using stored(1) by (simp add: own_keys_def dict_wf_def distinct_map_filter_fst)
  qed
  then have "distinct (map fst ?rows)" by (simp add: distinct_map_filter_fst flip: take_map)
  ultimately show ?thesis by simp
qed

text \<open>The loop leases what is due, in order, and replaces the documents of just those rows.\<close>

lemma lease_rows_run:
  assumes codec: "round_trips codec" and "distinct (map key ms)"
  shows "\<exists>p'. lease_rows h codec (due t) (lease wk t ttl) store (map (cd_dump codec) ms) claimed p =
      (Inr (claimed @ fresh_leases (host_uuid4 h) (lease wk t ttl) (run_draws p) (filter (due t) ms)), p') \<and>
    (\<forall>x \<in> set (fresh_leases (host_uuid4 h) (lease wk t ttl) (run_draws p) (filter (due t) ms)).
       dict_get (table p) (key x) \<noteq> None \<longrightarrow> stored_at codec (table p') (key x) x) \<and>
    (\<forall>k. k \<notin> key ` set (filter (due t) ms) \<longrightarrow> dict_get (table p') k = dict_get (table p) k)"
  using assms(2)
proof (induction ms arbitrary: claimed p)
  case Nil
  then show ?case by (simp add: prog_simps)
next
  case (Cons m ms)
  show ?case
  proof (cases "due t m")
    case False
    then show ?thesis using Cons codec by (simp add: prog_simps sql_simps)
  next
    case True
    let ?x = "lease wk t ttl (host_uuid4 h (run_draws p)) m"
    let ?q = "p\<lparr>run_draws := Suc (run_draws p)\<rparr>"
    obtain q where q: "store ?x ?q = (Inr (), q)" "run_draws q = Suc (run_draws p)"
      "table q = put_at (key m) (\<lambda>r. r\<lparr>row_payload := cd_dump codec ?x\<rparr>) (table p)"
      using store_ok [of ?x ?q] by (auto simp: lease_key draws)
    have get: "dict_get (table q) k = (if k = key m then map_option (\<lambda>r. r\<lparr>row_payload := cd_dump codec ?x\<rparr>)
        (dict_get (table p) (key m)) else dict_get (table p) k)" for k
      by (simp add: q(3) put_at_get)
    obtain p' where p': "lease_rows h codec (due t) (lease wk t ttl) store (map (cd_dump codec) ms) (claimed @ [?x]) q =
        (Inr ((claimed @ [?x]) @ fresh_leases (host_uuid4 h) (lease wk t ttl) (run_draws q) (filter (due t) ms)), p')"
      "\<forall>x \<in> set (fresh_leases (host_uuid4 h) (lease wk t ttl) (run_draws q) (filter (due t) ms)).
         dict_get (table q) (key x) \<noteq> None \<longrightarrow> stored_at codec (table p') (key x) x"
      "\<forall>k. k \<notin> key ` set (filter (due t) ms) \<longrightarrow> dict_get (table p') k = dict_get (table q) k"
      using Cons.IH [of "claimed @ [?x]" q] Cons.prems by auto
    have run: "lease_rows h codec (due t) (lease wk t ttl) store (map (cd_dump codec) (m # ms)) claimed p =
        (Inr (claimed @ fresh_leases (host_uuid4 h) (lease wk t ttl) (run_draws p) (filter (due t) (m # ms))), p')"
      using True p'(1) q(1, 2) codec by (simp add: prog_simps sql_simps)
    have new: "key m \<notin> key ` set (filter (due t) ms)" using Cons.prems by auto
    have here: "stored_at codec (table p') (key ?x) ?x" if "dict_get (table p) (key m) \<noteq> None"
      using p'(3) new that get [of "key m"] by (auto simp: stored_at_def lease_key)
    have later: "stored_at codec (table p') (key x) x"
      if "x \<in> set (fresh_leases (host_uuid4 h) (lease wk t ttl) (Suc (run_draws p)) (filter (due t) ms))"
        "dict_get (table p) (key x) \<noteq> None" for x
    proof -
      have "dict_get (table q) (key x) \<noteq> None" using that(2) get [of "key x"] by (auto split: if_splits)
      then show ?thesis using p'(2) that(1) q(2) by simp
    qed
    show ?thesis using run here later p'(3) True get q(2) by (intro exI [of _ p']) (auto simp: lease_key)
  qed
qed

lemma claim_run:
  assumes codec: "round_trips codec" and table: "own_keys codec key (table p)" "considered locked limit tenant_id p ms" "0 \<le> limit"
  shows "\<exists>p'. claim h locked tenant_id wk ttl (Some t) limit p =
      (Inr (fresh_leases (host_uuid4 h) (lease wk t ttl) (run_draws p) (filter (due t) ms)), p') \<and>
    (\<forall>x \<in> set (fresh_leases (host_uuid4 h) (lease wk t ttl) (run_draws p) (filter (due t) ms)).
       stored_at codec (table p') (key x) x) \<and>
    (\<forall>k. k \<notin> key ` set (filter (due t) ms) \<longrightarrow> dict_get (table p') k = dict_get (table p) k)"
proof -
  let ?xs = "fresh_leases (host_uuid4 h) (lease wk t ttl) (run_draws p) (filter (due t) ms)"
  obtain p' where p': "lease_rows h codec (due t) (lease wk t ttl) store (map (cd_dump codec) ms) [] p = (Inr ?xs, p')"
    "\<forall>x \<in> set ?xs. dict_get (table p) (key x) \<noteq> None \<longrightarrow> stored_at codec (table p') (key x) x"
    "\<forall>k. k \<notin> key ` set (filter (due t) ms) \<longrightarrow> dict_get (table p') k = dict_get (table p) k"
    using lease_rows_run [OF codec considered_distinct [OF codec table(1, 2)], of h t wk ttl "[]" p] by auto
  have "dict_get (table p) (key x) \<noteq> None" if x: "x \<in> set ?xs" for x
  proof -
    obtain m i where "m \<in> set ms" "x = lease wk t ttl (host_uuid4 h i) m"
      using fresh_leases_origin [OF x] by auto
    then show ?thesis using considered_stored(1) [OF codec table(1, 2)] by (auto simp: stored_at_def lease_key)
  qed
  moreover have "claim h locked tenant_id wk ttl (Some t) limit p = (Inr ?xs, p')"
    using p'(1) table(2, 3) by (simp add: claim_def considered_def prog_simps transaction_def)
  ultimately show ?thesis using p'(2, 3) by blast
qed

text \<open>A record leased by one claim is not leased by another before its lease expires.\<close>

lemma claims_exclude:
  assumes codec: "round_trips codec" and table: "own_keys codec key (table p)" "own_keys codec key (table q)"
    and first: "claim h locked tenant_id wk ttl (Some t) limit p = (Inr xs, p')"
    and kept: "\<forall>x \<in> set xs. dict_get (table q) (key x) = dict_get (table p') (key x)"
    and second: "claim h' locked' tenant_id' wk' ttl' (Some t') limit' q = (Inr ys, q')" "t' < t + ttl"
  shows "key ` set xs \<inter> key ` set ys = {}"
proof -
  have limits: "0 \<le> limit" "0 \<le> limit'"
    using first second(1) by (auto simp: claim_def prog_simps transaction_def split: if_splits)
  obtain ms where ms: "considered locked limit tenant_id p ms" using considered_exists [OF table(1)] by blast
  obtain ns where ns: "considered locked' limit' tenant_id' q ns" using considered_exists [OF table(2)] by blast
  let ?xs = "fresh_leases (host_uuid4 h) (lease wk t ttl) (run_draws p) (filter (due t) ms)"
  let ?ys = "fresh_leases (host_uuid4 h') (lease wk' t' ttl') (run_draws q) (filter (due t') ns)"
  have xs: "xs = ?xs" "\<forall>x \<in> set ?xs. stored_at codec (table p') (key x) x"
    using claim_run [OF codec table(1) ms limits(1), of h wk ttl t] first by auto
  have ys: "ys = ?ys" using claim_run [OF codec table(2) ns limits(2), of h' wk' ttl' t'] second(1) by auto
  have False if "x \<in> set xs" "y \<in> set ys" "key x = key y" for x y
  proof -
    have "x \<in> set ?xs" "y \<in> set ?ys" using that(1, 2) xs(1) ys by simp_all
    from fresh_leases_origin [OF this(1)] fresh_leases_origin [OF this(2)] obtain m i n j where
      x: "x = lease wk t ttl (host_uuid4 h i) m" and
      y: "n \<in> set (filter (due t') ns)" "y = lease wk' t' ttl' (host_uuid4 h' j) n" by blast
    have "stored_at codec (table q) (key x) x" using xs kept that(1) by (simp add: stored_at_def)
    moreover have "stored_at codec (table q) (key n) n" using considered_stored(1) [OF codec table(2) ns] y(1) by simp
    ultimately have "x = n" using stored_once [OF codec] that(3) y(2) by (simp add: lease_key)
    then have "expiry_of n = Some (t + ttl)" using lease_expiry [of wk t ttl "host_uuid4 h i" m] x by simp
    then have "lease_free (Some (t + ttl)) t'" using due_free [of t' n] y(1) by simp
    then show False using second(2) by (simp add: lease_free_def)
  qed
  then show ?thesis by blast
qed

end

section \<open>Both outboxes\<close>

abbreviation queued_notification :: "string option \<Rightarrow> 'd status_row \<Rightarrow> bool" where
  "queued_notification tenant_id \<equiv> (\<lambda>r. row_status r \<in>
     {notification_status_value NQUEUED, notification_status_value NRETRY_SCHEDULED} \<and>
     tenant_matches tenant_id (row_tenant_id r))"

abbreviation queued_action :: "string option \<Rightarrow> 'd action_row \<Rightarrow> bool" where
  "queued_action tenant_id \<equiv> (\<lambda>r. row_action_status r \<in>
     {action_status_value AQUEUED, action_status_value ARETRY_SCHEDULED} \<and>
     tenant_matches tenant_id (row_tenant_id r))"

interpretation pgn: pg_outbox pg_notifications "pg_store_notification c" "cd_notification c" nt_notification_id
    nt_dispatch_claim_expires_at due_notification lease_notification queued_notification for c
  by unfold_locales (simp_all add: pg_store_notification_def sql_simps put_at_def lease_notification_def due_notification_def)

interpretation pga: pg_outbox pg_action_dispatches "pg_store_action c" "cd_action c" ad_action_dispatch_id
    ad_dispatch_claim_expires_at due_action lease_action queued_action for c
  by unfold_locales (simp_all add: pg_store_action_def sql_simps put_at_def lease_action_def due_action_def)

lemma notification_claim: "pg_claim_due_notifications h c = pgn.claim c h"
  by (intro ext) (simp only: pg_claim_due_notifications_def pgn.claim_def)

lemma action_claim: "pg_claim_due_action_dispatches h c = pga.claim c h"
  by (intro ext) (simp only: pg_claim_due_action_dispatches_def pga.claim_def)

section \<open>The claims\<close>

text \<open>
  C18. A PostgreSQL claim of notifications is exact: of the rows that are queued for the tenant and that
  nobody has locked it considers the first \<^verbatim>\<open>limit\<close> in the order of the server, leases in that order exactly
  those that are due and free, each under a claim identifier drawn for it, stores the leased documents
  in their own rows and changes no other row.  So rows that are queued but not yet due use up the
  limit: a due notification behind \<^verbatim>\<open>limit\<close> of them is not claimed.
\<close>

theorem postgres_claims_are_exact:
  assumes "round_trips (cd_notification c)" "own_keys (cd_notification c) nt_notification_id (pg_notifications p)" "0 \<le> limit"
  shows "\<exists>ms p'. lockable locked limit (pg_notifications p) (queued_notification tenant_id) = map (cd_dump (cd_notification c)) ms \<and>
    (let xs = fresh_leases (host_uuid4 h) (lease_notification wk t ttl) (run_draws p) (filter (due_notification t) ms)
     in pg_claim_due_notifications h c locked tenant_id wk ttl (Some t) limit p = (Inr xs, p') \<and>
        (\<forall>x \<in> set xs. stored_at (cd_notification c) (pg_notifications p') (nt_notification_id x) x) \<and>
        (\<forall>k. k \<notin> nt_notification_id ` set (filter (due_notification t) ms) \<longrightarrow>
           dict_get (pg_notifications p') k = dict_get (pg_notifications p) k))"
proof -
  obtain ms where ms: "pgn.considered c locked limit tenant_id p ms" using pgn.considered_exists [OF assms(2)] by blast
  obtain p' where run: "pgn.claim c h locked tenant_id wk ttl (Some t) limit p =
      (Inr (fresh_leases (host_uuid4 h) (lease_notification wk t ttl) (run_draws p) (filter (due_notification t) ms)), p')"
    "\<forall>x \<in> set (fresh_leases (host_uuid4 h) (lease_notification wk t ttl) (run_draws p) (filter (due_notification t) ms)).
       stored_at (cd_notification c) (pg_notifications p') (nt_notification_id x) x"
    "\<forall>k. k \<notin> nt_notification_id ` set (filter (due_notification t) ms) \<longrightarrow>
       dict_get (pg_notifications p') k = dict_get (pg_notifications p) k"
    using pgn.claim_run [OF assms(1, 2) ms assms(3), of h wk ttl t] by blast
  show ?thesis
    unfolding Let_def notification_claim
    by (rule exI [of _ ms], rule exI [of _ p']) (intro conjI ms [unfolded pgn.considered_def] run)
qed

text \<open>
  C19. PostgreSQL leases are exclusive: whatever tenants, limits and locks the two claims of action
  dispatches are made with, a later claim returns no action that an earlier claim has leased, as long as
  the leased rows are left alone and the lease has not expired.
\<close>

theorem postgres_leases_are_exclusive:
  assumes "round_trips (cd_action c)"
    and "own_keys (cd_action c) ad_action_dispatch_id (pg_action_dispatches p)"
    and "own_keys (cd_action c) ad_action_dispatch_id (pg_action_dispatches q)"
    and "pg_claim_due_action_dispatches h c locked tenant_id wk ttl (Some t) limit p = (Inr xs, p')"
    and "\<forall>x \<in> set xs. dict_get (pg_action_dispatches q) (ad_action_dispatch_id x) =
      dict_get (pg_action_dispatches p') (ad_action_dispatch_id x)"
    and "pg_claim_due_action_dispatches h' c locked' tenant_id' wk' ttl' (Some t') limit' q = (Inr ys, q')" "t' < t + ttl"
  shows "ad_action_dispatch_id ` set xs \<inter> ad_action_dispatch_id ` set ys = {}"
  by (rule pga.claims_exclude [OF assms(1-3) assms(4)[unfolded action_claim] assms(5) assms(6)[unfolded action_claim] assms(7)])

text \<open>A notification that is not yet due hides one that is.\<close>

definition waiting_inbox :: notification_record where
  "waiting_inbox = sample_inbox\<lparr>nt_notification_id := 8, nt_next_attempt_at := 100\<rparr>"

definition starving_tables :: "sample_document pg_world" where
  "starving_tables = empty_pg_world\<lparr>pg_notifications :=
     [(8, notification_row_of sample_codecs waiting_inbox), (9, notification_row_of sample_codecs sample_inbox)]\<rparr>"

lemma starving_own: "own_keys (cd_notification sample_codecs) nt_notification_id (pg_notifications starving_tables)"
proof -
  have "nt_notification_id waiting_inbox = 8" "nt_notification_id sample_inbox = 9"
    by (simp_all add: waiting_inbox_def sample_inbox_def)
  then show ?thesis by (auto simp: own_keys_def dict_wf_def starving_tables_def notification_row_of_def)
qed

lemma starving_lockable:
  "lockable {} 1 (pg_notifications starving_tables) (queued_notification None) =
     [cd_dump (cd_notification sample_codecs) waiting_inbox]"
  by (simp add: lockable_def select_keyed_conv starving_tables_def notification_row_of_def sample_inbox_def
      waiting_inbox_def tenant_matches_def falsy_def)

theorem postgres_claims_are_exact_witness:
  "\<exists>p'. pg_claim_due_notifications sample_host sample_codecs {} None ''w'' 5 (Some 50) 1 starving_tables = (Inr [], p') \<and>
     dict_get (pg_notifications p') 9 = Some (notification_row_of sample_codecs sample_inbox)"
proof -
  have rt: "round_trips (cd_notification sample_codecs)" by (rule codecsD(11) [OF sample_codecs_ok])
  obtain ms p' where ms: "[cd_dump (cd_notification sample_codecs) waiting_inbox] = map (cd_dump (cd_notification sample_codecs)) ms"
    and run: "pg_claim_due_notifications sample_host sample_codecs {} None ''w'' 5 (Some 50) 1 starving_tables =
        (Inr (fresh_leases (host_uuid4 sample_host) (lease_notification ''w'' 50 5) (run_draws starving_tables)
           (filter (due_notification 50) ms)), p')"
      "\<forall>k. k \<notin> nt_notification_id ` set (filter (due_notification 50) ms) \<longrightarrow>
         dict_get (pg_notifications p') k = dict_get (pg_notifications starving_tables) k"
    using postgres_claims_are_exact [OF rt starving_own zero_le_one, of "{}" None sample_host "''w''" 50 5]
    unfolding starving_lockable Let_def by (elim exE conjE) (rule that; assumption)
  have "ms = [waiting_inbox]" using ms injD [OF dump_inj [OF rt]] by (auto simp: Cons_eq_map_conv)
  then have none: "filter (due_notification 50) ms = []" by (simp add: due_notification_def waiting_inbox_def)
  have "dict_get (pg_notifications p') 9 = dict_get (pg_notifications starving_tables) 9" using run(2) none by simp
  then show ?thesis using run(1) none by (intro exI [of _ p']) (simp add: starving_tables_def)
qed

text \<open>One queued action: the first claim leases it, the second finds nothing.\<close>

definition action_tables :: "sample_document pg_world" where
  "action_tables = empty_pg_world\<lparr>pg_action_dispatches := [(7, action_row_of sample_codecs sample_action)]\<rparr>"

definition leased_action :: action_dispatch_record where
  "leased_action = lease_action ''w'' 0 300 (host_uuid4 sample_host (run_draws action_tables)) sample_action"

definition leased_tables :: "sample_document pg_world" where
  "leased_tables = snd (pg_claim_due_action_dispatches sample_host sample_codecs {} None ''w'' 300 (Some 0) 1 action_tables)"

lemma action_tables_own: "own_keys (cd_action sample_codecs) ad_action_dispatch_id (pg_action_dispatches action_tables)"
proof -
  have "ad_action_dispatch_id sample_action = 7" by (simp add: sample_action_def)
  then show ?thesis by (auto simp: own_keys_def dict_wf_def action_tables_def action_row_of_def)
qed

lemma sample_action_round_trip: "round_trips (cd_action sample_codecs)"
  by (simp add: sample_codecs_ok codecsD)

lemma queued_rows:
  "lockable {} 1 [(7, (action_row_of sample_codecs sample_action)\<lparr>row_payload := d\<rparr>)] (queued_action None) = [d]"
  "lockable {} 1 [(7, action_row_of sample_codecs sample_action)] (queued_action None) =
     [cd_dump (cd_action sample_codecs) sample_action]"
  by (simp_all add: lockable_def select_keyed_conv action_row_of_def sample_action_def tenant_matches_def falsy_def)

lemma action_claim_once:
  "pg_claim_due_action_dispatches sample_host sample_codecs {} None ''w'' 300 (Some 0) 1 action_tables =
     (Inr [leased_action], leased_tables)"
  "pg_action_dispatches leased_tables =
     [(7, (action_row_of sample_codecs sample_action)\<lparr>row_payload := cd_dump (cd_action sample_codecs) leased_action\<rparr>)]"
proof -
  have due: "due_action 0 sample_action" "ad_action_dispatch_id leased_action = 7"
    by (simp_all add: due_action_def sample_action_def lease_free_def leased_action_def lease_action_def)
  show "pg_claim_due_action_dispatches sample_host sample_codecs {} None ''w'' 300 (Some 0) 1 action_tables =
     (Inr [leased_action], leased_tables)"
   "pg_action_dispatches leased_tables =
     [(7, (action_row_of sample_codecs sample_action)\<lparr>row_payload := cd_dump (cd_action sample_codecs) leased_action\<rparr>)]"
    using due sample_action_round_trip
    by (simp_all add: leased_tables_def pg_claim_due_action_dispatches_def prog_simps sql_simps transaction_def
        queued_rows [simplified] action_tables_def pg_store_action_def put_at_def
        leased_action_def [symmetric, unfolded action_tables_def, simplified])
qed

lemma leased_tables_own: "own_keys (cd_action sample_codecs) ad_action_dispatch_id (pg_action_dispatches leased_tables)"
proof -
  have "ad_action_dispatch_id leased_action = 7" by (simp add: leased_action_def lease_action_def sample_action_def)
  then show ?thesis by (auto simp: own_keys_def dict_wf_def action_claim_once(2))
qed

lemma action_claim_again:
  "pg_claim_due_action_dispatches sample_host sample_codecs {} None ''v'' 300 (Some 299) 1 leased_tables = (Inr [], leased_tables)"
proof -
  have "\<not> due_action 299 leased_action"
    by (simp add: due_action_def leased_action_def lease_action_def sample_action_def lease_free_def)
  then show ?thesis
    using sample_action_round_trip
    by (simp add: pg_claim_due_action_dispatches_def prog_simps sql_simps transaction_def queued_rows [simplified]
        action_claim_once(2))
qed

theorem postgres_leases_are_exclusive_witness:
  "pg_claim_due_action_dispatches sample_host sample_codecs {} None ''w'' 300 (Some 0) 1 action_tables =
     (Inr [leased_action], leased_tables) \<and>
   pg_claim_due_action_dispatches sample_host sample_codecs {} None ''v'' 300 (Some 299) 1 leased_tables =
     (Inr [], leased_tables) \<and>
   ad_action_dispatch_id ` set [leased_action] \<inter> ad_action_dispatch_id ` set ([] :: action_dispatch_record list) = {}"
proof (intro conjI action_claim_once(1) action_claim_again)
  show "ad_action_dispatch_id ` set [leased_action] \<inter> ad_action_dispatch_id ` set ([] :: action_dispatch_record list) = {}"
    by (rule postgres_leases_are_exclusive [OF sample_action_round_trip action_tables_own leased_tables_own
        action_claim_once(1) _ action_claim_again]) simp_all
qed

end
