(* ===== verification/PostgresTrips.thy ===== *)
theory PostgresTrips
  imports PostgresAgreement
begin

text \<open>
  What \<open>create_trip\<close> of the PostgreSQL repository does on every trip the contracts accept.  The
  contracts bound each text of a segment, so that its columns fit, but let two segments share a
  \<^verbatim>\<open>segment_id\<close>, which the primary key of \<^verbatim>\<open>trip_segments\<close> does not.
\<close>

section \<open>Inserting rows whose keys clash\<close>

lemma insert_many_clash:
  fixes sel :: "'s \<Rightarrow> ('k, 'r) dict" and upd :: "(('k, 'r) dict \<Rightarrow> ('k, 'r) dict) \<Rightarrow> 's \<Rightarrow> 's"
  assumes upd: "\<And>f s. sel (upd f s) = f (sel s)" "\<And>f g s. upd f (upd g s) = upd (f \<circ> g) s" "\<And>s. upd (\<lambda>t. t) s = s"
    and fit: "list_all (\<lambda>x. fitting (cols x)) xs"
    and clash: "\<not> (distinct (map k xs) \<and> (\<forall>x \<in> set xs. dict_get (sel s) (k x) = None))"
  shows "\<exists>f. run_statements (concat (map (\<lambda>x. [columns_fit (cols x), insert_row sel upd (k x) (r x)]) xs)) s =
    (Inl integrity_error, upd f s)"
  using fit clash
proof (induction xs arbitrary: s)
  case Nil
  then show ?case by simp
next
  case (Cons x xs)
  show ?case
  proof (cases "dict_get (sel s) (k x)")
    case None
    let ?s = "upd (\<lambda>t. t @ [(k x, r x)]) s"
    have "\<not> (distinct (map k xs) \<and> (\<forall>y \<in> set xs. dict_get (sel ?s) (k y) = None))"
    proof
      assume a: "distinct (map k xs) \<and> (\<forall>y \<in> set xs. dict_get (sel ?s) (k y) = None)"
      then have "\<forall>y \<in> set xs. k y \<noteq> k x \<and> dict_get (sel s) (k y) = None"
        by (auto simp: upd(1) map_add_def split: option.splits if_splits)
      then show False using a None Cons.prems(2) by (auto simp: image_iff)
    qed
    then obtain f where "run_statements (concat (map (\<lambda>x. [columns_fit (cols x), insert_row sel upd (k x) (r x)]) xs)) ?s =
        (Inl integrity_error, upd f ?s)"
      using Cons.IH [of ?s] Cons.prems(1) by auto
    moreover have "run_statements ([columns_fit (cols x), insert_row sel upd (k x) (r x)] @ ms) s = run_statements ms ?s" for ms
      using None Cons.prems(1) by (simp add: sql_simps)
    ultimately show ?thesis by (auto simp only: list.map concat.simps upd(2))
  next
    case (Some v)
    then have "run_statements (concat (map (\<lambda>x. [columns_fit (cols x), insert_row sel upd (k x) (r x)]) (x # xs))) s =
        (Inl integrity_error, upd (\<lambda>t. t) s)"
      using Cons.prems(1) by (simp add: sql_simps upd(3))
    then show ?thesis by blast
  qed
qed

section \<open>The columns of a valid trip\<close>

lemma valid_trip_fits:
  assumes "valid_trip_create t"
  shows "fitting [(128, trip_tenant_id t)]" "list_all (\<lambda>s. fitting (segment_columns t s)) (trip_segments t)"
  using assms
  by (auto simp: valid_trip_create_def valid_flight_segment_def pattern_class_def len_between_def
      fitting_def segment_columns_def list_all_iff)

abbreviation segment_rows :: "trip \<Rightarrow> ((uuid \<times> string) \<times> segment_row) list" where
  "segment_rows t \<equiv> map (\<lambda>s. ((trip_trip_id t, seg_segment_id s), segment_row_of t s)) (trip_segments t)"

definition with_segments_of :: "trip \<Rightarrow> (uuid \<times> string, segment_row) dict \<Rightarrow> (uuid \<times> string, segment_row) dict" where
  "with_segments_of t u = dict_filter (\<lambda>k _. fst k \<noteq> trip_trip_id t) u @ segment_rows t"

lemma segments_written:
  assumes "valid_trip_create t"
  shows "distinct (map seg_segment_id (trip_segments t)) \<Longrightarrow>
      replace_trip_segments t p = (Inr (), pg_trip_segments_update (with_segments_of t) p)"
    and "\<not> distinct (map seg_segment_id (trip_segments t)) \<Longrightarrow>
      \<exists>f. replace_trip_segments t p = (Inl integrity_error, pg_trip_segments_update f p)"
proof -
  let ?key = "\<lambda>s. (trip_trip_id t, seg_segment_id s)"
  let ?f = "dict_filter (\<lambda>k _. \<not> (case k of (trip_id, _) \<Rightarrow> trip_id = trip_trip_id t))"
  let ?p = "pg_trip_segments_update ?f p"
  let ?inserts = "concat (map (\<lambda>s. [columns_fit (segment_columns t s),
      insert_row pg_trip_segments pg_trip_segments_update (?key s) (segment_row_of t s)]) (trip_segments t))"
  have keys: "distinct (map ?key (trip_segments t)) = distinct (map seg_segment_id (trip_segments t))"
    by (auto simp: distinct_map inj_on_def)
  have free: "\<forall>s \<in> set (trip_segments t). dict_get (pg_trip_segments ?p) (?key s) = None"
    by (auto simp: dict_filter_def map_of_eq_None_iff)
  have deleted: "replace_trip_segments t p = run_statements ?inserts ?p"
    by (simp add: replace_trip_segments_def sql_simps case_prod_unfold)
  show "replace_trip_segments t p = (Inr (), pg_trip_segments_update (with_segments_of t) p)"
    if "distinct (map seg_segment_id (trip_segments t))"
  proof -
    have "run_statements ?inserts ?p = (Inr (), pg_trip_segments_update (\<lambda>u. u @ segment_rows t) ?p)"
      by (rule insert_many) (use that keys free valid_trip_fits [OF assms] in auto)
    then show ?thesis by (simp add: deleted with_segments_of_def comp_def case_prod_unfold)
  qed
  show "\<exists>f. replace_trip_segments t p = (Inl integrity_error, pg_trip_segments_update f p)"
    if "\<not> distinct (map seg_segment_id (trip_segments t))"
  proof -
    have "\<exists>f. run_statements ?inserts ?p = (Inl integrity_error, pg_trip_segments_update f ?p)"
      by (rule insert_many_clash) (use that keys valid_trip_fits [OF assms] in auto)
    then show ?thesis by (auto simp: deleted)
  qed
qed

section \<open>Creating a trip\<close>

text \<open>
  C39. Creating a trip the contracts accept is all or nothing on PostgreSQL: when the trip identifier is
  unused and no two segments share their identifier, exactly the row of the trip is added and exactly
  its segments replace whatever segments were stored under the identifier; in every other case the
  insert is refused with an integrity error and the database is what it was, however many statements
  had already run.
\<close>

theorem postgres_create_trip_exact:
  assumes "valid_trip_create t"
  shows "pg_create_trip c t p =
    (if dict_get (pg_trips p) (trip_trip_id t) = None \<and> distinct (map seg_segment_id (trip_segments t))
     then (Inr t, pg_trip_segments_update (with_segments_of t)
             (pg_trips_update (\<lambda>u. u @ [(trip_trip_id t, trip_row_of c t)]) p))
     else (Inl integrity_error, p))"
proof -
  let ?p = "pg_trips_update (\<lambda>u. u @ [(trip_trip_id t, trip_row_of c t)]) p"
  show ?thesis
  proof (cases "dict_get (pg_trips p) (trip_trip_id t) = None")
    case False
    then show ?thesis using valid_trip_fits(1) [OF assms] by (auto simp: pg_create_trip_def evaluated)
  next
    case True
    show ?thesis
    proof (cases "distinct (map seg_segment_id (trip_segments t))")
      case distinct: True
      then show ?thesis using True valid_trip_fits(1) [OF assms] segments_written(1) [OF assms distinct, of ?p]
        by (simp add: pg_create_trip_def evaluated trip_row_of_def)
    next
      case repeated: False
      obtain f where "replace_trip_segments t ?p = (Inl integrity_error, pg_trip_segments_update f ?p)"
        using segments_written(2) [OF assms repeated] by blast
      then show ?thesis using True repeated valid_trip_fits(1) [OF assms]
        by (simp add: pg_create_trip_def evaluated trip_row_of_def)
    qed
  qed
qed

text \<open>A day trip whose two flights carry the same segment identifier.\<close>

definition there_and_back :: trip where
  "there_and_back = sample_trip\<lparr>trip_segments :=
     [sample_segment, sample_segment\<lparr>seg_departure_airport := ''JFK'', seg_arrival_airport := ''SFO'',
        seg_scheduled_departure_at := \<lparr>dt_instant = 6, dt_utcoffset = Some 0\<rparr>,
        seg_scheduled_arrival_at := \<lparr>dt_instant = 9, dt_utcoffset = Some 0\<rparr>\<rparr>]\<rparr>"

theorem postgres_create_trip_exact_witness:
  "pg_create_trip sample_codecs there_and_back empty_pg_world = (Inl integrity_error, empty_pg_world)"
proof -
  have "valid_trip_create there_and_back"
    by (simp add: there_and_back_def sample_trip_def sample_segment_def valid_trip_create_def valid_flight_segment_def
        pattern_class_def len_between_def opt_len_le_def validate_schedule_def char_between_def)
  moreover have "\<not> distinct (map seg_segment_id (trip_segments there_and_back))"
    by (simp add: there_and_back_def)
  ultimately show ?thesis by (simp add: postgres_create_trip_exact)
qed

end
