(* ===== verification/Spec2Isabelle.thy ===== *)
theory Spec2Isabelle
  imports Policies Evaluation Providers Outbox Privacy Idempotency Security Tenancy Investigation Identifiers
    Selections Autonomy Decisions Gateway Operations Service Authority Consent Webhooks
    PostgresOutbox PostgresTrips
begin

text \<open>
  RouteShield: a verification development.

  RouteShield (a Python 3.12 service) assesses the disruption risk of business trips.  Evidence is
  collected from providers or captured fixtures, a versioned rule weighs six factors into a score
  and a severity, a disposition follows from severity and missing sources, and an elevated trip
  becomes an incident that a graph of deterministic nodes and optional model calls investigates.
  The graph pauses for a human; an approval is stored, an action may be queued, and workers deliver
  notifications and actions from two outboxes.  Around it stand idempotency, tenant isolation,
  corporate policy on recovery candidates, consented memory, legal holds, retention and erasure.

  The theories and the code (paths under \<^verbatim>\<open>src/\<close>), callees first.
    Prelude, PyFloat, Json, Host: Python's dictionaries, exceptions, stable sorts, strings,
      binary64 arithmetic with \<^verbatim>\<open>round\<close> and \<^verbatim>\<open>sum\<close>, JSON values, \<^verbatim>\<open>uuid4\<close> and the clock.
    Models: \<^verbatim>\<open>domain/models.py\<close>, a datatype or record per class, its validators as predicates.
    Recovery, Policies: \<^verbatim>\<open>domain/recovery.py\<close>, \<^verbatim>\<open>domain/policies.py\<close>, \<^verbatim>\<open>tools/alternatives.py\<close>.
    RiskEngine, Assessment, Evaluation: \<^verbatim>\<open>domain/risk_engine.py\<close>, the scoring and disposition
      functions of \<^verbatim>\<open>apps/api/main.py\<close>, \<^verbatim>\<open>tools/evidence.py\<close> and \<^verbatim>\<open>tools/evaluation.py\<close>.
    Providers: \<^verbatim>\<open>tools/providers.py\<close>, \<^verbatim>\<open>live_providers.py\<close> and the normalizers beside them.
    Security: \<^verbatim>\<open>apps/api/security.py\<close>, \<^verbatim>\<open>config.py\<close>, \<^verbatim>\<open>ingestion.py\<close> (parsing and signatures).
    Repository, Tenancy, Outbox, Privacy: \<^verbatim>\<open>apps/api/repository.py\<close>, \<^verbatim>\<open>notifications.py\<close>,
      \<^verbatim>\<open>actions.py\<close>, \<^verbatim>\<open>uploads.py\<close> and \<^verbatim>\<open>workers/\<close>.
    GraphState, Graph, Investigation, Identifiers: \<^verbatim>\<open>agent/state.py\<close>, \<^verbatim>\<open>agent/graph.py\<close> and
      \<^verbatim>\<open>tools/openai_provider.py\<close>.
    Api, Idempotency, Gateway: guards, runtime controls, events, the idempotency frame and the
      middleware of \<^verbatim>\<open>apps/api/main.py\<close>, and \<^verbatim>\<open>apps/api/auth.py\<close>.
    Trips, RecoveryApi, Assess, AssessTrip, Approvals, NotificationsApi, MemoryApi, PrivacyApi,
      Governance, Csv, Ingest: the handlers and internal jobs of \<^verbatim>\<open>apps/api/main.py\<close>.
    Sql, Postgres, PostgresPrivacy: \<^verbatim>\<open>apps/api/postgres_repository.py\<close>, a table per \<^verbatim>\<open>Table\<close> and a
      definition \<open>pg_x\<close> per method \<^verbatim>\<open>x\<close>, over the statements it executes (Sql).
    Rows, PostgresRefinement, PostgresErasure, PostgresAgreement, PostgresOutbox, PostgresTrips: the
      PostgreSQL repository against the in-memory one, its claims, and its errors.
    Frames, Selections, Autonomy, Decisions, Operations, Service, Guards, Authority, Consent,
      Webhooks: what holds across handlers.

  State.  \<open>world\<close> (Repository) is one record: the run (identifiers drawn, clock readings), the
  provider cache and breakers, a field \<open>db_x\<close> per table of the in-memory repository, the local
  upload store, the checkpoints of the graph and the log stream.  A handler is a computation from a
  world to a result and a world; a raised exception is the left side of the result and keeps the
  state reached, as the interpreter does.  \<open>operation\<close> and \<open>perform\<close> (Operations) make every writing
  endpoint and job one step of the service, and \<open>service_run\<close> is any sequence of them.
  \<open>pg_world\<close> (Postgres) is the database: the run and 28 tables of rows under their primary keys.  A
  method that opens a transaction puts every table back when it raises.

  Parameters.  What is not under \<^verbatim>\<open>src/\<close> is an argument: HTTP replies and their order, the chat
  model and its structured output, PyJWT, hashing and HMAC, pydantic's dump and validation of a
  model, JSON text, the environment variables, the k-th identifier drawn and the k-th clock reading.
  LangGraph is the step function over the nodes with its recursion limit.  PostgreSQL is the meaning of
  the statements in Sql: unique keys and the lengths of \<^verbatim>\<open>String(n)\<close> columns are checked, a query without
  an order lists the rows as the server holds them (the order of the table, which every theorem leaves
  open), the rows that other transactions have locked are an argument of a claim, and a \<^verbatim>\<open>codec\<close> dumps a
  model to a document and validates a document; the theorems ask that what was dumped validates to
  the model it came from.  A method is one atomic step.

  Conventions and bounds.  A \<^verbatim>\<open>str\<close> is a list of code points 0..255; request bodies are texts whose
  UTF-8 encoding was received.  An aware datetime is an unbounded number of microseconds; a float
  is the real it denotes, without the infinities and NaN, with round-to-even at 53 bits.  The order
  in which a \<^verbatim>\<open>set\<close> is listed is a parameter where it shows.  The graph has LangGraph's 25 supersteps
  as fuel, and 15 are enough: at most three tool lookups (MAX_REACT_ITERATIONS) of two supersteps
  each, one last visit of the assistant and the linear rest.  Outbox deliveries are bounded by the
  attempts the senders allow, CSV imports by 1000 rows.

  Abstract specifications and interfaces.
    \<open>tenant_store\<close>, \<open>listed_store\<close> (Tenancy): what a table promises its tenants; interpreted on seven
      tables of the repository.
    \<open>outbox\<close> (Outbox): claim, lease, deliver, complete; interpreted on notifications and on actions,
      whose run relations interleave any number of workers.
    \<open>supervised_run\<close> (Investigation): an invariant and a measure of the graph's nodes.
    \<open>protocol_frame\<close>, \<open>graph_frame\<close>, \<open>assessment_frame\<close>, \<open>service_frame\<close> (Frames, Autonomy, Operations):
      a relation between worlds that each repository write respects is respected by the protocol of
      a handler, a graph run, an assessment, every operation.  Interpreted on the growth of the
      outcomes (Selections), on what an assessment may not touch (Autonomy), on what a graph run
      leaves of a decision (Decisions), on the well-formedness of the tables and on the outcomes
      stored (Service).
    \<open>guards\<close> (Guards): what a handler must have established before it writes; interpreted on approval
      records, profiles and trips (Authority, Consent, Webhooks).
    \<open>pg_outbox\<close> (PostgresOutbox): the claim of a PostgreSQL outbox; interpreted on notifications and on
      actions, for every codec.
    \<open>represents\<close> (PostgresRefinement): the tables list the rows that an in-memory world stands for, in
      some order; \<open>simulates\<close> is the simulation each of the 28 kinds of \<open>store_call\<close> is shown to satisfy.
    Reference definitions: the score in integer hundredths (RiskEngine), the window count of the
      rate limiter (Security), the erased and retained tables (Privacy), the connection bands.

  What the lemmas show.
    Scoring: the float computation is exactly an integer one, monotone in factors and evidence, and
      blind to stale evidence; the disposition rules; the golden suite and its agreement.
    Recovery: eligibility, scores, a strict and input-order-independent ranking within policy, the
      outcome lifecycle, and one selection per set over any history of requests.
    Investigation: it always completes, and what it shows a reviewer is grounded in the evidence and
      in the deterministic ranking whatever the model wrote.
    Human control: assessments decide nothing; decisions are stored exactly, once; approved actions
      are dispatched at most once and leases are exclusive under every interleaving.
    Gateway and protocol: identities come from the token; completed requests execute once; the rate
      limiter, redaction, configuration and identifiers.
    Authority: approval records are new only by a travel manager or admin who may access the trip,
      profiles only by someone with access or a confirmed proposal, and an accepted webhook was signed.
    PostgreSQL: a sequence of writes and erasures that completes in memory completes on PostgreSQL and
      every read agrees; claims are exact and leases exclusive; a trip is created whole or not at all.
    Privacy: erasure is complete and exact, holds block deletion, retention is exact on trips.
    Whole service: every reached world has well-formed tables and no set with two selections.
    Deviations of the code from its documents or intent that modelling showed are stated as theorems
      where the model can express them: an action queued by a rejection (Decisions), keys stuck after a
      failed request (Idempotency), breakers that never close and a cache shared between weather
      providers (Providers), retention of held notifications (Privacy), claims that are starved by rows
      that are not due (PostgresOutbox), trips that only PostgreSQL refuses (PostgresTrips).

  Not modelled.  \<^verbatim>\<open>agent/checkpoint*.py\<close> and \<^verbatim>\<open>tools/migrate.py\<close> wire external stores;
  \<^verbatim>\<open>apps/web/server.py\<close> and \<^verbatim>\<open>workers/monitor.py\<close> are process entry points; the creation and disposal of the
  database engine, the Cloud Storage client, the Redis clients
  and the lifespan hooks of the application are I/O.  A step of
  the service is a whole handler: a handler that waits for a provider, the chat model or the cloud
  store can be interleaved with another one between its reads and its writes, which only the
  outboxes model (between a claim and its completion).  The idempotency methods, the memory audits
  and the retention of the PostgreSQL repository are modelled, but no theorem relates them to the
  in-memory ones, from which they differ: audits are redacted only on PostgreSQL, idempotency
  records are purged only in memory.
\<close>

end
